(* ===== verification/Prelude.thy ===== *)
theory Prelude
  imports Main "HOL-Library.Word"
begin

text \<open>
  Shared vocabulary of the development.

  \<^item> The outcome of a Rust call: a value (\<open>Ok\<close>), an error value (\<open>Err\<close>), or a panic
    (an \<open>unwrap\<close> on a missing value, an index out of range, a division by zero).
  \<^item> Effects: a computation reads and writes a state and yields an outcome. \<open>and_then\<close> is
    the \<open>?\<close> of the code, \<open>attempt\<close> is a \<open>match\<close> on a \<open>Result\<close>, \<open>map_err\<close> is \<open>map_err\<close>.
  \<^item> Invariants of effects: \<open>keeps\<close>, with the rules \<open>keeps_intros\<close> that push an invariant through a
    computation, and the equivalences \<open>run_iffs\<close> that take a successful run apart.
\<close>

named_theorems keeps_intros \<open>rules that push an invariant through a computation\<close>
named_theorems eff_simps \<open>the effect combinators, unfolded\<close>
named_theorems hm_simps \<open>look-ups and entries of hash maps after an operation\<close>

section \<open>Outcomes and effects\<close>

datatype ('a, 'e) outcome = Ok 'a | Err 'e | Panic

type_synonym ('s, 'a, 'e) eff = "'s \<Rightarrow> ('a, 'e) outcome \<times> 's"

definition ret :: "'a \<Rightarrow> ('s, 'a, 'e) eff" where
  [eff_simps]: "ret a = (\<lambda>s. (Ok a, s))"

definition fail :: "'e \<Rightarrow> ('s, 'a, 'e) eff" where
  [eff_simps]: "fail e = (\<lambda>s. (Err e, s))"

definition panic :: "('s, 'a, 'e) eff" where
  [eff_simps]: "panic = (\<lambda>s. (Panic, s))"

definition and_then :: "('s, 'a, 'e) eff \<Rightarrow> ('a \<Rightarrow> ('s, 'b, 'e) eff) \<Rightarrow> ('s, 'b, 'e) eff" where
  [eff_simps]: "and_then m f = (\<lambda>s. case m s of
     (Ok a, s') \<Rightarrow> f a s' | (Err e, s') \<Rightarrow> (Err e, s') | (Panic, s') \<Rightarrow> (Panic, s'))"

definition attempt :: "('s, 'a, 'e) eff \<Rightarrow> ('s, 'e + 'a, 'f) eff" where
  [eff_simps]: "attempt m = (\<lambda>s. case m s of
     (Ok a, s') \<Rightarrow> (Ok (Inr a), s') | (Err e, s') \<Rightarrow> (Ok (Inl e), s') | (Panic, s') \<Rightarrow> (Panic, s'))"

definition map_err :: "('e \<Rightarrow> 'f) \<Rightarrow> ('s, 'a, 'e) eff \<Rightarrow> ('s, 'a, 'f) eff" where
  [eff_simps]: "map_err g m = (\<lambda>s. case m s of
     (Ok a, s') \<Rightarrow> (Ok a, s') | (Err e, s') \<Rightarrow> (Err (g e), s') | (Panic, s') \<Rightarrow> (Panic, s'))"

definition gets :: "('s \<Rightarrow> 'a) \<Rightarrow> ('s, 'a, 'e) eff" where
  [eff_simps]: "gets f = (\<lambda>s. (Ok (f s), s))"

definition modify :: "('s \<Rightarrow> 's) \<Rightarrow> ('s, unit, 'e) eff" where
  [eff_simps]: "modify f = (\<lambda>s. (Ok (), f s))"

text \<open>A call that always returns a value, and an \<open>Option\<close> that the code unwraps.\<close>

definition call :: "('s \<Rightarrow> 'a \<times> 's) \<Rightarrow> ('s, 'a, 'e) eff" where
  [eff_simps]: "call f = (\<lambda>s. case f s of (a, s') \<Rightarrow> (Ok a, s'))"

definition unwrap :: "'a option \<Rightarrow> ('s, 'a, 'e) eff" where
  [eff_simps]: "unwrap opt = (case opt of None \<Rightarrow> panic | Some a \<Rightarrow> ret a)"

text \<open>A call that returns a \<open>Result\<close>, as a sum; \<open>from_result\<close> is the code's early return.\<close>

definition from_result :: "'e + 'a \<Rightarrow> ('s, 'a, 'e) eff" where
  [eff_simps]: "from_result r = (case r of Inl e \<Rightarrow> fail e | Inr a \<Rightarrow> ret a)"

text \<open>Run a computation on a part of the state.\<close>

definition zoom :: "('s \<Rightarrow> 't) \<Rightarrow> ('t \<Rightarrow> 's \<Rightarrow> 's) \<Rightarrow> ('t, 'a, 'e) eff \<Rightarrow> ('s, 'a, 'e) eff" where
  [eff_simps]: "zoom get put m = (\<lambda>s. case m (get s) of (r, t) \<Rightarrow> (r, put t s))"

text \<open>A loop over a list with an accumulator; it stops at the first error or panic.\<close>

fun for_each :: "('x \<Rightarrow> 'b \<Rightarrow> ('s, 'b, 'e) eff) \<Rightarrow> 'x list \<Rightarrow> 'b \<Rightarrow> ('s, 'b, 'e) eff" where
  "for_each f [] b = ret b"
| "for_each f (x # xs) b = and_then (f x b) (for_each f xs)"

section \<open>Invariants and postconditions of effects\<close>

definition keeps :: "('s \<Rightarrow> bool) \<Rightarrow> ('s, 'a, 'e) eff \<Rightarrow> bool" where
  "keeps I m \<longleftrightarrow> (\<forall>s r s'. I s \<longrightarrow> m s = (r, s') \<longrightarrow> I s')"

definition post :: "('s \<Rightarrow> bool) \<Rightarrow> ('s, 'a, 'e) eff \<Rightarrow> ('a \<Rightarrow> 's \<Rightarrow> bool) \<Rightarrow> ('e \<Rightarrow> 's \<Rightarrow> bool) \<Rightarrow> bool" where
  "post P m Q E \<longleftrightarrow> (\<forall>s. P s \<longrightarrow> (case m s of
     (Ok a, s') \<Rightarrow> Q a s' | (Err e, s') \<Rightarrow> E e s' | (Panic, s') \<Rightarrow> True))"

lemma keepsI: "(\<And>s r s'. I s \<Longrightarrow> m s = (r, s') \<Longrightarrow> I s') \<Longrightarrow> keeps I m"
  by (auto simp: keeps_def)

lemma keepsD: "keeps I m \<Longrightarrow> I s \<Longrightarrow> m s = (r, s') \<Longrightarrow> I s'"
  by (auto simp: keeps_def)

lemma keeps_ret [keeps_intros]: "keeps I (ret a)"
  and keeps_fail [keeps_intros]: "keeps I (fail e)"
  and keeps_panic [keeps_intros]: "keeps I panic"
  and keeps_gets [keeps_intros]: "keeps I (gets f)"
  by (simp_all add: keeps_def eff_simps)

lemma keeps_unwrap [keeps_intros]: "keeps I (unwrap opt)"
  by (cases opt) (simp_all add: keeps_def eff_simps)

lemma keeps_from_result [keeps_intros]: "keeps I (from_result r)"
  by (cases r) (simp_all add: keeps_def eff_simps)

lemma keeps_and_then [keeps_intros]:
  assumes "keeps I m" and "\<And>a. keeps I (f a)"
  shows "keeps I (and_then m f)"
proof (rule keepsI)
  fix s r s'
  assume "I s" and run: "and_then m f s = (r, s')"
  obtain r1 s1 where m: "m s = (r1, s1)" by fastforce
  have "I s1" by (rule keepsD [OF assms(1) \<open>I s\<close> m])
  then show "I s'"
    using run m by (cases r1) (auto simp: and_then_def intro: keepsD [OF assms(2)])
qed

lemma keeps_attempt [keeps_intros]:
  assumes "keeps I m"
  shows "keeps I (attempt m)"
proof (rule keepsI)
  fix s r s'
  assume "I s" and run: "attempt m s = (r, s')"
  obtain r1 s1 where m: "m s = (r1, s1)" by fastforce
  have "I s1" by (rule keepsD [OF assms \<open>I s\<close> m])
  then show "I s'" using run m by (cases r1) (auto simp: attempt_def)
qed

lemma keeps_map_err [keeps_intros]:
  assumes "keeps I m"
  shows "keeps I (map_err g m)"
proof (rule keepsI)
  fix s r s'
  assume "I s" and run: "map_err g m s = (r, s')"
  obtain r1 s1 where m: "m s = (r1, s1)" by fastforce
  have "I s1" by (rule keepsD [OF assms \<open>I s\<close> m])
  then show "I s'" using run m by (cases r1) (auto simp: map_err_def)
qed

lemma keeps_for_each [keeps_intros]:
  "(\<And>x b. keeps I (f x b)) \<Longrightarrow> keeps I (for_each f xs b)"
  by (induction xs arbitrary: b) (auto intro: keeps_intros)

lemma keeps_if [keeps_intros]:
  "(c \<Longrightarrow> keeps I m) \<Longrightarrow> (\<not> c \<Longrightarrow> keeps I n) \<Longrightarrow> keeps I (if c then m else n)"
  by simp

lemma keeps_option [keeps_intros]:
  "(opt = None \<Longrightarrow> keeps I m) \<Longrightarrow> (\<And>a. opt = Some a \<Longrightarrow> keeps I (f a)) \<Longrightarrow> keeps I (case opt of None \<Rightarrow> m | Some a \<Rightarrow> f a)"
  by (cases opt) simp_all

lemma keeps_sum [keeps_intros]:
  "(\<And>e. r = Inl e \<Longrightarrow> keeps I (g e)) \<Longrightarrow> (\<And>a. r = Inr a \<Longrightarrow> keeps I (f a)) \<Longrightarrow>
   keeps I (case r of Inl e \<Rightarrow> g e | Inr a \<Rightarrow> f a)"
  by (cases r) simp_all

lemma keeps_prod [keeps_intros]:
  "(\<And>a b. p = (a, b) \<Longrightarrow> keeps I (f a b)) \<Longrightarrow> keeps I (case p of (a, b) \<Rightarrow> f a b)"
  by (cases p) simp_all

lemma keeps_let [keeps_intros]: "keeps I (f a) \<Longrightarrow> keeps I (Let a f)"
  by simp

lemma keeps_modify: "(\<And>s. I s \<Longrightarrow> I (f s)) \<Longrightarrow> keeps I (modify f)"
  by (simp add: keeps_def eff_simps)

lemma postI:
  assumes "\<And>s a s'. P s \<Longrightarrow> m s = (Ok a, s') \<Longrightarrow> Q a s'"
    and "\<And>s e s'. P s \<Longrightarrow> m s = (Err e, s') \<Longrightarrow> E e s'"
  shows "post P m Q E"
  using assms by (auto simp: post_def split: prod.splits outcome.splits)

lemma post_okD: "post P m Q E \<Longrightarrow> P s \<Longrightarrow> m s = (Ok a, s') \<Longrightarrow> Q a s'"
  by (auto simp: post_def)

lemma post_errD: "post P m Q E \<Longrightarrow> P s \<Longrightarrow> m s = (Err e, s') \<Longrightarrow> E e s'"
  by (auto simp: post_def)

lemma and_then_Ok_iff:
  "and_then m f s = (Ok b, s'') \<longleftrightarrow> (\<exists>a s'. m s = (Ok a, s') \<and> f a s' = (Ok b, s''))"
  by (auto simp: and_then_def split: prod.splits outcome.splits)

lemma and_then_Err_iff:
  "and_then m f s = (Err e, s'') \<longleftrightarrow>
   m s = (Err e, s'') \<or> (\<exists>a s'. m s = (Ok a, s') \<and> f a s' = (Err e, s''))"
  by (auto simp: and_then_def split: prod.splits outcome.splits)

lemma attempt_Ok_iff:
  "attempt m s = (Ok r, s') \<longleftrightarrow>
   (case r of Inl e \<Rightarrow> m s = (Err e, s') | Inr a \<Rightarrow> m s = (Ok a, s'))"
  by (auto simp: attempt_def split: prod.splits outcome.splits sum.splits)

lemma attempt_never_fails: "attempt m s \<noteq> (Err e, s')"
  by (auto simp: attempt_def split: prod.splits outcome.splits)

lemma map_err_Ok_iff: "map_err g m s = (Ok a, s') \<longleftrightarrow> m s = (Ok a, s')"
  by (auto simp: map_err_def split: prod.splits outcome.splits)

lemma map_err_Err_iff: "map_err g m s = (Err f, s') \<longleftrightarrow> (\<exists>e. m s = (Err e, s') \<and> f = g e)"
  by (auto simp: map_err_def split: prod.splits outcome.splits)

lemma unwrap_Ok_iff: "unwrap opt s = (Ok a, s') \<longleftrightarrow> opt = Some a \<and> s' = s"
  by (cases opt) (auto simp: eff_simps)

lemma unwrap_no_Err: "unwrap opt s \<noteq> (Err e, s')"
  by (cases opt) (auto simp: eff_simps)

lemma from_result_Ok_iff: "from_result r s = (Ok a, s') \<longleftrightarrow> r = Inr a \<and> s' = s"
  by (cases r) (auto simp: eff_simps)

lemma from_result_Err_iff: "from_result r s = (Err e, s') \<longleftrightarrow> r = Inl e \<and> s' = s"
  by (cases r) (auto simp: eff_simps)

lemma and_then_Panic: "fst (m s) = Panic \<Longrightarrow> fst (and_then m f s) = Panic"
  by (auto simp: and_then_def split: prod.splits)

lemma map_err_Panic: "fst (m s) = Panic \<Longrightarrow> fst (map_err g m s) = Panic"
  by (auto simp: map_err_def split: prod.splits)

lemma and_then_step: "m s = (Ok a, s1) \<Longrightarrow> and_then m f s = f a s1"
  by (simp add: and_then_def)

lemmas run_iffs =
  and_then_Ok_iff and_then_Err_iff attempt_Ok_iff attempt_never_fails map_err_Ok_iff map_err_Err_iff
  unwrap_Ok_iff unwrap_no_Err from_result_Ok_iff from_result_Err_iff

end
