(* ===== verification/Hash_Map.thy ===== *)
theory Hash_Map
  imports Prelude
begin

text \<open>
  \<open>std::collections::HashMap\<close>: entries with distinct keys. \<open>hm_get\<close>, \<open>hm_insert\<close> and
  \<open>hm_remove\<close> are \<open>get\<close>, \<open>insert\<close> and \<open>remove\<close>; \<open>hm_extend\<close> is \<open>extend\<close>;
  \<open>hm_entry\<close> is \<open>entry(k).or_insert_with(..)\<close>; \<open>hm_remove_all\<close> is the loop
  \<open>for id in ids { map.remove(id) }\<close> that the code repeats. The locale \<open>keyed_store\<close> is the
  contract of a store with these three operations; the loops over it are proved once there, and
  the contract is discharged for one map and for a vector of shards.
\<close>

type_synonym ('k, 'v) hmap = "('k \<times> 'v) list"

definition hm_get :: "('k, 'v) hmap \<Rightarrow> 'k \<Rightarrow> 'v option" where
  "hm_get m k = map_of m k"

definition hm_remove :: "'k \<Rightarrow> ('k, 'v) hmap \<Rightarrow> ('k, 'v) hmap" where
  "hm_remove k m = filter (\<lambda>e. fst e \<noteq> k) m"

definition hm_insert :: "'k \<Rightarrow> 'v \<Rightarrow> ('k, 'v) hmap \<Rightarrow> ('k, 'v) hmap" where
  "hm_insert k v m = (k, v) # hm_remove k m"

definition hm_extend :: "('k, 'v) hmap \<Rightarrow> ('k, 'v) hmap \<Rightarrow> ('k, 'v) hmap" where
  "hm_extend new m = fold (\<lambda>e. hm_insert (fst e) (snd e)) new m"

definition hm_entry :: "'k \<Rightarrow> 'v \<Rightarrow> ('k, 'v) hmap \<Rightarrow> ('k, 'v) hmap" where
  "hm_entry k v m = (case hm_get m k of None \<Rightarrow> hm_insert k v m | Some _ \<Rightarrow> m)"

definition hm_remove_all :: "'k list \<Rightarrow> ('k, 'v) hmap \<Rightarrow> ('k, 'v) hmap" where
  "hm_remove_all ks m = fold hm_remove ks m"

definition hm_keys :: "('k, 'v) hmap \<Rightarrow> 'k list" where
  "hm_keys m = map fst m"

definition hm_values :: "('k, 'v) hmap \<Rightarrow> 'v list" where
  "hm_values m = map snd m"

definition hm_wf :: "('k, 'v) hmap \<Rightarrow> bool" where
  "hm_wf m \<longleftrightarrow> distinct (map fst m)"

section \<open>Entries and look-ups\<close>

lemma hm_get_Nil [simp]: "hm_get [] k = None"
  by (simp add: hm_get_def)

lemma set_hm_remove [hm_simps]: "set (hm_remove k m) = {e \<in> set m. fst e \<noteq> k}"
  by (simp add: hm_remove_def)

lemma set_hm_insert [hm_simps]:
  "set (hm_insert k v m) = insert (k, v) {e \<in> set m. fst e \<noteq> k}"
  by (simp add: hm_insert_def set_hm_remove)

lemma hm_get_remove [hm_simps]: "hm_get (hm_remove k m) k' = (if k' = k then None else hm_get m k')"
  by (induction m) (auto simp: hm_get_def hm_remove_def)

lemma hm_get_insert [hm_simps]:
  "hm_get (hm_insert k v m) k' = (if k' = k then Some v else hm_get m k')"
  using hm_get_remove [of k m k'] by (simp add: hm_get_def hm_insert_def)

lemma hm_wf_Nil [simp]: "hm_wf []"
  by (simp add: hm_wf_def)

lemma hm_wf_remove [intro]: "hm_wf m \<Longrightarrow> hm_wf (hm_remove k m)"
  by (simp add: hm_wf_def hm_remove_def distinct_map_filter)

lemma hm_wf_insert [intro]: "hm_wf m \<Longrightarrow> hm_wf (hm_insert k v m)"
  using hm_wf_remove [of m k] by (auto simp: hm_wf_def hm_insert_def hm_remove_def)

lemma hm_get_Some_in: "hm_get m k = Some v \<Longrightarrow> (k, v) \<in> set m"
  by (simp add: hm_get_def map_of_SomeD)

lemma hm_get_in: "hm_wf m \<Longrightarrow> (k, v) \<in> set m \<Longrightarrow> hm_get m k = Some v"
  by (simp add: hm_get_def hm_wf_def)

lemma hm_get_None_iff: "hm_get m k = None \<longleftrightarrow> k \<notin> set (hm_keys m)"
  by (simp add: hm_get_def hm_keys_def map_of_eq_None_iff)

lemma set_hm_remove_all [hm_simps]:
  "set (hm_remove_all ks m) = {e \<in> set m. fst e \<notin> set ks}"
  unfolding hm_remove_all_def by (induction ks arbitrary: m) (auto simp: set_hm_remove)

lemma hm_wf_remove_all [intro]: "hm_wf m \<Longrightarrow> hm_wf (hm_remove_all ks m)"
  unfolding hm_remove_all_def by (induction ks arbitrary: m) auto

lemma hm_remove_all_Nil [simp]: "hm_remove_all [] m = m"
  by (simp add: hm_remove_all_def)

lemma set_hm_extend_subset:
  "e \<in> set (hm_extend new m) \<Longrightarrow> e \<in> set new \<or> (e \<in> set m \<and> fst e \<notin> fst ` set new)"
  unfolding hm_extend_def
proof (induction new arbitrary: m)
  case Nil
  then show ?case by simp
next
  case (Cons a new)
  from Cons.IH [of "hm_insert (fst a) (snd a) m"] Cons.prems
  show ?case by (auto simp: set_hm_insert)
qed

lemma hm_extend_Nil [simp]: "hm_extend [] m = m"
  by (simp add: hm_extend_def)

lemma hm_wf_extend [intro]: "hm_wf m \<Longrightarrow> hm_wf (hm_extend new m)"
  unfolding hm_extend_def by (induction new arbitrary: m) auto

lemma hm_wf_entry [intro]: "hm_wf m \<Longrightarrow> hm_wf (hm_entry k v m)"
  by (auto simp: hm_entry_def split: option.splits)

section \<open>The contract of a keyed store\<close>

locale keyed_store =
  fixes get :: "'m \<Rightarrow> 'k \<Rightarrow> 'v option"
    and ins :: "'k \<Rightarrow> 'v \<Rightarrow> 'm \<Rightarrow> 'm"
    and del :: "'k \<Rightarrow> 'm \<Rightarrow> 'm"
    and valid :: "'m \<Rightarrow> 'k \<Rightarrow> bool"
  assumes get_ins: "valid m k \<Longrightarrow> get (ins k v m) k' = (if k' = k then Some v else get m k')"
    and get_del: "get (del k m) k' = (if k' = k then None else get m k')"
    and valid_ins: "valid (ins k v m) k' = valid m k'"
    and valid_del: "valid (del k m) k' = valid m k'"
begin

lemma get_del_all: "get (fold del ks m) k = (if k \<in> set ks then None else get m k)"
  by (induction ks arbitrary: m) (auto simp: get_del)

lemma del_all_twice: "get (fold del ks (fold del ks m)) k = get (fold del ks m) k"
  by (simp add: get_del_all)

lemma del_all_order: "set ks = set ks' \<Longrightarrow> get (fold del ks m) k = get (fold del ks' m) k"
  by (simp add: get_del_all)

lemma valid_ins_all: "valid (fold (\<lambda>e. ins (fst e) (snd e)) es m) k = valid m k"
  by (induction es arbitrary: m) (auto simp: valid_ins)

lemma get_ins_all:
  "(\<And>e. e \<in> set es \<Longrightarrow> valid m (fst e)) \<Longrightarrow>
   get (fold (\<lambda>e. ins (fst e) (snd e)) es m) k =
   (case map_of (rev es) k of None \<Rightarrow> get m k | Some v \<Rightarrow> Some v)"
proof (induction es arbitrary: m)
  case Nil
  then show ?case by simp
next
  case (Cons e es)
  have "\<And>d. d \<in> set es \<Longrightarrow> valid (ins (fst e) (snd e) m) (fst d)"
    using Cons.prems by (simp add: valid_ins)
  then show ?case
    using Cons.IH [of "ins (fst e) (snd e) m"] Cons.prems [of e]
    by (auto simp: get_ins map_of_append map_add_def split: option.splits)
qed

lemma ins_del: "valid m k \<Longrightarrow> get (del k (ins k v m)) k' = get (del k m) k'"
  by (simp add: get_ins get_del)

end

interpretation hm: keyed_store hm_get hm_insert hm_remove "\<lambda>_ _. True"
  by unfold_locales (auto simp: hm_simps)

lemma hm_get_remove_all [hm_simps]:
  "hm_get (hm_remove_all ks m) k = (if k \<in> set ks then None else hm_get m k)"
  unfolding hm_remove_all_def by (rule hm.get_del_all)

lemma hm_get_extend:
  "hm_get (hm_extend new m) k = (case hm_get (rev new) k of None \<Rightarrow> hm_get m k | Some v \<Rightarrow> Some v)"
  using hm.get_ins_all [of new m k] by (simp add: hm_extend_def hm_get_def)

section \<open>A vector of shards\<close>

text \<open>
  The key of a sharded store is the index of the shard and the key inside it. Reading or
  writing past the vector has no effect here; the code computes the index modulo its length.
\<close>

type_synonym ('k, 'v) shards = "('k, 'v) hmap list"

definition sh_get :: "('k, 'v) shards \<Rightarrow> nat \<times> 'k \<Rightarrow> 'v option" where
  "sh_get sh ik = (if fst ik < length sh then hm_get (sh ! fst ik) (snd ik) else None)"

definition sh_update :: "nat \<Rightarrow> (('k, 'v) hmap \<Rightarrow> ('k, 'v) hmap) \<Rightarrow> ('k, 'v) shards \<Rightarrow> ('k, 'v) shards" where
  "sh_update i f sh = sh[i := f (sh ! i)]"

definition sh_insert :: "nat \<times> 'k \<Rightarrow> 'v \<Rightarrow> ('k, 'v) shards \<Rightarrow> ('k, 'v) shards" where
  "sh_insert ik v sh = sh_update (fst ik) (hm_insert (snd ik) v) sh"

definition sh_remove :: "nat \<times> 'k \<Rightarrow> ('k, 'v) shards \<Rightarrow> ('k, 'v) shards" where
  "sh_remove ik sh = sh_update (fst ik) (hm_remove (snd ik)) sh"

definition sh_remove_all :: "nat \<Rightarrow> 'k list \<Rightarrow> ('k, 'v) shards \<Rightarrow> ('k, 'v) shards" where
  "sh_remove_all i ks sh = sh_update i (hm_remove_all ks) sh"

lemma length_sh_update [simp]: "length (sh_update i f sh) = length sh"
  by (simp add: sh_update_def)

lemma nth_sh_update [simp]:
  "j < length sh \<Longrightarrow> sh_update i f sh ! j = (if j = i then f (sh ! i) else sh ! j)"
  by (simp add: sh_update_def nth_list_update)

interpretation sh: keyed_store sh_get sh_insert sh_remove "\<lambda>s ik. fst ik < length s"
  by unfold_locales
    (auto simp: sh_get_def sh_insert_def sh_remove_def sh_update_def nth_list_update hm_simps)

lemma sh_remove_all_fold: "sh_remove_all i ks sh = fold (\<lambda>k. sh_remove (i, k)) ks sh"
proof (induction ks arbitrary: sh)
  case Nil
  then show ?case by (simp add: sh_remove_all_def sh_update_def)
next
  case (Cons k ks)
  have "sh_remove_all i (k # ks) sh = sh_remove_all i ks (sh_remove (i, k) sh)"
    by (cases "i < length sh")
      (simp_all add: sh_remove_all_def sh_remove_def sh_update_def hm_remove_all_def list_update_beyond)
  with Cons show ?case by simp
qed

lemma sh_get_remove_all [hm_simps]:
  "sh_get (sh_remove_all i ks sh) (j, k) = (if j = i \<and> k \<in> set ks then None else sh_get sh (j, k))"
proof -
  have "sh_remove_all i ks sh = fold sh_remove (map (Pair i) ks) sh"
    by (simp add: sh_remove_all_fold fold_map comp_def)
  then show ?thesis using sh.get_del_all [of "map (Pair i) ks" sh "(j, k)"] by auto
qed

end
