(* ===== verification/Text.thy ===== *)
theory Text
  imports Prelude
begin

text \<open>
  Text as the code prints and reads it: \<open>Display\<close> and \<open>FromStr\<close> of the integer types,
  \<open>str::contains\<close>, \<open>str::to_lowercase\<close> on ASCII, and the number of quote characters of
  an SQL fragment. Rust's \<open>parse\<close> accepts an optional sign (a minus for signed types only),
  wants at least one digit and rejects a value outside the type.
\<close>

section \<open>Printing integers\<close>

definition digit_char :: "nat \<Rightarrow> char" where
  "digit_char d = char_of (48 + d)"

fun show_nat :: "nat \<Rightarrow> string" where
  "show_nat n = (if n < 10 then [digit_char n] else show_nat (n div 10) @ [digit_char (n mod 10)])"

declare show_nat.simps [simp del]

definition show_int :: "int \<Rightarrow> string" where
  "show_int i = (if i < 0 then CHR ''-'' # show_nat (nat (- i)) else show_nat (nat i))"

definition show_bool :: "bool \<Rightarrow> string" where
  "show_bool b = (if b then ''true'' else ''false'')"

section \<open>Reading integers\<close>

definition digit_of :: "char \<Rightarrow> nat option" where
  "digit_of c = (let n = of_char c in if 48 \<le> n \<and> n \<le> (57 :: nat) then Some (n - 48) else None)"

fun read_digits :: "nat \<Rightarrow> string \<Rightarrow> nat option" where
  "read_digits acc [] = Some acc"
| "read_digits acc (c # cs) =
     (case digit_of c of None \<Rightarrow> None | Some d \<Rightarrow> read_digits (10 * acc + d) cs)"

definition read_nat :: "string \<Rightarrow> nat option" where
  "read_nat cs = (if cs = [] then None else read_digits 0 cs)"

definition strip_plus :: "string \<Rightarrow> string" where
  "strip_plus cs = (case cs of [] \<Rightarrow> [] | c # r \<Rightarrow> if c = CHR ''+'' then r else cs)"

definition parse_unsigned :: "nat \<Rightarrow> string \<Rightarrow> nat option" where
  "parse_unsigned w cs =
     (case read_nat (strip_plus cs) of
        None \<Rightarrow> None | Some n \<Rightarrow> if n < 2 ^ w then Some n else None)"

definition parse_signed :: "nat \<Rightarrow> string \<Rightarrow> int option" where
  "parse_signed w cs =
     (case (case cs of [] \<Rightarrow> None
              | c # r \<Rightarrow> if c = CHR ''-'' then map_option (\<lambda>n. - int n) (read_nat r)
                        else map_option int (read_nat (strip_plus cs))) of
        None \<Rightarrow> None
      | Some i \<Rightarrow> if - (2 ^ (w - 1)) \<le> i \<and> i < 2 ^ (w - 1) then Some i else None)"

lemma digit_of_digit_char: "d < 10 \<Longrightarrow> digit_of (digit_char d) = Some d"
  by (simp add: digit_of_def digit_char_def Let_def)

lemma read_digits_append:
  "read_digits acc (xs @ ys) = Option.bind (read_digits acc xs) (\<lambda>a. read_digits a ys)"
  by (induction acc xs rule: read_digits.induct) (auto split: option.splits)

lemma read_show_nat: "read_digits 0 (show_nat n) = Some n"
proof (induction n rule: show_nat.induct)
  case (1 n)
  show ?case
  proof (cases "n < 10")
    case True
    then show ?thesis by (simp add: show_nat.simps [of n] digit_of_digit_char)
  next
    case False
    then show ?thesis
      using "1.IH" by (simp add: show_nat.simps [of n] digit_of_digit_char read_digits_append)
  qed
qed

lemma show_nat_nonempty [simp]: "show_nat n \<noteq> []"
  by (subst show_nat.simps) simp

lemma digit_char_not_sign: "d < 10 \<Longrightarrow> digit_char d \<noteq> CHR ''+'' \<and> digit_char d \<noteq> CHR ''-''"
proof -
  assume "d < 10"
  then have "digit_of (digit_char d) = Some d" by (rule digit_of_digit_char)
  moreover have "digit_of CHR ''+'' = None" and "digit_of CHR ''-'' = None"
    by (simp_all add: digit_of_def Let_def)
  ultimately show ?thesis by auto
qed

lemma hd_show_nat: "\<exists>d cs. d < 10 \<and> show_nat n = digit_char d # cs"
proof (induction n rule: show_nat.induct)
  case (1 n)
  then show ?case
    by (cases "n < 10") (auto simp: show_nat.simps [of n])
qed

lemma strip_plus_show_nat [simp]: "strip_plus (show_nat n) = show_nat n"
  using hd_show_nat [of n] digit_char_not_sign by (auto simp: strip_plus_def)

lemma parse_show_unsigned: "n < 2 ^ w \<Longrightarrow> parse_unsigned w (show_nat n) = Some n"
  by (simp add: parse_unsigned_def read_nat_def read_show_nat)

lemma parse_show_signed:
  assumes "- (2 ^ (w - 1)) \<le> i" and "i < 2 ^ (w - 1)"
  shows "parse_signed w (show_int i) = Some i"
proof (cases "i < 0")
  case True
  then show ?thesis
    using assms by (simp add: parse_signed_def show_int_def read_nat_def read_show_nat)
next
  case False
  obtain d cs where d: "d < 10" and eq: "show_nat (nat i) = digit_char d # cs"
    using hd_show_nat by blast
  have "read_nat (strip_plus (show_nat (nat i))) = Some (nat i)"
    by (simp add: read_nat_def read_show_nat)
  with False assms digit_char_not_sign [OF d] show ?thesis
    by (auto simp: parse_signed_def show_int_def eq)
qed

section \<open>Searching and lower case\<close>

fun str_contains :: "string \<Rightarrow> string \<Rightarrow> bool" where
  "str_contains [] n = (n = [])"
| "str_contains (c # cs) n = (take (length n) (c # cs) = n \<or> str_contains cs n)"

lemma str_contains_iff: "str_contains h n \<longleftrightarrow> (\<exists>a b. h = a @ n @ b)"
proof (induction h)
  case Nil
  then show ?case by auto
next
  case (Cons c cs)
  have "take (length n) (c # cs) = n \<longleftrightarrow> (\<exists>b. c # cs = n @ b)"
    by (metis append_eq_conv_conj append_take_drop_id)
  then show ?case
    using Cons by (auto simp: Cons_eq_append_conv)
qed

definition lower_char :: "char \<Rightarrow> char" where
  "lower_char c = (let n = of_char c in if 65 \<le> n \<and> n \<le> (90 :: nat) then char_of (n + 32) else c)"

definition to_lowercase :: "string \<Rightarrow> string" where
  "to_lowercase = map lower_char"

section \<open>Splitting\<close>

fun split_at_char :: "char \<Rightarrow> string \<Rightarrow> string list" where
  "split_at_char c [] = [[]]"
| "split_at_char c (d # ds) =
     (if d = c then [] # split_at_char c ds
      else (case split_at_char c ds of [] \<Rightarrow> [[d]] | w # ws \<Rightarrow> (d # w) # ws))"

definition starts_with :: "string \<Rightarrow> string \<Rightarrow> bool" where
  "starts_with s p \<longleftrightarrow> take (length p) s = p"

definition strip_prefix :: "string \<Rightarrow> string \<Rightarrow> string option" where
  "strip_prefix p s = (if starts_with s p then Some (drop (length p) s) else None)"

lemma strip_prefix_append [simp]: "strip_prefix p (p @ s) = Some s"
  by (simp add: strip_prefix_def starts_with_def)

section \<open>Quotes\<close>

definition quotes :: "string \<Rightarrow> nat" where
  "quotes cs = length (filter (\<lambda>c. c = CHR 0x27) cs)"

definition quote_free :: "string \<Rightarrow> bool" where
  "quote_free cs \<longleftrightarrow> CHR 0x27 \<notin> set cs"

lemma quotes_append [simp]: "quotes (a @ b) = quotes a + quotes b"
  by (simp add: quotes_def)

lemma quotes_Nil [simp]: "quotes [] = 0"
  by (simp add: quotes_def)

lemma quotes_Cons: "quotes (c # cs) = (if c = CHR 0x27 then Suc (quotes cs) else quotes cs)"
  by (simp add: quotes_def)

lemma quotes_quote_free [simp]: "quote_free cs \<Longrightarrow> quotes cs = 0"
  by (auto simp: quotes_def quote_free_def filter_empty_conv)

lemma digit_char_no_quote: "d < 10 \<Longrightarrow> digit_char d \<noteq> CHR 0x27"
proof -
  assume "d < 10"
  then have "digit_of (digit_char d) = Some d" by (rule digit_of_digit_char)
  moreover have "digit_of (CHR 0x27) = None" by (simp add: digit_of_def Let_def)
  ultimately show ?thesis by auto
qed

lemma quotes_show_nat [simp]: "quotes (show_nat n) = 0"
proof (induction n rule: show_nat.induct)
  case (1 n)
  then show ?case
    by (cases "n < 10") (simp_all add: show_nat.simps [of n] quotes_Cons digit_char_no_quote)
qed

lemma quotes_show_int [simp]: "quotes (show_int i) = 0"
  by (simp add: show_int_def quotes_Cons)

lemma quotes_show_bool [simp]: "quotes (show_bool b) = 0"
  by (simp add: show_bool_def quotes_Cons)

end
