(* ===== verification/Dao.thy ===== *)
theory Dao
  imports Text
begin

text \<open>
  Data access objects (\<open>src/dao/mod.rs\<close>): the structs, and for each the statements its
  \<open>Dao\<close> implementation builds. A statement is kept as the clauses the code hands to the
  builder of the crate \<open>sql_query_builder\<close> (the text of \<open>insert_into\<close>, \<open>values\<close>,
  \<open>set\<close>, \<open>where_clause\<close> and so on); joining them with the SQL keywords (\<open>as_string\<close>)
  is the crate's. Methods return \<open>Err\<close> with the message of the code; an \<open>unwrap\<close> of a
  missing field is \<open>Panic\<close>. The trait is the locale \<open>dao_entity\<close>, interpreted for every
  struct and for the trait object.
\<close>

section \<open>Statements and mutation types\<close>

datatype mutation_type = Insert | Update | Delete | Query | CustomQuery1 | CustomQuery2

datatype sql =
    InsertInto string string
  | UpdateSet string string string
  | DeleteFrom string string
  | SelectFrom string string string

type_synonym built = "(sql, string) outcome"

definition quoted :: "string \<Rightarrow> string" where
  "quoted s = [CHR 0x27] @ s @ [CHR 0x27]"

definition not_implemented :: built where
  "not_implemented = Err ''Not implemented''"

text \<open>The table a statement names: the first word of its table clause.\<close>

fun sql_table :: "sql \<Rightarrow> string" where
  "sql_table (InsertInto t v) = takeWhile (\<lambda>c. c \<noteq> CHR '' '') t"
| "sql_table (UpdateSet t s w) = t"
| "sql_table (DeleteFrom t w) = t"
| "sql_table (SelectFrom c t w) = t"

fun sql_text :: "sql \<Rightarrow> string" where
  "sql_text (InsertInto t v) = t @ v"
| "sql_text (UpdateSet t s w) = t @ s @ w"
| "sql_text (DeleteFrom t w) = t @ w"
| "sql_text (SelectFrom c t w) = c @ t @ w"

lemma quotes_quoted [simp]: "quotes (quoted s) = quotes s + 2"
  by (simp add: quoted_def quotes_def)

section \<open>Containers and workers\<close>

record container_heartbeat =
  ch_mutation_type :: mutation_type
  ch_container_id :: string
  ch_heartbeat :: "nat option"
  ch_host :: "string option"
  ch_tenant :: "string option"

definition container_heartbeat_insert :: "container_heartbeat \<Rightarrow> built" where
  "container_heartbeat_insert d =
     (case (ch_host d, ch_tenant d, ch_heartbeat d) of
        (Some host, Some tenant, Some hb) \<Rightarrow>
          Ok (InsertInto ''container_heartbeat (container_id, heartbeat, host, tenant)''
                (''('' @ quoted (ch_container_id d) @ '','' @ show_nat hb @ '','' @
                 quoted host @ '','' @ quoted tenant @ '')''))
      | _ \<Rightarrow> Err ''Host and Tenant are mandatory fields'')"

definition container_heartbeat_update :: "container_heartbeat \<Rightarrow> built" where
  "container_heartbeat_update d =
     (case ch_heartbeat d of
        Some hb \<Rightarrow> Ok (UpdateSet ''container_heartbeat'' (''heartbeat = '' @ show_nat hb)
                        (''container_id = '' @ quoted (ch_container_id d)))
      | None \<Rightarrow> Err ''Nothing to update'')"

record worker_container =
  wc_mutation_type :: mutation_type
  wc_container_id :: string
  wc_worker_id :: string

definition worker_container_insert :: "worker_container \<Rightarrow> built" where
  "worker_container_insert d =
     Ok (InsertInto ''worker_container (container_id, worker_id)''
          (''('' @ quoted (wc_container_id d) @ '','' @ quoted (wc_worker_id d) @ '')''))"

section \<open>Meetings and routers\<close>

record meeting_status =
  ms_mutation_type :: mutation_type
  ms_meeting_id :: string
  ms_enabled :: "bool option"

definition meeting_status_insert :: "meeting_status \<Rightarrow> built" where
  "meeting_status_insert d =
     (case ms_enabled d of
        None \<Rightarrow> Err ''Enabled is mandatory field''
      | Some enabled \<Rightarrow>
          Ok (InsertInto ''meeting_status (meeting_id, enabled)''
               (''('' @ quoted (ms_meeting_id d) @ '','' @ show_bool enabled @ '')'')))"

definition meeting_status_delete :: "meeting_status \<Rightarrow> built" where
  "meeting_status_delete d =
     Ok (DeleteFrom ''meeting_status'' (''meeting_id = '' @ quoted (ms_meeting_id d)))"

record router_worker =
  rw_mutation_type :: mutation_type
  rw_worker_id :: "string option"
  rw_router_id :: string

definition router_worker_insert :: "router_worker \<Rightarrow> built" where
  "router_worker_insert d =
     (case rw_worker_id d of
        None \<Rightarrow> Err ''Worker Id is mandatory field''
      | Some worker_id \<Rightarrow>
          Ok (InsertInto ''router_worker (worker_id, router_id)''
               (''('' @ quoted worker_id @ '','' @ quoted (rw_router_id d) @ '')'')))"

definition router_worker_delete :: "router_worker \<Rightarrow> built" where
  "router_worker_delete d =
     Ok (DeleteFrom ''router_worker'' (''router_id = '' @ quoted (rw_router_id d)))"

record router_meeting =
  rm_mutation_type :: mutation_type
  rm_router_id :: "string option"
  rm_meeting_id :: string
  rm_producer_capacity :: "int option"
  rm_consumer_capacity :: "int option"
  rm_capacity :: "int option"
  rm_container_id :: "string option"

definition router_meeting_insert :: "router_meeting \<Rightarrow> built" where
  "router_meeting_insert d =
     (case rm_router_id d of None \<Rightarrow> Err ''Router Id is mandatory field''
      | Some router_id \<Rightarrow>
     (case rm_container_id d of None \<Rightarrow> Err ''Container Id is mandatory field''
      | Some container_id \<Rightarrow>
      let ids = ''('' @ quoted router_id @ '','' @ quoted (rm_meeting_id d) @ '','' @
                quoted container_id @ '','' in
      if rm_producer_capacity d = None \<and> rm_consumer_capacity d = None \<and> rm_capacity d = None
      then Err ''Producer Capacity and Consumer Capacity or Capacity are mandatory fields''
      else (case rm_capacity d of
          Some c \<Rightarrow> Ok (InsertInto ''router_meeting (router_id, meeting_id, container_id, capacity)''
                          (ids @ show_int c @ '')''))
        | None \<Rightarrow> (case rm_producer_capacity d of
          Some c \<Rightarrow> Ok (InsertInto ''router_meeting (router_id, meeting_id, container_id, producer_capacity)''
                          (ids @ show_int c @ '')''))
        | None \<Rightarrow> (case rm_consumer_capacity d of
          Some c \<Rightarrow> Ok (InsertInto ''router_meeting (router_id, meeting_id, container_id, consumer_capacity)''
                          (ids @ show_int c @ '')''))
        | None \<Rightarrow> Panic)))))"

definition router_meeting_update :: "router_meeting \<Rightarrow> built" where
  "router_meeting_update d =
     (case rm_router_id d of None \<Rightarrow> Err ''Router Id is mandatory field''
      | Some router_id \<Rightarrow>
      let ids = ''router_id = '' @ quoted router_id @ '', meeting_id = '' @ quoted (rm_meeting_id d);
          wh = ''meeting_id = '' @ quoted (rm_meeting_id d) in
      (case rm_capacity d of
         Some c \<Rightarrow> Ok (UpdateSet ''router_meeting'' (ids @ '', capacity ='' @ quoted (show_int c)) wh)
       | None \<Rightarrow> (case (rm_producer_capacity d, rm_consumer_capacity d) of
         (Some p, Some c) \<Rightarrow>
           Ok (UpdateSet ''router_meeting''
                (ids @ '', producer_capacity = '' @ quoted (show_int p) @
                 '', consumer_capacity = '' @ quoted (show_int c)) wh)
       | _ \<Rightarrow> Err ''Mandatory fields are missing'')))"

definition router_meeting_delete :: "router_meeting \<Rightarrow> built" where
  "router_meeting_delete d =
     (if rm_router_id d = None \<and> rm_container_id d = None
      then Ok (DeleteFrom ''router_meeting'' (''meeting_id = '' @ quoted (rm_meeting_id d)))
      else (case rm_container_id d of
        None \<Rightarrow> (case rm_router_id d of None \<Rightarrow> Panic
          | Some router_id \<Rightarrow>
              Ok (DeleteFrom ''router_meeting''
                   (''router_id = '' @ quoted router_id @ '' and meeting_id = '' @ quoted (rm_meeting_id d))))
      | Some container_id \<Rightarrow>
          Ok (DeleteFrom ''router_meeting''
               (''container_id = '' @ quoted container_id @ '' and meeting_id = '' @ quoted (rm_meeting_id d)))))"

definition router_meeting_query :: "router_meeting \<Rightarrow> built" where
  "router_meeting_query d =
     Ok (SelectFrom ''router_id'' ''router_meeting'' (''meeting_id = '' @ quoted (rm_meeting_id d)))"

section \<open>Participants\<close>

record participant_meeting =
  pm_mutation_type :: mutation_type
  pm_meeting_id :: string
  pm_participant_id :: "string option"
  pm_instance_id :: "string option"

definition participant_meeting_insert :: "participant_meeting \<Rightarrow> built" where
  "participant_meeting_insert d =
     (case (pm_participant_id d, pm_instance_id d) of
        (Some participant_id, Some instance_id) \<Rightarrow>
          Ok (InsertInto ''participant_meeting (meeting_id, participant_id, instance_id)''
               (''('' @ quoted (pm_meeting_id d) @ '','' @ quoted participant_id @ '', '' @
                quoted instance_id @ '')''))
      | _ \<Rightarrow> Err ''Participant Id & Instance Id is mandatory field'')"

definition participant_meeting_update :: "participant_meeting \<Rightarrow> built" where
  "participant_meeting_update d =
     (case (pm_participant_id d, pm_instance_id d) of
        (Some participant_id, Some instance_id) \<Rightarrow>
          Ok (UpdateSet ''participant_meeting'' (''instance_id = '' @ quoted instance_id)
               (''participant_id = '' @ quoted participant_id @ '' and meeting_id = '' @
                quoted (pm_meeting_id d)))
      | _ \<Rightarrow> Err ''Participant Id & Instance Id is mandatory field'')"

definition participant_meeting_delete :: "participant_meeting \<Rightarrow> built" where
  "participant_meeting_delete d =
     (case pm_participant_id d of
        None \<Rightarrow> Err ''Participant Id is mandatory field''
      | Some participant_id \<Rightarrow>
          let wh = ''meeting_id = '' @ quoted (pm_meeting_id d) @ '' and participant_id = '' @
                   quoted participant_id in
          (case pm_instance_id d of
             Some instance_id \<Rightarrow>
               Ok (DeleteFrom ''participant_meeting'' (wh @ '' and instance_id = '' @ quoted instance_id))
           | None \<Rightarrow> Ok (DeleteFrom ''participant_meeting'' wh)))"

definition participant_meeting_query :: "participant_meeting \<Rightarrow> built" where
  "participant_meeting_query d =
     Ok (SelectFrom ''participant_id,meeting_id'' ''participant_meeting''
          (''meeting_id = '' @ quoted (pm_meeting_id d)))"

definition participant_meeting_custom_query1 :: "participant_meeting \<Rightarrow> built" where
  "participant_meeting_custom_query1 d =
     (case (pm_participant_id d, pm_instance_id d) of
        (Some participant_id, Some instance_id) \<Rightarrow>
          Ok (DeleteFrom ''participant_meeting''
               (''meeting_id = '' @ quoted (pm_meeting_id d) @ '' and participant_id = '' @
                quoted participant_id @ '' and instance_id != '' @ quoted instance_id))
      | _ \<Rightarrow> Err ''Participant Id & Instance Id are mandatory fields'')"

record participant_producer_router =
  ppr_mutation_type :: mutation_type
  ppr_participant_id :: string
  ppr_router_id :: "string option"

definition participant_producer_router_insert :: "participant_producer_router \<Rightarrow> built" where
  "participant_producer_router_insert d =
     (case ppr_router_id d of
        None \<Rightarrow> Err ''Producer Router Id is mandatory field''
      | Some router_id \<Rightarrow>
          Ok (InsertInto ''participant_producer_router (participant_id, router_id)''
               (''('' @ quoted (ppr_participant_id d) @ '','' @ quoted router_id @ '')'')))"

record participant_consumer_router =
  pcr_mutation_type :: mutation_type
  pcr_participant_id :: string
  pcr_router_id :: "string option"

definition participant_consumer_router_insert :: "participant_consumer_router \<Rightarrow> built" where
  "participant_consumer_router_insert d =
     (case pcr_router_id d of
        None \<Rightarrow> Err ''Consumer Router Id is mandatory field''
      | Some router_id \<Rightarrow>
          Ok (InsertInto ''participant_consumer_router (participant_id, router_id)''
               (''('' @ quoted (pcr_participant_id d) @ '','' @ quoted router_id @ '')'')))"

record participant_consumer_transport =
  pct_mutation_type :: mutation_type
  pct_participant_id :: string
  pct_transport_id :: "string option"

definition participant_consumer_transport_insert :: "participant_consumer_transport \<Rightarrow> built" where
  "participant_consumer_transport_insert d =
     (case pct_transport_id d of
        None \<Rightarrow> Err ''Transport Id is mandatory field''
      | Some transport_id \<Rightarrow>
          Ok (InsertInto ''participant_consumer_transport (participant_id, transport_id)''
               (''('' @ quoted (pct_participant_id d) @ '','' @ quoted transport_id @ '')'')))"

definition participant_consumer_transport_delete :: "participant_consumer_transport \<Rightarrow> built" where
  "participant_consumer_transport_delete d =
     Ok (DeleteFrom ''participant_consumer_transport''
          (''participant_id = '' @ quoted (pct_participant_id d)))"

record participant_producer_transport =
  ppt_mutation_type :: mutation_type
  ppt_participant_id :: string
  ppt_transport_id :: "string option"

definition participant_producer_transport_insert :: "participant_producer_transport \<Rightarrow> built" where
  "participant_producer_transport_insert d =
     (case ppt_transport_id d of
        None \<Rightarrow> Err ''Transport Id is mandatory field''
      | Some transport_id \<Rightarrow>
          Ok (InsertInto ''participant_producer_transport (participant_id, transport_id)''
               (''('' @ quoted (ppt_participant_id d) @ '','' @ quoted transport_id @ '')'')))"

definition participant_producer_transport_delete :: "participant_producer_transport \<Rightarrow> built" where
  "participant_producer_transport_delete d =
     Ok (DeleteFrom ''participant_producer_transport''
          (''participant_id = '' @ quoted (ppt_participant_id d)))"

section \<open>Producers and consumers of a participant\<close>

record participant_producers =
  pp_mutation_type :: mutation_type
  pp_participant_id :: "string option"
  pp_producers :: "int option"
  pp_kind :: "string option"
  pp_producer_id :: "string option"
  pp_meeting_id :: "string option"
  pp_transport_id :: "string option"

definition participant_producers_insert :: "participant_producers \<Rightarrow> built" where
  "participant_producers_insert d =
     (case (pp_kind d, pp_producers d, pp_producer_id d, pp_meeting_id d, pp_participant_id d) of
        (Some kind, Some producers, Some producer_id, Some meeting_id, Some participant_id) \<Rightarrow>
          (case pp_transport_id d of None \<Rightarrow> Panic
           | Some transport_id \<Rightarrow>
               Ok (InsertInto ''participant_producers (participant_id, producers, kind, producer_id, meeting_id, transport_id)''
                    (''('' @ quoted participant_id @ '','' @ show_int producers @ '','' @ quoted kind @ '','' @
                     quoted producer_id @ '','' @ quoted meeting_id @ '','' @ quoted transport_id @ '')'')))
      | _ \<Rightarrow> Err ''Mandatory fields are missing'')"

definition participant_producers_delete :: "participant_producers \<Rightarrow> built" where
  "participant_producers_delete d =
     (case pp_producer_id d of
        Some producer_id \<Rightarrow> (case pp_participant_id d of None \<Rightarrow> Panic
          | Some participant_id \<Rightarrow>
              Ok (DeleteFrom ''participant_producers''
                   (''participant_id = '' @ quoted participant_id @ '' and producer_id = '' @ quoted producer_id)))
      | None \<Rightarrow> (case pp_kind d of
        Some kind \<Rightarrow> (case pp_participant_id d of None \<Rightarrow> Panic
          | Some participant_id \<Rightarrow>
              Ok (DeleteFrom ''participant_producers''
                   (''participant_id = '' @ quoted participant_id @ '' and kind = '' @ quoted kind)))
      | None \<Rightarrow> (case pp_participant_id d of None \<Rightarrow> Panic
          | Some participant_id \<Rightarrow>
              Ok (DeleteFrom ''participant_producers'' (''participant_id = '' @ quoted participant_id)))))"

definition participant_producers_query :: "participant_producers \<Rightarrow> built" where
  "participant_producers_query d =
     (case pp_meeting_id d of
        Some meeting_id \<Rightarrow>
          Ok (SelectFrom ''participant_id, producer_id, kind'' ''participant_producers''
               (''meeting_id = '' @ quoted meeting_id))
      | None \<Rightarrow> Err ''Unhandled case'')"

text \<open>The code's format string ends after the opening quote of the participant's id.\<close>

definition participant_producers_custom_query2 :: "participant_producers \<Rightarrow> built" where
  "participant_producers_custom_query2 d =
     (case (pp_meeting_id d, pp_participant_id d) of
        (Some meeting_id, Some participant_id) \<Rightarrow>
          Ok (SelectFrom ''participant_id, producer_id, kind'' ''participant_producers''
               (''meeting_id = '' @ quoted meeting_id @ '' and participant_id != '' @
                [CHR 0x27] @ participant_id))
      | _ \<Rightarrow> Err ''Unhandled case'')"

record participant_consumers =
  pc_mutation_type :: mutation_type
  pc_participant_id :: "string option"
  pc_consumers :: "int option"
  pc_target_participant_id :: "string option"
  pc_kind :: "string option"
  pc_consumer_id :: "string option"
  pc_meeting_id :: "string option"
  pc_transport_id :: "string option"

definition participant_consumers_insert :: "participant_consumers \<Rightarrow> built" where
  "participant_consumers_insert d =
     (case (pc_consumers d, pc_target_participant_id d, pc_kind d, pc_consumer_id d, pc_meeting_id d) of
        (Some consumers, Some target_participant_id, Some kind, Some consumer_id, Some meeting_id) \<Rightarrow>
          (case (pc_participant_id d, pc_transport_id d) of
             (Some participant_id, Some transport_id) \<Rightarrow>
               Ok (InsertInto ''participant_consumers (participant_id, consumers, target_participant_id, kind, consumer_id, meeting_id, transport_id)''
                    (''('' @ quoted participant_id @ '','' @ show_int consumers @ '','' @
                     quoted target_participant_id @ '','' @ quoted kind @ '','' @ quoted consumer_id @ '','' @
                     quoted meeting_id @ '','' @ quoted transport_id @ '')''))
           | _ \<Rightarrow> Panic)
      | _ \<Rightarrow> Err ''mandatory fields are missing'')"

definition participant_consumers_delete :: "participant_consumers \<Rightarrow> built" where
  "participant_consumers_delete d =
     (case (pc_kind d, pc_target_participant_id d, pc_participant_id d, pc_consumer_id d) of
        (Some kind, Some target, Some participant_id, _) \<Rightarrow>
          Ok (DeleteFrom ''participant_consumers''
               (''participant_id = '' @ quoted participant_id @ '' and target_participant_id = '' @
                quoted target @ '' and kind = '' @ quoted kind))
      | (None, Some target, Some participant_id, _) \<Rightarrow>
          Ok (DeleteFrom ''participant_consumers''
               (''participant_id = '' @ quoted participant_id @ '' and target_participant_id = '' @ quoted target))
      | (_, Some target, None, _) \<Rightarrow>
          Ok (DeleteFrom ''participant_consumers'' (''target_participant_id = '' @ quoted target))
      | (_, None, _, Some consumer_id) \<Rightarrow>
          Ok (DeleteFrom ''participant_consumers'' (''consumer_id = '' @ quoted consumer_id))
      | (_, None, Some participant_id, None) \<Rightarrow>
          Ok (DeleteFrom ''participant_consumers'' (''participant_id = '' @ quoted participant_id))
      | (_, None, None, None) \<Rightarrow> Panic)"

section \<open>The trait object\<close>

datatype dao =
    D_ContainerHeartbeat container_heartbeat
  | D_WorkerContainer worker_container
  | D_MeetingStatus meeting_status
  | D_RouterWorker router_worker
  | D_RouterMeeting router_meeting
  | D_ParticipantMeeting participant_meeting
  | D_ParticipantProducerRouter participant_producer_router
  | D_ParticipantConsumerRouter participant_consumer_router
  | D_ParticipantConsumerTransport participant_consumer_transport
  | D_ParticipantProducerTransport participant_producer_transport
  | D_ParticipantProducers participant_producers
  | D_ParticipantConsumers participant_consumers

fun get_mutation_type :: "dao \<Rightarrow> mutation_type" where
  "get_mutation_type (D_ContainerHeartbeat d) = ch_mutation_type d"
| "get_mutation_type (D_WorkerContainer d) = wc_mutation_type d"
| "get_mutation_type (D_MeetingStatus d) = ms_mutation_type d"
| "get_mutation_type (D_RouterWorker d) = rw_mutation_type d"
| "get_mutation_type (D_RouterMeeting d) = rm_mutation_type d"
| "get_mutation_type (D_ParticipantMeeting d) = pm_mutation_type d"
| "get_mutation_type (D_ParticipantProducerRouter d) = ppr_mutation_type d"
| "get_mutation_type (D_ParticipantConsumerRouter d) = pcr_mutation_type d"
| "get_mutation_type (D_ParticipantConsumerTransport d) = pct_mutation_type d"
| "get_mutation_type (D_ParticipantProducerTransport d) = ppt_mutation_type d"
| "get_mutation_type (D_ParticipantProducers d) = pp_mutation_type d"
| "get_mutation_type (D_ParticipantConsumers d) = pc_mutation_type d"

fun get_insert_string :: "dao \<Rightarrow> built" where
  "get_insert_string (D_ContainerHeartbeat d) = container_heartbeat_insert d"
| "get_insert_string (D_WorkerContainer d) = worker_container_insert d"
| "get_insert_string (D_MeetingStatus d) = meeting_status_insert d"
| "get_insert_string (D_RouterWorker d) = router_worker_insert d"
| "get_insert_string (D_RouterMeeting d) = router_meeting_insert d"
| "get_insert_string (D_ParticipantMeeting d) = participant_meeting_insert d"
| "get_insert_string (D_ParticipantProducerRouter d) = participant_producer_router_insert d"
| "get_insert_string (D_ParticipantConsumerRouter d) = participant_consumer_router_insert d"
| "get_insert_string (D_ParticipantConsumerTransport d) = participant_consumer_transport_insert d"
| "get_insert_string (D_ParticipantProducerTransport d) = participant_producer_transport_insert d"
| "get_insert_string (D_ParticipantProducers d) = participant_producers_insert d"
| "get_insert_string (D_ParticipantConsumers d) = participant_consumers_insert d"

fun get_update_string :: "dao \<Rightarrow> built" where
  "get_update_string (D_ContainerHeartbeat d) = container_heartbeat_update d"
| "get_update_string (D_RouterMeeting d) = router_meeting_update d"
| "get_update_string (D_ParticipantMeeting d) = participant_meeting_update d"
| "get_update_string _ = not_implemented"

fun get_delete_string :: "dao \<Rightarrow> built" where
  "get_delete_string (D_MeetingStatus d) = meeting_status_delete d"
| "get_delete_string (D_RouterWorker d) = router_worker_delete d"
| "get_delete_string (D_RouterMeeting d) = router_meeting_delete d"
| "get_delete_string (D_ParticipantMeeting d) = participant_meeting_delete d"
| "get_delete_string (D_ParticipantConsumerTransport d) = participant_consumer_transport_delete d"
| "get_delete_string (D_ParticipantProducerTransport d) = participant_producer_transport_delete d"
| "get_delete_string (D_ParticipantProducers d) = participant_producers_delete d"
| "get_delete_string (D_ParticipantConsumers d) = participant_consumers_delete d"
| "get_delete_string _ = not_implemented"

fun get_query_string :: "dao \<Rightarrow> built" where
  "get_query_string (D_RouterMeeting d) = router_meeting_query d"
| "get_query_string (D_ParticipantMeeting d) = participant_meeting_query d"
| "get_query_string (D_ParticipantProducers d) = participant_producers_query d"
| "get_query_string _ = not_implemented"

fun get_custom_query1_string :: "dao \<Rightarrow> built" where
  "get_custom_query1_string (D_ParticipantMeeting d) = participant_meeting_custom_query1 d"
| "get_custom_query1_string _ = not_implemented"

fun get_custom_query2_string :: "dao \<Rightarrow> built" where
  "get_custom_query2_string (D_ParticipantProducers d) = participant_producers_custom_query2 d"
| "get_custom_query2_string _ = not_implemented"

text \<open>The statement a mutation runs for an entity: the \<open>match\<close> at the head of \<open>MySql::mutate\<close>.\<close>

definition pick_statement ::
  "mutation_type \<Rightarrow> built \<Rightarrow> built \<Rightarrow> built \<Rightarrow> built \<Rightarrow> built \<Rightarrow> built" where
  "pick_statement mt ins upd del cq1 cq2 =
     (case mt of
        Insert \<Rightarrow> ins
      | Update \<Rightarrow> upd
      | Delete \<Rightarrow> del
      | CustomQuery1 \<Rightarrow> cq1
      | CustomQuery2 \<Rightarrow> cq2
      | Query \<Rightarrow> Err ''Unhandled case'')"

section \<open>The contract of the trait\<close>

text \<open>
  What a caller of the trait relies on: every statement an entity builds names the entity's own
  table, and (but for the second custom query) its quotes are balanced when the entity's text
  fields hold no quote character themselves, since the builders put the fields into the SQL text
  as they are.
\<close>

definition sql_balanced :: "sql \<Rightarrow> bool" where
  "sql_balanced s \<longleftrightarrow> even (quotes (sql_text s))"

definition opt_texts :: "string option list \<Rightarrow> string list" where
  "opt_texts os = concat (map (\<lambda>t. case t of None \<Rightarrow> [] | Some u \<Rightarrow> [u]) os)"

definition all_quote_free :: "string list \<Rightarrow> bool" where
  "all_quote_free ts \<longleftrightarrow> (\<forall>t \<in> set ts. quote_free t)"

lemma all_quote_free_simps [simp]:
  "all_quote_free []"
  "all_quote_free (t # ts) \<longleftrightarrow> quote_free t \<and> all_quote_free ts"
  "all_quote_free (ts @ us) \<longleftrightarrow> all_quote_free ts \<and> all_quote_free us"
  by (auto simp: all_quote_free_def)

lemma opt_texts_simps [simp]:
  "opt_texts [] = []"
  "opt_texts (None # os) = opt_texts os"
  "opt_texts (Some t # os) = t # opt_texts os"
  by (simp_all add: opt_texts_def)

lemma all_quote_free_opt_texts [simp]:
  "all_quote_free (opt_texts (t # os)) \<longleftrightarrow> (\<forall>u. t = Some u \<longrightarrow> quote_free u) \<and> all_quote_free (opt_texts os)"
  by (cases t) (simp_all add: opt_texts_def)

locale dao_entity =
  fixes mutation_of :: "'d \<Rightarrow> mutation_type"
    and ins upd del qry cq1 cq2 :: "'d \<Rightarrow> built"
    and table :: "'d \<Rightarrow> string"
    and texts :: "'d \<Rightarrow> string list"
  assumes ins_ok: "ins d = Ok s \<Longrightarrow> sql_table s = table d \<and> (all_quote_free (texts d) \<longrightarrow> sql_balanced s)"
    and upd_ok: "upd d = Ok s \<Longrightarrow> sql_table s = table d \<and> (all_quote_free (texts d) \<longrightarrow> sql_balanced s)"
    and del_ok: "del d = Ok s \<Longrightarrow> sql_table s = table d \<and> (all_quote_free (texts d) \<longrightarrow> sql_balanced s)"
    and qry_ok: "qry d = Ok s \<Longrightarrow> sql_table s = table d \<and> (all_quote_free (texts d) \<longrightarrow> sql_balanced s)"
    and cq1_ok: "cq1 d = Ok s \<Longrightarrow> sql_table s = table d \<and> (all_quote_free (texts d) \<longrightarrow> sql_balanced s)"
    and cq2_ok: "cq2 d = Ok s \<Longrightarrow> sql_table s = table d"
begin

lemma picked_table:
  "pick_statement (mutation_of d) (ins d) (upd d) (del d) (cq1 d) (cq2 d) = Ok s \<Longrightarrow> sql_table s = table d"
  using ins_ok upd_ok del_ok cq1_ok cq2_ok
  by (auto simp: pick_statement_def split: mutation_type.splits)

lemma picked_balanced:
  "pick_statement (mutation_of d) (ins d) (upd d) (del d) (cq1 d) (cq2 d) = Ok s \<Longrightarrow>
   mutation_of d \<noteq> CustomQuery2 \<Longrightarrow> all_quote_free (texts d) \<Longrightarrow> sql_balanced s"
  using ins_ok upd_ok del_ok cq1_ok
  by (auto simp: pick_statement_def split: mutation_type.splits)

end

lemmas balanced_simps = sql_balanced_def quotes_Cons

definition no_statement :: "'d \<Rightarrow> built" where
  "no_statement d = not_implemented"

lemma no_statement_not_Ok [simp]: "no_statement d \<noteq> Ok s"
  by (simp add: no_statement_def not_implemented_def)

lemma not_implemented_not_Ok [simp]: "not_implemented \<noteq> Ok s"
  by (simp add: not_implemented_def)

interpretation container_heartbeat: dao_entity ch_mutation_type container_heartbeat_insert
  container_heartbeat_update no_statement no_statement no_statement no_statement
  "\<lambda>_. ''container_heartbeat''"
  "\<lambda>d. ch_container_id d # opt_texts [ch_host d, ch_tenant d]"
  by unfold_locales
    (auto simp: container_heartbeat_insert_def container_heartbeat_update_def balanced_simps
       split: option.splits)

interpretation worker_container: dao_entity wc_mutation_type worker_container_insert
  no_statement no_statement no_statement no_statement no_statement
  "\<lambda>_. ''worker_container''" "\<lambda>d. [wc_container_id d, wc_worker_id d]"
  by unfold_locales (auto simp: worker_container_insert_def balanced_simps)

interpretation meeting_status: dao_entity ms_mutation_type meeting_status_insert
  no_statement meeting_status_delete no_statement no_statement no_statement
  "\<lambda>_. ''meeting_status''" "\<lambda>d. [ms_meeting_id d]"
  by unfold_locales
    (auto simp: meeting_status_insert_def meeting_status_delete_def balanced_simps split: option.splits)

interpretation router_worker: dao_entity rw_mutation_type router_worker_insert
  no_statement router_worker_delete no_statement no_statement no_statement
  "\<lambda>_. ''router_worker''" "\<lambda>d. rw_router_id d # opt_texts [rw_worker_id d]"
  by unfold_locales
    (auto simp: router_worker_insert_def router_worker_delete_def balanced_simps split: option.splits)

interpretation router_meeting: dao_entity rm_mutation_type router_meeting_insert
  router_meeting_update router_meeting_delete router_meeting_query no_statement no_statement
  "\<lambda>_. ''router_meeting''" "\<lambda>d. rm_meeting_id d # opt_texts [rm_router_id d, rm_container_id d]"
  by unfold_locales
    (auto simp: router_meeting_insert_def router_meeting_update_def router_meeting_delete_def
       router_meeting_query_def balanced_simps Let_def split: option.splits if_splits)

interpretation participant_meeting: dao_entity pm_mutation_type participant_meeting_insert
  participant_meeting_update participant_meeting_delete participant_meeting_query
  participant_meeting_custom_query1 no_statement
  "\<lambda>_. ''participant_meeting''"
  "\<lambda>d. pm_meeting_id d # opt_texts [pm_participant_id d, pm_instance_id d]"
  by unfold_locales
    (auto simp: participant_meeting_insert_def participant_meeting_update_def
       participant_meeting_delete_def participant_meeting_query_def
       participant_meeting_custom_query1_def balanced_simps Let_def split: option.splits)

interpretation participant_producer_router: dao_entity ppr_mutation_type
  participant_producer_router_insert no_statement no_statement no_statement no_statement no_statement
  "\<lambda>_. ''participant_producer_router''" "\<lambda>d. ppr_participant_id d # opt_texts [ppr_router_id d]"
  by unfold_locales
    (auto simp: participant_producer_router_insert_def balanced_simps split: option.splits)

interpretation participant_consumer_router: dao_entity pcr_mutation_type
  participant_consumer_router_insert no_statement no_statement no_statement no_statement no_statement
  "\<lambda>_. ''participant_consumer_router''" "\<lambda>d. pcr_participant_id d # opt_texts [pcr_router_id d]"
  by unfold_locales
    (auto simp: participant_consumer_router_insert_def balanced_simps split: option.splits)

interpretation participant_consumer_transport: dao_entity pct_mutation_type
  participant_consumer_transport_insert no_statement participant_consumer_transport_delete
  no_statement no_statement no_statement
  "\<lambda>_. ''participant_consumer_transport''" "\<lambda>d. pct_participant_id d # opt_texts [pct_transport_id d]"
  by unfold_locales
    (auto simp: participant_consumer_transport_insert_def participant_consumer_transport_delete_def
       balanced_simps split: option.splits)

interpretation participant_producer_transport: dao_entity ppt_mutation_type
  participant_producer_transport_insert no_statement participant_producer_transport_delete
  no_statement no_statement no_statement
  "\<lambda>_. ''participant_producer_transport''" "\<lambda>d. ppt_participant_id d # opt_texts [ppt_transport_id d]"
  by unfold_locales
    (auto simp: participant_producer_transport_insert_def participant_producer_transport_delete_def
       balanced_simps split: option.splits)

interpretation participant_producers: dao_entity pp_mutation_type
  participant_producers_insert no_statement participant_producers_delete
  participant_producers_query no_statement participant_producers_custom_query2
  "\<lambda>_. ''participant_producers''"
  "\<lambda>d. opt_texts [pp_participant_id d, pp_kind d, pp_producer_id d, pp_meeting_id d, pp_transport_id d]"
  by unfold_locales
    (auto simp: participant_producers_insert_def participant_producers_delete_def
       participant_producers_query_def participant_producers_custom_query2_def balanced_simps
       split: option.splits)

interpretation participant_consumers: dao_entity pc_mutation_type
  participant_consumers_insert no_statement participant_consumers_delete
  no_statement no_statement no_statement
  "\<lambda>_. ''participant_consumers''"
  "\<lambda>d. opt_texts [pc_participant_id d, pc_target_participant_id d, pc_kind d, pc_consumer_id d,
                  pc_meeting_id d, pc_transport_id d]"
  by unfold_locales
    (auto simp: participant_consumers_insert_def participant_consumers_delete_def balanced_simps
       split: option.splits)


fun dao_table :: "dao \<Rightarrow> string" where
  "dao_table (D_ContainerHeartbeat d) = ''container_heartbeat''"
| "dao_table (D_WorkerContainer d) = ''worker_container''"
| "dao_table (D_MeetingStatus d) = ''meeting_status''"
| "dao_table (D_RouterWorker d) = ''router_worker''"
| "dao_table (D_RouterMeeting d) = ''router_meeting''"
| "dao_table (D_ParticipantMeeting d) = ''participant_meeting''"
| "dao_table (D_ParticipantProducerRouter d) = ''participant_producer_router''"
| "dao_table (D_ParticipantConsumerRouter d) = ''participant_consumer_router''"
| "dao_table (D_ParticipantConsumerTransport d) = ''participant_consumer_transport''"
| "dao_table (D_ParticipantProducerTransport d) = ''participant_producer_transport''"
| "dao_table (D_ParticipantProducers d) = ''participant_producers''"
| "dao_table (D_ParticipantConsumers d) = ''participant_consumers''"

fun dao_texts :: "dao \<Rightarrow> string list" where
  "dao_texts (D_ContainerHeartbeat d) = ch_container_id d # opt_texts [ch_host d, ch_tenant d]"
| "dao_texts (D_WorkerContainer d) = [wc_container_id d, wc_worker_id d]"
| "dao_texts (D_MeetingStatus d) = [ms_meeting_id d]"
| "dao_texts (D_RouterWorker d) = rw_router_id d # opt_texts [rw_worker_id d]"
| "dao_texts (D_RouterMeeting d) = rm_meeting_id d # opt_texts [rm_router_id d, rm_container_id d]"
| "dao_texts (D_ParticipantMeeting d) = pm_meeting_id d # opt_texts [pm_participant_id d, pm_instance_id d]"
| "dao_texts (D_ParticipantProducerRouter d) = ppr_participant_id d # opt_texts [ppr_router_id d]"
| "dao_texts (D_ParticipantConsumerRouter d) = pcr_participant_id d # opt_texts [pcr_router_id d]"
| "dao_texts (D_ParticipantConsumerTransport d) = pct_participant_id d # opt_texts [pct_transport_id d]"
| "dao_texts (D_ParticipantProducerTransport d) = ppt_participant_id d # opt_texts [ppt_transport_id d]"
| "dao_texts (D_ParticipantProducers d) =
     opt_texts [pp_participant_id d, pp_kind d, pp_producer_id d, pp_meeting_id d, pp_transport_id d]"
| "dao_texts (D_ParticipantConsumers d) =
     opt_texts [pc_participant_id d, pc_target_participant_id d, pc_kind d, pc_consumer_id d,
                pc_meeting_id d, pc_transport_id d]"

lemmas struct_ins_ok =
  container_heartbeat.ins_ok worker_container.ins_ok meeting_status.ins_ok router_worker.ins_ok
  router_meeting.ins_ok participant_meeting.ins_ok participant_producer_router.ins_ok
  participant_consumer_router.ins_ok participant_consumer_transport.ins_ok
  participant_producer_transport.ins_ok participant_producers.ins_ok participant_consumers.ins_ok

lemmas struct_del_ok =
  meeting_status.del_ok router_worker.del_ok router_meeting.del_ok participant_meeting.del_ok
  participant_consumer_transport.del_ok participant_producer_transport.del_ok
  participant_producers.del_ok participant_consumers.del_ok

interpretation dao: dao_entity get_mutation_type get_insert_string get_update_string
  get_delete_string get_query_string get_custom_query1_string get_custom_query2_string
  dao_table dao_texts
proof unfold_locales
  fix d s
  show "get_insert_string d = Ok s \<Longrightarrow>
      sql_table s = dao_table d \<and> (all_quote_free (dao_texts d) \<longrightarrow> sql_balanced s)"
    using struct_ins_ok by (cases d) simp_all
  show "get_update_string d = Ok s \<Longrightarrow>
      sql_table s = dao_table d \<and> (all_quote_free (dao_texts d) \<longrightarrow> sql_balanced s)"
    using container_heartbeat.upd_ok router_meeting.upd_ok participant_meeting.upd_ok
    by (cases d) simp_all
  show "get_delete_string d = Ok s \<Longrightarrow>
      sql_table s = dao_table d \<and> (all_quote_free (dao_texts d) \<longrightarrow> sql_balanced s)"
    using struct_del_ok by (cases d) simp_all
  show "get_query_string d = Ok s \<Longrightarrow>
      sql_table s = dao_table d \<and> (all_quote_free (dao_texts d) \<longrightarrow> sql_balanced s)"
    using router_meeting.qry_ok participant_meeting.qry_ok participant_producers.qry_ok
    by (cases d) simp_all
  show "get_custom_query1_string d = Ok s \<Longrightarrow>
      sql_table s = dao_table d \<and> (all_quote_free (dao_texts d) \<longrightarrow> sql_balanced s)"
    using participant_meeting.cq1_ok by (cases d) simp_all
  show "get_custom_query2_string d = Ok s \<Longrightarrow> sql_table s = dao_table d"
    using participant_producers.cq2_ok by (cases d) simp_all
qed

end
