(* ===== verification/Db.thy ===== *)
theory Db
  imports Dao
begin

text \<open>
  The database layer (\<open>src/db/mod.rs\<close>): \<open>MySqlContext\<close>, \<open>DBError\<close> and the methods of
  \<open>MySql\<close>. The driver (crate \<open>mysql\<close>) and the server behind it are the record
  \<open>sql_driver\<close> of functions on a world \<open>'w\<close>, one per driver call the code makes. The
  executors share a contract, the locale \<open>atomic_op\<close>: what other sessions can see changes only
  by one successful commit.
\<close>

section \<open>The driver and the errors\<close>

text \<open>A driver error: the server's error with its code, or any other, with the displayed text.\<close>

datatype driver_error = ServerError nat string | OtherError string

datatype db_error = MySqlError nat string | GenericError string | RollbackError string

fun show_db_error :: "db_error \<Rightarrow> string" where
  "show_db_error (MySqlError c m) = ''MySql Error : '' @ m"
| "show_db_error (GenericError e) = ''Generic Error : '' @ e"
| "show_db_error (RollbackError e) = ''Rollback Error : '' @ e"

datatype tx_opts = DefaultTx | SerializableReadWrite

record mysql_context =
  rollback_on_duplicate :: bool
  tx_opts :: tx_opts

type_synonym row = "string option list"

record 'w sql_driver =
  d_get_conn :: "'w \<Rightarrow> string option \<times> 'w"
  d_start_tx :: "tx_opts \<Rightarrow> 'w \<Rightarrow> string option \<times> 'w"
  d_query_drop :: "sql \<Rightarrow> 'w \<Rightarrow> driver_error option \<times> 'w"
  d_rollback :: "'w \<Rightarrow> string option \<times> 'w"
  d_commit :: "'w \<Rightarrow> driver_error option \<times> 'w"
  d_affected_rows :: "'w \<Rightarrow> nat"
  d_query :: "sql \<Rightarrow> 'w \<Rightarrow> (driver_error + row list) \<times> 'w"
  d_drop_tx :: "'w \<Rightarrow> 'w"

fun to_db_error :: "driver_error \<Rightarrow> db_error" where
  "to_db_error (ServerError c m) = MySqlError c m"
| "to_db_error (OtherError m) = GenericError m"

definition duplicate_code :: nat where
  "duplicate_code = 1062"

section \<open>Building the statements\<close>

fun build_all :: "('d \<Rightarrow> built) \<Rightarrow> 'd list \<Rightarrow> (sql list, string) outcome" where
  "build_all f [] = Ok []"
| "build_all f (d # ds) =
     (case f d of
        Err e \<Rightarrow> Err e
      | Panic \<Rightarrow> Panic
      | Ok q \<Rightarrow> (case build_all f ds of Ok qs \<Rightarrow> Ok (q # qs) | Err e \<Rightarrow> Err e | Panic \<Rightarrow> Panic))"

definition mutation_statement :: "dao \<Rightarrow> built" where
  "mutation_statement d =
     pick_statement (get_mutation_type d) (get_insert_string d) (get_update_string d)
       (get_delete_string d) (get_custom_query1_string d) (get_custom_query2_string d)"

section \<open>The executors\<close>

fun finish_commit :: "'a \<Rightarrow> driver_error option \<times> 'w \<Rightarrow> ('a, db_error) outcome \<times> 'w" where
  "finish_commit a (None, w) = (Ok a, w)"
| "finish_commit a (Some e, w) = (Err (to_db_error e), w)"

text \<open>The statement loop of \<open>mutate\<close>; the flag is \<open>duplicate_insertion\<close>.\<close>

fun mutate_loop :: "'w sql_driver \<Rightarrow> bool \<Rightarrow> sql list \<Rightarrow> bool \<Rightarrow> ('w, bool, db_error) eff" where
  "mutate_loop drv rb [] dup w = (Ok dup, w)"
| "mutate_loop drv rb (q # qs) dup w =
     (case d_query_drop drv q w of
        (None, w1) \<Rightarrow> mutate_loop drv rb qs dup w1
      | (Some (ServerError c m), w1) \<Rightarrow>
          if c = duplicate_code \<and> \<not> rb then mutate_loop drv rb qs True w1
          else (case d_rollback drv w1 of
                  (Some e, w2) \<Rightarrow> (Err (RollbackError e), w2)
                | (None, w2) \<Rightarrow> (Err (MySqlError c m), w2))
      | (Some (OtherError m), w1) \<Rightarrow>
          (case d_rollback drv w1 of
             (Some e, w2) \<Rightarrow> (Err (GenericError e), w2)
           | (None, w2) \<Rightarrow> (Err (GenericError m), w2)))"

definition mutate :: "'w sql_driver \<Rightarrow> mysql_context \<Rightarrow> dao list \<Rightarrow> ('w, string \<times> bool, db_error) eff" where
  "mutate drv ctx entities w =
     (case build_all mutation_statement entities of
        Err e \<Rightarrow> (Err (GenericError e), w)
      | Panic \<Rightarrow> (Panic, w)
      | Ok queries \<Rightarrow>
     (case d_get_conn drv w of
        (Some _, w1) \<Rightarrow> (Panic, w1)
      | (None, w1) \<Rightarrow>
     (case d_start_tx drv (tx_opts ctx) w1 of
        (Some _, w2) \<Rightarrow> (Panic, w2)
      | (None, w2) \<Rightarrow>
     (case mutate_loop drv (rollback_on_duplicate ctx) queries False w2 of
        (Err e, w3) \<Rightarrow> (Err e, w3)
      | (Panic, w3) \<Rightarrow> (Panic, w3)
      | (Ok dup, w3) \<Rightarrow> finish_commit (''Success'', dup) (d_commit drv w3)))))"

text \<open>\<open>put\<close>: inserts only, duplicates skipped.\<close>

fun put_loop :: "'w sql_driver \<Rightarrow> sql list \<Rightarrow> ('w, unit, db_error) eff" where
  "put_loop drv [] w = (Ok (), w)"
| "put_loop drv (q # qs) w =
     (case d_query_drop drv q w of
        (None, w1) \<Rightarrow> put_loop drv qs w1
      | (Some (ServerError c m), w1) \<Rightarrow>
          if c = duplicate_code then put_loop drv qs w1
          else (case d_rollback drv w1 of
                  (Some e, w2) \<Rightarrow> (Err (RollbackError e), w2)
                | (None, w2) \<Rightarrow> (Err (MySqlError c m), w2))
      | (Some (OtherError m), w1) \<Rightarrow>
          (case d_rollback drv w1 of
             (Some e, w2) \<Rightarrow> (Err (GenericError e), w2)
           | (None, w2) \<Rightarrow> (Err (GenericError m), w2)))"

definition put :: "'w sql_driver \<Rightarrow> dao list \<Rightarrow> ('w, string, db_error) eff" where
  "put drv entities w =
     (case build_all get_insert_string entities of
        Err e \<Rightarrow> (Err (GenericError e), w)
      | Panic \<Rightarrow> (Panic, w)
      | Ok queries \<Rightarrow>
     (case d_get_conn drv w of
        (Some _, w1) \<Rightarrow> (Panic, w1)
      | (None, w1) \<Rightarrow>
     (case d_start_tx drv DefaultTx w1 of
        (Some _, w2) \<Rightarrow> (Panic, w2)
      | (None, w2) \<Rightarrow>
     (case put_loop drv queries w2 of
        (Err e, w3) \<Rightarrow> (Err e, w3)
      | (Panic, w3) \<Rightarrow> (Panic, w3)
      | (Ok _, w3) \<Rightarrow> finish_commit ''Success'' (d_commit drv w3)))))"

text \<open>
  \<open>update\<close> and \<open>delete\<close> unwrap the result of every statement: a driver error panics, and
  unwinding drops the open transaction.
\<close>

fun unwrap_loop :: "'w sql_driver \<Rightarrow> sql list \<Rightarrow> ('w, unit, db_error) eff" where
  "unwrap_loop drv [] w = (Ok (), w)"
| "unwrap_loop drv (q # qs) w =
     (case d_query_drop drv q w of
        (None, w1) \<Rightarrow> unwrap_loop drv qs w1
      | (Some _, w1) \<Rightarrow> (Panic, d_drop_tx drv w1))"

definition update :: "'w sql_driver \<Rightarrow> dao list \<Rightarrow> ('w, string, db_error) eff" where
  "update drv entities w =
     (case build_all get_update_string entities of
        Err e \<Rightarrow> (Err (GenericError e), w)
      | Panic \<Rightarrow> (Panic, w)
      | Ok queries \<Rightarrow>
     (case d_get_conn drv w of
        (Some e, w1) \<Rightarrow> (Err (GenericError e), w1)
      | (None, w1) \<Rightarrow>
     (case d_start_tx drv DefaultTx w1 of
        (Some e, w2) \<Rightarrow> (Err (GenericError e), w2)
      | (None, w2) \<Rightarrow>
     (case unwrap_loop drv queries w2 of
        (Err e, w3) \<Rightarrow> (Err e, w3)
      | (Panic, w3) \<Rightarrow> (Panic, w3)
      | (Ok _, w3) \<Rightarrow> finish_commit ''Success'' (d_commit drv w3)))))"

definition delete :: "'w sql_driver \<Rightarrow> dao list \<Rightarrow> ('w, nat, db_error) eff" where
  "delete drv entities w =
     (case build_all get_delete_string entities of
        Err e \<Rightarrow> (Err (GenericError e), w)
      | Panic \<Rightarrow> (Panic, w)
      | Ok queries \<Rightarrow>
     (case d_get_conn drv w of
        (Some _, w1) \<Rightarrow> (Panic, w1)
      | (None, w1) \<Rightarrow>
     (case d_start_tx drv DefaultTx w1 of
        (Some _, w2) \<Rightarrow> (Panic, w2)
      | (None, w2) \<Rightarrow>
     (case unwrap_loop drv queries w2 of
        (Err e, w3) \<Rightarrow> (Err e, w3)
      | (Panic, w3) \<Rightarrow> (Panic, w3)
      | (Ok _, w3) \<Rightarrow> finish_commit (d_affected_rows drv w3) (d_commit drv w3)))))"

text \<open>\<open>query\<close> always asks for \<open>get_query_string\<close>, whatever the mutation type of the entity.\<close>

definition query :: "'w sql_driver \<Rightarrow> dao \<Rightarrow> ('w, row list, db_error) eff" where
  "query drv entity w =
     (case get_query_string entity of
        Err e \<Rightarrow> (Err (GenericError e), w)
      | Panic \<Rightarrow> (Panic, w)
      | Ok q \<Rightarrow>
     (case d_get_conn drv w of
        (Some _, w1) \<Rightarrow> (Panic, w1)
      | (None, w1) \<Rightarrow>
     (case d_query drv q w1 of
        (Inl e, w2) \<Rightarrow> (Err (to_db_error e), w2)
      | (Inr rows, w2) \<Rightarrow> (Ok rows, w2))))"

section \<open>Transactions\<close>

text \<open>
  What the transactions of the server promise: what other sessions see (\<open>view\<close>) is changed by no
  call but a commit.
\<close>

definition tx_isolated :: "'w sql_driver \<Rightarrow> ('w \<Rightarrow> 'v) \<Rightarrow> bool" where
  "tx_isolated drv view \<longleftrightarrow>
     (\<forall>w. view (snd (d_get_conn drv w)) = view w) \<and>
     (\<forall>opts w. view (snd (d_start_tx drv opts w)) = view w) \<and>
     (\<forall>q w. view (snd (d_query_drop drv q w)) = view w) \<and>
     (\<forall>w. view (snd (d_rollback drv w)) = view w) \<and>
     (\<forall>w. view (d_drop_tx drv w) = view w)"

lemma tx_isolatedD:
  assumes "tx_isolated drv view"
  shows "d_get_conn drv w = (r, w') \<Longrightarrow> view w' = view w"
    and "d_start_tx drv opts w = (r, w') \<Longrightarrow> view w' = view w"
    and "d_query_drop drv q w = (x, w') \<Longrightarrow> view w' = view w"
    and "d_rollback drv w = (r, w') \<Longrightarrow> view w' = view w"
    and "view (d_drop_tx drv w) = view w"
  using assms unfolding tx_isolated_def by (metis snd_conv)+

locale atomic_op =
  fixes drv :: "'w sql_driver" and op :: "('w, 'a, db_error) eff" and view :: "'w \<Rightarrow> 'v"
  assumes op_ok: "tx_isolated drv view \<Longrightarrow> op w = (Ok a, w') \<Longrightarrow>
      \<exists>w1. view w1 = view w \<and> d_commit drv w1 = (None, w')"
    and op_err: "tx_isolated drv view \<Longrightarrow> op w = (Err e, w') \<Longrightarrow>
      view w' = view w \<or> (\<exists>w1 d. view w1 = view w \<and> d_commit drv w1 = (Some d, w'))"
    and op_panic: "tx_isolated drv view \<Longrightarrow> op w = (Panic, w') \<Longrightarrow> view w' = view w"
begin

lemma failure_invisible:
  assumes "tx_isolated drv view" and "\<And>v. fst (d_commit drv v) = None"
    and "op w = (r, w')" and "\<And>a. r \<noteq> Ok a"
  shows "view w' = view w"
proof (cases r)
  case (Err e)
  with op_err [OF assms(1)] assms(2,3) show ?thesis by (metis fst_conv option.distinct(1))
next
  case Panic
  with op_panic [OF assms(1)] assms(3) show ?thesis by blast
qed (use assms(4) in blast)

lemma at_most_one_commit:
  assumes "tx_isolated drv view" and "op w = (r, w')"
  shows "view w' = view w \<or> (\<exists>w1. view w1 = view w \<and> w' = snd (d_commit drv w1))"
  using op_ok [OF assms(1)] op_err [OF assms(1)] op_panic [OF assms(1)] assms(2)
  by (cases r) (metis snd_conv)+

end


lemma finish_commit_iffs [simp]:
  "finish_commit a p = (Ok b, w) \<longleftrightarrow> p = (None, w) \<and> a = b"
  "finish_commit a p = (Err e, w) \<longleftrightarrow> (\<exists>d. p = (Some d, w) \<and> e = to_db_error d)"
  "finish_commit a p \<noteq> (Panic, w)"
  by (cases "(a, p)" rule: finish_commit.cases; auto)+

lemma mutate_loop_view:
  assumes "tx_isolated drv view"
  shows "mutate_loop drv rb qs dup w = (r, w') \<Longrightarrow> view w' = view w"
proof (induction qs arbitrary: dup w)
  case Nil
  then show ?case by simp
next
  case (Cons q qs)
  then show ?case
    by (auto split: prod.splits option.splits driver_error.splits if_splits
        dest!: Cons.IH tx_isolatedD(3,4) [OF assms])
qed

lemma put_loop_view:
  assumes "tx_isolated drv view"
  shows "put_loop drv qs w = (r, w') \<Longrightarrow> view w' = view w"
proof (induction qs arbitrary: w)
  case Nil
  then show ?case by simp
next
  case (Cons q qs)
  then show ?case
    by (auto split: prod.splits option.splits driver_error.splits if_splits
        dest!: Cons.IH tx_isolatedD(3,4) [OF assms])
qed

lemma unwrap_loop_view:
  assumes "tx_isolated drv view"
  shows "unwrap_loop drv qs w = (r, w') \<Longrightarrow> view w' = view w"
proof (induction qs arbitrary: w)
  case Nil
  then show ?case by simp
next
  case (Cons q qs)
  then show ?case
    by (auto split: prod.splits option.splits simp: tx_isolatedD(5) [OF assms]
        dest!: Cons.IH tx_isolatedD(3) [OF assms])
qed

lemmas exec_splits = prod.splits option.splits outcome.splits

interpretation mutate: atomic_op drv "mutate drv ctx es" view for drv ctx es view
proof unfold_locales
  fix w r w'
  assume iso: "tx_isolated drv view"
  note views = tx_isolatedD(1,2) [OF iso] mutate_loop_view [OF iso]
  show "mutate drv ctx es w = (Ok a, w') \<Longrightarrow> \<exists>w1. view w1 = view w \<and> d_commit drv w1 = (None, w')" for a
    by (auto simp: mutate_def split: exec_splits dest!: views)
  show "mutate drv ctx es w = (Err e, w') \<Longrightarrow>
      view w' = view w \<or> (\<exists>w1 d. view w1 = view w \<and> d_commit drv w1 = (Some d, w'))" for e
    by (auto simp: mutate_def split: exec_splits dest!: views)
  show "mutate drv ctx es w = (Panic, w') \<Longrightarrow> view w' = view w"
    by (auto simp: mutate_def split: exec_splits dest!: views)
qed

interpretation put: atomic_op drv "put drv es" view for drv es view
proof unfold_locales
  fix w r w'
  assume iso: "tx_isolated drv view"
  note views = tx_isolatedD(1,2) [OF iso] put_loop_view [OF iso]
  show "put drv es w = (Ok a, w') \<Longrightarrow> \<exists>w1. view w1 = view w \<and> d_commit drv w1 = (None, w')" for a
    by (auto simp: put_def split: exec_splits dest!: views)
  show "put drv es w = (Err e, w') \<Longrightarrow>
      view w' = view w \<or> (\<exists>w1 d. view w1 = view w \<and> d_commit drv w1 = (Some d, w'))" for e
    by (auto simp: put_def split: exec_splits dest!: views)
  show "put drv es w = (Panic, w') \<Longrightarrow> view w' = view w"
    by (auto simp: put_def split: exec_splits dest!: views)
qed

interpretation update: atomic_op drv "update drv es" view for drv es view
proof unfold_locales
  fix w r w'
  assume iso: "tx_isolated drv view"
  note views = tx_isolatedD(1,2) [OF iso] unwrap_loop_view [OF iso]
  show "update drv es w = (Ok a, w') \<Longrightarrow> \<exists>w1. view w1 = view w \<and> d_commit drv w1 = (None, w')" for a
    by (auto simp: update_def split: exec_splits dest!: views)
  show "update drv es w = (Err e, w') \<Longrightarrow>
      view w' = view w \<or> (\<exists>w1 d. view w1 = view w \<and> d_commit drv w1 = (Some d, w'))" for e
    by (auto simp: update_def split: exec_splits dest!: views)
  show "update drv es w = (Panic, w') \<Longrightarrow> view w' = view w"
    by (auto simp: update_def split: exec_splits dest!: views)
qed

interpretation delete: atomic_op drv "delete drv es" view for drv es view
proof unfold_locales
  fix w r w'
  assume iso: "tx_isolated drv view"
  note views = tx_isolatedD(1,2) [OF iso] unwrap_loop_view [OF iso]
  show "delete drv es w = (Ok a, w') \<Longrightarrow> \<exists>w1. view w1 = view w \<and> d_commit drv w1 = (None, w')" for a
    by (auto simp: delete_def split: exec_splits dest!: views)
  show "delete drv es w = (Err e, w') \<Longrightarrow>
      view w' = view w \<or> (\<exists>w1 d. view w1 = view w \<and> d_commit drv w1 = (Some d, w'))" for e
    by (auto simp: delete_def split: exec_splits dest!: views)
  show "delete drv es w = (Panic, w') \<Longrightarrow> view w' = view w"
    by (auto simp: delete_def split: exec_splits dest!: views)
qed

section \<open>The statements one after the other\<close>

text \<open>The reference: run every statement, whatever the earlier ones answered.\<close>

fun run_statements :: "'w sql_driver \<Rightarrow> sql list \<Rightarrow> 'w \<Rightarrow> driver_error option list \<times> 'w" where
  "run_statements drv [] w = ([], w)"
| "run_statements drv (q # qs) w =
     (case d_query_drop drv q w of (r, w1) \<Rightarrow>
      (case run_statements drv qs w1 of (rs, w2) \<Rightarrow> (r # rs, w2)))"

fun is_duplicate :: "driver_error option \<Rightarrow> bool" where
  "is_duplicate (Some (ServerError c m)) = (c = duplicate_code)"
| "is_duplicate _ = False"

lemma is_duplicate_iff: "is_duplicate r \<longleftrightarrow> (\<exists>m. r = Some (ServerError duplicate_code m))"
  by (cases r rule: is_duplicate.cases) auto

lemma mutate_loop_skips:
  "run_statements drv qs w = (rs, w') \<Longrightarrow> (\<And>r. r \<in> set rs \<Longrightarrow> r = None \<or> is_duplicate r) \<Longrightarrow>
   mutate_loop drv False qs dup w = (Ok (dup \<or> list_ex is_duplicate rs), w')"
proof (induction qs arbitrary: w rs dup)
  case Nil
  then show ?case by auto
next
  case (Cons q qs)
  obtain r w1 where q: "d_query_drop drv q w = (r, w1)" by fastforce
  obtain rs' where qs: "run_statements drv qs w1 = (rs', w')" and rs: "rs = r # rs'"
    using Cons.prems(1) by (auto simp: q split: prod.splits)
  have later: "\<And>x. x \<in> set rs' \<Longrightarrow> x = None \<or> is_duplicate x"
    using Cons.prems(2) by (simp add: rs)
  note IH = Cons.IH [OF qs later]
  from Cons.prems(2) [of r] show ?case
    by (auto simp: rs q IH is_duplicate_iff)
qed

lemma mutate_loop_clean:
  "run_statements drv qs w = (rs, w') \<Longrightarrow> (\<And>r. r \<in> set rs \<Longrightarrow> r = None) \<Longrightarrow>
   mutate_loop drv rb qs dup w = (Ok dup, w')"
proof (induction qs arbitrary: w rs)
  case Nil
  then show ?case by auto
next
  case (Cons q qs)
  obtain r w1 where q: "d_query_drop drv q w = (r, w1)" by fastforce
  obtain rs' where qs: "run_statements drv qs w1 = (rs', w')" and rs: "rs = r # rs'"
    using Cons.prems(1) by (auto simp: q split: prod.splits)
  have "r = None" and later: "\<And>x. x \<in> set rs' \<Longrightarrow> x = None"
    using Cons.prems(2) by (simp_all add: rs)
  with Cons.IH [OF qs later] show ?case by (simp add: q)
qed

lemma mutate_loop_strict:
  "mutate_loop drv True qs dup w = (Ok dup', w') \<Longrightarrow>
   dup' = dup \<and> (\<exists>rs. run_statements drv qs w = (rs, w') \<and> (\<forall>r \<in> set rs. r = None))"
proof (induction qs arbitrary: w)
  case Nil
  then show ?case by simp
next
  case (Cons q qs)
  obtain r w1 where q: "d_query_drop drv q w = (r, w1)" by fastforce
  have r: "r = None" and run: "mutate_loop drv True qs dup w1 = (Ok dup', w')"
    using Cons.prems by (auto simp: q split: option.splits driver_error.splits prod.splits)
  from Cons.IH [OF run] q r show ?case by auto
qed

end
