(* ===== verification/Pipeline.thy ===== *)
theory Pipeline
  imports Hash_Map Text
begin

text \<open>
  The recording pipeline of a meeting: the state \<open>Gstreamer\<close> keeps (\<open>src/gstreamer/mod.rs\<close>),
  \<open>Gstreamer::new\<close>, \<open>Gstreamer::handle_udp_src_failure\<close>, the bus loop that
  \<open>start_recording\<close> spawns, and the removal of participants from a running pipeline, which is the
  second half of \<open>close_all_producers_in_memory\<close> in \<open>src/mediasoupv1/mod.rs\<close>. Elements,
  pads and pipelines are handles of GStreamer (strings here); the calls on them are the record
  \<open>gst_ext\<close>. The computations run on the pair of the meeting's \<open>Inner\<close> and the world. Log
  lines and the mutexes around each map are left out: every map is locked for one block only, and
  a poisoned mutex is not modelled.
\<close>

section \<open>State\<close>

type_synonym element = string
type_synonym pad = string

datatype gst_state = GstNull | GstPaused | GstPlaying

record participant_session_meta =
  psm_meeting_id :: string
  psm_participant_id :: string
  psm_media :: string
  psm_port :: int
  psm_rtp_sink_pad :: pad
  psm_rtcp_sink_pad :: pad

record gst_inner =
  session_id :: "nat option"
  udp_src_element_audio_map :: "(string, element) hmap"
  udp_rtcp_src_element_audio_map :: "(string, element) hmap"
  udp_rtcp_sink_sink_element_audio_map :: "(string, element) hmap"
  queue_element_audio_map :: "(string, element) hmap"
  rtp_opus_de_pay_element_audio_map :: "(string, element) hmap"
  opus_dec_element_audio_map :: "(string, element) hmap"
  opus_enc_element_audio :: "element option"
  audio_mixed_pad_map :: "(string, pad) hmap"
  udp_src_element_video_map :: "(string, element) hmap"
  udp_rtcp_src_element_video_map :: "(string, element) hmap"
  queue_element_vp8_video_map :: "(string, element) hmap"
  rtp_vp8_de_pay_element_video_map :: "(string, element) hmap"
  vp8_dec_element_video_map :: "(string, element) hmap"
  udp_rtcp_sink_element_video_map :: "(string, element) hmap"
  caps_filter_element_video_map :: "(string, element) hmap"
  video_scale_element_video_map :: "(string, element) hmap"
  video_convert_element_video_map :: "(string, element) hmap"
  video_compositor_element :: "element option"
  video_compositor_pad_map :: "(string, pad) hmap"
  video_scale_post_compositor_element :: "element option"
  caps_filter_post_compositor_element :: "element option"
  x264_encode_element_video :: "element option"
  audio_mixer_element :: "element option"
  split_mux_sink_element :: "element option"
  split_mux_sink_video_pad :: "pad option"
  audio_pads_in_progress :: nat
  rtp_bin_element :: "element option"
  session_participant_meta_map :: "(nat, participant_session_meta) hmap"
  session_id_ssrc_map :: "(nat, nat list) hmap"

record gstreamer =
  gst_inner :: gst_inner
  audio_handler_id :: "string option"
  video_handler_id :: "string option"
  handler_id :: "string option"
  gst_pipeline :: "element option"
  gst_meeting_id :: "string option"
  gst_participant_id :: "string option"

definition inner_new :: gst_inner where
  "inner_new = \<lparr>session_id = None, udp_src_element_audio_map = [], udp_rtcp_src_element_audio_map = [],
     udp_rtcp_sink_sink_element_audio_map = [], queue_element_audio_map = [],
     rtp_opus_de_pay_element_audio_map = [], opus_dec_element_audio_map = [],
     opus_enc_element_audio = None, audio_mixed_pad_map = [], udp_src_element_video_map = [],
     udp_rtcp_src_element_video_map = [], queue_element_vp8_video_map = [],
     rtp_vp8_de_pay_element_video_map = [], vp8_dec_element_video_map = [],
     udp_rtcp_sink_element_video_map = [], caps_filter_element_video_map = [],
     video_scale_element_video_map = [], video_convert_element_video_map = [],
     video_compositor_element = None, video_compositor_pad_map = [],
     video_scale_post_compositor_element = None, caps_filter_post_compositor_element = None,
     x264_encode_element_video = None, audio_mixer_element = None, split_mux_sink_element = None,
     split_mux_sink_video_pad = None, audio_pads_in_progress = 0, rtp_bin_element = None,
     session_participant_meta_map = [], session_id_ssrc_map = []\<rparr>"

definition gstreamer_new :: gstreamer where
  "gstreamer_new = \<lparr>gst_inner = inner_new, audio_handler_id = None, video_handler_id = None,
     handler_id = None, gst_pipeline = None, gst_meeting_id = None, gst_participant_id = None\<rparr>"

text \<open>
  GStreamer's calls. A call that can fail returns \<open>Some\<close> of its error text; a call that answers an
  \<open>Option\<close> or an element returns \<open>None\<close> when it fails. \<open>x_make\<close> takes the factory, the name and the
  properties set while building; \<open>x_bus_post\<close> tells whether the message was accepted.
\<close>

record 'w gst_ext =
  x_set_state :: "element \<Rightarrow> gst_state \<Rightarrow> 'w \<Rightarrow> string option \<times> 'w"
  x_remove :: "element \<Rightarrow> element \<Rightarrow> 'w \<Rightarrow> string option \<times> 'w"
  x_remove_many :: "element \<Rightarrow> element list \<Rightarrow> 'w \<Rightarrow> string option \<times> 'w"
  x_abort_state :: "element \<Rightarrow> 'w \<Rightarrow> 'w"
  x_release_pad :: "element \<Rightarrow> pad \<Rightarrow> 'w \<Rightarrow> 'w"
  x_clear_ssrc :: "element \<Rightarrow> nat \<Rightarrow> nat \<Rightarrow> 'w \<Rightarrow> 'w"
  x_new_pipeline :: "string \<Rightarrow> 'w \<Rightarrow> element \<times> 'w"
  x_make :: "string \<Rightarrow> string \<Rightarrow> (string \<times> string) list \<Rightarrow> 'w \<Rightarrow> element option \<times> 'w"
  x_set_property :: "element \<Rightarrow> string \<Rightarrow> string \<Rightarrow> 'w \<Rightarrow> 'w"
  x_add_many :: "element \<Rightarrow> element list \<Rightarrow> 'w \<Rightarrow> string option \<times> 'w"
  x_static_pad :: "element \<Rightarrow> string \<Rightarrow> 'w \<Rightarrow> pad option \<times> 'w"
  x_request_pad :: "element \<Rightarrow> string \<Rightarrow> 'w \<Rightarrow> pad option \<times> 'w"
  x_link_pads :: "pad \<Rightarrow> pad \<Rightarrow> 'w \<Rightarrow> string option \<times> 'w"
  x_link_elements :: "element \<Rightarrow> element \<Rightarrow> 'w \<Rightarrow> string option \<times> 'w"
  x_pad_name :: "pad \<Rightarrow> string"
  x_pad_linked :: "pad \<Rightarrow> 'w \<Rightarrow> bool \<times> 'w"
  x_on_pad_added :: "element \<Rightarrow> 'w \<Rightarrow> string \<times> 'w"
  x_on_format_location :: "element \<Rightarrow> (nat \<Rightarrow> string) \<Rightarrow> 'w \<Rightarrow> 'w"
  x_bus_post :: "element \<Rightarrow> string \<Rightarrow> 'w \<Rightarrow> bool \<times> 'w"
  x_now_secs :: "'w \<Rightarrow> nat \<times> 'w"

type_synonym ('w, 'a) gst_eff = "(gst_inner \<times> 'w, 'a, string) eff"

definition on_gst_world :: "('w \<Rightarrow> 'a \<times> 'w) \<Rightarrow> ('w, 'a) gst_eff" where
  [eff_simps]: "on_gst_world f = (\<lambda>(g, w). case f w of (a, w') \<Rightarrow> (Ok a, (g, w')))"

definition touch_gst_world :: "('w \<Rightarrow> 'w) \<Rightarrow> ('w, unit) gst_eff" where
  [eff_simps]: "touch_gst_world f = (\<lambda>(g, w). (Ok (), (g, f w)))"

section \<open>Taking the elements of participants out of the maps\<close>

text \<open>
  The block the code repeats for every element map: for each participant, take the element out of
  the map and set it to \<open>Null\<close> (a failure is only logged); the elements taken are collected.
\<close>

fun drain :: "'w gst_ext \<Rightarrow> string list \<Rightarrow> (string, element) hmap \<Rightarrow> 'w \<Rightarrow>
    element list \<times> (string, element) hmap \<times> 'w" where
  "drain x [] m w = ([], m, w)"
| "drain x (i # is) m w =
     (case hm_get m i of
        None \<Rightarrow> drain x is m w
      | Some e \<Rightarrow>
          (case x_set_state x e GstNull w of (_, w1) \<Rightarrow>
           (case drain x is (hm_remove i m) w1 of (es, m', w') \<Rightarrow> (e # es, m', w'))))"

definition drain_field :: "'w gst_ext \<Rightarrow> string list \<Rightarrow> (gst_inner \<Rightarrow> (string, element) hmap) \<Rightarrow>
    (((string, element) hmap \<Rightarrow> (string, element) hmap) \<Rightarrow> gst_inner \<Rightarrow> gst_inner) \<Rightarrow>
    ('w, element list) gst_eff" where
  "drain_field x ids get upd = (\<lambda>(g, w).
     case drain x ids (get g) w of (es, m, w') \<Rightarrow> (Ok es, (upd (\<lambda>_. m) g, w')))"

text \<open>Pads of the audio mixer are taken out of their map and not set to any state.\<close>

fun drain_pads :: "string list \<Rightarrow> (string, pad) hmap \<Rightarrow> pad list \<times> (string, pad) hmap" where
  "drain_pads [] m = ([], m)"
| "drain_pads (i # is) m =
     (case hm_get m i of
        None \<Rightarrow> drain_pads is m
      | Some p \<Rightarrow> (case drain_pads is (hm_remove i m) of (ps, m') \<Rightarrow> (p # ps, m')))"

definition release_mixer_pads :: "'w gst_ext \<Rightarrow> string list \<Rightarrow> ('w, unit) gst_eff" where
  "release_mixer_pads x ids = (\<lambda>(g, w).
     case drain_pads ids (audio_mixed_pad_map g) of (ps, m) \<Rightarrow>
       (Ok (), (g\<lparr>audio_mixed_pad_map := m\<rparr>,
                case audio_mixer_element g of
                  None \<Rightarrow> w
                | Some mixer \<Rightarrow> fold (x_release_pad x mixer) ps w)))"

text \<open>What the first phase of the removal collects.\<close>

record detached =
  dt_udp_src_audio :: "element list"
  dt_audio_left :: nat
  dt_udp_src_video :: "element list"
  dt_video_left :: nat
  dt_udp_rtcp_src_audio :: "element list"
  dt_queue_audio :: "element list"
  dt_depay_audio :: "element list"
  dt_dec_audio :: "element list"
  dt_rtcp_sink_audio :: "element list"
  dt_udp_rtcp_src_video :: "element list"
  dt_queue_video :: "element list"
  dt_depay_video :: "element list"
  dt_dec_video :: "element list"
  dt_caps_video :: "element list"
  dt_scale_video :: "element list"
  dt_convert_video :: "element list"

definition no_detached :: detached where
  "no_detached = \<lparr>dt_udp_src_audio = [], dt_audio_left = 0, dt_udp_src_video = [], dt_video_left = 0,
     dt_udp_rtcp_src_audio = [], dt_queue_audio = [], dt_depay_audio = [], dt_dec_audio = [],
     dt_rtcp_sink_audio = [], dt_udp_rtcp_src_video = [], dt_queue_video = [], dt_depay_video = [],
     dt_dec_video = [], dt_caps_video = [], dt_scale_video = [], dt_convert_video = []\<rparr>"

definition detach_sources :: "'w gst_ext \<Rightarrow> string list \<Rightarrow> ('w, detached) gst_eff" where
  "detach_sources x ids =
     and_then (drain_field x ids udp_src_element_audio_map udp_src_element_audio_map_update) (\<lambda>sa.
     and_then (gets (\<lambda>(g, _). length (udp_src_element_audio_map g))) (\<lambda>la.
     and_then (drain_field x ids udp_src_element_video_map udp_src_element_video_map_update) (\<lambda>sv.
     and_then (gets (\<lambda>(g, _). length (udp_src_element_video_map g))) (\<lambda>lv.
     and_then (drain_field x ids udp_rtcp_src_element_audio_map udp_rtcp_src_element_audio_map_update) (\<lambda>ra.
     ret (no_detached\<lparr>dt_udp_src_audio := sa, dt_audio_left := la, dt_udp_src_video := sv,
            dt_video_left := lv, dt_udp_rtcp_src_audio := ra\<rparr>))))))"

definition detach_audio_chain :: "'w gst_ext \<Rightarrow> string list \<Rightarrow> detached \<Rightarrow> ('w, detached) gst_eff" where
  "detach_audio_chain x ids d =
     and_then (drain_field x ids queue_element_audio_map queue_element_audio_map_update) (\<lambda>qa.
     and_then (drain_field x ids rtp_opus_de_pay_element_audio_map rtp_opus_de_pay_element_audio_map_update) (\<lambda>da.
     and_then (drain_field x ids opus_dec_element_audio_map opus_dec_element_audio_map_update) (\<lambda>oa.
     and_then (drain_field x ids udp_rtcp_sink_sink_element_audio_map udp_rtcp_sink_sink_element_audio_map_update) (\<lambda>ka.
     and_then (release_mixer_pads x ids) (\<lambda>_.
     ret (d\<lparr>dt_queue_audio := qa, dt_depay_audio := da, dt_dec_audio := oa, dt_rtcp_sink_audio := ka\<rparr>))))))"

definition detach_video_chain :: "'w gst_ext \<Rightarrow> string list \<Rightarrow> detached \<Rightarrow> ('w, detached) gst_eff" where
  "detach_video_chain x ids d =
     and_then (drain_field x ids udp_rtcp_src_element_video_map udp_rtcp_src_element_video_map_update) (\<lambda>rv.
     and_then (drain_field x ids queue_element_vp8_video_map queue_element_vp8_video_map_update) (\<lambda>qv.
     and_then (drain_field x ids rtp_vp8_de_pay_element_video_map rtp_vp8_de_pay_element_video_map_update) (\<lambda>dv.
     and_then (drain_field x ids vp8_dec_element_video_map vp8_dec_element_video_map_update) (\<lambda>ov.
     and_then (drain_field x ids caps_filter_element_video_map caps_filter_element_video_map_update) (\<lambda>cv.
     and_then (drain_field x ids video_scale_element_video_map video_scale_element_video_map_update) (\<lambda>sv.
     and_then (drain_field x ids video_convert_element_video_map video_convert_element_video_map_update) (\<lambda>vv.
     ret (d\<lparr>dt_udp_rtcp_src_video := rv, dt_queue_video := qv, dt_depay_video := dv, dt_dec_video := ov,
            dt_caps_video := cv, dt_scale_video := sv, dt_convert_video := vv\<rparr>))))))))"

text \<open>The elements in the order of the code's \<open>remove_elements\<close>.\<close>

definition remove_elements :: "detached \<Rightarrow> element list" where
  "remove_elements d =
     dt_udp_src_audio d @ dt_udp_src_video d @ dt_udp_rtcp_src_audio d @ dt_queue_audio d @
     dt_depay_audio d @ dt_dec_audio d @ dt_rtcp_sink_audio d @ dt_udp_rtcp_src_video d @
     dt_queue_video d @ dt_depay_video d @ dt_dec_video d @ dt_caps_video d @ dt_scale_video d @
     dt_convert_video d"

text \<open>The sessions of the participants, dropped from the session map by \<open>retain\<close>.\<close>

definition drop_sessions :: "(participant_session_meta \<Rightarrow> bool) \<Rightarrow>
    ('w, (nat \<times> participant_session_meta) list) gst_eff" where
  "drop_sessions gone = (\<lambda>(g, w).
     (Ok (filter (\<lambda>e. gone (snd e)) (session_participant_meta_map g)),
      (g\<lparr>session_participant_meta_map :=
           filter (\<lambda>e. \<not> gone (snd e)) (session_participant_meta_map g)\<rparr>, w)))"

section \<open>Removing them from the running pipeline\<close>

definition set_state_or :: "'w gst_ext \<Rightarrow> (string \<Rightarrow> string) \<Rightarrow> element \<Rightarrow> gst_state \<Rightarrow> ('w, unit) gst_eff" where
  "set_state_or x msg e st =
     and_then (on_gst_world (x_set_state x e st)) (\<lambda>r.
     case r of None \<Rightarrow> ret () | Some err \<Rightarrow> fail (msg err))"

definition remove_or :: "'w gst_ext \<Rightarrow> element \<Rightarrow> string \<Rightarrow> element list \<Rightarrow> ('w, unit) gst_eff" where
  "remove_or x pipeline what es =
     and_then (on_gst_world (x_remove_many x pipeline es)) (\<lambda>r.
     case r of None \<Rightarrow> ret ()
     | Some err \<Rightarrow> fail (''Failed to remove '' @ what @ '' from pipeline: '' @ err))"

fun null_all :: "'w gst_ext \<Rightarrow> element list \<Rightarrow> ('w, unit) gst_eff" where
  "null_all x [] = ret ()"
| "null_all x (e # es) =
     and_then (set_state_or x (\<lambda>err. ''Failed to set element to Null: '' @ err) e GstNull) (\<lambda>_.
     null_all x es)"

definition clear_session :: "'w gst_ext \<Rightarrow> element \<Rightarrow> nat \<Rightarrow> ('w, unit) gst_eff" where
  "clear_session x rtp_bin sid = (\<lambda>(g, w).
     case hm_get (session_id_ssrc_map g) sid of
       None \<Rightarrow> (Ok (), (g, w))
     | Some ssrcs \<Rightarrow>
         (Ok (), (g\<lparr>session_id_ssrc_map := hm_remove sid (session_id_ssrc_map g)\<rparr>,
                  fold (x_clear_ssrc x rtp_bin sid) ssrcs w)))"

fun clear_sessions :: "'w gst_ext \<Rightarrow> element \<Rightarrow> nat list \<Rightarrow> ('w, unit) gst_eff" where
  "clear_sessions x rtp_bin [] = ret ()"
| "clear_sessions x rtp_bin (s # ss) =
     and_then (clear_session x rtp_bin s) (\<lambda>_. clear_sessions x rtp_bin ss)"

definition release_session_pads :: "'w gst_ext \<Rightarrow> (nat \<times> participant_session_meta) list \<Rightarrow> ('w, unit) gst_eff" where
  "release_session_pads x sessions =
     and_then (gets (\<lambda>(g, _). rtp_bin_element g)) (\<lambda>rtp_bin_element.
     case rtp_bin_element of
       None \<Rightarrow> fail ''RTP bin element not found''
     | Some rtp_bin \<Rightarrow>
         and_then (clear_sessions x rtp_bin (map fst sessions)) (\<lambda>_.
         touch_gst_world (\<lambda>w.
           fold (x_release_pad x rtp_bin) (map (psm_rtp_sink_pad \<circ> snd) sessions)
             (fold (x_release_pad x rtp_bin) (map (psm_rtcp_sink_pad \<circ> snd) sessions) w))))"

definition remove_audio_chain :: "'w gst_ext \<Rightarrow> element \<Rightarrow> detached \<Rightarrow> ('w, unit) gst_eff" where
  "remove_audio_chain x pipeline d =
     and_then (remove_or x pipeline ''udp_rtcp_sink_sink_elements'' (dt_rtcp_sink_audio d)) (\<lambda>_.
     and_then (remove_or x pipeline ''queue_elements'' (dt_queue_audio d)) (\<lambda>_.
     and_then (remove_or x pipeline ''rtp_opus_de_pay_elements'' (dt_depay_audio d)) (\<lambda>_.
     remove_or x pipeline ''opus_dec_elements'' (dt_dec_audio d))))"

definition remove_video_chain :: "'w gst_ext \<Rightarrow> element \<Rightarrow> detached \<Rightarrow> ('w, unit) gst_eff" where
  "remove_video_chain x pipeline d =
     and_then (remove_or x pipeline ''udp_src_elements_video'' (dt_udp_src_video d)) (\<lambda>_.
     and_then (remove_or x pipeline ''udp_rtcp_src_elements_video'' (dt_udp_rtcp_src_video d)) (\<lambda>_.
     and_then (remove_or x pipeline ''queue_elements_video'' (dt_queue_video d)) (\<lambda>_.
     and_then (remove_or x pipeline ''rtp_vp8_de_pay_elements_video'' (dt_depay_video d)) (\<lambda>_.
     and_then (remove_or x pipeline ''vp8_dec_elements_video'' (dt_dec_video d)) (\<lambda>_.
     and_then (remove_or x pipeline ''caps_elements_video'' (dt_caps_video d)) (\<lambda>_.
     and_then (remove_or x pipeline ''video_scale_elements_video'' (dt_scale_video d)) (\<lambda>_.
     remove_or x pipeline ''video_convert_elements_video'' (dt_convert_video d))))))))"

definition teardown :: "'w gst_ext \<Rightarrow> element \<Rightarrow> detached \<Rightarrow> (nat \<times> participant_session_meta) list \<Rightarrow>
    ('w, unit) gst_eff" where
  "teardown x pipeline d sessions =
     and_then (set_state_or x (\<lambda>_. ''Failed to pause pipeline'') pipeline GstPaused) (\<lambda>_.
     and_then (null_all x (remove_elements d)) (\<lambda>_.
     and_then (remove_or x pipeline ''udp_src_elements'' (dt_udp_src_audio d)) (\<lambda>_.
     and_then (remove_or x pipeline ''udp_rtcp_src_elements'' (dt_udp_rtcp_src_audio d)) (\<lambda>_.
     and_then (release_session_pads x sessions) (\<lambda>_.
     and_then (remove_audio_chain x pipeline d) (\<lambda>_.
     and_then (remove_video_chain x pipeline d) (\<lambda>_.
     if dt_audio_left d > 0 \<or> dt_video_left d > 0
     then set_state_or x (\<lambda>_. ''Failed to set pipeline to Playing'') pipeline GstPlaying
     else ret ())))))))"

definition detach_participants :: "'w gst_ext \<Rightarrow> string list \<Rightarrow> element \<Rightarrow> ('w, unit) gst_eff" where
  "detach_participants x ids pipeline =
     and_then (detach_sources x ids) (\<lambda>d0.
     and_then (detach_audio_chain x ids d0) (\<lambda>d1.
     and_then (detach_video_chain x ids d1) (\<lambda>d.
     and_then (drop_sessions (\<lambda>m. psm_participant_id m \<in> set ids)) (\<lambda>sessions.
     teardown x pipeline d sessions))))"

section \<open>A failing UDP source\<close>

definition take_entry :: "string \<Rightarrow> (gst_inner \<Rightarrow> (string, element) hmap) \<Rightarrow>
    (((string, element) hmap \<Rightarrow> (string, element) hmap) \<Rightarrow> gst_inner \<Rightarrow> gst_inner) \<Rightarrow>
    ('w, element option) gst_eff" where
  "take_entry k get upd = (\<lambda>(g, w). (Ok (hm_get (get g) k), (upd (hm_remove k) g, w)))"

definition drop_failed_element :: "'w gst_ext \<Rightarrow> element \<Rightarrow> element option \<Rightarrow> ('w, unit) gst_eff" where
  "drop_failed_element x pipeline e =
     (case e of
        None \<Rightarrow> ret ()
      | Some el \<Rightarrow>
          and_then (on_gst_world (x_set_state x el GstNull)) (\<lambda>_.
          and_then (on_gst_world (x_remove x pipeline el)) (\<lambda>_. ret ())))"

definition handle_udp_src_failure :: "'w gst_ext \<Rightarrow> element option \<Rightarrow> string \<Rightarrow> string \<Rightarrow> ('w, unit) gst_eff" where
  "handle_udp_src_failure x pipeline_option participant_id media =
     and_then (if media = ''audio''
               then take_entry participant_id udp_src_element_audio_map udp_src_element_audio_map_update
               else take_entry participant_id udp_src_element_video_map udp_src_element_video_map_update) (\<lambda>udp_src.
     and_then (if media = ''audio''
               then take_entry participant_id udp_rtcp_src_element_audio_map udp_rtcp_src_element_audio_map_update
               else take_entry participant_id udp_rtcp_src_element_video_map udp_rtcp_src_element_video_map_update) (\<lambda>udp_rtcp.
     and_then (gets (\<lambda>(g, _). rtp_bin_element g)) (\<lambda>rb.
     and_then (unwrap rb) (\<lambda>rtp_bin.
     and_then (drop_sessions (\<lambda>m. participant_id = psm_participant_id m \<and> media = psm_media m)) (\<lambda>sessions.
     and_then (unwrap pipeline_option) (\<lambda>pipeline.
     and_then (touch_gst_world (x_abort_state x pipeline)) (\<lambda>_.
     and_then (drop_failed_element x pipeline udp_src) (\<lambda>_.
     and_then (drop_failed_element x pipeline udp_rtcp) (\<lambda>_.
     touch_gst_world (\<lambda>w.
       fold (x_release_pad x rtp_bin) (map (psm_rtp_sink_pad \<circ> snd) sessions)
         (fold (x_release_pad x rtp_bin) (map (psm_rtcp_sink_pad \<circ> snd) sessions) w)))))))))))"

section \<open>The bus loop\<close>

text \<open>
  The thread \<open>start_recording\<close> spawns for a new pipeline reads its bus until the end of the
  stream or an error; it restarts the pipeline after a not-linked error. The messages are the
  list; the result is the number of failures counted.
\<close>

datatype bus_message = BusEos | BusError "string option" | BusOther

definition not_linked_text :: string where
  "not_linked_text = ''reason not-linked (-1)''"

definition set_state_logged :: "'w gst_ext \<Rightarrow> element \<Rightarrow> gst_state \<Rightarrow> 'w \<Rightarrow> 'w" where
  "set_state_logged x e st w = snd (x_set_state x e st w)"

fun bus_loop :: "'w gst_ext \<Rightarrow> element \<Rightarrow> bus_message list \<Rightarrow> nat \<Rightarrow> ('w, nat, string) eff" where
  "bus_loop x p [] n w = (Ok n, set_state_logged x p GstNull w)"
| "bus_loop x p (BusEos # ms) n w =
     (Ok n, set_state_logged x p GstNull (set_state_logged x p GstNull w))"
| "bus_loop x p (BusError dbg # ms) n w =
     (if (case dbg of None \<Rightarrow> False | Some t \<Rightarrow> str_contains t not_linked_text)
      then (case x_set_state x p GstNull w of
              (Some _, w1) \<Rightarrow> (Panic, w1)
            | (None, w1) \<Rightarrow>
                (case x_set_state x p GstPlaying w1 of
                   (Some _, w2) \<Rightarrow> (Panic, w2)
                 | (None, w2) \<Rightarrow> bus_loop x p ms n w2))
      else (Ok (Suc n), set_state_logged x p GstNull w))"
| "bus_loop x p (BusOther # ms) n w = bus_loop x p ms n w"


section \<open>Lemmas\<close>

text \<open>What \<open>drain\<close> computes: the elements found, the map without the participants.\<close>

fun drained :: "string list \<Rightarrow> (string, element) hmap \<Rightarrow> element list" where
  "drained [] m = []"
| "drained (i # is) m =
     (case hm_get m i of None \<Rightarrow> drained is m | Some e \<Rightarrow> e # drained is (hm_remove i m))"

lemma hm_remove_absent: "hm_get m k = None \<Longrightarrow> hm_remove k m = m"
  by (auto simp: hm_remove_def hm_get_def map_of_eq_None_iff filter_id_conv)

lemma drain_eq:
  "drain x ids m w =
     (drained ids m, hm_remove_all ids m, fold (\<lambda>e. set_state_logged x e GstNull) (drained ids m) w)"
proof (induction ids arbitrary: m w)
  case Nil
  then show ?case by simp
next
  case (Cons i "is")
  show ?case
  proof (cases "hm_get m i")
    case None
    then show ?thesis
      using Cons by (simp add: hm_remove_all_def hm_remove_absent)
  next
    case (Some e)
    then show ?thesis
      using Cons by (simp add: hm_remove_all_def set_state_logged_def split: prod.splits)
  qed
qed

lemma drain_pads_eq: "snd (drain_pads ids m) = hm_remove_all ids m"
proof (induction ids arbitrary: m)
  case Nil
  then show ?case by simp
next
  case (Cons i "is")
  then show ?case
    by (cases "hm_get m i")
      (simp_all add: hm_remove_all_def hm_remove_absent split_beta)
qed

lemma drain_field_run:
  "drain_field x ids get upd (g, w) =
     (Ok (drained ids (get g)),
      (upd (\<lambda>_. hm_remove_all ids (get g)) g,
       fold (\<lambda>e. set_state_logged x e GstNull) (drained ids (get g)) w))"
  by (simp add: drain_field_def drain_eq)

text \<open>The maps that hold something of a participant, in the order they are emptied.\<close>

definition participant_maps :: "gst_inner \<Rightarrow> (string, string) hmap list" where
  "participant_maps g =
     [udp_src_element_audio_map g, udp_src_element_video_map g, udp_rtcp_src_element_audio_map g,
      queue_element_audio_map g, rtp_opus_de_pay_element_audio_map g, opus_dec_element_audio_map g,
      udp_rtcp_sink_sink_element_audio_map g, audio_mixed_pad_map g, udp_rtcp_src_element_video_map g,
      queue_element_vp8_video_map g, rtp_vp8_de_pay_element_video_map g, vp8_dec_element_video_map g,
      caps_filter_element_video_map g, video_scale_element_video_map g, video_convert_element_video_map g]"

lemma detach_sources_run:
  "\<exists>d w'. detach_sources x ids (g, w) = (Ok d, (g\<lparr>
       udp_src_element_audio_map := hm_remove_all ids (udp_src_element_audio_map g),
       udp_src_element_video_map := hm_remove_all ids (udp_src_element_video_map g),
       udp_rtcp_src_element_audio_map := hm_remove_all ids (udp_rtcp_src_element_audio_map g)\<rparr>, w')) \<and>
     dt_audio_left d = length (hm_remove_all ids (udp_src_element_audio_map g)) \<and>
     dt_video_left d = length (hm_remove_all ids (udp_src_element_video_map g))"
  by (simp add: detach_sources_def and_then_def gets_def ret_def drain_field_run)

lemma detach_audio_chain_run:
  "\<exists>d' w'. detach_audio_chain x ids d (g, w) = (Ok d', (g\<lparr>
       queue_element_audio_map := hm_remove_all ids (queue_element_audio_map g),
       rtp_opus_de_pay_element_audio_map := hm_remove_all ids (rtp_opus_de_pay_element_audio_map g),
       opus_dec_element_audio_map := hm_remove_all ids (opus_dec_element_audio_map g),
       udp_rtcp_sink_sink_element_audio_map := hm_remove_all ids (udp_rtcp_sink_sink_element_audio_map g),
       audio_mixed_pad_map := hm_remove_all ids (audio_mixed_pad_map g)\<rparr>, w')) \<and>
     dt_audio_left d' = dt_audio_left d \<and> dt_video_left d' = dt_video_left d"
  using drain_pads_eq [of ids "audio_mixed_pad_map g"]
  by (auto simp: detach_audio_chain_def and_then_def ret_def drain_field_run release_mixer_pads_def
      split: prod.splits)

lemma detach_video_chain_run:
  "\<exists>d' w'. detach_video_chain x ids d (g, w) = (Ok d', (g\<lparr>
       udp_rtcp_src_element_video_map := hm_remove_all ids (udp_rtcp_src_element_video_map g),
       queue_element_vp8_video_map := hm_remove_all ids (queue_element_vp8_video_map g),
       rtp_vp8_de_pay_element_video_map := hm_remove_all ids (rtp_vp8_de_pay_element_video_map g),
       vp8_dec_element_video_map := hm_remove_all ids (vp8_dec_element_video_map g),
       caps_filter_element_video_map := hm_remove_all ids (caps_filter_element_video_map g),
       video_scale_element_video_map := hm_remove_all ids (video_scale_element_video_map g),
       video_convert_element_video_map := hm_remove_all ids (video_convert_element_video_map g)\<rparr>, w')) \<and>
     dt_audio_left d' = dt_audio_left d \<and> dt_video_left d' = dt_video_left d"
  by (simp add: detach_video_chain_def and_then_def ret_def drain_field_run)

text \<open>The teardown changes the state of the world and the SSRC map only.\<close>

definition frame :: "(string, string) hmap list \<Rightarrow> (nat, participant_session_meta) hmap \<Rightarrow>
    gst_inner \<times> 'w \<Rightarrow> bool" where
  "frame ms sm = (\<lambda>(g, w). participant_maps g = ms \<and> session_participant_meta_map g = sm)"

lemma keeps_on_gst_world [keeps_intros]: "keeps (frame ms sm) (on_gst_world f)"
  by (auto simp: keeps_def frame_def on_gst_world_def split: prod.splits)

lemma keeps_touch_gst_world [keeps_intros]: "keeps (frame ms sm) (touch_gst_world f)"
  by (auto simp: keeps_def frame_def touch_gst_world_def)

lemma keeps_set_state_or [keeps_intros]: "keeps (frame ms sm) (set_state_or x msg e st)"
  unfolding set_state_or_def by (intro keeps_intros)

lemma keeps_remove_or [keeps_intros]: "keeps (frame ms sm) (remove_or x p what es)"
  unfolding remove_or_def by (intro keeps_intros)

lemma keeps_null_all [keeps_intros]: "keeps (frame ms sm) (null_all x es)"
  by (induction es) (auto intro!: keeps_intros)

lemma keeps_clear_session [keeps_intros]: "keeps (frame ms sm) (clear_session x rb sid)"
  by (auto simp: keeps_def frame_def clear_session_def participant_maps_def split: option.splits prod.splits)

lemma keeps_clear_sessions [keeps_intros]: "keeps (frame ms sm) (clear_sessions x rb ss)"
  by (induction ss) (auto intro!: keeps_intros)

lemma keeps_teardown: "keeps (frame ms sm) (teardown x p d sessions)"
  unfolding teardown_def release_session_pads_def remove_audio_chain_def remove_video_chain_def
  by (intro keeps_intros)

lemma detach_participants_run:
  assumes "detach_participants x ids p (g, w) = (r, (g', w'))"
  shows "participant_maps g' = map (hm_remove_all ids) (participant_maps g)"
    and "session_participant_meta_map g' =
      filter (\<lambda>e. psm_participant_id (snd e) \<notin> set ids) (session_participant_meta_map g)"
proof -
  define ms where "ms = map (hm_remove_all ids) (participant_maps g)"
  define sm where "sm = filter (\<lambda>e. psm_participant_id (snd e) \<notin> set ids) (session_participant_meta_map g)"
  obtain d0 w0 where 0: "detach_sources x ids (g, w) = (Ok d0, (g\<lparr>
       udp_src_element_audio_map := hm_remove_all ids (udp_src_element_audio_map g),
       udp_src_element_video_map := hm_remove_all ids (udp_src_element_video_map g),
       udp_rtcp_src_element_audio_map := hm_remove_all ids (udp_rtcp_src_element_audio_map g)\<rparr>, w0))"
    (is "_ = (_, (?g0, _))")
    using detach_sources_run [of x ids g w] by blast
  obtain d1 w1 g1 where 1: "detach_audio_chain x ids d0 (?g0, w0) = (Ok d1, (g1, w1))"
    and g1: "g1 = ?g0\<lparr>
       queue_element_audio_map := hm_remove_all ids (queue_element_audio_map ?g0),
       rtp_opus_de_pay_element_audio_map := hm_remove_all ids (rtp_opus_de_pay_element_audio_map ?g0),
       opus_dec_element_audio_map := hm_remove_all ids (opus_dec_element_audio_map ?g0),
       udp_rtcp_sink_sink_element_audio_map := hm_remove_all ids (udp_rtcp_sink_sink_element_audio_map ?g0),
       audio_mixed_pad_map := hm_remove_all ids (audio_mixed_pad_map ?g0)\<rparr>"
    using detach_audio_chain_run [of x ids d0 ?g0 w0] by blast
  obtain d2 w2 g2 where 2: "detach_video_chain x ids d1 (g1, w1) = (Ok d2, (g2, w2))"
    and g2: "g2 = g1\<lparr>
       udp_rtcp_src_element_video_map := hm_remove_all ids (udp_rtcp_src_element_video_map g1),
       queue_element_vp8_video_map := hm_remove_all ids (queue_element_vp8_video_map g1),
       rtp_vp8_de_pay_element_video_map := hm_remove_all ids (rtp_vp8_de_pay_element_video_map g1),
       vp8_dec_element_video_map := hm_remove_all ids (vp8_dec_element_video_map g1),
       caps_filter_element_video_map := hm_remove_all ids (caps_filter_element_video_map g1),
       video_scale_element_video_map := hm_remove_all ids (video_scale_element_video_map g1),
       video_convert_element_video_map := hm_remove_all ids (video_convert_element_video_map g1)\<rparr>"
    using detach_video_chain_run [of x ids d1 g1 w1] by blast
  define g3 where "g3 = g2\<lparr>session_participant_meta_map := sm\<rparr>"
  have "session_participant_meta_map g2 = session_participant_meta_map g"
    by (simp add: g2 g1)
  then have run: "\<exists>ss. teardown x p d2 ss (g3, w2) = (r, (g', w'))"
    using assms 0 1 2
    by (auto simp: detach_participants_def and_then_def drop_sessions_def g3_def sm_def)
  have start: "frame ms sm (g3, w2)"
    by (simp add: frame_def g3_def g2 g1 participant_maps_def ms_def)
  from run obtain ss where "teardown x p d2 ss (g3, w2) = (r, (g', w'))" by blast
  from keepsD [OF keeps_teardown start this]
  show "participant_maps g' = map (hm_remove_all ids) (participant_maps g)"
    and "session_participant_meta_map g' =
      filter (\<lambda>e. psm_participant_id (snd e) \<notin> set ids) (session_participant_meta_map g)"
    by (simp_all add: frame_def ms_def sm_def)
qed

end
