(* ===== verification/Recording.thy ===== *)
theory Recording
  imports Pipeline
begin

text \<open>
  Building the recording pipeline of a meeting (\<open>src/gstreamer/mod.rs\<close>): the audio and the VP8
  source of a participant, and the elements all participants share (rtpbin, mixer, encoders,
  compositor, splitmuxsink). The computations run on the \<open>Inner\<close> of the meeting and the world, as in \<open>Pipeline\<close>. The failure
  counters only feed the meter and are left out like the log lines.
\<close>

section \<open>Calls that end the function\<close>

definition must :: "string \<Rightarrow> ('w \<Rightarrow> string option \<times> 'w) \<Rightarrow> ('w, unit) gst_eff" where
  "must err f = and_then (on_gst_world f) (\<lambda>r. case r of None \<Rightarrow> ret () | Some _ \<Rightarrow> fail err)"

definition must_have :: "string \<Rightarrow> ('w \<Rightarrow> 'a option \<times> 'w) \<Rightarrow> ('w, 'a) gst_eff" where
  "must_have err f = and_then (on_gst_world f) (\<lambda>r. case r of Some a \<Rightarrow> ret a | None \<Rightarrow> fail err)"

definition expect_some :: "('w \<Rightarrow> 'a option \<times> 'w) \<Rightarrow> ('w, 'a) gst_eff" where
  "expect_some f = and_then (on_gst_world f) unwrap"

definition expect_done :: "('w \<Rightarrow> string option \<times> 'w) \<Rightarrow> ('w, unit) gst_eff" where
  "expect_done f = and_then (on_gst_world f) (\<lambda>r. case r of None \<Rightarrow> ret () | Some _ \<Rightarrow> panic)"

definition set_inner :: "(gst_inner \<Rightarrow> gst_inner) \<Rightarrow> ('w, unit) gst_eff" where
  "set_inner f = modify (\<lambda>(gi, w). (f gi, w))"

section \<open>The elements of a source\<close>

definition rtp_caps :: "string \<Rightarrow> string \<Rightarrow> string \<Rightarrow> string \<Rightarrow> string" where
  "rtp_caps media rate encoding payload =
     ''application/x-rtp, media='' @ media @ '', clock-rate='' @ rate @ '', encoding-name='' @ encoding @
     '', payload='' @ payload"

definition set_properties :: "'w gst_ext \<Rightarrow> element \<Rightarrow> (string \<times> string) list \<Rightarrow> ('w, unit) gst_eff" where
  "set_properties x e ps = touch_gst_world (fold (\<lambda>(k, v). x_set_property x e k v) ps)"

definition element_name :: "string \<Rightarrow> string \<Rightarrow> nat \<Rightarrow> string" where
  "element_name prefix participant_id ts = prefix @ ''_'' @ participant_id @ ''_'' @ show_nat ts"

definition shared_name :: "string \<Rightarrow> nat \<Rightarrow> string" where
  "shared_name prefix ts = prefix @ ''_'' @ show_nat ts"

definition make_or :: "'w gst_ext \<Rightarrow> string \<Rightarrow> string \<Rightarrow> (string \<times> string) list \<Rightarrow> ('w, element) gst_eff" where
  "make_or x factory name ps = must_have (''Failed to create '' @ factory @ '' element'') (x_make x factory name ps)"

definition local_properties :: "int \<Rightarrow> (string \<times> string) list" where
  "local_properties port = [(''address'', ''127.0.0.1''), (''port'', show_int port)]"

text \<open>The RTCP sink: made by the audio builder and by the pad handler.\<close>

definition sink_properties :: "int \<Rightarrow> (string \<times> string) list" where
  "sink_properties port = [(''host'', ''127.0.0.1''), (''port'', show_int port), (''async'', ''false''), (''sync'', ''false'')]"

definition make_audio_source :: "'w gst_ext \<Rightarrow> string \<Rightarrow> int \<Rightarrow> nat \<Rightarrow> ('w, element \<times> element) gst_eff" where
  "make_audio_source x p port ts =
     and_then (make_or x ''udpsrc'' (element_name ''udpsrc_rtp_audio'' p ts) []) (\<lambda>src.
     and_then (set_properties x src (local_properties port @
         [(''caps'', rtp_caps ''audio'' ''48000'' ''OPUS'' ''111''), (''reuse'', ''false'')])) (\<lambda>_.
     and_then (set_inner (udp_src_element_audio_map_update (hm_insert p src))) (\<lambda>_.
     and_then (make_or x ''udpsrc'' (element_name ''udpsrc_rtcp_audio'' p ts) []) (\<lambda>rtcp.
     and_then (set_properties x rtcp (local_properties (port + 1) @ [(''reuse'', ''false'')])) (\<lambda>_.
     and_then (set_inner (udp_rtcp_src_element_audio_map_update (hm_insert p rtcp))) (\<lambda>_.
     and_then (make_or x ''udpsink'' (element_name ''udpsink_rtcp_audio'' p ts) []) (\<lambda>sink.
     and_then (set_properties x sink (sink_properties (port + 1))) (\<lambda>_.
     ret (src, rtcp)))))))))"

definition make_video_source :: "'w gst_ext \<Rightarrow> string \<Rightarrow> int \<Rightarrow> nat \<Rightarrow> ('w, element) gst_eff" where
  "make_video_source x p port ts =
     and_then (make_or x ''udpsrc'' (element_name ''udpsrc_vp8_video'' p ts) []) (\<lambda>src.
     and_then (set_properties x src (local_properties port @
         [(''caps'', rtp_caps ''video'' ''90000'' ''VP8'' ''96''), (''reuse'', ''false'')])) (\<lambda>_.
     and_then (set_inner (udp_src_element_video_map_update (hm_insert p src))) (\<lambda>_.
     ret src)))"

definition make_video_rtcp_source :: "'w gst_ext \<Rightarrow> string \<Rightarrow> int \<Rightarrow> nat \<Rightarrow> ('w, element) gst_eff" where
  "make_video_rtcp_source x p port ts =
     and_then (make_or x ''udpsrc'' (element_name ''udpsrc_rtcp_vp8_video'' p ts) []) (\<lambda>rtcp.
     and_then (set_properties x rtcp (local_properties (port + 1) @ [(''reuse'', ''false'')])) (\<lambda>_.
     and_then (set_inner (udp_rtcp_src_element_video_map_update (hm_insert p rtcp))) (\<lambda>_.
     ret rtcp)))"

section \<open>Shared elements\<close>

text \<open>
  An element all participants share: the one in \<open>Inner\<close>, or a new one, stored at once; the flag
  tells that it is new.
\<close>

definition shared_element :: "(gst_inner \<Rightarrow> element option) \<Rightarrow>
    ((element option \<Rightarrow> element option) \<Rightarrow> gst_inner \<Rightarrow> gst_inner) \<Rightarrow> ('w, element) gst_eff \<Rightarrow>
    ('w, element \<times> bool) gst_eff" where
  "shared_element get upd build =
     and_then (gets (\<lambda>(gi, _). get gi)) (\<lambda>found.
     case found of
       Some e \<Rightarrow> ret (e, False)
     | None \<Rightarrow>
         and_then build (\<lambda>e.
         and_then (set_inner (upd (\<lambda>_. Some e))) (\<lambda>_.
         ret (e, True))))"

definition shared_rtp_bin :: "'w gst_ext \<Rightarrow> string \<Rightarrow> nat \<Rightarrow> ('w, element \<times> bool) gst_eff" where
  "shared_rtp_bin x prefix ts =
     shared_element rtp_bin_element rtp_bin_element_update
       (and_then (make_or x ''rtpbin'' (shared_name prefix ts) []) (\<lambda>e.
        and_then (set_properties x e [(''latency'', ''1000'')]) (\<lambda>_. ret e)))"

definition shared_audio_mixer :: "'w gst_ext \<Rightarrow> nat \<Rightarrow> ('w, element \<times> bool) gst_eff" where
  "shared_audio_mixer x ts =
     shared_element audio_mixer_element audio_mixer_element_update
       (and_then (make_or x ''audiomixer'' (shared_name ''audiomixer'' ts) [(''force-live'', ''true'')]) (\<lambda>e.
        and_then (set_properties x e [(''ignore-inactive-pads'', ''true'')]) (\<lambda>_. ret e)))"

definition shared_opus_encoder :: "'w gst_ext \<Rightarrow> ('w, element \<times> bool) gst_eff" where
  "shared_opus_encoder x =
     shared_element opus_enc_element_audio opus_enc_element_audio_update
       (and_then (on_gst_world (x_now_secs x)) (\<lambda>ts. make_or x ''opusenc'' (shared_name ''opusenc_audio'' ts) []))"

text \<open>The four elements after the compositor's inputs, the same in both builders.\<close>

record video_tail =
  vt_compositor :: "element \<times> bool"
  vt_scale :: "element \<times> bool"
  vt_caps :: "element \<times> bool"
  vt_x264 :: "element \<times> bool"

definition raw_caps :: string where
  "raw_caps = ''video/x-raw, width=1280, height=720''"

definition shared_video_tail :: "'w gst_ext \<Rightarrow> nat \<Rightarrow> ('w, video_tail) gst_eff" where
  "shared_video_tail x ts =
     and_then (shared_element video_compositor_element video_compositor_element_update
       (make_or x ''compositor'' (shared_name ''compositor_vp8_video'' ts)
         [(''force-live'', ''true''), (''background'', ''black''), (''ignore-inactive-pads'', ''true'')])) (\<lambda>comp.
     and_then (shared_element video_scale_post_compositor_element video_scale_post_compositor_element_update
       (make_or x ''videoscale'' (shared_name ''videoscale_vp8_post_compositor_video'' ts) [])) (\<lambda>scale.
     and_then (shared_element caps_filter_post_compositor_element caps_filter_post_compositor_element_update
       (make_or x ''capsfilter'' (shared_name ''caps_filter_vp8_post_compositor_video'' ts) [(''caps'', raw_caps)])) (\<lambda>caps.
     and_then (shared_element x264_encode_element_video x264_encode_element_video_update
       (make_or x ''x264enc'' (shared_name ''x264enc_vp8_video'' ts)
         [(''speed-preset'', ''ultrafast''), (''tune'', ''zerolatency'')])) (\<lambda>x264.
     ret \<lparr>vt_compositor = comp, vt_scale = scale, vt_caps = caps, vt_x264 = x264\<rparr>))))"

text \<open>The file of a chunk, named when the chunk begins.\<close>

definition chunk_file :: "string \<Rightarrow> nat \<Rightarrow> string" where
  "chunk_file meeting_id timestamp_nanos =
     ''/opt/recordings/'' @ meeting_id @ ''/chunk_'' @ show_nat timestamp_nanos @ ''.ts''"

text \<open>Thirty seconds, in nanoseconds. The audio builder reads the clock again, the other does not.\<close>

definition shared_split_mux :: "'w gst_ext \<Rightarrow> ('w, nat) gst_eff \<Rightarrow> string \<Rightarrow> ('w, element \<times> bool) gst_eff" where
  "shared_split_mux x clock meeting_id =
     shared_element split_mux_sink_element split_mux_sink_element_update
       (and_then clock (\<lambda>ts.
        and_then (make_or x ''mpegtsmux'' (shared_name ''mpegtsmux'' ts) []) (\<lambda>muxer.
        and_then (make_or x ''splitmuxsink'' (shared_name ''splitmuxsink'' ts) [(''max-size-time'', ''30000000000'')]) (\<lambda>e.
        and_then (set_properties x e [(''muxer'', muxer)]) (\<lambda>_.
        and_then (touch_gst_world (x_on_format_location x e (chunk_file meeting_id))) (\<lambda>_.
        ret e))))))"

section \<open>Adding to the pipeline\<close>

definition add_new :: "'w gst_ext \<Rightarrow> element \<Rightarrow> string \<Rightarrow> element \<times> bool \<Rightarrow> ('w, unit) gst_eff" where
  "add_new x pipeline what e =
     (if snd e then must (''Failed to add '' @ what @ '' element to the pipeline'') (x_add_many x pipeline [fst e])
      else ret ())"

definition add_source :: "'w gst_ext \<Rightarrow> element \<Rightarrow> element \<Rightarrow> element \<Rightarrow> element \<times> bool \<Rightarrow> ('w, unit) gst_eff" where
  "add_source x pipeline src rtcp rtp_bin =
     and_then (must ''Failed to pause pipeline'' (x_set_state x pipeline GstPaused)) (\<lambda>_.
     and_then (must ''Failed to add elements to the pipeline'' (x_add_many x pipeline [src, rtcp])) (\<lambda>_.
     add_new x pipeline ''rtpbin'' rtp_bin))"

text \<open>The mixer and the encoder are added together or not at all.\<close>

definition add_audio_tail :: "'w gst_ext \<Rightarrow> element \<Rightarrow> element \<times> bool \<Rightarrow> element \<times> bool \<Rightarrow> ('w, unit) gst_eff" where
  "add_audio_tail x pipeline mixer encoder =
     (if snd mixer \<and> snd encoder
      then must ''Failed to add audio mixer and opus decoder elements to the pipeline''
             (x_add_many x pipeline [fst mixer, fst encoder])
      else if snd mixer \<or> snd encoder
      then fail ''Either audio mixer or opus decoder element is not new, cannot add to pipeline''
      else ret ())"

definition add_video_tail :: "'w gst_ext \<Rightarrow> element \<Rightarrow> string \<Rightarrow> video_tail \<Rightarrow> ('w, unit) gst_eff" where
  "add_video_tail x pipeline err t =
     (if snd (vt_compositor t) \<and> snd (vt_x264 t) \<and> snd (vt_scale t) \<and> snd (vt_caps t)
      then must ''Failed to add compositor and x264enc elements to the pipeline''
             (x_add_many x pipeline [fst (vt_compositor t), fst (vt_x264 t), fst (vt_scale t), fst (vt_caps t)])
      else if snd (vt_compositor t) \<or> snd (vt_x264 t) \<or> snd (vt_scale t) \<or> snd (vt_caps t)
      then fail err
      else ret ())"

section \<open>Linking\<close>

text \<open>The session of a source is the number in the name of its rtpbin pad.\<close>

definition session_of :: "'w gst_ext \<Rightarrow> pad \<Rightarrow> ('w, nat) gst_eff" where
  "session_of x p =
     and_then (unwrap (strip_prefix ''recv_rtp_sink_'' (x_pad_name x p))) (\<lambda>digits.
     unwrap (parse_unsigned 32 digits))"

definition store_session :: "nat \<Rightarrow> participant_session_meta \<Rightarrow> ('w, unit) gst_eff" where
  "store_session sid m = set_inner (session_participant_meta_map_update (hm_insert sid m))"

definition link_audio_source :: "'w gst_ext \<Rightarrow> string \<Rightarrow> string \<Rightarrow> int \<Rightarrow> element \<Rightarrow> element \<Rightarrow> element \<Rightarrow> ('w, unit) gst_eff" where
  "link_audio_source x meeting_id p port src rtcp rtp_bin =
     and_then (must_have ''Failed to get src pad from udpsrc_rtp_audio'' (x_static_pad x src ''src'')) (\<lambda>src_pad.
     and_then (must_have ''Failed to get sink pad from rtpbin'' (x_request_pad x rtp_bin ''recv_rtp_sink_%u'')) (\<lambda>rtp_sink.
     and_then (must ''Failed to link udpsrc and rtpbin'' (x_link_pads x src_pad rtp_sink)) (\<lambda>_.
     and_then (must_have ''Failed to get src pad from udpsrc_rtcp_audio'' (x_static_pad x rtcp ''src'')) (\<lambda>rtcp_pad.
     and_then (must_have ''Failed to get sink pad from rtpbin'' (x_request_pad x rtp_bin ''recv_rtcp_sink_%u'')) (\<lambda>rtcp_sink.
     and_then (session_of x rtp_sink) (\<lambda>sid.
     and_then (store_session sid \<lparr>psm_meeting_id = meeting_id, psm_participant_id = p, psm_media = ''audio'',
         psm_port = port, psm_rtp_sink_pad = rtp_sink, psm_rtcp_sink_pad = rtcp_sink\<rparr>) (\<lambda>_.
     must ''Failed to link udpsrc_rtcp and rtpbin'' (x_link_pads x rtcp_pad rtcp_sink))))))))"

definition link_video_source :: "'w gst_ext \<Rightarrow> string \<Rightarrow> string \<Rightarrow> int \<Rightarrow> element \<Rightarrow> element \<Rightarrow> element \<Rightarrow> ('w, unit) gst_eff" where
  "link_video_source x meeting_id p port src rtcp rtp_bin =
     and_then (must_have ''Failed to get src pad from udpsrc'' (x_static_pad x src ''src'')) (\<lambda>src_pad.
     and_then (must_have ''Failed to get recv_rtp_sink pad from rtpbin'' (x_request_pad x rtp_bin ''recv_rtp_sink_%u'')) (\<lambda>rtp_sink.
     and_then (must ''Failed to link udpsrc and rtpbin'' (x_link_pads x src_pad rtp_sink)) (\<lambda>_.
     and_then (expect_some (x_static_pad x rtcp ''src'')) (\<lambda>rtcp_pad.
     and_then (expect_some (x_request_pad x rtp_bin ''recv_rtcp_sink_%u'')) (\<lambda>rtcp_sink.
     and_then (must ''Failed to link udpsrc_rtcp and rtpbin'' (x_link_pads x rtcp_pad rtcp_sink)) (\<lambda>_.
     and_then (session_of x rtp_sink) (\<lambda>sid.
     store_session sid \<lparr>psm_meeting_id = meeting_id, psm_participant_id = p, psm_media = ''video'',
         psm_port = port, psm_rtp_sink_pad = rtp_sink, psm_rtcp_sink_pad = rtcp_sink\<rparr>)))))))"

definition split_video_pad :: "'w gst_ext \<Rightarrow> element \<Rightarrow> ('w, pad) gst_eff" where
  "split_video_pad x split_mux =
     and_then (gets (\<lambda>(gi, _). split_mux_sink_video_pad gi)) (\<lambda>found.
     case found of
       Some p \<Rightarrow> ret p
     | None \<Rightarrow>
         and_then (must_have ''Failed to get video pad from splitmuxsink'' (x_request_pad x split_mux ''video'')) (\<lambda>p.
         and_then (set_inner (split_mux_sink_video_pad_update (\<lambda>_. Some p))) (\<lambda>_.
         ret p)))"

definition link_video_tail :: "'w gst_ext \<Rightarrow> string \<Rightarrow> video_tail \<Rightarrow> element \<Rightarrow> ('w, unit) gst_eff" where
  "link_video_tail x first_err t split_mux =
     and_then (must_have ''Failed to get src pad from compositor element''
       (x_static_pad x (fst (vt_compositor t)) ''src'')) (\<lambda>comp_src.
     and_then (must_have ''Failed to get sink pad from videoscale element''
       (x_static_pad x (fst (vt_scale t)) ''sink'')) (\<lambda>scale_sink.
     and_then (must_have ''Failed to get src pad from x264enc element''
       (x_static_pad x (fst (vt_x264 t)) ''src'')) (\<lambda>x264_src.
     and_then (split_video_pad x split_mux) (\<lambda>video_pad.
     and_then (must first_err (x_link_pads x comp_src scale_sink)) (\<lambda>_.
     and_then (must ''Failed to link videoscale and capsfilter''
       (x_link_elements x (fst (vt_scale t)) (fst (vt_caps t)))) (\<lambda>_.
     and_then (must ''Failed to link capsfilter and x264enc''
       (x_link_elements x (fst (vt_caps t)) (fst (vt_x264 t)))) (\<lambda>_.
     must ''Failed to link x264enc and splitmuxsink'' (x_link_pads x x264_src video_pad))))))))"

text \<open>
  The first audio source links the mixer to the sink, and the video tail with it unless the
  video pad of the sink is taken already.
\<close>

definition link_audio_tail :: "'w gst_ext \<Rightarrow> element \<Rightarrow> element \<Rightarrow> video_tail \<Rightarrow> element \<Rightarrow> ('w, unit) gst_eff" where
  "link_audio_tail x mixer encoder t split_mux =
     and_then (must_have ''Failed to get sink pad from audiomixer'' (x_static_pad x mixer ''src'')) (\<lambda>mixer_src.
     and_then (must_have ''Failed to get sink pad from opusdec'' (x_static_pad x encoder ''sink'')) (\<lambda>enc_sink.
     and_then (must_have ''Failed to get src pad from opusdec'' (x_static_pad x encoder ''src'')) (\<lambda>enc_src.
     and_then (gets (\<lambda>(gi, _). split_mux_sink_video_pad gi)) (\<lambda>video_pad.
     and_then (if video_pad = None then link_video_tail x ''Failed to link compositor and videoscale'' t split_mux
               else ret ()) (\<lambda>_.
     and_then (must_have ''Failed to get sink pad from splitmuxsink'' (x_request_pad x split_mux ''audio_%u'')) (\<lambda>audio_pad.
     and_then (must ''Failed to link audiomixer src pad to opusdec sink pad'' (x_link_pads x mixer_src enc_sink)) (\<lambda>_.
     must ''Failed to link opusdec src pad to splitmuxsink audio pad'' (x_link_pads x enc_src audio_pad))))))))"

section \<open>The two builders\<close>

definition pipeline_of :: "'w gst_ext \<Rightarrow> gstreamer \<Rightarrow> ('w, element) gst_eff" where
  "pipeline_of x g =
     (case gst_pipeline g of Some p \<Rightarrow> ret p | None \<Rightarrow> on_gst_world (x_new_pipeline x ''Pipeline''))"

text \<open>The value returned: the pipeline, and the handler of a new rtpbin, attached to the meeting's \<open>Inner\<close>.\<close>

definition attach :: "'w gst_ext \<Rightarrow> gstreamer \<Rightarrow> element \<Rightarrow> element \<times> bool \<Rightarrow> string \<Rightarrow> string \<Rightarrow> ('w, gstreamer) gst_eff" where
  "attach x g pipeline rtp_bin meeting_id p =
     and_then (if snd rtp_bin then and_then (on_gst_world (x_on_pad_added x (fst rtp_bin))) (\<lambda>h. ret (Some h))
               else ret (handler_id g)) (\<lambda>h.
     and_then (gets (\<lambda>(gi, _). gi)) (\<lambda>gi.
     ret (g\<lparr>gst_inner := gi, handler_id := h, gst_pipeline := Some pipeline,
            gst_meeting_id := Some meeting_id, gst_participant_id := Some p\<rparr>)))"

definition start_audio_recording :: "'w gst_ext \<Rightarrow> gstreamer \<Rightarrow> int \<Rightarrow> string \<Rightarrow> string \<Rightarrow> string \<Rightarrow> ('w, gstreamer) gst_eff" where
  "start_audio_recording x g audio_port meeting_id participant_id transport_id =
     and_then (pipeline_of x g) (\<lambda>pipeline.
     and_then (on_gst_world (x_now_secs x)) (\<lambda>ts.
     and_then (make_audio_source x participant_id audio_port ts) (\<lambda>(src, rtcp).
     and_then (shared_rtp_bin x ''rtpbin_audio'' ts) (\<lambda>rtp_bin.
     and_then (shared_audio_mixer x ts) (\<lambda>mixer.
     and_then (shared_opus_encoder x) (\<lambda>encoder.
     and_then (shared_video_tail x ts) (\<lambda>tail.
     and_then (shared_split_mux x (on_gst_world (x_now_secs x)) meeting_id) (\<lambda>split_mux.
     and_then (add_source x pipeline src rtcp rtp_bin) (\<lambda>_.
     and_then (add_audio_tail x pipeline mixer encoder) (\<lambda>_.
     and_then (add_video_tail x pipeline
       ''Either compositor, x264enc, video scale or caps filter element is not new, cannot add to pipeline'' tail) (\<lambda>_.
     and_then (add_new x pipeline ''splitmuxsink'' split_mux) (\<lambda>_.
     and_then (link_audio_source x meeting_id participant_id audio_port src rtcp (fst rtp_bin)) (\<lambda>_.
     and_then (if snd mixer then link_audio_tail x (fst mixer) (fst encoder) tail (fst split_mux) else ret ()) (\<lambda>_.
     attach x g pipeline rtp_bin meeting_id participant_id))))))))))))))"

definition start_vp8_recording :: "'w gst_ext \<Rightarrow> gstreamer \<Rightarrow> int \<Rightarrow> string \<Rightarrow> string \<Rightarrow> string \<Rightarrow> ('w, gstreamer) gst_eff" where
  "start_vp8_recording x g video_port meeting_id participant_id transport_id =
     and_then (pipeline_of x g) (\<lambda>pipeline.
     and_then (on_gst_world (x_now_secs x)) (\<lambda>ts.
     and_then (make_video_source x participant_id video_port ts) (\<lambda>src.
     and_then (shared_video_tail x ts) (\<lambda>tail.
     and_then (shared_split_mux x (ret ts) meeting_id) (\<lambda>split_mux.
     and_then (make_video_rtcp_source x participant_id video_port ts) (\<lambda>rtcp.
     and_then (shared_rtp_bin x ''rtpbin_vp8_video'' ts) (\<lambda>rtp_bin.
     and_then (add_source x pipeline src rtcp rtp_bin) (\<lambda>_.
     and_then (add_video_tail x pipeline
       ''Either compositor, x264enc, videoscale or capsfilter element is new, but not both'' tail) (\<lambda>_.
     and_then (add_new x pipeline ''splitmuxsink'' split_mux) (\<lambda>_.
     and_then (link_video_source x meeting_id participant_id video_port src rtcp (fst rtp_bin)) (\<lambda>_.
     and_then (if snd (vt_compositor tail)
               then link_video_tail x ''Failed to link compositor and x264enc'' tail (fst split_mux)
               else ret ()) (\<lambda>_.
     attach x g pipeline rtp_bin meeting_id participant_id))))))))))))"

end
