(* ===== verification/Pads.thy ===== *)
theory Pads
  imports Recording
begin

text \<open>
  The handler of new rtpbin pads (\<open>rtp_bin_element_handling\<close> in \<open>src/gstreamer/mod.rs\<close>): a media pad
  gets a chain of elements up to the mixer or the compositor, replacing an older chain of the
  participant, an RTCP pad gets a sink. An error is posted on the bus of the pipeline and most of
  them let the handler go on. Also the builder of H.264 recordings, which nothing calls.
\<close>

section \<open>Errors on the bus\<close>

text \<open>A message that the bus refuses panics.\<close>

definition post_error :: "'w gst_ext \<Rightarrow> element \<Rightarrow> string \<Rightarrow> ('w, unit) gst_eff" where
  "post_error x pipeline t = and_then (on_gst_world (x_bus_post x pipeline t)) (\<lambda>ok. if ok then ret () else panic)"

definition soft :: "'w gst_ext \<Rightarrow> element \<Rightarrow> string \<Rightarrow> ('w \<Rightarrow> string option \<times> 'w) \<Rightarrow> ('w, unit) gst_eff" where
  "soft x pipeline t f =
     and_then (on_gst_world f) (\<lambda>r. case r of None \<Rightarrow> ret () | Some _ \<Rightarrow> post_error x pipeline t)"

text \<open>A missing value is posted and ends the handler, without an error of its own: the rest is skipped.\<close>

definition or_stop :: "'w gst_ext \<Rightarrow> element \<Rightarrow> string \<Rightarrow> ('w \<Rightarrow> 'a option \<times> 'w) \<Rightarrow> ('a \<Rightarrow> ('w, unit) gst_eff) \<Rightarrow> ('w, unit) gst_eff" where
  "or_stop x pipeline t f rest =
     and_then (on_gst_world f) (\<lambda>r. case r of Some a \<Rightarrow> rest a | None \<Rightarrow> post_error x pipeline t)"

definition make_or_stop :: "'w gst_ext \<Rightarrow> element \<Rightarrow> string \<Rightarrow> string \<Rightarrow> (string \<times> string) list \<Rightarrow>
    (element \<Rightarrow> ('w, unit) gst_eff) \<Rightarrow> ('w, unit) gst_eff" where
  "make_or_stop x pipeline factory name ps =
     or_stop x pipeline (''Failed to create '' @ factory @ '' element'') (x_make x factory name ps)"

section \<open>The name of the pad\<close>

definition name_part :: "nat \<Rightarrow> string \<Rightarrow> nat option" where
  "name_part i name =
     (let parts = split_at_char (CHR ''_'') name in
      if i < length parts then parse_unsigned 32 (parts ! i) else None)"

text \<open>The session of the pad, whose SSRC is recorded, and the participant it belongs to.\<close>

definition pad_session :: "string \<Rightarrow> ('w, participant_session_meta) gst_eff" where
  "pad_session name =
     and_then (unwrap (name_part 3 name)) (\<lambda>sid.
     and_then (unwrap (name_part 4 name)) (\<lambda>ssrc.
     and_then (set_inner (\<lambda>gi. gi\<lparr>session_id_ssrc_map :=
         hm_insert sid ((case hm_get (session_id_ssrc_map gi) sid of None \<Rightarrow> [] | Some l \<Rightarrow> l) @ [ssrc])
           (session_id_ssrc_map gi)\<rparr>)) (\<lambda>_.
     and_then (gets (\<lambda>(gi, _). hm_get (session_participant_meta_map gi) sid)) unwrap)))"

section \<open>Replacing elements\<close>

definition swap_entry :: "string \<Rightarrow> string \<Rightarrow> (gst_inner \<Rightarrow> (string, string) hmap) \<Rightarrow>
    (((string, string) hmap \<Rightarrow> (string, string) hmap) \<Rightarrow> gst_inner \<Rightarrow> gst_inner) \<Rightarrow> ('w, string option) gst_eff" where
  "swap_entry k v get upd =
     (\<lambda>(gi, w). (Ok (hm_get (get gi) k), (upd (hm_insert k v) gi, w)))"

definition drop_old :: "'w gst_ext \<Rightarrow> element \<Rightarrow> string \<Rightarrow> string \<Rightarrow> element \<Rightarrow> ('w, unit) gst_eff" where
  "drop_old x pipeline what to_null e =
     and_then (soft x pipeline (''Failed to set '' @ what @ to_null) (x_set_state x e GstNull)) (\<lambda>_.
     soft x pipeline (''Failed to remove '' @ what) (x_remove x pipeline e))"

text \<open>The older chain: the first element may be missing, the others are unwrapped.\<close>

fun drop_rest :: "'w gst_ext \<Rightarrow> element \<Rightarrow> string \<Rightarrow> (string \<times> element option) list \<Rightarrow> ('w, unit) gst_eff" where
  "drop_rest x pipeline to_null [] = ret ()"
| "drop_rest x pipeline to_null ((what, old) # rest) =
     and_then (unwrap old) (\<lambda>e.
     and_then (drop_old x pipeline what to_null e) (\<lambda>_.
     drop_rest x pipeline to_null rest))"

definition drop_chain :: "'w gst_ext \<Rightarrow> element \<Rightarrow> string \<Rightarrow> element option \<Rightarrow> (string \<times> element option) list \<Rightarrow> ('w, unit) gst_eff" where
  "drop_chain x pipeline to_null queue rest =
     (case queue of
        None \<Rightarrow> ret ()
      | Some q \<Rightarrow>
          and_then (drop_old x pipeline ''queue element'' to_null q) (\<lambda>_.
          drop_rest x pipeline to_null rest))"

fun add_each :: "'w gst_ext \<Rightarrow> element \<Rightarrow> (string \<times> element) list \<Rightarrow> ('w, unit) gst_eff" where
  "add_each x pipeline [] = ret ()"
| "add_each x pipeline ((what, e) # es) =
     and_then (soft x pipeline (''Failed to add '' @ what) (x_add_many x pipeline [e])) (\<lambda>_.
     add_each x pipeline es)"

fun link_each :: "'w gst_ext \<Rightarrow> element \<Rightarrow> (string \<times> element) list \<Rightarrow> ('w, unit) gst_eff" where
  "link_each x pipeline ((a, e) # (b, f) # es) =
     and_then (soft x pipeline (''Failed to link '' @ a @ '' and '' @ b) (x_link_elements x e f)) (\<lambda>_.
     link_each x pipeline ((b, f) # es))"
| "link_each x pipeline _ = ret ()"

definition link_queue :: "'w gst_ext \<Rightarrow> element \<Rightarrow> pad \<Rightarrow> element \<Rightarrow> ('w, unit) gst_eff" where
  "link_queue x pipeline p queue =
     and_then (expect_some (x_static_pad x queue ''sink'')) (\<lambda>sink.
     soft x pipeline ''Failed to link rtpbin and queue'' (x_link_pads x p sink))"

definition play :: "'w gst_ext \<Rightarrow> element \<Rightarrow> ('w, unit) gst_eff" where
  "play x pipeline = soft x pipeline ''Failed to start pipeline'' (x_set_state x pipeline GstPlaying)"

section \<open>A video pad\<close>

record video_chain =
  vc_queue :: element
  vc_depay :: element
  vc_dec :: element
  vc_convert :: element
  vc_scale :: element
  vc_caps :: element

definition swap_video_chain :: "string \<Rightarrow> video_chain \<Rightarrow> ('w, element option \<times> (string \<times> element option) list) gst_eff" where
  "swap_video_chain p c =
     and_then (swap_entry p (vc_queue c) queue_element_vp8_video_map queue_element_vp8_video_map_update) (\<lambda>q.
     and_then (swap_entry p (vc_depay c) rtp_vp8_de_pay_element_video_map rtp_vp8_de_pay_element_video_map_update) (\<lambda>d.
     and_then (swap_entry p (vc_dec c) vp8_dec_element_video_map vp8_dec_element_video_map_update) (\<lambda>v.
     and_then (swap_entry p (vc_convert c) video_convert_element_video_map video_convert_element_video_map_update) (\<lambda>co.
     and_then (swap_entry p (vc_scale c) video_scale_element_video_map video_scale_element_video_map_update) (\<lambda>s.
     and_then (swap_entry p (vc_caps c) caps_filter_element_video_map caps_filter_element_video_map_update) (\<lambda>f.
     ret (q, [(''rtp_vp8_de_pay element'', d), (''vp8_dec element'', v), (''video_convert element'', co),
              (''video_scale element'', s), (''caps_filter element'', f)])))))))"

text \<open>A missing compositor pad is posted and then unwrapped all the same.\<close>

definition compositor_pad :: "'w gst_ext \<Rightarrow> element \<Rightarrow> element \<Rightarrow> ('w, pad) gst_eff" where
  "compositor_pad x pipeline compositor =
     and_then (on_gst_world (x_request_pad x compositor ''sink_%u'')) (\<lambda>r.
     and_then (if r = None then post_error x pipeline ''Failed to request pad from compositor'' else ret ()) (\<lambda>_.
     unwrap r))"

definition link_compositor :: "'w gst_ext \<Rightarrow> element \<Rightarrow> string \<Rightarrow> element \<Rightarrow> ('w, unit) gst_eff" where
  "link_compositor x pipeline p caps =
     and_then (expect_some (x_static_pad x caps ''src'')) (\<lambda>caps_src.
     and_then (gets (\<lambda>(gi, _). video_compositor_element gi)) (\<lambda>found.
     and_then (unwrap found) (\<lambda>compositor.
     and_then (compositor_pad x pipeline compositor) (\<lambda>sink.
     and_then (set_properties x sink [(''xpos'', ''0''), (''ypos'', ''0''), (''width'', ''1280''), (''height'', ''720'')]) (\<lambda>_.
     and_then (swap_entry p sink video_compositor_pad_map video_compositor_pad_map_update) (\<lambda>old.
     and_then (case old of None \<Rightarrow> ret () | Some o1 \<Rightarrow> touch_gst_world (x_release_pad x compositor o1)) (\<lambda>_.
     soft x pipeline ''Failed to link videoconvert and compositor'' (x_link_pads x caps_src sink))))))))"

definition install_video_chain :: "'w gst_ext \<Rightarrow> element \<Rightarrow> pad \<Rightarrow> string \<Rightarrow> video_chain \<Rightarrow> ('w, unit) gst_eff" where
  "install_video_chain x pipeline p participant_id c =
     and_then (swap_video_chain participant_id c) (\<lambda>(queue, rest).
     and_then (drop_chain x pipeline '' to null state'' queue rest) (\<lambda>_.
     and_then (add_each x pipeline [(''queue element'', vc_queue c), (''rtp_vp8_de_pay element'', vc_depay c),
       (''vp8_dec element'', vc_dec c), (''video_convert element'', vc_convert c),
       (''video_scale element'', vc_scale c), (''caps_filter element'', vc_caps c)]) (\<lambda>_.
     and_then (link_queue x pipeline p (vc_queue c)) (\<lambda>_.
     and_then (link_each x pipeline [(''queue'', vc_queue c), (''rtpvp8depay'', vc_depay c), (''vp8dec'', vc_dec c),
       (''videoconvert'', vc_convert c), (''videoscale'', vc_scale c), (''capsfilter'', vc_caps c)]) (\<lambda>_.
     and_then (link_compositor x pipeline participant_id (vc_caps c)) (\<lambda>_.
     play x pipeline))))))"

definition video_pad_added :: "'w gst_ext \<Rightarrow> element \<Rightarrow> pad \<Rightarrow> string \<Rightarrow> ('w, unit) gst_eff" where
  "video_pad_added x pipeline p participant_id =
     and_then (on_gst_world (x_now_secs x)) (\<lambda>ts.
     let named = (\<lambda>prefix. element_name prefix participant_id ts) in
     make_or_stop x pipeline ''queue'' (named ''queue_vp8_video'') [(''flush-on-eos'', ''true'')] (\<lambda>queue.
     make_or_stop x pipeline ''rtpvp8depay'' (named ''rtpvp8depay_vp8_video'') [] (\<lambda>depay.
     make_or_stop x pipeline ''vp8dec'' (named ''vp8dec_vp8_video'') [] (\<lambda>dec.
     make_or_stop x pipeline ''capsfilter'' (named ''capsfilter_vp8_video'') [(''caps'', raw_caps)] (\<lambda>caps.
     make_or_stop x pipeline ''videoconvert'' (named ''videoconvert_vp8_video'') [] (\<lambda>convert.
     make_or_stop x pipeline ''videoscale'' (named ''videoscale_vp8_video'') [] (\<lambda>scale.
     install_video_chain x pipeline p participant_id
       \<lparr>vc_queue = queue, vc_depay = depay, vc_dec = dec, vc_convert = convert, vc_scale = scale,
        vc_caps = caps\<rparr>)))))))"

section \<open>An audio pad\<close>

record audio_chain =
  ac_queue :: element
  ac_depay :: element
  ac_dec :: element

definition swap_audio_chain :: "string \<Rightarrow> audio_chain \<Rightarrow> ('w, element option \<times> (string \<times> element option) list) gst_eff" where
  "swap_audio_chain p c =
     and_then (swap_entry p (ac_queue c) queue_element_audio_map queue_element_audio_map_update) (\<lambda>q.
     and_then (swap_entry p (ac_depay c) rtp_opus_de_pay_element_audio_map rtp_opus_de_pay_element_audio_map_update) (\<lambda>d.
     and_then (swap_entry p (ac_dec c) opus_dec_element_audio_map opus_dec_element_audio_map_update) (\<lambda>v.
     ret (q, [(''rtp_opus_de_pay element'', d), (''opus_dec element'', v)]))))"

definition link_mixer :: "'w gst_ext \<Rightarrow> element \<Rightarrow> string \<Rightarrow> element \<Rightarrow> ('w, unit) gst_eff" where
  "link_mixer x pipeline p dec =
     or_stop x pipeline ''Failed to get src pad from opusenc'' (x_static_pad x dec ''src'') (\<lambda>dec_src.
     and_then (gets (\<lambda>(gi, _). audio_mixer_element gi)) (\<lambda>found.
     and_then (unwrap found) (\<lambda>mixer.
     or_stop x pipeline ''Failed to get sink pad from audiomixer'' (x_request_pad x mixer ''sink_%u'') (\<lambda>sink.
     and_then (swap_entry p sink audio_mixed_pad_map audio_mixed_pad_map_update) (\<lambda>old.
     and_then (case old of None \<Rightarrow> ret () | Some o1 \<Rightarrow> touch_gst_world (x_release_pad x mixer o1)) (\<lambda>_.
     and_then (on_gst_world (x_link_pads x dec_src sink)) (\<lambda>r.
     case r of
       None \<Rightarrow> play x pipeline
     | Some _ \<Rightarrow> post_error x pipeline ''Failed to link opus dec src pad to audiomixer sink pad'')))))))"

definition install_audio_chain :: "'w gst_ext \<Rightarrow> element \<Rightarrow> pad \<Rightarrow> string \<Rightarrow> audio_chain \<Rightarrow> ('w, unit) gst_eff" where
  "install_audio_chain x pipeline p participant_id c =
     and_then (swap_audio_chain participant_id c) (\<lambda>(queue, rest).
     and_then (drop_chain x pipeline '' to Null'' queue rest) (\<lambda>_.
     and_then (add_each x pipeline [(''queue element'', ac_queue c), (''rtp_opus_de_pay element'', ac_depay c),
       (''opus_dec element'', ac_dec c)]) (\<lambda>_.
     and_then (link_queue x pipeline p (ac_queue c)) (\<lambda>_.
     and_then (link_each x pipeline [(''queue'', ac_queue c), (''rtpopusdepay'', ac_depay c),
       (''opusdec'', ac_dec c)]) (\<lambda>_.
     link_mixer x pipeline participant_id (ac_dec c))))))"

definition audio_pad_added :: "'w gst_ext \<Rightarrow> element \<Rightarrow> pad \<Rightarrow> string \<Rightarrow> ('w, unit) gst_eff" where
  "audio_pad_added x pipeline p participant_id =
     and_then (on_gst_world (x_now_secs x)) (\<lambda>ts.
     let named = (\<lambda>prefix. element_name prefix participant_id ts) in
     make_or_stop x pipeline ''queue'' (named ''queue_audio'') [(''flush-on-eos'', ''true'')] (\<lambda>queue.
     make_or_stop x pipeline ''rtpopusdepay'' (named ''rtpopusdepay_audio'') [] (\<lambda>depay.
     make_or_stop x pipeline ''opusdec'' (named ''opusdec_audio'') [] (\<lambda>dec.
     install_audio_chain x pipeline p participant_id \<lparr>ac_queue = queue, ac_depay = depay, ac_dec = dec\<rparr>))))"

section \<open>An RTCP pad\<close>

definition drop_old_sink :: "'w gst_ext \<Rightarrow> element \<Rightarrow> string \<Rightarrow> element option \<Rightarrow> ('w, unit) gst_eff" where
  "drop_old_sink x pipeline what old = (case old of None \<Rightarrow> ret () | Some e \<Rightarrow> drop_old x pipeline what '' to null state'' e)"

definition video_rtcp_pad_added :: "'w gst_ext \<Rightarrow> element \<Rightarrow> pad \<Rightarrow> participant_session_meta \<Rightarrow> ('w, unit) gst_eff" where
  "video_rtcp_pad_added x pipeline p m =
     and_then (on_gst_world (x_now_secs x)) (\<lambda>ts.
     make_or_stop x pipeline ''udpsink'' (element_name ''udpsink_rtcp_vp8_video'' (psm_participant_id m) ts) [] (\<lambda>sink.
     and_then (set_properties x sink (sink_properties (psm_port m + 1))) (\<lambda>_.
     and_then (expect_some (x_static_pad x sink ''sink'')) (\<lambda>sink_pad.
     and_then (swap_entry (psm_participant_id m) sink udp_rtcp_sink_element_video_map udp_rtcp_sink_element_video_map_update) (\<lambda>old.
     and_then (drop_old_sink x pipeline ''udpsink'' old) (\<lambda>_.
     and_then (soft x pipeline ''Failed to add udpsink'' (x_add_many x pipeline [sink])) (\<lambda>_.
     and_then (soft x pipeline ''Failed to link rtpbin and udpsink'' (x_link_pads x p sink_pad)) (\<lambda>_.
     and_then (expect_some (x_static_pad x sink ''sink'')) (\<lambda>_.
     play x pipeline)))))))))"

text \<open>The audio sink is named by the second alone, and a failure to add it panics.\<close>

definition audio_rtcp_pad_added :: "'w gst_ext \<Rightarrow> element \<Rightarrow> pad \<Rightarrow> participant_session_meta \<Rightarrow> ('w, unit) gst_eff" where
  "audio_rtcp_pad_added x pipeline p m =
     and_then (on_gst_world (x_now_secs x)) (\<lambda>ts.
     make_or_stop x pipeline ''udpsink'' (shared_name ''udpsink_rtcp_audio'' ts) [] (\<lambda>sink.
     and_then (set_properties x sink (sink_properties (psm_port m + 1))) (\<lambda>_.
     and_then (swap_entry (psm_participant_id m) sink udp_rtcp_sink_sink_element_audio_map udp_rtcp_sink_sink_element_audio_map_update) (\<lambda>old.
     and_then (drop_old_sink x pipeline ''udpsink element'' old) (\<lambda>_.
     and_then (expect_done (x_add_many x pipeline [sink])) (\<lambda>_.
     and_then (expect_some (x_static_pad x sink ''sink'')) (\<lambda>sink_pad.
     and_then (soft x pipeline ''Failed to link rtpbin and udpsink'' (x_link_pads x p sink_pad)) (\<lambda>_.
     play x pipeline))))))))"

section \<open>The handler\<close>

definition pad_added :: "'w gst_ext \<Rightarrow> element option \<Rightarrow> string \<Rightarrow> (element \<Rightarrow> participant_session_meta \<Rightarrow> ('w, unit) gst_eff) \<Rightarrow>
    ('w, unit) gst_eff" where
  "pad_added x pipeline_option name build =
     and_then (unwrap pipeline_option) (\<lambda>pipeline.
     and_then (soft x pipeline ''Failed to pause pipeline'' (x_set_state x pipeline GstPaused)) (\<lambda>_.
     and_then (pad_session name) (build pipeline)))"

definition rtp_bin_element_handling :: "'w gst_ext \<Rightarrow> element option \<Rightarrow> pad \<Rightarrow> ('w, unit) gst_eff" where
  "rtp_bin_element_handling x pipeline_option p =
     and_then (on_gst_world (x_pad_linked x p)) (\<lambda>linked.
     if linked then ret ()
     else if starts_with (x_pad_name x p) ''recv_rtp_src_'' then
       pad_added x pipeline_option (x_pad_name x p) (\<lambda>pipeline m.
         if psm_media m = ''video'' then video_pad_added x pipeline p (psm_participant_id m)
         else audio_pad_added x pipeline p (psm_participant_id m))
     else if starts_with (x_pad_name x p) ''recv_rtcp_src_'' then
       pad_added x pipeline_option (x_pad_name x p) (\<lambda>pipeline m.
         if psm_media m = ''video'' then video_rtcp_pad_added x pipeline p m
         else audio_rtcp_pad_added x pipeline p m)
     else ret ())"

section \<open>H.264 recordings\<close>

definition h264_file :: "string \<Rightarrow> string \<Rightarrow> nat \<Rightarrow> string" where
  "h264_file meeting_id participant_id timestamp_nanos =
     ''/opt/recordings/'' @ meeting_id @ ''/'' @ participant_id @ ''/chunk_'' @ show_nat timestamp_nanos @ ''.ts''"

record h264_elements =
  h_src :: element
  h_rtcp :: element
  h_rtcp_sink :: element
  h_rtp_bin :: element
  h_queue :: element
  h_depay :: element
  h_split :: element

definition make_h264 :: "'w gst_ext \<Rightarrow> string \<Rightarrow> string \<Rightarrow> nat \<Rightarrow> ('w, element) gst_eff" where
  "make_h264 x factory prefix ts = expect_some (x_make x factory (shared_name prefix ts) [])"

definition h264_parts :: "'w gst_ext \<Rightarrow> int \<Rightarrow> string \<Rightarrow> string \<Rightarrow> nat \<Rightarrow> ('w, h264_elements) gst_eff" where
  "h264_parts x video_port meeting_id participant_id ts =
     and_then (make_h264 x ''udpsrc'' ''udpsrc_h264_video'' ts) (\<lambda>src.
     and_then (set_properties x src (local_properties video_port @
         [(''caps'', rtp_caps ''video'' ''90000'' ''H264'' ''125''), (''reuse'', ''false'')])) (\<lambda>_.
     and_then (make_h264 x ''udpsrc'' ''udpsrc_rtcp_h264_video'' ts) (\<lambda>rtcp.
     and_then (set_properties x rtcp (local_properties (video_port + 1))) (\<lambda>_.
     and_then (make_h264 x ''udpsink'' ''udpsink_rtcp_h264_video'' ts) (\<lambda>sink.
     and_then (set_properties x sink (sink_properties (video_port + 1))) (\<lambda>_.
     and_then (make_h264 x ''rtpbin'' ''rtpbin_h264_video'' ts) (\<lambda>rtp_bin.
     and_then (make_h264 x ''queue'' ''queue_h264_video'' ts) (\<lambda>queue.
     and_then (make_h264 x ''rtph264depay'' ''rtph264depay_h264_video'' ts) (\<lambda>depay.
     and_then (make_h264 x ''mpegtsmux'' ''mpegtsmux_h264_video'' ts) (\<lambda>muxer.
     and_then (expect_some (x_make x ''splitmuxsink'' (shared_name ''splitmuxsink_h264_video'' ts)
         [(''max-size-time'', ''5000000000''), (''muxer'', muxer)])) (\<lambda>split_mux.
     and_then (touch_gst_world (x_on_format_location x split_mux (h264_file meeting_id participant_id))) (\<lambda>_.
     ret \<lparr>h_src = src, h_rtcp = rtcp, h_rtcp_sink = sink, h_rtp_bin = rtp_bin, h_queue = queue, h_depay = depay,
          h_split = split_mux\<rparr>))))))))))))"

definition start_h264_recording :: "'w gst_ext \<Rightarrow> int \<Rightarrow> string \<Rightarrow> string \<Rightarrow> string \<Rightarrow> ('w, element) gst_eff" where
  "start_h264_recording x video_port meeting_id participant_id transport_id =
     and_then (on_gst_world (x_new_pipeline x ''H264 Video Pipeline'')) (\<lambda>pipeline.
     and_then (on_gst_world (x_now_secs x)) (\<lambda>ts.
     and_then (h264_parts x video_port meeting_id participant_id ts) (\<lambda>h.
     and_then (expect_done (x_add_many x pipeline
       [h_src h, h_rtcp h, h_rtcp_sink h, h_rtp_bin h, h_queue h, h_depay h, h_split h])) (\<lambda>_.
     and_then (expect_done (x_link_elements x (h_src h) (h_rtp_bin h))) (\<lambda>_.
     and_then (expect_some (x_static_pad x (h_rtcp h) ''src'')) (\<lambda>rtcp_pad.
     and_then (expect_some (x_request_pad x (h_rtp_bin h) ''recv_rtcp_sink_%u'')) (\<lambda>rtcp_sink.
     and_then (expect_done (x_link_pads x rtcp_pad rtcp_sink)) (\<lambda>_.
     and_then (on_gst_world (x_on_pad_added x (h_rtp_bin h))) (\<lambda>_.
     and_then (must ''Failed to link queue and rtp_h264_de_pay'' (x_link_elements x (h_queue h) (h_depay h))) (\<lambda>_.
     and_then (expect_some (x_static_pad x (h_depay h) ''src'')) (\<lambda>depay_src.
     and_then (must_have ''Failed to get video pad from splitmuxsink'' (x_request_pad x (h_split h) ''video'')) (\<lambda>video_pad.
     and_then (must ''Failed to link h264_parse and split mux'' (x_link_pads x depay_src video_pad)) (\<lambda>_.
     ret pipeline)))))))))))))"

definition h264_pad_added :: "'w gst_ext \<Rightarrow> h264_elements \<Rightarrow> pad \<Rightarrow> ('w, unit) gst_eff" where
  "h264_pad_added x h p =
     (if starts_with (x_pad_name x p) ''recv_rtp_src_'' then
        and_then (expect_some (x_static_pad x (h_queue h) ''sink'')) (\<lambda>sink.
        and_then (on_gst_world (x_link_pads x p sink)) (\<lambda>_. ret ()))
      else if starts_with (x_pad_name x p) ''recv_rtcp_src_'' then
        and_then (expect_some (x_static_pad x (h_rtcp_sink h) ''sink'')) (\<lambda>sink.
        expect_done (x_link_pads x p sink))
      else ret ())"

end
