(* ===== verification/Chains.thy ===== *)
theory Chains
  imports Pads
begin

text \<open>
  The chains of elements in a pipeline: for every participant either all elements of its audio
  chain are in their maps or none is, and the same for its video chain. The handler of new pads
  unwraps the older elements on the strength of this, and every operation on a pipeline keeps it.
\<close>

section \<open>Aligned maps\<close>

definition hm_domain :: "('k, 'v) hmap \<Rightarrow> 'k set" where
  "hm_domain m = {k. hm_get m k \<noteq> None}"

lemma hm_domain_simps [simp]:
  "hm_domain [] = {}" "hm_domain (hm_insert k v m) = insert k (hm_domain m)"
  "hm_domain (hm_remove k m) = hm_domain m - {k}" "hm_domain (hm_remove_all ks m) = hm_domain m - set ks"
  by (auto simp: hm_domain_def hm_simps)

definition aligned :: "('k, 'v) hmap list \<Rightarrow> bool" where
  "aligned ms \<longleftrightarrow> (\<forall>m \<in> set (tl ms). hm_domain m = hm_domain (hd ms))"

definition audio_maps :: "gst_inner \<Rightarrow> (string, element) hmap list" where
  "audio_maps gi = [queue_element_audio_map gi, rtp_opus_de_pay_element_audio_map gi, opus_dec_element_audio_map gi]"

definition video_maps :: "gst_inner \<Rightarrow> (string, element) hmap list" where
  "video_maps gi = [queue_element_vp8_video_map gi, rtp_vp8_de_pay_element_video_map gi,
     vp8_dec_element_video_map gi, video_convert_element_video_map gi, video_scale_element_video_map gi,
     caps_filter_element_video_map gi]"

definition chains_ok :: "gst_inner \<Rightarrow> bool" where
  "chains_ok gi \<longleftrightarrow> aligned (audio_maps gi) \<and> aligned (video_maps gi)"

abbreviation chains :: "gst_inner \<times> 'w \<Rightarrow> bool" where
  "chains \<equiv> \<lambda>(gi, w). chains_ok gi"

lemma chains_ok_new [simp]: "chains_ok inner_new"
  by (simp add: chains_ok_def audio_maps_def video_maps_def inner_new_def aligned_def)

text \<open>A change of any other field keeps the chains.\<close>

lemma chains_ok_same:
  "chains_ok gi \<Longrightarrow> audio_maps gi' = audio_maps gi \<Longrightarrow> video_maps gi' = video_maps gi \<Longrightarrow> chains_ok gi'"
  by (simp add: chains_ok_def)

lemmas chain_maps = audio_maps_def video_maps_def

section \<open>Calls keep the chains\<close>

lemma keeps_chains_world [keeps_intros]:
  "keeps chains (on_gst_world f)" "keeps chains (touch_gst_world h)"
  by (auto simp: keeps_def on_gst_world_def touch_gst_world_def split: prod.splits)

lemma keeps_chains_calls [keeps_intros]:
  "keeps chains (must e f)" "keeps chains (must_have e g)" "keeps chains (expect_some g)"
  "keeps chains (expect_done f)" "keeps chains (post_error x p e)" "keeps chains (soft x p e f)"
  "keeps chains (set_properties x el ps)" "keeps chains (make_or x n m ps)" "keeps chains (play x p)"
  unfolding must_def must_have_def expect_some_def expect_done_def soft_def post_error_def set_properties_def
    make_or_def play_def
  by (intro keeps_intros)+

lemma keeps_chains_set_inner:
  "(\<And>gi. audio_maps (f gi) = audio_maps gi \<and> video_maps (f gi) = video_maps gi) \<Longrightarrow> keeps chains (set_inner f)"
  unfolding set_inner_def by (rule keeps_modify) (auto intro: chains_ok_same)

lemma keeps_chains_swap_entry:
  "(\<And>gi. audio_maps (upd (hm_insert k v) gi) = audio_maps gi \<and> video_maps (upd (hm_insert k v) gi) = video_maps gi)
    \<Longrightarrow> keeps chains (swap_entry k v get upd)"
  unfolding swap_entry_def by (auto simp: keeps_def intro: chains_ok_same)

lemma keeps_chains_shared_element [keeps_intros]:
  assumes "keeps chains build"
    and "\<And>e gi. audio_maps (upd (\<lambda>_. Some e) gi) = audio_maps gi \<and> video_maps (upd (\<lambda>_. Some e) gi) = video_maps gi"
  shows "keeps chains (shared_element get upd build)"
  unfolding shared_element_def by (intro keeps_intros assms keeps_chains_set_inner)

section \<open>The builders keep the chains\<close>

lemma keeps_chains_sources [keeps_intros]:
  "keeps chains (make_audio_source x p port ts)" "keeps chains (make_video_source x p port ts)"
  "keeps chains (make_video_rtcp_source x p port ts)"
  unfolding make_audio_source_def make_video_source_def make_video_rtcp_source_def
  by (intro keeps_intros keeps_chains_set_inner; simp add: chain_maps)+

lemma keeps_chains_shared [keeps_intros]:
  "keeps chains (shared_rtp_bin x n ts)" "keeps chains (shared_audio_mixer x ts)"
  "keeps chains (shared_opus_encoder x)" "keeps chains (shared_video_tail x ts)"
  "keeps chains clock \<Longrightarrow> keeps chains (shared_split_mux x clock m)"
  unfolding shared_rtp_bin_def shared_audio_mixer_def shared_opus_encoder_def shared_video_tail_def shared_split_mux_def
  by (intro keeps_intros; simp add: chain_maps)+

lemma keeps_chains_adding [keeps_intros]:
  "keeps chains (add_new x p what e)" "keeps chains (add_source x p src rtcp rb)"
  "keeps chains (add_audio_tail x p mixer enc)" "keeps chains (add_video_tail x p err tail)"
  unfolding add_new_def add_source_def add_audio_tail_def add_video_tail_def
  by (intro keeps_intros)+

lemma keeps_chains_session [keeps_intros]:
  "keeps chains (session_of x p)" "keeps chains (store_session sid m)"
  unfolding session_of_def store_session_def
  by (intro keeps_intros keeps_chains_set_inner; simp add: chain_maps)+

lemma keeps_chains_linking [keeps_intros]:
  "keeps chains (split_video_pad x sm)"
  "keeps chains (link_audio_source x m p port src rtcp rb)" "keeps chains (link_video_source x m p port src rtcp rb)"
  unfolding split_video_pad_def link_audio_source_def link_video_source_def
  by (intro keeps_intros keeps_chains_set_inner; simp add: chain_maps)+

lemma keeps_chains_tails [keeps_intros]:
  "keeps chains (link_video_tail x e tail sm)" "keeps chains (link_audio_tail x mixer enc tail sm)"
  unfolding link_video_tail_def link_audio_tail_def by (intro keeps_intros)+

lemma keeps_chains_start [keeps_intros]:
  "keeps chains (start_audio_recording x g port m p t)" "keeps chains (start_vp8_recording x g port m p t)"
  unfolding start_audio_recording_def start_vp8_recording_def pipeline_of_def attach_def
  by (intro keeps_intros)+

section \<open>The pad handler keeps the chains\<close>

lemma swap_video_chain_run:
  "swap_video_chain p c (gi, w) =
     (Ok (hm_get (queue_element_vp8_video_map gi) p,
        [(''rtp_vp8_de_pay element'', hm_get (rtp_vp8_de_pay_element_video_map gi) p),
         (''vp8_dec element'', hm_get (vp8_dec_element_video_map gi) p),
         (''video_convert element'', hm_get (video_convert_element_video_map gi) p),
         (''video_scale element'', hm_get (video_scale_element_video_map gi) p),
         (''caps_filter element'', hm_get (caps_filter_element_video_map gi) p)]),
      (gi\<lparr>queue_element_vp8_video_map := hm_insert p (vc_queue c) (queue_element_vp8_video_map gi),
          rtp_vp8_de_pay_element_video_map := hm_insert p (vc_depay c) (rtp_vp8_de_pay_element_video_map gi),
          vp8_dec_element_video_map := hm_insert p (vc_dec c) (vp8_dec_element_video_map gi),
          video_convert_element_video_map := hm_insert p (vc_convert c) (video_convert_element_video_map gi),
          video_scale_element_video_map := hm_insert p (vc_scale c) (video_scale_element_video_map gi),
          caps_filter_element_video_map := hm_insert p (vc_caps c) (caps_filter_element_video_map gi)\<rparr>, w))"
  by (simp add: swap_video_chain_def swap_entry_def and_then_def ret_def)

lemma swap_audio_chain_run:
  "swap_audio_chain p c (gi, w) =
     (Ok (hm_get (queue_element_audio_map gi) p,
        [(''rtp_opus_de_pay element'', hm_get (rtp_opus_de_pay_element_audio_map gi) p),
         (''opus_dec element'', hm_get (opus_dec_element_audio_map gi) p)]),
      (gi\<lparr>queue_element_audio_map := hm_insert p (ac_queue c) (queue_element_audio_map gi),
          rtp_opus_de_pay_element_audio_map := hm_insert p (ac_depay c) (rtp_opus_de_pay_element_audio_map gi),
          opus_dec_element_audio_map := hm_insert p (ac_dec c) (opus_dec_element_audio_map gi)\<rparr>, w))"
  by (simp add: swap_audio_chain_def swap_entry_def and_then_def ret_def)

lemma keeps_chains_swap [keeps_intros]:
  "keeps chains (swap_video_chain p c)" "keeps chains (swap_audio_chain p ac)"
  by (simp_all add: keeps_def swap_video_chain_run swap_audio_chain_run chains_ok_def chain_maps aligned_def)

lemma keeps_chains_drop [keeps_intros]: "keeps chains (drop_old x p what s e)"
  unfolding drop_old_def by (intro keeps_intros)

lemma keeps_chains_each [keeps_intros]:
  "keeps chains (drop_rest x p s rest)" "keeps chains (add_each x p es)" "keeps chains (link_each x p es)"
proof -
  show "keeps chains (drop_rest x p s rest)"
    by (induction rest) (auto intro!: keeps_intros)
  show "keeps chains (add_each x p es)"
    by (induction es) (auto intro!: keeps_intros)
  show "keeps chains (link_each x p es)"
    by (induction x p es rule: link_each.induct) (auto intro!: keeps_intros)
qed

lemma keeps_chains_or_stop [keeps_intros]:
  "(\<And>a. keeps chains (rest a)) \<Longrightarrow> keeps chains (or_stop x p e f rest)"
  "(\<And>a. keeps chains (rest a)) \<Longrightarrow> keeps chains (make_or_stop x p n m ps rest)"
  unfolding make_or_stop_def or_stop_def by (intro keeps_intros; simp)+

lemma keeps_chains_link [keeps_intros]:
  "keeps chains (drop_chain x p s q rest)" "keeps chains (link_queue x p pd e)"
  "keeps chains (compositor_pad x p c)" "keeps chains (link_compositor x p who caps)"
  "keeps chains (link_mixer x p who dec)" "keeps chains (drop_old_sink x p s oe)"
  unfolding drop_chain_def link_queue_def compositor_pad_def link_compositor_def link_mixer_def drop_old_sink_def
  by (intro keeps_intros keeps_chains_swap_entry; simp add: chain_maps)+

lemma keeps_chains_pads [keeps_intros]:
  "keeps chains (video_pad_added x p pd who)" "keeps chains (audio_pad_added x p pd who)"
  "keeps chains (video_rtcp_pad_added x p pd m)" "keeps chains (audio_rtcp_pad_added x p pd m)"
  unfolding video_pad_added_def audio_pad_added_def install_video_chain_def install_audio_chain_def
    video_rtcp_pad_added_def audio_rtcp_pad_added_def Let_def
  by (intro keeps_intros keeps_chains_swap_entry; simp add: chain_maps)+

lemma keeps_chains_handling [keeps_intros]: "keeps chains (rtp_bin_element_handling x po pd)"
  unfolding rtp_bin_element_handling_def pad_added_def pad_session_def
  by (intro keeps_intros keeps_chains_set_inner; simp add: chain_maps)

section \<open>Removal keeps the chains\<close>

lemma keeps_chains_detach [keeps_intros]: "keeps chains (detach_participants x ids p)"
proof (rule keepsI)
  fix s r s'
  assume ok: "chains s" and run: "detach_participants x ids p s = (r, s' :: gst_inner \<times> 'a)"
  obtain g w g' w' where s: "s = (g, w)" "s' = (g', w')" by (cases s, cases s')
  from detach_participants_run(1) [OF run [unfolded s]]
  have "audio_maps g' = map (hm_remove_all ids) (audio_maps g)"
    "video_maps g' = map (hm_remove_all ids) (video_maps g)"
    by (simp_all add: participant_maps_def chain_maps)
  with ok show "chains s'" by (simp add: s chains_ok_def aligned_def chain_maps)
qed

lemma keeps_chains_take_entry:
  "(\<And>gi. audio_maps (upd (hm_remove p) gi) = audio_maps gi \<and> video_maps (upd (hm_remove p) gi) = video_maps gi)
    \<Longrightarrow> keeps chains (take_entry p get upd)"
  unfolding take_entry_def by (auto simp: keeps_def intro: chains_ok_same)

lemma keeps_chains_drop_failed [keeps_intros]: "keeps chains (drop_failed_element x p e)"
  unfolding drop_failed_element_def by (intro keeps_intros)

lemma keeps_chains_drop_sessions [keeps_intros]: "keeps chains (drop_sessions P)"
  by (auto simp: keeps_def drop_sessions_def chain_maps intro: chains_ok_same)

lemma keeps_chains_failure [keeps_intros]: "keeps chains (handle_udp_src_failure x po p media)"
  unfolding handle_udp_src_failure_def
  by (intro keeps_intros keeps_chains_take_entry; simp add: chain_maps)

end
