(* ===== verification/Media_Options.thy ===== *)
theory Media_Options
  imports Text
begin

text \<open>
  What the server tells mediasoup (\<open>src/mediasoupv1/mod.rs\<close>): the codecs of every router
  (\<open>SFU::media_codecs\<close>) and the options of the two kinds of transports. The records name the fields the
  code sets; a field left at mediasoup's default is not part of them.
\<close>

section \<open>Codecs\<close>

datatype rtcp_feedback = TransportCc | Nack | NackPli | CcmFir | GoogRemb

datatype mime_type = MimeAudioOpus | MimeVideoVp8

datatype rtp_codec_capability =
    CodecAudio mime_type "nat option" nat nat "(string \<times> nat) list" "rtcp_feedback list"
  | CodecVideo mime_type "nat option" nat "(string \<times> nat) list" "rtcp_feedback list"

text \<open>MIME type, preferred payload type, clock rate, channels of the audio codec, parameters and feedback.\<close>

definition media_codecs :: "rtp_codec_capability list" where
  "media_codecs =
     [CodecAudio MimeAudioOpus (Some 111) 48000 2 [(''useinbandfec'', 1)] [TransportCc],
      CodecVideo MimeVideoVp8 (Some 96) 90000 [] [Nack, NackPli, CcmFir, GoogRemb, TransportCc]]"

section \<open>Transports\<close>

datatype protocol = Udp | Tcp

record listen_info =
  li_protocol :: protocol
  li_ip :: string
  li_announced_address :: "string option"
  li_port :: "nat option"
  li_port_range :: "(nat \<times> nat) option"
  li_flags :: "string option"
  li_send_buffer_size :: "nat option"
  li_recv_buffer_size :: "nat option"

record web_rtc_transport_options =
  wo_listen_info :: listen_info
  wo_enable_udp :: bool
  wo_prefer_udp :: bool
  wo_enable_tcp :: bool
  wo_prefer_tcp :: bool

record plain_transport_options =
  po_listen_info :: listen_info
  po_rtcp_mux :: bool
  po_comedia :: bool

definition localhost :: string where
  "localhost = ''127.0.0.1''"

text \<open>The range of ports is taken as an argument and left out of the options.\<close>

definition producer_plain_transport_options :: "(nat \<times> nat) option \<Rightarrow> plain_transport_options" where
  "producer_plain_transport_options port_range =
     \<lparr>po_listen_info = \<lparr>li_protocol = Udp, li_ip = localhost, li_announced_address = None, li_port = None,
        li_port_range = None, li_flags = None, li_send_buffer_size = None, li_recv_buffer_size = None\<rparr>,
      po_rtcp_mux = False, po_comedia = False\<rparr>"

end
