(* ===== verification/Sfu_State.thy ===== *)
theory Sfu_State
  imports Db Chains Media_Options
begin

text \<open>
  The state of the server (\<open>SFU\<close> and \<open>Inner\<close> in \<open>src/mediasoupv1/mod.rs\<close>), the
  calls it makes outside the repository (mediasoup, the operating system, GStreamer, the SQL
  driver), and the operations every handler shares: the shard of a meeting, the queries over the
  in-memory maps, the user events and the free-port search. Handles of mediasoup are their ids;
  values the code only passes along (DTLS, ICE and RTP parameters) are their JSON text. Closing a
  handle is dropping it, that is, taking it out of its map. An operation reads and writes the
  maps under their locks; it is one step of the model.
\<close>

section \<open>Data\<close>

record web_rtc_transport =
  wt_id :: string
  wt_dtls_parameters :: string
  wt_ice_candidates :: string
  wt_ice_parameters :: string

record consumer_handle =
  co_id :: string
  co_producer_id :: string
  co_rtp_parameters :: string

record transport_in_memory =
  tim_transport :: web_rtc_transport
  tim_meeting_id :: string
  tim_participant_id :: string
  tim_kind :: string

record producer_in_memory =
  pim_producer :: string
  pim_meeting_id :: string
  pim_participant_id :: string
  pim_kind :: string
  pim_instance_id :: string

record consumer_in_memory =
  cim_consumer :: consumer_handle
  cim_meeting_id :: string
  cim_participant_id :: string
  cim_target_participant_id :: string
  cim_kind :: string
  cim_instance_id :: string
  cim_producer_id :: string

record router_in_memory =
  rim_router :: string
  rim_capacity :: int

record producer_consumer_capacity =
  pcc_producer_capacity :: "int option"
  pcc_consumer_capacity :: "int option"
  pcc_capacity :: "int option"

record user_event =
  ue_event_id :: string
  ue_user_id :: string
  ue_event_type :: string
  ue_event_time :: int
  ue_instance_id :: string
  ue_meeting_id :: string

datatype kind = Video | Audio | ScreenShare

datatype media_kind = MediaVideo | MediaAudio

definition parse_kind :: "string \<Rightarrow> string + kind" where
  "parse_kind input =
     (let k = to_lowercase input in
      if k = ''video'' then Inr Video
      else if k = ''audio'' then Inr Audio
      else if k = ''screenshare'' then Inr ScreenShare
      else Inl (quoted input @ '' is not a valid color''))"

fun show_kind :: "kind \<Rightarrow> string" where
  "show_kind Video = ''video''"
| "show_kind Audio = ''audio''"
| "show_kind ScreenShare = ''screenshare''"

record sfu_config =
  rtc_default_max_participants_per_worker :: int
  rtc_default_max_producers_or_consumers_per_worker :: int
  rtc_port_range_start :: nat
  rtc_port_range_end :: nat
  plain_transport_video_port_range_start :: nat
  plain_transport_video_port_range_end :: nat
  plain_transport_audio_port_range_start :: nat
  plain_transport_audio_port_range_end :: nat
  rtc_listen_ip :: string
  max_incoming_bitrate :: nat
  min_outgoing_bitrate :: nat
  max_outgoing_bitrate :: nat
  user_event_channel_count :: nat
  consumer_shard_count :: nat

record instance_meta =
  external_ip :: string
  internal_ip :: string

section \<open>The calls outside the repository\<close>

datatype request_error = ResponseError string string | OtherRequestError string

datatype bitrate_setting = MaxIncoming nat | MinOutgoing nat | MaxOutgoing nat

record worker_settings =
  ws_rtc_port_range :: "nat \<times> nat"
  ws_log_level :: string
  ws_log_tags :: "string list"
  ws_enable_liburing :: bool

record 'w media_ext =
  x_create_worker :: "worker_settings \<Rightarrow> 'w \<Rightarrow> (string + string) \<times> 'w"
  x_create_router :: "string \<Rightarrow> rtp_codec_capability list \<Rightarrow> 'w \<Rightarrow> (string + string) \<times> 'w"
  x_router_rtp_capabilities :: "string \<Rightarrow> string"
  x_create_webrtc_transport :: "string \<Rightarrow> web_rtc_transport_options \<Rightarrow> 'w \<Rightarrow> (string + web_rtc_transport) \<times> 'w"
  x_set_bitrate :: "string \<Rightarrow> bitrate_setting \<Rightarrow> 'w \<Rightarrow> string option \<times> 'w"
  x_connect_transport :: "string \<Rightarrow> string \<Rightarrow> 'w \<Rightarrow> request_error option \<times> 'w"
  x_restart_ice :: "string \<Rightarrow> 'w \<Rightarrow> (string + string) \<times> 'w"
  x_produce :: "string \<Rightarrow> media_kind \<Rightarrow> string \<Rightarrow> 'w \<Rightarrow> (string + string) \<times> 'w"
  x_consume :: "string \<Rightarrow> string \<Rightarrow> string \<Rightarrow> 'w \<Rightarrow> (string + consumer_handle) \<times> 'w"
  x_parse_producer_id :: "string \<Rightarrow> string + string"
  x_pause_producer :: "string \<Rightarrow> 'w \<Rightarrow> string option \<times> 'w"
  x_resume_producer :: "string \<Rightarrow> 'w \<Rightarrow> string option \<times> 'w"
  x_pause_consumer :: "string \<Rightarrow> 'w \<Rightarrow> string option \<times> 'w"
  x_resume_consumer :: "string \<Rightarrow> 'w \<Rightarrow> string option \<times> 'w"
  x_pipe_producer_to_router :: "string \<Rightarrow> string \<Rightarrow> string \<Rightarrow> 'w \<Rightarrow> string option \<times> 'w"
  x_create_plain_transport :: "string \<Rightarrow> plain_transport_options \<Rightarrow> 'w \<Rightarrow> (string + string) \<times> 'w"
  x_connect_plain_transport :: "string \<Rightarrow> string \<Rightarrow> nat \<Rightarrow> nat \<Rightarrow> 'w \<Rightarrow> string option \<times> 'w"
  x_consume_plain_transport :: "string \<Rightarrow> string \<Rightarrow> rtp_codec_capability list \<Rightarrow> bool \<Rightarrow> 'w \<Rightarrow> (string + consumer_handle) \<times> 'w"

record 'w os_ext =
  x_new_uuid :: "'w \<Rightarrow> string \<times> 'w"
  x_now_millis :: "'w \<Rightarrow> int \<times> 'w"
  x_now_nanos :: "'w \<Rightarrow> nat \<times> 'w"
  x_udp_bind :: "nat \<Rightarrow> 'w \<Rightarrow> bool \<times> 'w"
  x_path_exists :: "string \<Rightarrow> 'w \<Rightarrow> bool \<times> 'w"
  x_create_dir_all :: "string \<Rightarrow> 'w \<Rightarrow> string option \<times> 'w"
  x_hash :: "string \<Rightarrow> 64 word"

record 'w ext =
  ext_sql :: "'w sql_driver"
  ext_ms :: "'w media_ext"
  ext_os :: "'w os_ext"
  ext_gst :: "'w gst_ext"

section \<open>The server\<close>

record 'w sfu =
  config :: sfu_config
  instance_meta :: instance_meta
  workers_map :: "(string, string) hmap"
  routers_map :: "(string, router_in_memory) hmap"
  transport_map :: "(string, transport_in_memory) hmap"
  producer_map :: "(string, producer_in_memory) hmap"
  consumer_map_shards :: "(string, consumer_in_memory) shards"
  plain_transport_map :: "(string, string) hmap"
  plain_transport_consumer_map :: "(string, consumer_handle) hmap"
  pipeline_map :: "(string, gstreamer option) hmap"
  lock_map :: "(string, unit) hmap"
  user_channel :: "user_event list"
  world :: 'w

type_synonym ('w, 'a) op = "('w sfu, 'a, string) eff"

definition on_world :: "('w, 'a, 'e) eff \<Rightarrow> ('w sfu, 'a, 'e) eff" where
  [eff_simps]: "on_world = zoom world (\<lambda>w s. s\<lparr>world := w\<rparr>)"

definition call_world :: "('w \<Rightarrow> 'a \<times> 'w) \<Rightarrow> ('w sfu, 'a, 'e) eff" where
  [eff_simps]: "call_world f = on_world (call f)"

text \<open>A call that answers \<open>Result\<close>; the error text is wrapped as the code's \<open>format!\<close> does.\<close>

definition call_result :: "string \<Rightarrow> ('w \<Rightarrow> (string + 'a) \<times> 'w) \<Rightarrow> ('w, 'a) op" where
  "call_result prefix f =
     and_then (call_world f) (\<lambda>r. case r of Inl e \<Rightarrow> fail (prefix @ e) | Inr a \<Rightarrow> ret a)"

definition call_unit :: "string \<Rightarrow> ('w \<Rightarrow> string option \<times> 'w) \<Rightarrow> ('w, unit) op" where
  "call_unit prefix f =
     and_then (call_world f) (\<lambda>r. case r of Some e \<Rightarrow> fail (prefix @ e) | None \<Rightarrow> ret ())"

definition run_mutate :: "'w ext \<Rightarrow> bool \<Rightarrow> dao list \<Rightarrow> ('w sfu, string \<times> bool, db_error) eff" where
  "run_mutate x rb es =
     on_world (mutate (ext_sql x) \<lparr>rollback_on_duplicate = rb, tx_opts = DefaultTx\<rparr> es)"

section \<open>Shards\<close>

text \<open>The index is the hash of the meeting id modulo the number of shards; no shard, a panic.\<close>

definition shard_index :: "'w ext \<Rightarrow> 'w sfu \<Rightarrow> string \<Rightarrow> nat" where
  "shard_index x s meeting_id = unat (x_hash (ext_os x) meeting_id) mod length (consumer_map_shards s)"

definition get_shard :: "'w ext \<Rightarrow> string \<Rightarrow> ('w sfu, nat, 'e) eff" where
  "get_shard x meeting_id =
     and_then (gets (\<lambda>s. length (consumer_map_shards s))) (\<lambda>n.
     if n = 0 then panic else gets (\<lambda>s. shard_index x s meeting_id))"

definition shard_of :: "'w ext \<Rightarrow> 'w sfu \<Rightarrow> string \<Rightarrow> (string, consumer_in_memory) hmap" where
  "shard_of x s meeting_id =
     (if consumer_map_shards s = [] then [] else consumer_map_shards s ! shard_index x s meeting_id)"

definition read_shard :: "'w ext \<Rightarrow> string \<Rightarrow> ('w sfu, (string, consumer_in_memory) hmap, 'e) eff" where
  "read_shard x meeting_id =
     and_then (get_shard x meeting_id) (\<lambda>i. gets (\<lambda>s. consumer_map_shards s ! i))"

definition write_shard :: "'w ext \<Rightarrow> string \<Rightarrow>
    ((string, consumer_in_memory) hmap \<Rightarrow> (string, consumer_in_memory) hmap) \<Rightarrow> ('w sfu, unit, 'e) eff" where
  "write_shard x meeting_id f =
     and_then (get_shard x meeting_id) (\<lambda>i.
     modify (\<lambda>s. s\<lparr>consumer_map_shards := sh_update i f (consumer_map_shards s)\<rparr>))"

section \<open>Queries over the maps\<close>

text \<open>The code lists the id of the stored handle, not the key of the entry.\<close>

definition producer_ids_where :: "(producer_in_memory \<Rightarrow> bool) \<Rightarrow> (string, producer_in_memory) hmap \<Rightarrow> string list" where
  "producer_ids_where p m = map (\<lambda>e. pim_producer (snd e)) (filter (\<lambda>e. p (snd e)) m)"

definition consumer_ids_where :: "(consumer_in_memory \<Rightarrow> bool) \<Rightarrow> (string, consumer_in_memory) hmap \<Rightarrow> string list" where
  "consumer_ids_where p m = map (\<lambda>e. co_id (cim_consumer (snd e))) (filter (\<lambda>e. p (snd e)) m)"

definition get_participant_producers :: "string \<Rightarrow> ('w sfu, string list, 'e) eff" where
  "get_participant_producers participant_id =
     gets (\<lambda>s. producer_ids_where (\<lambda>v. pim_participant_id v = participant_id) (producer_map s))"

definition get_participant_consumers :: "'w ext \<Rightarrow> string \<Rightarrow> string \<Rightarrow> ('w sfu, string list, 'e) eff" where
  "get_participant_consumers x participant_id meeting_id =
     and_then (read_shard x meeting_id) (\<lambda>m.
     ret (consumer_ids_where (\<lambda>v. cim_participant_id v = participant_id) m))"

definition get_participant_producers_for_instance_in_meeting ::
  "string \<Rightarrow> string \<Rightarrow> string \<Rightarrow> ('w sfu, string list, 'e) eff" where
  "get_participant_producers_for_instance_in_meeting participant_id meeting_id instance_id =
     gets (\<lambda>s. producer_ids_where (\<lambda>v. pim_participant_id v = participant_id \<and>
       pim_meeting_id v = meeting_id \<and> pim_instance_id v = instance_id) (producer_map s))"

definition get_participant_consumers_for_instance_in_meeting ::
  "'w ext \<Rightarrow> string \<Rightarrow> string \<Rightarrow> string \<Rightarrow> ('w sfu, string list, 'e) eff" where
  "get_participant_consumers_for_instance_in_meeting x participant_id meeting_id instance_id =
     and_then (read_shard x meeting_id) (\<lambda>m.
     ret (consumer_ids_where (\<lambda>v. cim_participant_id v = participant_id \<and>
       cim_meeting_id v = meeting_id \<and> cim_instance_id v = instance_id) m))"

definition get_participant_producers_excluding_instance ::
  "string \<Rightarrow> string \<Rightarrow> string \<Rightarrow> ('w sfu, string list, 'e) eff" where
  "get_participant_producers_excluding_instance participant_id meeting_id instance_id =
     gets (\<lambda>s. producer_ids_where (\<lambda>v. pim_participant_id v = participant_id \<and>
       pim_meeting_id v = meeting_id \<and> pim_instance_id v \<noteq> instance_id) (producer_map s))"

definition get_consumers_for_producer_ids ::
  "'w ext \<Rightarrow> string list \<Rightarrow> string \<Rightarrow> ('w sfu, string list, 'e) eff" where
  "get_consumers_for_producer_ids x producer_ids meeting_id =
     and_then (read_shard x meeting_id) (\<lambda>m.
     ret (consumer_ids_where (\<lambda>v. cim_producer_id v \<in> set producer_ids) m))"

definition get_participant_consumers_excluding_instance ::
  "'w ext \<Rightarrow> string \<Rightarrow> string \<Rightarrow> string \<Rightarrow> ('w sfu, string list, 'e) eff" where
  "get_participant_consumers_excluding_instance x participant_id meeting_id instance_id =
     and_then (read_shard x meeting_id) (\<lambda>m.
     ret (consumer_ids_where (\<lambda>v. cim_participant_id v = participant_id \<and>
       cim_meeting_id v = meeting_id \<and> cim_instance_id v \<noteq> instance_id) m))"

definition get_all_producers_for_meeting :: "string \<Rightarrow> ('w sfu, string list, 'e) eff" where
  "get_all_producers_for_meeting meeting_id =
     gets (\<lambda>s. producer_ids_where (\<lambda>v. pim_meeting_id v = meeting_id) (producer_map s))"

definition get_all_consumers_for_meeting :: "'w ext \<Rightarrow> string \<Rightarrow> ('w sfu, string list, 'e) eff" where
  "get_all_consumers_for_meeting x meeting_id =
     and_then (read_shard x meeting_id) (\<lambda>m.
     ret (consumer_ids_where (\<lambda>v. cim_meeting_id v = meeting_id) m))"

section \<open>Events and ports\<close>

text \<open>
  The channel is bounded: a full channel blocks the sender until the metrics task receives. The
  model appends the event, the state after the send has gone through.
\<close>

definition push_user_session_event :: "'w ext \<Rightarrow> string \<Rightarrow> string \<Rightarrow> string \<Rightarrow> string \<Rightarrow> ('w sfu, unit, 'e) eff" where
  "push_user_session_event x participant_id meeting_id event_type instance_id =
     and_then (call_world (x_now_millis (ext_os x))) (\<lambda>current_time.
     and_then (call_world (x_new_uuid (ext_os x))) (\<lambda>event_id.
     modify (\<lambda>s. s\<lparr>user_channel := user_channel s @
       [\<lparr>ue_event_id = event_id, ue_user_id = participant_id, ue_event_type = event_type,
         ue_event_time = current_time, ue_instance_id = instance_id, ue_meeting_id = meeting_id\<rparr>]\<rparr>)))"

text \<open>The ports \<open>(start..end).step_by(2)\<close>, tried in order until one can be bound.\<close>

definition port_range :: "nat \<Rightarrow> nat \<Rightarrow> nat list" where
  "port_range start stop = map (\<lambda>i. start + 2 * i) [0..<(stop - start + 1) div 2]"

fun first_free :: "'w ext \<Rightarrow> nat list \<Rightarrow> ('w, nat) op" where
  "first_free x [] = fail ''No free ports available for recording''"
| "first_free x (p # ps) =
     and_then (call_world (x_udp_bind (ext_os x) p)) (\<lambda>ok. if ok then ret p else first_free x ps)"

definition get_free_video_port :: "'w ext \<Rightarrow> ('w, nat) op" where
  "get_free_video_port x =
     and_then (gets config) (\<lambda>c.
     first_free x (port_range (plain_transport_video_port_range_start c) (plain_transport_video_port_range_end c)))"

definition get_free_audio_port :: "'w ext \<Rightarrow> ('w, nat) op" where
  "get_free_audio_port x =
     and_then (gets config) (\<lambda>c.
     first_free x (port_range (plain_transport_audio_port_range_start c) (plain_transport_audio_port_range_end c)))"

definition lock_entry :: "string \<Rightarrow> ('w sfu, unit, 'e) eff" where
  "lock_entry k = modify (\<lambda>s. s\<lparr>lock_map := hm_entry k () (lock_map s)\<rparr>)"


section \<open>Lemmas\<close>

lemma get_shard_run:
  "get_shard x m s =
     (if consumer_map_shards s = [] then (Panic, s) else (Ok (shard_index x s m), s))"
  by (simp add: get_shard_def and_then_def gets_def panic_def)

lemma read_shard_run:
  "read_shard x m s = (if consumer_map_shards s = [] then (Panic, s) else (Ok (shard_of x s m), s))"
  by (simp add: read_shard_def and_then_def get_shard_run gets_def shard_of_def)

lemma write_shard_run:
  "write_shard x m f s =
     (if consumer_map_shards s = [] then (Panic, s)
      else (Ok (), s\<lparr>consumer_map_shards := sh_update (shard_index x s m) f (consumer_map_shards s)\<rparr>))"
  by (simp add: write_shard_def and_then_def get_shard_run modify_def)

lemma shard_index_less: "consumer_map_shards s \<noteq> [] \<Longrightarrow> shard_index x s m < length (consumer_map_shards s)"
  by (simp add: shard_index_def)

lemma shard_index_cong:
  "length (consumer_map_shards s') = length (consumer_map_shards s) \<Longrightarrow> shard_index x s' m = shard_index x s m"
  by (simp add: shard_index_def)

lemma shard_of_write:
  assumes "consumer_map_shards s \<noteq> []"
  shows "shard_of x (s\<lparr>consumer_map_shards := sh_update (shard_index x s m) f (consumer_map_shards s)\<rparr>) m'
     = (if shard_index x s m' = shard_index x s m then f (shard_of x s m) else shard_of x s m')"
proof -
  have "shard_index x (s\<lparr>consumer_map_shards := sh_update (shard_index x s m) f (consumer_map_shards s)\<rparr>) m'
      = shard_index x s m'"
    by (rule shard_index_cong) simp
  moreover have "sh_update i f (consumer_map_shards s) \<noteq> []" for i
    using assms by (simp add: sh_update_def)
  ultimately show ?thesis
    using assms shard_index_less [OF assms] by (simp add: shard_of_def)
qed

lemma in_producer_ids_where:
  "i \<in> set (producer_ids_where p m) \<longleftrightarrow> (\<exists>k v. (k, v) \<in> set m \<and> p v \<and> i = pim_producer v)"
  by (force simp: producer_ids_where_def)

lemma in_consumer_ids_where:
  "i \<in> set (consumer_ids_where p m) \<longleftrightarrow> (\<exists>k v. (k, v) \<in> set m \<and> p v \<and> i = co_id (cim_consumer v))"
  by (force simp: consumer_ids_where_def)

lemma on_world_run:
  "on_world m s = (fst (m (world s)), s\<lparr>world := snd (m (world s))\<rparr>)"
  by (simp add: on_world_def zoom_def split_beta)

lemma call_world_run:
  "call_world f s = (Ok (fst (f (world s))), s\<lparr>world := snd (f (world s))\<rparr>)"
  by (simp add: call_world_def on_world_run call_def split_beta)

lemma push_event_run:
  "\<exists>ev w. push_user_session_event x p m t i s = (Ok (), s\<lparr>world := w, user_channel := user_channel s @ [ev]\<rparr>) \<and>
     ue_user_id ev = p \<and> ue_meeting_id ev = m \<and> ue_event_type ev = t \<and> ue_instance_id ev = i"
  by (auto simp: push_user_session_event_def and_then_def call_world_run modify_def)

text \<open>What no call outside the repository can change: everything but the world.\<close>

definition same_but_world :: "'w sfu \<Rightarrow> 'w sfu \<Rightarrow> bool" where
  "same_but_world s0 s \<longleftrightarrow> s\<lparr>world := world s0\<rparr> = s0"

lemma same_but_world_refl [simp]: "same_but_world s s"
  by (simp add: same_but_world_def)

lemma same_but_worldD:
  assumes "same_but_world s0 s"
  shows "\<exists>w. s = s0\<lparr>world := w\<rparr>"
proof -
  have "s = (s\<lparr>world := world s0\<rparr>)\<lparr>world := world s\<rparr>" by simp
  with assms show ?thesis unfolding same_but_world_def by metis
qed

lemma same_but_world_update [simp]: "same_but_world s0 (s\<lparr>world := w\<rparr>) = same_but_world s0 s"
  by (simp add: same_but_world_def)

lemma keeps_sbw_on_world [keeps_intros]: "keeps (same_but_world s0) (on_world m)"
  by (simp add: keeps_def on_world_run)

lemma keeps_sbw_call_world [keeps_intros]: "keeps (same_but_world s0) (call_world f)"
  by (simp add: keeps_def call_world_run)

lemma keeps_sbw_call_result [keeps_intros]: "keeps (same_but_world s0) (call_result pre f)"
  unfolding call_result_def by (intro keeps_intros)

lemma keeps_sbw_call_unit [keeps_intros]: "keeps (same_but_world s0) (call_unit pre f)"
  unfolding call_unit_def by (intro keeps_intros)

lemma keeps_sbw_run_mutate [keeps_intros]: "keeps (same_but_world s0) (run_mutate x rb es)"
  unfolding run_mutate_def by (intro keeps_intros)

lemma keeps_sbw_first_free [keeps_intros]: "keeps (same_but_world s0) (first_free x ps)"
  by (induction ps) (auto intro!: keeps_intros)

lemma keeps_sbw_video_port [keeps_intros]: "keeps (same_but_world s0) (get_free_video_port x)"
  unfolding get_free_video_port_def by (intro keeps_intros)

lemma keeps_sbw_audio_port [keeps_intros]: "keeps (same_but_world s0) (get_free_audio_port x)"
  unfolding get_free_audio_port_def by (intro keeps_intros)

lemma sbw_run:
  assumes "keeps (same_but_world s) m" and "m s = (r, s')"
  shows "\<exists>w. s' = s\<lparr>world := w\<rparr>"
  by (rule same_but_worldD, rule keepsD [OF assms(1) _ assms(2)]) simp

end
