(* ===== verification/Config.thy ===== *)
theory Config
  imports Sfu_State
begin

text \<open>
  Configuration: \<open>get_env\<close> (\<open>src/common/mod.rs\<close>), \<open>SFUConfig\<close> (\<open>src/mediasoup/mod.rs\<close>),
  \<open>MySqlUrl\<close> (\<open>src/data/mod.rs\<close>), \<open>load_env\<close> and \<open>get_instance_meta\<close> (\<open>src/main.rs\<close>). The
  environment is two lookups, the \<open>.env\<close> file (crate \<open>dotenvy\<close>) and the process; a setting that
  does not parse is a panic (\<open>expect\<close>).
\<close>

section \<open>The environment\<close>

record environment =
  env_file :: "string \<Rightarrow> string option"
  env_process :: "string \<Rightarrow> string option"

definition get_env :: "environment \<Rightarrow> string \<Rightarrow> string \<Rightarrow> string" where
  "get_env e key dflt =
     (case env_file e key of
        Some v \<Rightarrow> v
      | None \<Rightarrow> (case env_process e key of Some v \<Rightarrow> v | None \<Rightarrow> dflt))"

definition setting :: "string \<Rightarrow> string \<Rightarrow> (string \<Rightarrow> 'a option) \<Rightarrow> (environment, 'a, string) eff" where
  "setting key dflt parse = and_then (gets (\<lambda>e. get_env e key dflt)) (\<lambda>v. unwrap (parse v))"

section \<open>Addresses\<close>

text \<open>An octet: at most three digits, no leading zero, below 256.\<close>

definition is_octet :: "string \<Rightarrow> bool" where
  "is_octet w \<longleftrightarrow> length w \<le> 3 \<and> (length w = 1 \<or> take 1 w \<noteq> ''0'') \<and>
     (case read_nat w of None \<Rightarrow> False | Some n \<Rightarrow> n < 256)"

definition is_ipv4 :: "string \<Rightarrow> bool" where
  "is_ipv4 s \<longleftrightarrow> (let ws = split_at_char (CHR ''.'') s in length ws = 4 \<and> list_all is_octet ws)"

text \<open>
  \<open>IpAddr\<close> keeps the address; the model keeps its text. IPv6 text is judged by the argument \<open>v6\<close>.
\<close>

definition parse_ip :: "(string \<Rightarrow> bool) \<Rightarrow> string \<Rightarrow> string option" where
  "parse_ip v6 s = (if is_ipv4 s \<or> v6 s then Some s else None)"

section \<open>The configuration of the server\<close>

definition i32 :: nat where "i32 = 32"
definition u16 :: nat where "u16 = 16"
definition u32 :: nat where "u32 = 32"
definition usize :: nat where "usize = 64"

definition sfu_config_default :: sfu_config where
  "sfu_config_default = \<lparr>
     rtc_default_max_participants_per_worker = 240,
     rtc_default_max_producers_or_consumers_per_worker = 480,
     rtc_port_range_start = 40000, rtc_port_range_end = 45000,
     plain_transport_video_port_range_start = 50000, plain_transport_video_port_range_end = 55000,
     plain_transport_audio_port_range_start = 60000, plain_transport_audio_port_range_end = 65000,
     rtc_listen_ip = ''127.0.0.1'',
     max_incoming_bitrate = 10000000, min_outgoing_bitrate = 100000, max_outgoing_bitrate = 10000000,
     user_event_channel_count = 100, consumer_shard_count = 6\<rparr>"

definition sfu_config_from_env :: "(string \<Rightarrow> bool) \<Rightarrow> (environment, sfu_config, string) eff" where
  "sfu_config_from_env v6 =
     and_then (setting ''RTC_DEFAULT_MAX_PARTICIPANTS_PER_WORKER'' ''240'' (parse_signed i32)) (\<lambda>c1.
     and_then (setting ''RTC_DEFAULT_MAX_PRODUCERS_OR_CONSUMERS_PER_WORKER'' ''480'' (parse_signed i32)) (\<lambda>c2.
     and_then (setting ''RTC_PORT_RANGE_START'' ''40000'' (parse_unsigned u16)) (\<lambda>c3.
     and_then (setting ''RTC_PORT_RANGE_END'' ''45000'' (parse_unsigned u16)) (\<lambda>c4.
     and_then (setting ''PLAIN_TRANSPORT_VIDEO_PORT_RANGE_START'' ''50000'' (parse_unsigned u16)) (\<lambda>c5.
     and_then (setting ''PLAIN_TRANSPORT_VIDEO_PORT_RANGE_END'' ''55000'' (parse_unsigned u16)) (\<lambda>c6.
     and_then (setting ''PLAIN_TRANSPORT_AUDIO_PORT_RANGE_START'' ''60000'' (parse_unsigned u16)) (\<lambda>c7.
     and_then (setting ''PLAIN_TRANSPORT_AUDIO_PORT_RANGE_END'' ''65000'' (parse_unsigned u16)) (\<lambda>c8.
     and_then (setting ''RTC_LISTEN_IP'' ''0.0.0.0'' (parse_ip v6)) (\<lambda>c9.
     and_then (setting ''RTC_MAX_INCOMING_BITRATE'' ''10000000'' (parse_unsigned u32)) (\<lambda>c10.
     and_then (setting ''RTC_MIN_OUTGOING_BITRATE'' ''100000'' (parse_unsigned u32)) (\<lambda>c11.
     and_then (setting ''RTC_MAX_OUTGOING_BITRATE'' ''10000000'' (parse_unsigned u32)) (\<lambda>c12.
     and_then (setting ''USER_EVENT_CHANNEL_COUNT_NAME'' ''100'' (parse_unsigned usize)) (\<lambda>c13.
     and_then (setting ''CONSUMER_SHARD_COUNT_NAME'' ''6'' (parse_unsigned usize)) (\<lambda>c14.
     ret \<lparr>rtc_default_max_participants_per_worker = c1,
          rtc_default_max_producers_or_consumers_per_worker = c2,
          rtc_port_range_start = c3, rtc_port_range_end = c4,
          plain_transport_video_port_range_start = c5, plain_transport_video_port_range_end = c6,
          plain_transport_audio_port_range_start = c7, plain_transport_audio_port_range_end = c8,
          rtc_listen_ip = c9, max_incoming_bitrate = c10, min_outgoing_bitrate = c11,
          max_outgoing_bitrate = c12, user_event_channel_count = c13, consumer_shard_count = c14\<rparr>))))))))))))))"

section \<open>Database address and instance\<close>

definition mysql_url :: "environment \<Rightarrow> string" where
  "mysql_url e =
     (case env_process e ''DATABASE_URL'' of
        Some u \<Rightarrow> u
      | None \<Rightarrow> ''mysql://'' @ get_env e ''MYSQL_USER'' ''root'' @ '':'' @
          get_env e ''MYSQL_PASSWORD'' '''' @ ''@'' @ get_env e ''MYSQL_HOST'' ''127.0.0.1'' @ ''/'' @
          get_env e ''MYSQL_DATABASE'' ''doordarshan'')"

definition load_env :: "environment \<Rightarrow> string" where
  "load_env e = (case env_process e ''ENV'' of None \<Rightarrow> ''local'' | Some v \<Rightarrow> v)"

definition get_instance_meta :: "string \<Rightarrow> (environment, instance_meta, string) eff" where
  "get_instance_meta current_environment =
     (if current_environment \<noteq> ''local'' then
        and_then (gets (\<lambda>e. env_process e ''PUBLIC_IP'')) (\<lambda>external.
        and_then (unwrap external) (\<lambda>external_ip.
        and_then (gets (\<lambda>e. env_process e ''PRIVATE_IP'')) (\<lambda>internal.
        and_then (unwrap internal) (\<lambda>internal_ip.
        ret \<lparr>external_ip = external_ip, internal_ip = internal_ip\<rparr>))))
      else ret \<lparr>external_ip = ''127.0.0.1'', internal_ip = ''127.0.0.1''\<rparr>)"

section \<open>Lemmas\<close>

lemma setting_run:
  "setting key dflt parse e =
     (case parse (get_env e key dflt) of None \<Rightarrow> (Panic, e) | Some v \<Rightarrow> (Ok v, e))"
  by (auto simp: setting_def eff_simps split: option.splits)

lemma get_env_unset [simp]: "env_file e k = None \<Longrightarrow> env_process e k = None \<Longrightarrow> get_env e k d = d"
  by (simp add: get_env_def)

lemma get_env_file [simp]: "env_file e k = Some v \<Longrightarrow> get_env e k d = v"
  by (simp add: get_env_def)

lemma get_env_process [simp]: "env_file e k = None \<Longrightarrow> env_process e k = Some v \<Longrightarrow> get_env e k d = v"
  by (simp add: get_env_def)

text \<open>Printing a configuration as the settings it is read from.\<close>

definition config_settings :: "sfu_config \<Rightarrow> (string \<times> string) list" where
  "config_settings c =
     [(''RTC_DEFAULT_MAX_PARTICIPANTS_PER_WORKER'', show_int (rtc_default_max_participants_per_worker c)),
      (''RTC_DEFAULT_MAX_PRODUCERS_OR_CONSUMERS_PER_WORKER'',
         show_int (rtc_default_max_producers_or_consumers_per_worker c)),
      (''RTC_PORT_RANGE_START'', show_nat (rtc_port_range_start c)),
      (''RTC_PORT_RANGE_END'', show_nat (rtc_port_range_end c)),
      (''PLAIN_TRANSPORT_VIDEO_PORT_RANGE_START'', show_nat (plain_transport_video_port_range_start c)),
      (''PLAIN_TRANSPORT_VIDEO_PORT_RANGE_END'', show_nat (plain_transport_video_port_range_end c)),
      (''PLAIN_TRANSPORT_AUDIO_PORT_RANGE_START'', show_nat (plain_transport_audio_port_range_start c)),
      (''PLAIN_TRANSPORT_AUDIO_PORT_RANGE_END'', show_nat (plain_transport_audio_port_range_end c)),
      (''RTC_LISTEN_IP'', rtc_listen_ip c),
      (''RTC_MAX_INCOMING_BITRATE'', show_nat (max_incoming_bitrate c)),
      (''RTC_MIN_OUTGOING_BITRATE'', show_nat (min_outgoing_bitrate c)),
      (''RTC_MAX_OUTGOING_BITRATE'', show_nat (max_outgoing_bitrate c)),
      (''USER_EVENT_CHANNEL_COUNT_NAME'', show_nat (user_event_channel_count c)),
      (''CONSUMER_SHARD_COUNT_NAME'', show_nat (consumer_shard_count c))]"

text \<open>The fields fit the widths of their Rust types.\<close>

definition config_fits :: "(string \<Rightarrow> bool) \<Rightarrow> sfu_config \<Rightarrow> bool" where
  "config_fits v6 c \<longleftrightarrow>
     (\<forall>i \<in> {rtc_default_max_participants_per_worker c, rtc_default_max_producers_or_consumers_per_worker c}.
        - (2 ^ 31) \<le> i \<and> i < 2 ^ 31) \<and>
     (\<forall>n \<in> {rtc_port_range_start c, rtc_port_range_end c, plain_transport_video_port_range_start c,
            plain_transport_video_port_range_end c, plain_transport_audio_port_range_start c,
            plain_transport_audio_port_range_end c}. n < 2 ^ 16) \<and>
     (\<forall>n \<in> {max_incoming_bitrate c, min_outgoing_bitrate c, max_outgoing_bitrate c}. n < 2 ^ 32) \<and>
     (\<forall>n \<in> {user_event_channel_count c, consumer_shard_count c}. n < 2 ^ 64) \<and>
     (is_ipv4 (rtc_listen_ip c) \<or> v6 (rtc_listen_ip c))"

text \<open>
  C26: A configuration survives the environment. When the process environment holds the printed
  fields of a configuration whose fields fit their types, and the \<open>.env\<close> file sets nothing,
  \<open>SFUConfig::from_env\<close> reads that configuration back.
\<close>

theorem from_env_roundtrip:
  assumes "config_fits v6 c" and "env_file e = (\<lambda>_. None)"
    and "\<And>k v. (k, v) \<in> set (config_settings c) \<Longrightarrow> env_process e k = Some v"
  shows "sfu_config_from_env v6 e = (Ok c, e)"
proof -
  note unsigned = parse_show_unsigned [where w = u16, unfolded u16_def]
    parse_show_unsigned [where w = u32, unfolded u32_def]
    parse_show_unsigned [where w = usize, unfolded usize_def]
  note signed = parse_show_signed [where w = i32, unfolded i32_def]
  show ?thesis
    using assms(1,2) assms(3)
    by (simp add: sfu_config_from_env_def and_then_def setting_run ret_def config_settings_def
        config_fits_def parse_ip_def signed unsigned i32_def u16_def u32_def usize_def)
qed


lemma config_settings_lookup: "(k, v) \<in> set (config_settings c) \<Longrightarrow> map_of (config_settings c) k = Some v"
  by (rule map_of_is_SomeI) (simp_all add: config_settings_def)

theorem from_env_roundtrip_witness:
  "sfu_config_from_env (\<lambda>_. False)
     \<lparr>env_file = \<lambda>_. None, env_process = map_of (config_settings sfu_config_default)\<rparr> =
   (Ok sfu_config_default,
    \<lparr>env_file = \<lambda>_. None, env_process = map_of (config_settings sfu_config_default)\<rparr>)"
proof (rule from_env_roundtrip)
  show "config_fits (\<lambda>_. False) sfu_config_default"
    by (simp add: config_fits_def sfu_config_default_def is_ipv4_def is_octet_def read_nat_def digit_of_def)
qed (simp_all add: config_settings_lookup)

lemma default_texts:
  "parse_ip v6 ''0.0.0.0'' = Some ''0.0.0.0''"
  "parse_signed i32 ''240'' = Some 240" "parse_signed i32 ''480'' = Some 480"
  "parse_unsigned u16 ''3000'' = Some 3000"
  "parse_unsigned u16 ''40000'' = Some 40000" "parse_unsigned u16 ''45000'' = Some 45000"
  "parse_unsigned u16 ''50000'' = Some 50000" "parse_unsigned u16 ''55000'' = Some 55000"
  "parse_unsigned u16 ''60000'' = Some 60000" "parse_unsigned u16 ''65000'' = Some 65000"
  "parse_unsigned u32 ''10000000'' = Some 10000000" "parse_unsigned u32 ''100000'' = Some 100000"
  "parse_unsigned usize ''100'' = Some 100" "parse_unsigned usize ''6'' = Some 6"
  by (simp_all add: parse_ip_def is_ipv4_def is_octet_def parse_unsigned_def parse_signed_def read_nat_def
      strip_plus_def digit_of_def i32_def u16_def u32_def usize_def)

text \<open>
  Reading an environment that sets none of the
  keys gives the defaults of \<open>SFUConfig::default\<close> but for the listen address, which is
  \<open>0.0.0.0\<close> there and \<open>127.0.0.1\<close> here: the two documented defaults differ.
\<close>

lemma from_env_unset:
  "sfu_config_from_env v6 \<lparr>env_file = \<lambda>_. None, env_process = \<lambda>_. None\<rparr> =
   (Ok (sfu_config_default\<lparr>rtc_listen_ip := ''0.0.0.0''\<rparr>), \<lparr>env_file = \<lambda>_. None, env_process = \<lambda>_. None\<rparr>)"
  by (simp add: sfu_config_from_env_def and_then_def setting_run ret_def sfu_config_default_def default_texts)

end
