(* ===== verification/Sample.thy ===== *)
theory Sample
  imports Config
begin

text \<open>
  A concrete instance of everything outside the repository: a world with a scripted SQL server
  (the answers of the next statements, what is pending and what is committed), a counter that
  names new handles, and calls of mediasoup and GStreamer that succeed. The witnesses of the
  properties run the model on it.
\<close>

record sample_world =
  sw_next :: nat
  sw_script :: "driver_error option list"
  sw_pending :: "sql list"
  sw_committed :: "sql list"
  sw_affected :: nat
  sw_rows :: "row list"

definition sample_start :: sample_world where
  "sample_start = \<lparr>sw_next = 0, sw_script = [], sw_pending = [], sw_committed = [], sw_affected = 1,
     sw_rows = []\<rparr>"

fun sample_statement :: "sql \<Rightarrow> sample_world \<Rightarrow> driver_error option \<times> sample_world" where
  "sample_statement q w =
     (case sw_script w of
        Some e # rest \<Rightarrow> (Some e, w\<lparr>sw_script := rest\<rparr>)
      | None # rest \<Rightarrow> (None, w\<lparr>sw_script := rest, sw_pending := sw_pending w @ [q]\<rparr>)
      | [] \<Rightarrow> (None, w\<lparr>sw_pending := sw_pending w @ [q]\<rparr>))"

definition sample_sql :: "sample_world sql_driver" where
  "sample_sql = \<lparr>d_get_conn = (\<lambda>w. (None, w)), d_start_tx = (\<lambda>_ w. (None, w\<lparr>sw_pending := []\<rparr>)),
     d_query_drop = sample_statement, d_rollback = (\<lambda>w. (None, w\<lparr>sw_pending := []\<rparr>)),
     d_commit = (\<lambda>w. (None, w\<lparr>sw_pending := [], sw_committed := sw_committed w @ sw_pending w\<rparr>)),
     d_affected_rows = sw_affected, d_query = (\<lambda>q w. (Inr (sw_rows w), w)),
     d_drop_tx = (\<lambda>w. w\<lparr>sw_pending := []\<rparr>)\<rparr>"

text \<open>A new handle: a letter and the counter, in unary.\<close>

definition fresh :: "char \<Rightarrow> sample_world \<Rightarrow> string \<times> sample_world" where
  "fresh c w = (c # replicate (sw_next w) (CHR ''i''), w\<lparr>sw_next := Suc (sw_next w)\<rparr>)"

definition fresh_ok :: "char \<Rightarrow> sample_world \<Rightarrow> (string + string) \<times> sample_world" where
  "fresh_ok c w = (Inr (fst (fresh c w)), snd (fresh c w))"

definition sample_ms :: "sample_world media_ext" where
  "sample_ms = \<lparr>x_create_worker = (\<lambda>_. fresh_ok (CHR ''w'')), x_create_router = (\<lambda>_ _. fresh_ok (CHR ''r'')),
     x_router_rtp_capabilities = (\<lambda>r. ''caps of '' @ r),
     x_create_webrtc_transport = (\<lambda>_ _ w. (Inr \<lparr>wt_id = fst (fresh (CHR ''t'') w), wt_dtls_parameters = ''d'',
         wt_ice_candidates = ''c'', wt_ice_parameters = ''i''\<rparr>, snd (fresh (CHR ''t'') w))),
     x_set_bitrate = (\<lambda>_ _ w. (None, w)), x_connect_transport = (\<lambda>_ _ w. (None, w)),
     x_restart_ice = (\<lambda>t w. (Inr (''ice of '' @ t), w)), x_produce = (\<lambda>_ _ _. fresh_ok (CHR ''p'')),
     x_consume = (\<lambda>_ p _ w. (Inr \<lparr>co_id = fst (fresh (CHR ''c'') w), co_producer_id = p,
         co_rtp_parameters = ''rtp''\<rparr>, snd (fresh (CHR ''c'') w))),
     x_parse_producer_id = Inr, x_pause_producer = (\<lambda>_ w. (None, w)), x_resume_producer = (\<lambda>_ w. (None, w)),
     x_pause_consumer = (\<lambda>_ w. (None, w)), x_resume_consumer = (\<lambda>_ w. (None, w)),
     x_pipe_producer_to_router = (\<lambda>_ _ _ w. (None, w)), x_create_plain_transport = (\<lambda>_ _. fresh_ok (CHR ''q'')),
     x_connect_plain_transport = (\<lambda>_ _ _ _ w. (None, w)),
     x_consume_plain_transport = (\<lambda>_ p _ _ w. (Inr \<lparr>co_id = fst (fresh (CHR ''d'') w), co_producer_id = p,
         co_rtp_parameters = ''rtp''\<rparr>, snd (fresh (CHR ''d'') w)))\<rparr>"

definition sample_os :: "sample_world os_ext" where
  "sample_os = \<lparr>x_new_uuid = fresh (CHR ''u''), x_now_millis = (\<lambda>w. (1000, w)), x_now_nanos = (\<lambda>w. (9, w)),
     x_udp_bind = (\<lambda>p w. (p \<noteq> 50000, w)), x_path_exists = (\<lambda>_ w. (True, w)),
     x_create_dir_all = (\<lambda>_ w. (None, w)), x_hash = (\<lambda>m. if m = ''m2'' then 1 else 0)\<rparr>"

definition fresh_some :: "char \<Rightarrow> sample_world \<Rightarrow> string option \<times> sample_world" where
  "fresh_some c w = (Some (fst (fresh c w)), snd (fresh c w))"

text \<open>A requested pad is named by its template and the counter.\<close>

definition sample_pad :: "string \<Rightarrow> sample_world \<Rightarrow> string option \<times> sample_world" where
  "sample_pad template w =
     (Some (take (length template - 2) template @ show_nat (sw_next w)),
      w\<lparr>sw_next := Suc (sw_next w)\<rparr>)"

definition sample_gst :: "sample_world gst_ext" where
  "sample_gst = \<lparr>x_set_state = (\<lambda>_ _ w. (None, w)), x_remove = (\<lambda>_ _ w. (None, w)),
     x_remove_many = (\<lambda>_ _ w. (None, w)), x_abort_state = (\<lambda>_ w. w), x_release_pad = (\<lambda>_ _ w. w),
     x_clear_ssrc = (\<lambda>_ _ _ w. w), x_new_pipeline = (\<lambda>_. fresh (CHR ''g'')),
     x_make = (\<lambda>_ _ _. fresh_some (CHR ''e'')), x_set_property = (\<lambda>_ _ _ w. w),
     x_add_many = (\<lambda>_ _ w. (None, w)), x_static_pad = (\<lambda>e n w. (Some (e @ n), w)),
     x_request_pad = (\<lambda>_. sample_pad), x_link_pads = (\<lambda>_ _ w. (None, w)),
     x_link_elements = (\<lambda>_ _ w. (None, w)), x_pad_name = (\<lambda>p. p), x_pad_linked = (\<lambda>_ w. (False, w)),
     x_on_pad_added = (\<lambda>_. fresh (CHR ''h'')), x_on_format_location = (\<lambda>_ _ w. w),
     x_bus_post = (\<lambda>_ _ w. (True, w)), x_now_secs = (\<lambda>w. (7, w))\<rparr>"

definition sample_ext :: "sample_world ext" where
  "sample_ext = \<lparr>ext_sql = sample_sql, ext_ms = sample_ms, ext_os = sample_os, ext_gst = sample_gst\<rparr>"

lemmas sample_ext_simps [simp] =
  sample_ext_def sample_ms_def sample_os_def sample_gst_def sample_sql_def fresh_def fresh_ok_def fresh_some_def sample_pad_def

lemma fold_no_change [simp]: "fold (\<lambda>(k, v) w. w) ps w = w"
  by (induction ps) auto

text \<open>A meeting \<open>m\<close> with a producer of \<open>alice\<close>, a consumer of \<open>bob\<close> for it, and a pipeline.\<close>

definition alice_producer :: producer_in_memory where
  "alice_producer = \<lparr>pim_producer = ''p1'', pim_meeting_id = ''m'', pim_participant_id = ''alice'',
     pim_kind = ''video'', pim_instance_id = ''i1''\<rparr>"

definition bob_consumer :: consumer_in_memory where
  "bob_consumer = \<lparr>cim_consumer = \<lparr>co_id = ''c1'', co_producer_id = ''p1'', co_rtp_parameters = ''rtp''\<rparr>,
     cim_meeting_id = ''m'', cim_participant_id = ''bob'', cim_target_participant_id = ''alice'',
     cim_kind = ''video'', cim_instance_id = ''i2'', cim_producer_id = ''p1''\<rparr>"

definition sample_transport :: "string \<Rightarrow> string \<Rightarrow> transport_in_memory" where
  "sample_transport t p = \<lparr>tim_transport = \<lparr>wt_id = t, wt_dtls_parameters = ''d'', wt_ice_candidates = ''c'',
     wt_ice_parameters = ''i''\<rparr>, tim_meeting_id = ''m'', tim_participant_id = p, tim_kind = ''producer''\<rparr>"

definition sample_gstreamer :: gstreamer where
  "sample_gstreamer = gstreamer_new\<lparr>gst_inner := inner_new\<lparr>udp_src_element_video_map := [(''alice'', ''src'')],
     rtp_bin_element := Some ''bin''\<rparr>, gst_pipeline := Some ''pipe''\<rparr>"

text \<open>Two shards, and three ports for video, of which the sample keeps the first busy.\<close>

definition sample_config :: sfu_config where
  "sample_config = sfu_config_default\<lparr>plain_transport_video_port_range_end := 50005, consumer_shard_count := 2\<rparr>"

definition sample_sfu :: "sample_world sfu" where
  "sample_sfu = \<lparr>config = sample_config, instance_meta = \<lparr>external_ip = ''1.2.3.4'', internal_ip = ''10.0.0.1''\<rparr>,
     workers_map = [(''w1'', ''w1''), (''w2'', ''w2'')],
     routers_map = [(''r1'', \<lparr>rim_router = ''r1'', rim_capacity = 10\<rparr>)],
     transport_map = [(''ta'', sample_transport ''ta'' ''alice''), (''tb'', sample_transport ''tb'' ''bob'')],
     producer_map = [(''p1'', alice_producer)], consumer_map_shards = [[(''c1'', bob_consumer)], []],
     plain_transport_map = [(''p1'', ''q1'')],
     plain_transport_consumer_map = [(''p1'', \<lparr>co_id = ''d1'', co_producer_id = ''p1'', co_rtp_parameters = ''rtp''\<rparr>)],
     pipeline_map = [(''m'', Some sample_gstreamer)], lock_map = [], user_channel = [], world = sample_start\<rparr>"

end
