(* ===== verification/Closing.thy ===== *)
theory Closing
  imports Sample
begin

text \<open>
  Closing producers and consumers in memory: \<open>close_all_producers_in_memory\<close> and
  \<open>close_all_consumers_in_memory\<close> of \<open>src/mediasoupv1/mod.rs\<close>. Both remove a list of ids
  from a store of entries; handlers list the ids by a query and hand them to the closing operation.
  That use is the locale \<open>bulk_close\<close>, interpreted for the producers and for a shard of the
  consumers.
\<close>

record producer_detail =
  pd_producer_id :: string
  pd_participant_id :: string
  pd_kind :: string

section \<open>The operations\<close>

text \<open>
  The detail of a closed producer names the first participant of the request, whoever owned the
  producer; with no participant the index panics after the producer has left the map.
\<close>

fun close_producers_loop :: "string list \<Rightarrow> string list \<Rightarrow> ('w, producer_detail list) op" where
  "close_producers_loop participant_ids [] = ret []"
| "close_producers_loop participant_ids (p # ps) =
     and_then (gets (\<lambda>s. hm_get (producer_map s) p)) (\<lambda>found.
     case found of
       None \<Rightarrow> close_producers_loop participant_ids ps
     | Some v \<Rightarrow>
         and_then (modify (\<lambda>s. s\<lparr>producer_map := hm_remove p (producer_map s)\<rparr>)) (\<lambda>_.
         case participant_ids of
           [] \<Rightarrow> panic
         | first # _ \<Rightarrow>
             and_then (modify (\<lambda>s. s\<lparr>plain_transport_map := hm_remove p (plain_transport_map s),
                 plain_transport_consumer_map := hm_remove p (plain_transport_consumer_map s)\<rparr>)) (\<lambda>_.
             and_then (close_producers_loop participant_ids ps) (\<lambda>ds.
             ret (\<lparr>pd_producer_id = p, pd_participant_id = first, pd_kind = pim_kind v\<rparr> # ds)))))"

text \<open>The pipeline of the meeting, if there is one: its value is shared, so it is written back.\<close>

definition with_pipeline :: "string \<Rightarrow> gstreamer \<Rightarrow> ('w, 'a) gst_eff \<Rightarrow> ('w, 'a) op" where
  "with_pipeline meeting_id g m = (\<lambda>s.
     case m (gst_inner g, world s) of (r, (gi, w)) \<Rightarrow>
       (r, s\<lparr>pipeline_map := hm_insert meeting_id (Some (g\<lparr>gst_inner := gi\<rparr>)) (pipeline_map s),
             world := w\<rparr>))"

definition remove_participants_from_pipeline :: "'w ext \<Rightarrow> string list \<Rightarrow> string \<Rightarrow> ('w, unit) op" where
  "remove_participants_from_pipeline x participant_ids meeting_id =
     and_then (gets (\<lambda>s. hm_get (pipeline_map s) meeting_id)) (\<lambda>gstreamer_from_map.
     case gstreamer_from_map of
       None \<Rightarrow> ret ()
     | Some g_option \<Rightarrow>
         and_then (unwrap g_option) (\<lambda>g.
         and_then (unwrap (gst_pipeline g)) (\<lambda>pipeline.
         with_pipeline meeting_id g (detach_participants (ext_gst x) participant_ids pipeline))))"

definition close_all_producers_in_memory ::
  "'w ext \<Rightarrow> string list \<Rightarrow> string list \<Rightarrow> string \<Rightarrow> bool \<Rightarrow> ('w, producer_detail list) op" where
  "close_all_producers_in_memory x participant_ids producer_ids meeting_id remove_from_pipeline =
     and_then (close_producers_loop participant_ids producer_ids) (\<lambda>producer_details.
     and_then (if remove_from_pipeline
               then remove_participants_from_pipeline x participant_ids meeting_id else ret ()) (\<lambda>_.
     ret producer_details))"

definition close_all_consumers_in_memory :: "'w ext \<Rightarrow> string list \<Rightarrow> string \<Rightarrow> ('w sfu, unit, 'e) eff" where
  "close_all_consumers_in_memory x consumer_ids meeting_id =
     write_shard x meeting_id (hm_remove_all consumer_ids)"

section \<open>Listing and closing\<close>

locale bulk_close =
  fixes entries :: "'s \<Rightarrow> (string, 'v) hmap"
    and id_of :: "'v \<Rightarrow> string"
    and close :: "string list \<Rightarrow> 's \<Rightarrow> 's"
  assumes entries_close: "entries (close ids s) = hm_remove_all ids (entries s)"
begin

lemma closed_gone: "k \<in> set ids \<Longrightarrow> hm_get (entries (close ids s)) k = None"
  by (simp add: entries_close hm_get_remove_all)

lemma others_kept: "k \<notin> set ids \<Longrightarrow> hm_get (entries (close ids s)) k = hm_get (entries s) k"
  by (simp add: entries_close hm_get_remove_all)

text \<open>
  Closing what a query lists leaves no entry the query matches, when every entry is stored under
  the id of its handle.
\<close>

lemma close_listed:
  assumes "\<forall>e \<in> set (entries s). fst e = id_of (snd e)"
    and "ids = map (\<lambda>e. id_of (snd e)) (filter (\<lambda>e. p (snd e)) (entries s))"
    and "(k, v) \<in> set (entries (close ids s))"
  shows "\<not> p v"
  using assms by (force simp: entries_close set_hm_remove_all)

lemma close_listed_exact:
  assumes "\<forall>e \<in> set (entries s). fst e = id_of (snd e)" and "hm_wf (entries s)"
    and "ids = map (\<lambda>e. id_of (snd e)) (filter (\<lambda>e. p (snd e)) (entries s))"
  shows "set (entries (close ids s)) = {e \<in> set (entries s). \<not> p (snd e)}"
proof -
  have same: "e = e'" if "e \<in> set (entries s)" "e' \<in> set (entries s)" "fst e = fst e'" for e e'
    using that assms(2) unfolding hm_wf_def by (metis eq_key_imp_eq_value prod.collapse)
  have "fst e \<in> set ids \<longleftrightarrow> p (snd e)" if e: "e \<in> set (entries s)" for e
  proof
    assume "fst e \<in> set ids"
    then obtain e' where e': "e' \<in> set (entries s)" "p (snd e')" "fst e = id_of (snd e')"
      using assms(3) by auto
    then have "fst e = fst e'" using assms(1) by auto
    then have "e = e'" by (rule same [OF e e'(1)])
    with e'(2) show "p (snd e)" by simp
  next
    assume "p (snd e)"
    then have "id_of (snd e) \<in> set ids" using e assms(3) by auto
    then show "fst e \<in> set ids" using assms(1) e by auto
  qed
  then show ?thesis by (auto simp: entries_close set_hm_remove_all)
qed

end

fun closed_details :: "string \<Rightarrow> string list \<Rightarrow> (string, producer_in_memory) hmap \<Rightarrow> producer_detail list" where
  "closed_details pid [] m = []"
| "closed_details pid (p # ps) m =
     (case hm_get m p of
        None \<Rightarrow> closed_details pid ps m
      | Some v \<Rightarrow> \<lparr>pd_producer_id = p, pd_participant_id = pid, pd_kind = pim_kind v\<rparr>
                  # closed_details pid ps (hm_remove p m))"

lemma hm_remove_all_filter: "hm_remove_all ks m = filter (\<lambda>e. fst e \<notin> set ks) m"
  unfolding hm_remove_all_def
  by (induction ks arbitrary: m) (auto simp: hm_remove_def intro: filter_cong)

text \<open>The ids that were in the map, in the order they are removed.\<close>

fun closing_ids :: "string list \<Rightarrow> (string, producer_in_memory) hmap \<Rightarrow> string list" where
  "closing_ids [] m = []"
| "closing_ids (p # ps) m =
     (case hm_get m p of None \<Rightarrow> closing_ids ps m | Some v \<Rightarrow> p # closing_ids ps (hm_remove p m))"

lemma hm_remove_all_Cons: "hm_remove_all (k # ks) m = hm_remove_all ks (hm_remove k m)"
  by (simp add: hm_remove_all_def)

lemma set_closing_ids: "set (closing_ids ids m) = {k \<in> set ids. hm_get m k \<noteq> None}"
  by (induction ids arbitrary: m) (auto simp: hm_get_remove split: option.splits)

lemma closed_details_ids: "map pd_producer_id (closed_details pid ids m) = closing_ids ids m"
  by (induction ids arbitrary: m) (auto split: option.splits)

lemma closed_details_kind:
  "d \<in> set (closed_details pid ids m) \<Longrightarrow>
   pd_participant_id d = pid \<and> (\<exists>v. hm_get m (pd_producer_id d) = Some v \<and> pd_kind d = pim_kind v)"
proof (induction ids arbitrary: m)
  case Nil
  then show ?case by simp
next
  case (Cons p ps)
  then show ?case
    by (auto split: option.splits) (fastforce simp: hm_get_remove split: if_splits)+
qed

lemma close_producers_loop_run:
  "close_producers_loop (pid # rest) ids s =
     (Ok (closed_details pid ids (producer_map s)),
      s\<lparr>producer_map := hm_remove_all ids (producer_map s),
        plain_transport_map := hm_remove_all (closing_ids ids (producer_map s)) (plain_transport_map s),
        plain_transport_consumer_map :=
          hm_remove_all (closing_ids ids (producer_map s)) (plain_transport_consumer_map s)\<rparr>)"
proof (induction ids arbitrary: s)
  case Nil
  then show ?case by (simp add: ret_def)
next
  case (Cons p ps)
  show ?case
  proof (cases "hm_get (producer_map s) p")
    case None
    then show ?thesis
      using Cons by (simp add: and_then_def gets_def hm_remove_all_Cons hm_remove_absent)
  next
    case (Some v)
    then show ?thesis
      using Cons by (simp add: and_then_def gets_def modify_def ret_def hm_remove_all_Cons)
  qed
qed

lemma close_producers_loop_none:
  "close_producers_loop ids' ids s = (Ok [], s)" if "\<forall>i \<in> set ids. hm_get (producer_map s) i = None"
  using that by (induction ids) (simp_all add: ret_def and_then_def gets_def)

lemma close_producers_loop_no_participant:
  assumes "p \<in> set ids" and "hm_get (producer_map s) p \<noteq> None"
  shows "fst (close_producers_loop [] ids s) = Panic"
  using assms
proof (induction ids)
  case Nil
  then show ?case by simp
next
  case (Cons q qs)
  then show ?case
    by (cases "hm_get (producer_map s) q")
      (auto simp: and_then_def gets_def modify_def panic_def)
qed

lemma close_producers_loop_never_Err: "close_producers_loop ids' ids s \<noteq> (Err e, s')"
proof (induction ids arbitrary: s)
  case Nil
  then show ?case by (simp add: ret_def)
next
  case (Cons q qs)
  then show ?case
    by (cases "hm_get (producer_map s) q"; cases ids')
      (auto simp: and_then_def gets_def modify_def panic_def ret_def split: prod.splits outcome.splits)
qed

interpretation producers: bulk_close producer_map pim_producer
  "\<lambda>ids s. snd (close_producers_loop (pid # rest) ids s)" for pid rest
  by unfold_locales (simp add: close_producers_loop_run)

lemma close_all_consumers_run:
  "close_all_consumers_in_memory x ids m s =
     (if consumer_map_shards s = [] then (Panic, s)
      else (Ok (), s\<lparr>consumer_map_shards :=
              sh_update (shard_index x s m) (hm_remove_all ids) (consumer_map_shards s)\<rparr>))"
  by (simp add: close_all_consumers_in_memory_def write_shard_run)

lemma shard_of_Nil: "consumer_map_shards s = [] \<Longrightarrow> shard_of x s m = []"
  by (simp add: shard_of_def)

interpretation consumers: bulk_close "\<lambda>s. shard_of x s m" "\<lambda>v. co_id (cim_consumer v)"
  "\<lambda>ids s. snd (close_all_consumers_in_memory x ids m s)" for x m
  by unfold_locales
    (simp add: close_all_consumers_run shard_of_write shard_of_Nil hm_remove_all_filter)

section \<open>Frames\<close>

text \<open>Removing participants from a pipeline changes the pipeline of the meeting and the world only.\<close>

lemma with_pipeline_run:
  "\<exists>gi w. snd (with_pipeline m g c s) =
       s\<lparr>pipeline_map := hm_insert m (Some (g\<lparr>gst_inner := gi\<rparr>)) (pipeline_map s), world := w\<rparr> \<and>
     (keeps chains c \<longrightarrow> chains_ok (gst_inner g) \<longrightarrow> chains_ok gi)"
proof -
  obtain r gi w where run: "c (gst_inner g, world s) = (r, gi, w)" by (metis prod_cases3)
  have "chains_ok gi" if "keeps chains c" "chains_ok (gst_inner g)"
    using keepsD [OF that(1) _ run] that(2) by simp
  then show ?thesis by (auto simp: with_pipeline_def run)
qed

lemma remove_participants_run:
  assumes "remove_participants_from_pipeline x ids m s = (r, s')"
  shows "s' = s \<or> (\<exists>g gi w. hm_get (pipeline_map s) m = Some (Some g) \<and>
    s' = s\<lparr>pipeline_map := hm_insert m (Some (g\<lparr>gst_inner := gi\<rparr>)) (pipeline_map s), world := w\<rparr> \<and>
    (chains_ok (gst_inner g) \<longrightarrow> chains_ok gi))"
proof (cases "hm_get (pipeline_map s) m")
  case None
  then show ?thesis
    using assms by (simp add: remove_participants_from_pipeline_def and_then_def gets_def ret_def)
next
  case (Some gopt)
  show ?thesis
  proof (cases gopt)
    case None
    with Some show ?thesis
      using assms by (simp add: remove_participants_from_pipeline_def and_then_def gets_def unwrap_def panic_def)
  next
    case g: (Some g)
    show ?thesis
    proof (cases "gst_pipeline g")
      case None
      with Some g show ?thesis
        using assms
        by (simp add: remove_participants_from_pipeline_def and_then_def gets_def unwrap_def panic_def ret_def)
    next
      case (Some p)
      with \<open>hm_get (pipeline_map s) m = Some gopt\<close> g
      have "s' = snd (with_pipeline m g (detach_participants (ext_gst x) ids p) s)"
        using assms by (simp add: remove_participants_from_pipeline_def and_then_def gets_def unwrap_def ret_def)
      with \<open>hm_get (pipeline_map s) m = Some gopt\<close> g show ?thesis
        using with_pipeline_run [of m g "detach_participants (ext_gst x) ids p" s]
          keeps_chains_detach [of "ext_gst x" ids p] by auto
    qed
  qed
qed

lemma close_all_producers_run:
  assumes "close_all_producers_in_memory x (pid # rest) ids m rem s = (r, s')"
  shows "\<exists>pm w. s' = s\<lparr>producer_map := hm_remove_all ids (producer_map s),
        plain_transport_map := hm_remove_all (closing_ids ids (producer_map s)) (plain_transport_map s),
        plain_transport_consumer_map :=
          hm_remove_all (closing_ids ids (producer_map s)) (plain_transport_consumer_map s),
        pipeline_map := pm, world := w\<rparr> \<and>
      (pm = pipeline_map s \<or> (\<exists>g gi. rem \<and> hm_get (pipeline_map s) m = Some (Some g) \<and>
         pm = hm_insert m (Some (g\<lparr>gst_inner := gi\<rparr>)) (pipeline_map s)))"
    and "\<And>ds. r = Ok ds \<Longrightarrow> ds = closed_details pid ids (producer_map s)"
proof -
  let ?s1 = "s\<lparr>producer_map := hm_remove_all ids (producer_map s),
        plain_transport_map := hm_remove_all (closing_ids ids (producer_map s)) (plain_transport_map s),
        plain_transport_consumer_map :=
          hm_remove_all (closing_ids ids (producer_map s)) (plain_transport_consumer_map s)\<rparr>"
  obtain r2 s2 where run: "(if rem then remove_participants_from_pipeline x (pid # rest) m else ret ()) ?s1 = (r2, s2)"
    by fastforce
  have s': "s' = s2" and r: "\<And>ds. r = Ok ds \<Longrightarrow> ds = closed_details pid ids (producer_map s)"
    using assms run
    by (auto simp: close_all_producers_in_memory_def and_then_def close_producers_loop_run ret_def
        split: outcome.splits)
  show "\<And>ds. r = Ok ds \<Longrightarrow> ds = closed_details pid ids (producer_map s)" by (rule r)
  show "\<exists>pm w. s' = s\<lparr>producer_map := hm_remove_all ids (producer_map s),
        plain_transport_map := hm_remove_all (closing_ids ids (producer_map s)) (plain_transport_map s),
        plain_transport_consumer_map :=
          hm_remove_all (closing_ids ids (producer_map s)) (plain_transport_consumer_map s),
        pipeline_map := pm, world := w\<rparr> \<and>
      (pm = pipeline_map s \<or> (\<exists>g gi. rem \<and> hm_get (pipeline_map s) m = Some (Some g) \<and>
         pm = hm_insert m (Some (g\<lparr>gst_inner := gi\<rparr>)) (pipeline_map s)))"
  proof (cases rem)
    case False
    with run have "s2 = ?s1" by (simp add: ret_def)
    then show ?thesis unfolding s' by (intro exI [of _ "pipeline_map s"] exI [of _ "world s"]) simp
  next
    case True
    with run have "remove_participants_from_pipeline x (pid # rest) m ?s1 = (r2, s2)" by simp
    from remove_participants_run [OF this] show ?thesis
    proof (elim disjE exE conjE)
      assume "s2 = ?s1"
      then show ?thesis unfolding s' by (intro exI [of _ "pipeline_map s"] exI [of _ "world s"]) simp
    next
      fix g gi w
      assume "hm_get (pipeline_map ?s1) m = Some (Some g)"
        and "s2 = ?s1\<lparr>pipeline_map := hm_insert m (Some (g\<lparr>gst_inner := gi\<rparr>)) (pipeline_map ?s1), world := w\<rparr>"
      with True show ?thesis unfolding s'
        by (intro exI [of _ "hm_insert m (Some (g\<lparr>gst_inner := gi\<rparr>)) (pipeline_map s)"] exI [of _ w]) auto
    qed
  qed
qed

end
