(* ===== verification/Transports.thy ===== *)
theory Transports
  imports Closing
begin

text \<open>
  WebRTC transports and membership (\<open>src/mediasoupv1/mod.rs\<close>): creating, connecting and
  restarting transports, moving a participant to this instance
  (\<open>remove_and_add_participant_to_meeting\<close>), the two recreate operations with their helpers,
  and the list of producers of a meeting read from the database.
\<close>

section \<open>Data\<close>

record transport_options =
  to_id :: string
  to_dtls_parameters :: string
  to_ice_candidates :: string
  to_ice_parameters :: string

record recreate_producer_transport_response =
  rptr_transport_options :: transport_options
  rptr_closed_producer_details :: "producer_detail list"

record create_transport_response =
  ctr_transport_options :: transport_options
  ctr_producer_details :: "producer_detail list"

definition options_of :: "web_rtc_transport \<Rightarrow> transport_options" where
  "options_of t = \<lparr>to_id = wt_id t, to_dtls_parameters = wt_dtls_parameters t,
     to_ice_candidates = wt_ice_candidates t, to_ice_parameters = wt_ice_parameters t\<rparr>"

section \<open>Creating a transport\<close>

definition announced_address :: "instance_meta \<Rightarrow> string option" where
  "announced_address m = (if external_ip m \<noteq> [] then Some (external_ip m) else None)"

definition participant_transport_options :: "sfu_config \<Rightarrow> instance_meta \<Rightarrow> web_rtc_transport_options" where
  "participant_transport_options c m =
     \<lparr>wo_listen_info = \<lparr>li_protocol = Udp, li_ip = rtc_listen_ip c, li_announced_address = announced_address m,
        li_port = None, li_port_range = Some (rtc_port_range_start c, rtc_port_range_end c),
        li_flags = None, li_send_buffer_size = None, li_recv_buffer_size = None\<rparr>,
      wo_enable_udp = True, wo_prefer_udp = True, wo_enable_tcp = True, wo_prefer_tcp = True\<rparr>"

definition create_transport :: "'w ext \<Rightarrow> string \<Rightarrow> ('w, web_rtc_transport) op" where
  "create_transport x router_id =
     and_then (gets (\<lambda>s. hm_get (routers_map s) router_id)) (\<lambda>found.
     and_then (unwrap found) (\<lambda>router.
     and_then (gets (\<lambda>s. participant_transport_options (config s) (instance_meta s))) (\<lambda>options.
     call_result ''Failed to create producer transport: ''
       (x_create_webrtc_transport (ext_ms x) (rim_router router) options))))"

text \<open>The three bitrate calls; their errors are only logged.\<close>

definition set_bitrates :: "'w ext \<Rightarrow> string \<Rightarrow> ('w, unit) op" where
  "set_bitrates x tid =
     and_then (gets config) (\<lambda>c.
     and_then (call_world (x_set_bitrate (ext_ms x) tid (MaxIncoming (max_incoming_bitrate c)))) (\<lambda>_.
     and_then (call_world (x_set_bitrate (ext_ms x) tid (MinOutgoing (min_outgoing_bitrate c)))) (\<lambda>_.
     and_then (call_world (x_set_bitrate (ext_ms x) tid (MaxOutgoing (max_outgoing_bitrate c)))) (\<lambda>_.
     ret ()))))"

definition remove_option :: "string option \<Rightarrow> (string, 'v) hmap \<Rightarrow> (string, 'v) hmap" where
  "remove_option k m = (case k of None \<Rightarrow> m | Some i \<Rightarrow> hm_remove i m)"

text \<open>The fallback for a duplicate entry: some transport of the participant in the meeting.\<close>

definition find_transport :: "string \<Rightarrow> string \<Rightarrow> string \<Rightarrow> (string, transport_in_memory) hmap \<Rightarrow>
    web_rtc_transport option" where
  "find_transport participant_id meeting_id knd m =
     map_option (tim_transport \<circ> snd)
       (find (\<lambda>e. tim_participant_id (snd e) = participant_id \<and> tim_meeting_id (snd e) = meeting_id \<and>
                  tim_kind (snd e) = knd) m)"

definition transport_db_failure :: "string \<Rightarrow> string \<Rightarrow> string \<Rightarrow> db_error \<Rightarrow> ('w, transport_options) op" where
  "transport_db_failure participant_id meeting_id knd e =
     (case e of
        MySqlError c m \<Rightarrow>
          if c = duplicate_code then
            and_then (gets (\<lambda>s. find_transport participant_id meeting_id knd (transport_map s))) (\<lambda>t.
            case t of
              None \<Rightarrow> fail (''No transport found for participant '' @ participant_id @ '' in meeting '' @ meeting_id)
            | Some t \<Rightarrow> ret (options_of t))
          else fail (''Error in writing to DB '' @ show_db_error e)
      | _ \<Rightarrow> fail (''Error in writing to DB '' @ show_db_error e))"

definition create_producer_transport ::
  "'w ext \<Rightarrow> string \<Rightarrow> string \<Rightarrow> string \<Rightarrow> string option \<Rightarrow> string option \<Rightarrow> ('w, transport_options) op" where
  "create_producer_transport x router_id participant_id meeting_id old_producer_transport_id old_consumer_transport_id =
     and_then (map_err (\<lambda>e. ''Failed to create producer transport: '' @ e) (create_transport x router_id)) (\<lambda>t.
     and_then (set_bitrates x (wt_id t)) (\<lambda>_.
     and_then (attempt (run_mutate x True
         [D_ParticipantProducerTransport \<lparr>ppt_mutation_type = Insert, ppt_participant_id = participant_id,
            ppt_transport_id = Some (wt_id t)\<rparr>])) (\<lambda>r.
     case r of
       Inr _ \<Rightarrow>
         and_then (modify (\<lambda>s. s\<lparr>transport_map :=
             hm_insert (wt_id t)
               \<lparr>tim_transport = t, tim_meeting_id = meeting_id, tim_participant_id = participant_id,
                tim_kind = ''producer''\<rparr>
               (remove_option old_consumer_transport_id
                 (remove_option old_producer_transport_id (transport_map s)))\<rparr>)) (\<lambda>_.
         ret (options_of t))
     | Inl e \<Rightarrow> transport_db_failure participant_id meeting_id ''producer'' e)))"

definition create_consumer_transport ::
  "'w ext \<Rightarrow> string \<Rightarrow> string \<Rightarrow> string \<Rightarrow> string option \<Rightarrow> string option \<Rightarrow> ('w, transport_options) op" where
  "create_consumer_transport x router_id participant_id meeting_id old_producer_transport_id old_consumer_transport_id =
     and_then (map_err (\<lambda>e. ''Failed to create producer transport: '' @ e) (create_transport x router_id)) (\<lambda>t.
     and_then (set_bitrates x (wt_id t)) (\<lambda>_.
     and_then (attempt (run_mutate x True
         [D_ParticipantConsumerTransport \<lparr>pct_mutation_type = Insert, pct_participant_id = participant_id,
            pct_transport_id = Some (wt_id t)\<rparr>])) (\<lambda>r.
     case r of
       Inr _ \<Rightarrow>
         and_then (modify (\<lambda>s. s\<lparr>transport_map :=
             hm_insert (wt_id t)
               \<lparr>tim_transport = t, tim_meeting_id = meeting_id, tim_participant_id = participant_id,
                tim_kind = ''consumer''\<rparr>
               (remove_option old_producer_transport_id
                 (remove_option old_consumer_transport_id (transport_map s)))\<rparr>)) (\<lambda>_.
         ret (options_of t))
     | Inl e \<Rightarrow> transport_db_failure participant_id meeting_id ''consumer'' e)))"

section \<open>Connecting and restarting\<close>

definition already_called :: string where
  "already_called = ''connect() already called''"

fun show_request_error :: "request_error \<Rightarrow> string" where
  "show_request_error (ResponseError reason shown) = shown"
| "show_request_error (OtherRequestError shown) = shown"

fun is_already_connected :: "request_error \<Rightarrow> bool" where
  "is_already_connected (ResponseError reason shown) = str_contains reason already_called"
| "is_already_connected (OtherRequestError shown) = False"

definition connect_transport :: "'w ext \<Rightarrow> string \<Rightarrow> string \<Rightarrow> string \<Rightarrow> ('w, string) op" where
  "connect_transport x participant_id transport_id dtls_parameters =
     and_then (gets (\<lambda>s. hm_get (transport_map s) transport_id)) (\<lambda>found.
     case found of
       None \<Rightarrow> fail ''Transport not found in memory''
     | Some t \<Rightarrow>
         and_then (call_world (x_connect_transport (ext_ms x) (wt_id (tim_transport t)) dtls_parameters)) (\<lambda>r.
         case r of
           None \<Rightarrow> ret ''Successfully connected producer transport''
         | Some e \<Rightarrow>
             if is_already_connected e then ret ''Transport already connected, ignoring''
             else fail (''Failure in connecting producer transport '' @ show_request_error e)))"

text \<open>Unknown transports and failures are logged and left out of the answer.\<close>

definition restart_one :: "'w ext \<Rightarrow> (string, transport_in_memory) hmap \<Rightarrow> string \<Rightarrow>
    (string, string) hmap \<Rightarrow> ('w, (string, string) hmap) op" where
  "restart_one x tm tid acc =
     (case hm_get tm tid of
        None \<Rightarrow> ret acc
      | Some t \<Rightarrow>
          and_then (call_world (x_restart_ice (ext_ms x) (wt_id (tim_transport t)))) (\<lambda>r.
          case r of Inr ice \<Rightarrow> ret (hm_insert tid ice acc) | Inl _ \<Rightarrow> ret acc))"

definition restart_ice :: "'w ext \<Rightarrow> string \<Rightarrow> string list \<Rightarrow> ('w, (string, string) hmap) op" where
  "restart_ice x participant_id transport_ids =
     and_then (gets transport_map) (\<lambda>tm. for_each (restart_one x tm) transport_ids [])"

section \<open>Membership\<close>

text \<open>
  Older instances of the participant leave the meeting and this one joins, in one transaction that
  skips duplicates. The flag of the answer is the negation of \<open>duplicate_insertion\<close>.
\<close>

definition membership_entities ::
  "string \<Rightarrow> string \<Rightarrow> string \<Rightarrow> string option \<Rightarrow> string option \<Rightarrow> dao list" where
  "membership_entities participant_id meeting_id instance_id producer_router_id consumer_router_id =
     [D_ParticipantMeeting \<lparr>pm_mutation_type = CustomQuery1, pm_meeting_id = meeting_id,
        pm_participant_id = Some participant_id, pm_instance_id = Some instance_id\<rparr>,
      D_ParticipantMeeting \<lparr>pm_mutation_type = Insert, pm_meeting_id = meeting_id,
        pm_participant_id = Some participant_id, pm_instance_id = Some instance_id\<rparr>] @
     (if producer_router_id \<noteq> None
      then [D_ParticipantProducerRouter \<lparr>ppr_mutation_type = Insert, ppr_participant_id = participant_id,
              ppr_router_id = producer_router_id\<rparr>] else []) @
     (if consumer_router_id \<noteq> None
      then [D_ParticipantConsumerRouter \<lparr>pcr_mutation_type = Insert, pcr_participant_id = participant_id,
              pcr_router_id = consumer_router_id\<rparr>] else [])"

definition remove_and_add_participant_to_meeting ::
  "'w ext \<Rightarrow> string \<Rightarrow> string \<Rightarrow> string \<Rightarrow> string option \<Rightarrow> string option \<Rightarrow> ('w, string \<times> bool) op" where
  "remove_and_add_participant_to_meeting x participant_id meeting_id instance_id producer_router_id consumer_router_id =
     and_then (attempt (run_mutate x False
         (membership_entities participant_id meeting_id instance_id producer_router_id consumer_router_id))) (\<lambda>r.
     case r of
       Inr o1 \<Rightarrow>
         and_then (push_user_session_event x participant_id meeting_id ''JOIN'' instance_id) (\<lambda>_.
         ret (''Success in writing to DB'', \<not> snd o1))
     | Inl e \<Rightarrow> fail (''Error in writing to DB '' @ show_db_error e))"

section \<open>Producers of a meeting, from the database\<close>

definition row_get :: "row \<Rightarrow> nat \<Rightarrow> ('s, string, 'e) eff" where
  "row_get r i = (if i < length r then unwrap (r ! i) else panic)"

fun rows_to_details :: "row list \<Rightarrow> ('s, producer_detail list, 'e) eff" where
  "rows_to_details [] = ret []"
| "rows_to_details (r # rs) =
     and_then (row_get r 1) (\<lambda>producer_id.
     and_then (row_get r 0) (\<lambda>participant_id.
     and_then (row_get r 2) (\<lambda>kind.
     and_then (rows_to_details rs) (\<lambda>ds.
     ret (\<lparr>pd_producer_id = producer_id, pd_participant_id = participant_id, pd_kind = kind\<rparr> # ds)))))"

definition get_producers_of_meeting :: "'w ext \<Rightarrow> string \<Rightarrow> ('w, producer_detail list) op" where
  "get_producers_of_meeting x meeting_id =
     and_then (attempt (on_world (query (ext_sql x) (D_ParticipantProducers
         \<lparr>pp_mutation_type = Query, pp_participant_id = None, pp_producers = None, pp_kind = None,
          pp_producer_id = None, pp_meeting_id = Some meeting_id, pp_transport_id = None\<rparr>)))) (\<lambda>r.
     case r of
       Inr rows \<Rightarrow> rows_to_details rows
     | Inl e \<Rightarrow> fail (''Error in writing from DB '' @ show_db_error e))"

definition get_producers_of_meeting_excluding_participant ::
  "'w ext \<Rightarrow> string \<Rightarrow> string \<Rightarrow> ('w, producer_detail list) op" where
  "get_producers_of_meeting_excluding_participant x meeting_id participant_id =
     and_then (attempt (on_world (query (ext_sql x) (D_ParticipantProducers
         \<lparr>pp_mutation_type = CustomQuery2, pp_participant_id = Some participant_id, pp_producers = None,
          pp_kind = None, pp_producer_id = None, pp_meeting_id = Some meeting_id, pp_transport_id = None\<rparr>)))) (\<lambda>r.
     case r of
       Inr rows \<Rightarrow> rows_to_details rows
     | Inl e \<Rightarrow> fail (''Error in writing from DB '' @ show_db_error e))"

section \<open>Recreating transports\<close>

text \<open>
  What older instances of the participant left in memory is closed first: their consumers, their
  producers, and the consumers of those producers.
\<close>

definition close_older_instances :: "'w ext \<Rightarrow> string \<Rightarrow> string \<Rightarrow> string \<Rightarrow> ('w, producer_detail list) op" where
  "close_older_instances x participant_id meeting_id instance_id =
     and_then (get_participant_consumers_excluding_instance x participant_id meeting_id instance_id) (\<lambda>old_consumers.
     and_then (close_all_consumers_in_memory x old_consumers meeting_id) (\<lambda>_.
     and_then (get_participant_producers_excluding_instance participant_id meeting_id instance_id) (\<lambda>old_producer_ids.
     and_then (get_consumers_for_producer_ids x old_producer_ids meeting_id) (\<lambda>close_consumer_ids.
     and_then (if old_producer_ids \<noteq> []
               then map_err (\<lambda>e. ''Failed to close all producers in memory '' @ e)
                      (close_all_producers_in_memory x [participant_id] old_producer_ids meeting_id True)
               else ret []) (\<lambda>closed_producer_details.
     and_then (if close_consumer_ids \<noteq> []
               then close_all_consumers_in_memory x close_consumer_ids meeting_id else ret ()) (\<lambda>_.
     ret closed_producer_details))))))"

definition recreate_producer_transport ::
  "'w ext \<Rightarrow> string \<Rightarrow> string \<Rightarrow> string option \<Rightarrow> string option \<Rightarrow> string \<Rightarrow> string \<Rightarrow>
   ('w, recreate_producer_transport_response) op" where
  "recreate_producer_transport x participant_id meeting_id old_producer_transport_id old_consumer_transport_id
     router_id instance_id =
     and_then (close_older_instances x participant_id meeting_id instance_id) (\<lambda>closed.
     and_then (map_err (\<lambda>e. ''Failed to create producer transport '' @ e)
       (create_producer_transport x router_id participant_id meeting_id
          old_producer_transport_id old_consumer_transport_id)) (\<lambda>t.
     ret \<lparr>rptr_transport_options = t, rptr_closed_producer_details = closed\<rparr>))"

definition recreate_consumer_transport ::
  "'w ext \<Rightarrow> string \<Rightarrow> string \<Rightarrow> string \<Rightarrow> string \<Rightarrow> string option \<Rightarrow> string option \<Rightarrow>
   ('w, transport_options) op" where
  "recreate_consumer_transport x participant_id router_id meeting_id instance_id
     old_producer_transport_id old_consumer_transport_id =
     and_then (close_older_instances x participant_id meeting_id instance_id) (\<lambda>_.
     map_err (\<lambda>e. ''Failed to create consumer transport '' @ e)
       (create_consumer_transport x router_id participant_id meeting_id
          old_producer_transport_id old_consumer_transport_id))"

definition recreate_producer_transport_helper ::
  "'w ext \<Rightarrow> string \<Rightarrow> string \<Rightarrow> string \<Rightarrow> string \<Rightarrow> string option \<Rightarrow> string option \<Rightarrow>
   ('w, recreate_producer_transport_response) op" where
  "recreate_producer_transport_helper x participant_id meeting_id instance_id router_id
     old_producer_transport_id old_consumer_transport_id =
     and_then (lock_entry participant_id) (\<lambda>_.
     and_then (map_err (\<lambda>e. ''Failed to add participant to meeting '' @ e)
       (remove_and_add_participant_to_meeting x participant_id meeting_id instance_id (Some router_id) None)) (\<lambda>o1.
     let new_user = snd o1 in
     recreate_producer_transport x participant_id meeting_id
       (if new_user then old_producer_transport_id else None)
       (if new_user then old_consumer_transport_id else None) router_id instance_id))"

definition recreate_consumer_transport_helper ::
  "'w ext \<Rightarrow> string \<Rightarrow> string \<Rightarrow> string \<Rightarrow> string \<Rightarrow> string option \<Rightarrow> string option \<Rightarrow>
   ('w, create_transport_response) op" where
  "recreate_consumer_transport_helper x participant_id meeting_id instance_id router_id
     old_producer_transport_id old_consumer_transport_id =
     and_then (lock_entry participant_id) (\<lambda>_.
     and_then (map_err (\<lambda>e. ''Failed to add participant to meeting '' @ e)
       (remove_and_add_participant_to_meeting x participant_id meeting_id instance_id None (Some router_id))) (\<lambda>o1.
     let new_user = snd o1 in
     and_then (map_err (\<lambda>e. ''Failed to recreate consumer transport '' @ e)
       (recreate_consumer_transport x participant_id router_id meeting_id instance_id
          (if new_user then old_producer_transport_id else None)
          (if new_user then old_consumer_transport_id else None))) (\<lambda>t.
     and_then (map_err (\<lambda>e. ''Failed to get producers of meeting '' @ e)
       (get_producers_of_meeting_excluding_participant x meeting_id participant_id)) (\<lambda>ds.
     ret \<lparr>ctr_transport_options = t, ctr_producer_details = ds\<rparr>))))"

end
