(* ===== verification/Producers.thy ===== *)
theory Producers
  imports Transports
begin

text \<open>
  Producers (\<open>src/mediasoupv1/mod.rs\<close>): creating one (with its recording), pausing, resuming
  and closing. The recording of a producer starts a plain transport of mediasoup to a free local
  port and adds the participant to the pipeline of the meeting with the builders of \<open>Recording\<close>.
\<close>

section \<open>Recording\<close>

text \<open>
  Run a builder on the pipeline of the meeting. A pipeline that is already in the map shares its
  \<open>Inner\<close> with the copy the builder works on, so the entry sees the change even if the
  builder fails.
\<close>

definition share_inner :: "string \<Rightarrow> gst_inner \<Rightarrow> 'w sfu \<Rightarrow> 'w sfu" where
  "share_inner meeting_id gi s =
     (case hm_get (pipeline_map s) meeting_id of
        Some (Some g) \<Rightarrow>
          s\<lparr>pipeline_map := hm_insert meeting_id (Some (g\<lparr>gst_inner := gi\<rparr>)) (pipeline_map s)\<rparr>
      | _ \<Rightarrow> s)"

text \<open>The copy the builder works on sees what was done to the entry since it was made.\<close>

definition shared_inner :: "string \<Rightarrow> gstreamer \<Rightarrow> (string, gstreamer option) hmap \<Rightarrow> gst_inner" where
  "shared_inner meeting_id g m = (case hm_get m meeting_id of Some (Some g') \<Rightarrow> gst_inner g' | _ \<Rightarrow> gst_inner g)"

definition run_recorder :: "('w gst_ext \<Rightarrow> gstreamer \<Rightarrow> int \<Rightarrow> string \<Rightarrow> string \<Rightarrow> string \<Rightarrow> ('w, gstreamer) gst_eff) \<Rightarrow>
    'w ext \<Rightarrow> gstreamer \<Rightarrow> nat \<Rightarrow> string \<Rightarrow> string \<Rightarrow> string \<Rightarrow> ('w, gstreamer) op" where
  "run_recorder start x g port meeting_id participant_id transport_id = (\<lambda>s.
     case map_err (\<lambda>e. ''Failed to start recording '' @ e)
            (start (ext_gst x) g (int port) meeting_id participant_id transport_id)
            (shared_inner meeting_id g (pipeline_map s), world s) of
       (r, (gi, w)) \<Rightarrow> (r, share_inner meeting_id gi (s\<lparr>world := w\<rparr>)))"

definition build_recording :: "'w ext \<Rightarrow> gstreamer \<Rightarrow> string \<Rightarrow> string \<Rightarrow> string \<Rightarrow> kind \<Rightarrow> ('w, gstreamer \<times> nat) op" where
  "build_recording x g meeting_id participant_id transport_id kind_enum =
     (if kind_enum = Audio
      then and_then (map_err (\<lambda>e. ''Failed to get free audio port '' @ e) (get_free_audio_port x)) (\<lambda>port.
           and_then (map_err (\<lambda>e. ''Failed to start recording '' @ e)
             (run_recorder start_audio_recording x g port meeting_id participant_id transport_id)) (\<lambda>g'. ret (g', port)))
      else and_then (map_err (\<lambda>e. ''Failed to get free video port '' @ e) (get_free_video_port x)) (\<lambda>port.
           and_then (map_err (\<lambda>e. ''Failed to start recording '' @ e)
             (run_recorder start_vp8_recording x g port meeting_id participant_id transport_id)) (\<lambda>g'. ret (g', port))))"

text \<open>
  When the pipeline cannot be set to playing, the source just added to an existing pipeline is
  taken out again and the pipeline is restarted, and the request fails.
\<close>

definition undo_recording :: "'w ext \<Rightarrow> string \<Rightarrow> string \<Rightarrow> kind \<Rightarrow> element option \<Rightarrow> element \<Rightarrow> ('w, unit) op" where
  "undo_recording x meeting_id participant_id kind_enum pipeline_option pipeline = (\<lambda>s.
     case hm_get (pipeline_map s) meeting_id of
       Some (Some g) \<Rightarrow>
         and_then (with_pipeline meeting_id g
             (handle_udp_src_failure (ext_gst x) pipeline_option participant_id
                (if kind_enum = Audio then ''audio'' else ''video''))) (\<lambda>_.
         and_then (call_world (x_set_state (ext_gst x) pipeline GstPlaying)) (\<lambda>_. ret ())) s
     | _ \<Rightarrow> (Ok (), s))"

definition start_recording :: "'w ext \<Rightarrow> string \<Rightarrow> string \<Rightarrow> string \<Rightarrow> kind \<Rightarrow> ('w, gstreamer \<times> nat) op" where
  "start_recording x meeting_id participant_id transport_id kind_enum =
     and_then (gets (\<lambda>s. hm_get (pipeline_map s) meeting_id)) (\<lambda>gstreamer_from_map.
     and_then (case gstreamer_from_map of
         Some g_option \<Rightarrow> unwrap g_option
       | None \<Rightarrow> ret gstreamer_new) (\<lambda>g.
     let exists = (gstreamer_from_map \<noteq> None) in
     and_then (build_recording x g meeting_id participant_id transport_id kind_enum) (\<lambda>(g', port).
     and_then (unwrap (gst_pipeline g')) (\<lambda>pipeline.
     and_then (call_world (x_set_state (ext_gst x) pipeline GstPlaying)) (\<lambda>r.
     case r of
       None \<Rightarrow> ret (g', port)
     | Some _ \<Rightarrow>
         and_then (if exists
                   then undo_recording x meeting_id participant_id kind_enum (gst_pipeline g) pipeline
                   else ret ()) (\<lambda>_.
         fail (''Failed to add new producer for meetingId '' @ meeting_id @ '' and participantId '' @ participant_id)))))))"

definition create_folder :: "'w ext \<Rightarrow> string \<Rightarrow> ('w, string) op" where
  "create_folder x meeting_id =
     (let path = ''/opt/recordings/'' @ meeting_id in
      and_then (call_world (x_path_exists (ext_os x) path)) (\<lambda>exists.
      if exists then ret path
      else and_then (map_err (\<lambda>e. e @ '' '')
             (call_unit (''Failed to create folder: '' @ path @ '' : '') (x_create_dir_all (ext_os x) path))) (\<lambda>_.
           ret path)))"

text \<open>The RTCP port is the RTP port plus one, in the 16 bits of the port type.\<close>

definition rtcp_port :: "nat \<Rightarrow> nat" where
  "rtcp_port port = (port + 1) mod 2 ^ 16"

text \<open>The ports a recording may use; the plain transport itself is not bound to them.\<close>

fun recording_port_range :: "sfu_config \<Rightarrow> kind \<Rightarrow> nat \<times> nat" where
  "recording_port_range c Audio = (plain_transport_audio_port_range_start c, plain_transport_audio_port_range_end c)"
| "recording_port_range c Video = (plain_transport_video_port_range_start c, plain_transport_video_port_range_end c)"
| "recording_port_range c ScreenShare = (plain_transport_video_port_range_start c, plain_transport_video_port_range_end c)"

definition record_producer :: "'w ext \<Rightarrow> (string, router_in_memory) hmap \<Rightarrow> string \<Rightarrow> string \<Rightarrow> string \<Rightarrow> string \<Rightarrow> kind \<Rightarrow>
    ('w, gstreamer \<times> string \<times> consumer_handle) op" where
  "record_producer x routers meeting_id participant_id producer_router_id producer_id kind_enum =
     and_then (unwrap (hm_get routers producer_router_id)) (\<lambda>router.
     and_then (gets (\<lambda>s. recording_port_range (config s) kind_enum)) (\<lambda>port_range.
     and_then (call_result ''Failed to create plain transport ''
       (x_create_plain_transport (ext_ms x) (rim_router router) (producer_plain_transport_options (Some port_range)))) (\<lambda>plain.
     and_then (map_err (\<lambda>e. ''Failed to create folder: '' @ e) (create_folder x meeting_id)) (\<lambda>_.
     and_then (map_err (\<lambda>e. ''Failed to start recording '' @ e)
       (start_recording x meeting_id participant_id plain kind_enum)) (\<lambda>(g, port).
     and_then (call_unit ''Failed to connect plain transport ''
       (x_connect_plain_transport (ext_ms x) plain localhost port (rtcp_port port))) (\<lambda>_.
     and_then (call_result ''Failed to create consumer: ''
       (x_consume_plain_transport (ext_ms x) plain producer_id media_codecs True)) (\<lambda>c.
     and_then (call_unit ''Failed to resume consumer: '' (x_resume_consumer (ext_ms x) (co_id c))) (\<lambda>_.
     ret (g, plain, c)))))))))"

section \<open>Creating a producer\<close>

fun media_kind_of :: "kind \<Rightarrow> media_kind" where
  "media_kind_of Video = MediaVideo"
| "media_kind_of Audio = MediaAudio"
| "media_kind_of ScreenShare = MediaVideo"

definition find_producer :: "string \<Rightarrow> string \<Rightarrow> string \<Rightarrow> (string, producer_in_memory) hmap \<Rightarrow>
    producer_detail option" where
  "find_producer participant_id meeting_id knd m =
     map_option (\<lambda>e. \<lparr>pd_producer_id = fst e, pd_participant_id = participant_id, pd_kind = knd\<rparr>)
       (find (\<lambda>e. pim_meeting_id (snd e) = meeting_id \<and> pim_participant_id (snd e) = participant_id \<and>
                  pim_kind (snd e) = knd) m)"

text \<open>Pipe the producer to the routers of the consumers, in order.\<close>

fun pipe_to_routers :: "'w ext \<Rightarrow> (string, router_in_memory) hmap \<Rightarrow> string \<Rightarrow> string \<Rightarrow> string list \<Rightarrow> ('w, unit) op" where
  "pipe_to_routers x routers producer_router producer_id [] = ret ()"
| "pipe_to_routers x routers producer_router producer_id (r # rs) =
     and_then (unwrap (hm_get routers r)) (\<lambda>router.
     and_then (call_unit ''Failed to pipe producer to router: ''
       (x_pipe_producer_to_router (ext_ms x) producer_router producer_id (rim_router router))) (\<lambda>_.
     pipe_to_routers x routers producer_router producer_id rs))"

text \<open>
  Storing the pipeline of a recording. It was copied from the entry of its meeting, if there was one, and
  shares the \<open>Inner\<close> with it: the entry keeps what was done to that in between.
\<close>

definition adopt_pipeline :: "string \<Rightarrow> gstreamer \<Rightarrow> (string, gstreamer option) hmap \<Rightarrow> (string, gstreamer option) hmap" where
  "adopt_pipeline meeting_id g m =
     hm_insert meeting_id (Some (g\<lparr>gst_inner := shared_inner meeting_id g m\<rparr>)) m"

text \<open>The database entry of the new producer, and the maps once it is written.\<close>

definition store_producer :: "string \<Rightarrow> producer_in_memory \<Rightarrow> (gstreamer \<times> string \<times> consumer_handle) option \<Rightarrow>
    'w sfu \<Rightarrow> 'w sfu" where
  "store_producer producer_id p rec s =
     (let s1 = s\<lparr>producer_map := hm_insert producer_id p (producer_map s)\<rparr> in
      case rec of
        None \<Rightarrow> s1
      | Some (g, plain, c) \<Rightarrow>
          s1\<lparr>plain_transport_map := hm_insert producer_id plain (plain_transport_map s1),
             plain_transport_consumer_map := hm_insert producer_id c (plain_transport_consumer_map s1),
             pipeline_map := adopt_pipeline (pim_meeting_id p) g (pipeline_map s1)\<rparr>)"

definition finish_producer :: "'w ext \<Rightarrow> string \<Rightarrow> string \<Rightarrow> producer_in_memory \<Rightarrow>
    (gstreamer \<times> string \<times> consumer_handle) option \<Rightarrow> ('w, producer_detail) op" where
  "finish_producer x producer_id producer_transport_id p rec =
     and_then (attempt (run_mutate x True [D_ParticipantProducers
         \<lparr>pp_mutation_type = Insert, pp_participant_id = Some (pim_participant_id p), pp_producers = Some 1,
          pp_kind = Some (pim_kind p), pp_producer_id = Some producer_id,
          pp_meeting_id = Some (pim_meeting_id p), pp_transport_id = Some producer_transport_id\<rparr>])) (\<lambda>r.
     case r of
       Inr _ \<Rightarrow>
         and_then (modify (store_producer producer_id p rec)) (\<lambda>_.
         ret \<lparr>pd_producer_id = producer_id, pd_participant_id = pim_participant_id p, pd_kind = pim_kind p\<rparr>)
     | Inl e \<Rightarrow>
         and_then (modify (\<lambda>s. case rec of
             None \<Rightarrow> s
           | Some (g, _, _) \<Rightarrow> s\<lparr>pipeline_map := adopt_pipeline (pim_meeting_id p) g (pipeline_map s)\<rparr>)) (\<lambda>_.
         fail (''Error in writing to DB '' @ show_db_error e)))"

text \<open>
  The new producer on its transport, and what follows, under the mutex of the meeting. The routers are
  copied once and looked up in the copy.
\<close>

definition produce_on ::
  "'w ext \<Rightarrow> string \<Rightarrow> string \<Rightarrow> string \<Rightarrow> string \<Rightarrow> string \<Rightarrow> string list option \<Rightarrow> string \<Rightarrow> bool \<Rightarrow> string \<Rightarrow>
   transport_in_memory \<Rightarrow> ('w, producer_detail) op" where
  "produce_on x participant_id rtp_parameters knd meeting_id producer_router_id
     consumer_router_ids producer_transport_id start_rec instance_id transport =
     and_then (map_err (\<lambda>e. ''Failed to parse kind: '' @ e) (from_result (parse_kind knd))) (\<lambda>kind_enum.
     and_then (call_result ''Failed to create producer: ''
       (x_produce (ext_ms x) (wt_id (tim_transport transport)) (media_kind_of kind_enum) rtp_parameters)) (\<lambda>producer_id.
     and_then (gets routers_map) (\<lambda>routers.
     and_then (if start_rec
               then and_then (record_producer x routers meeting_id participant_id producer_router_id producer_id kind_enum)
                      (\<lambda>rec. ret (Some rec))
               else ret None) (\<lambda>rec.
     and_then (unwrap (hm_get routers producer_router_id)) (\<lambda>router.
     and_then (case consumer_router_ids of
         None \<Rightarrow> ret () | Some rs \<Rightarrow> pipe_to_routers x routers (rim_router router) producer_id rs) (\<lambda>_.
     finish_producer x producer_id producer_transport_id
       \<lparr>pim_producer = producer_id, pim_meeting_id = meeting_id, pim_participant_id = participant_id,
        pim_kind = knd, pim_instance_id = instance_id\<rparr> rec))))))"

definition create_new_producer ::
  "'w ext \<Rightarrow> string \<Rightarrow> string \<Rightarrow> string \<Rightarrow> string \<Rightarrow> string \<Rightarrow> string list option \<Rightarrow> string \<Rightarrow> bool \<Rightarrow> string \<Rightarrow>
   ('w, producer_detail) op" where
  "create_new_producer x participant_id rtp_parameters knd meeting_id producer_router_id
     consumer_router_ids producer_transport_id start_rec instance_id =
     and_then (gets (\<lambda>s. hm_get (transport_map s) producer_transport_id)) (\<lambda>found.
     and_then (unwrap found) (\<lambda>transport.
     produce_on x participant_id rtp_parameters knd meeting_id producer_router_id
       consumer_router_ids producer_transport_id start_rec instance_id transport))"

definition create_producer ::
  "'w ext \<Rightarrow> string \<Rightarrow> string \<Rightarrow> string \<Rightarrow> string \<Rightarrow> string \<Rightarrow> string list option \<Rightarrow> string \<Rightarrow> bool \<Rightarrow> string \<Rightarrow>
   ('w, producer_detail) op" where
  "create_producer x participant_id rtp_parameters knd meeting_id producer_router_id
     consumer_router_ids producer_transport_id start_rec instance_id =
     and_then (lock_entry meeting_id) (\<lambda>_.
     and_then (gets (\<lambda>s. find_producer participant_id meeting_id knd (producer_map s))) (\<lambda>existing.
     case existing of
       Some detail \<Rightarrow> ret detail
     | None \<Rightarrow>
         create_new_producer x participant_id rtp_parameters knd meeting_id producer_router_id
           consumer_router_ids producer_transport_id start_rec instance_id))"

section \<open>Pausing, resuming, closing\<close>

definition set_producer_state :: "(string \<Rightarrow> 'w \<Rightarrow> string option \<times> 'w) \<Rightarrow> string \<Rightarrow>
    (string, producer_in_memory) hmap \<Rightarrow> string \<times> string \<Rightarrow> producer_detail list \<Rightarrow> ('w, producer_detail list) op" where
  "set_producer_state f participant_id pm e acc =
     and_then (unwrap (hm_get pm (fst e))) (\<lambda>p.
     and_then (call_unit ''[mod.rs.resume_producer] Failed to resume err '' (f (pim_producer p))) (\<lambda>_.
     ret (acc @ [\<lparr>pd_producer_id = fst e, pd_participant_id = participant_id, pd_kind = snd e\<rparr>])))"

definition resume_producer :: "'w ext \<Rightarrow> string \<Rightarrow> (string, string) hmap \<Rightarrow> ('w, producer_detail list) op" where
  "resume_producer x participant_id producer_ids =
     and_then (gets producer_map) (\<lambda>pm.
     for_each (set_producer_state (x_resume_producer (ext_ms x)) participant_id pm) producer_ids [])"

definition pause_producer :: "'w ext \<Rightarrow> string \<Rightarrow> (string, string) hmap \<Rightarrow> ('w, producer_detail list) op" where
  "pause_producer x participant_id producer_ids =
     and_then (gets producer_map) (\<lambda>pm.
     for_each (set_producer_state (x_pause_producer (ext_ms x)) participant_id pm) producer_ids [])"

text \<open>A single screen share is closed without touching the pipeline of the meeting.\<close>

definition close_producer :: "'w ext \<Rightarrow> string \<Rightarrow> string \<Rightarrow> (string, string) hmap \<Rightarrow> ('w, producer_detail list) op" where
  "close_producer x participant_id meeting_id producer_kind_map =
     and_then (attempt (on_world (delete (ext_sql x) (map (\<lambda>producer_id. D_ParticipantProducers
         \<lparr>pp_mutation_type = Delete, pp_participant_id = Some participant_id, pp_producers = None,
          pp_kind = None, pp_producer_id = Some producer_id, pp_meeting_id = Some meeting_id,
          pp_transport_id = None\<rparr>) (hm_keys producer_kind_map))))) (\<lambda>r.
     case r of
       Inl e \<Rightarrow> fail (''Error in cleaning up in DB '' @ show_db_error e)
     | Inr _ \<Rightarrow>
         let closed_kinds = hm_values producer_kind_map; producer_ids = hm_keys producer_kind_map in
         if length closed_kinds = 1 \<and> closed_kinds ! 0 = ''screenshare''
         then map_err (\<lambda>e. ''Failed to close all screenshare producers in memory '' @ e)
                (close_all_producers_in_memory x [participant_id] producer_ids meeting_id False)
         else map_err (\<lambda>e. ''Failed to close all producers in memory '' @ e)
                (close_all_producers_in_memory x [participant_id] producer_ids meeting_id True))"

end
