(* ===== verification/Consumers.thy ===== *)
theory Consumers
  imports Transports
begin

text \<open>
  Consumers (\<open>src/mediasoupv1/mod.rs\<close>): creating the consumers a participant asks for, pausing,
  resuming and closing them. The consumers of a meeting live in the shard of the meeting.
\<close>

section \<open>Creating consumers\<close>

definition same_consumer :: "string \<Rightarrow> string \<Rightarrow> string \<Rightarrow> string \<Rightarrow> string \<Rightarrow> consumer_in_memory \<Rightarrow> bool" where
  "same_consumer participant_id target knd meeting_id instance_id c \<longleftrightarrow>
     cim_participant_id c = participant_id \<and> cim_target_participant_id c = target \<and>
     cim_kind c = knd \<and> cim_meeting_id c = meeting_id \<and> cim_instance_id c = instance_id"

text \<open>
  What the loop gathers: the new entries, their statements, and the answer, a map from the target
  to a map from the kind to the consumer.
\<close>

record consumer_batch =
  cb_new :: "(string, consumer_in_memory) hmap"
  cb_entities :: "dao list"
  cb_result :: "(string, (string, consumer_handle) hmap) hmap"

definition add_result :: "string \<Rightarrow> string \<Rightarrow> consumer_handle \<Rightarrow>
    (string, (string, consumer_handle) hmap) hmap \<Rightarrow> (string, (string, consumer_handle) hmap) hmap" where
  "add_result target knd c m =
     hm_insert target (hm_insert knd c (case hm_get m target of None \<Rightarrow> [] | Some k \<Rightarrow> k)) m"

text \<open>One requested stream: reuse the consumer of it, fail on several, or create one.\<close>

definition request_consumer :: "'w ext \<Rightarrow> string \<Rightarrow> string \<Rightarrow> string \<Rightarrow> web_rtc_transport \<Rightarrow> string \<Rightarrow> string \<Rightarrow>
    (string, consumer_in_memory) hmap \<Rightarrow> string \<times> string \<times> string \<Rightarrow> consumer_batch \<Rightarrow> ('w, consumer_batch) op" where
  "request_consumer x participant_id meeting_id instance_id transport consumer_transport_id
     rtp_capabilities existing req acc =
     (case req of (target, knd, producer_id_string) \<Rightarrow>
      let found = filter (same_consumer participant_id target knd meeting_id instance_id) (hm_values existing) in
      case found of
        [c] \<Rightarrow> ret (acc\<lparr>cb_result := add_result target knd (cim_consumer c) (cb_result acc)\<rparr>)
      | _ # _ # _ \<Rightarrow>
          fail (''More than one existing consumer found for participant '' @ participant_id @
            '', target participant '' @ target @ '', kind '' @ knd @ '', meeting_id '' @ meeting_id @
            '', instance_id '' @ instance_id)
      | [] \<Rightarrow>
          and_then (map_err (\<lambda>e. ''Failed to parse producer id: '' @ e)
            (from_result (x_parse_producer_id (ext_ms x) producer_id_string))) (\<lambda>producer_id.
          and_then (call_result ''Error in creating consumer ''
            (x_consume (ext_ms x) (wt_id transport) producer_id rtp_capabilities)) (\<lambda>c.
          ret \<lparr>cb_new = hm_insert (co_id c)
                 \<lparr>cim_consumer = c, cim_meeting_id = meeting_id, cim_participant_id = participant_id,
                  cim_target_participant_id = target, cim_kind = knd, cim_instance_id = instance_id,
                  cim_producer_id = producer_id_string\<rparr> (cb_new acc),
               cb_entities = cb_entities acc @ [D_ParticipantConsumers
                 \<lparr>pc_mutation_type = Insert, pc_participant_id = Some participant_id, pc_consumers = Some 1,
                  pc_target_participant_id = Some target, pc_kind = Some knd, pc_consumer_id = Some (co_id c),
                  pc_meeting_id = Some meeting_id, pc_transport_id = Some consumer_transport_id\<rparr>],
               cb_result = add_result target knd c (cb_result acc)\<rparr>)))"

text \<open>The requests in the order the code's two nested loops visit them.\<close>

definition requested :: "(string, (string, string) hmap) hmap \<Rightarrow> (string \<times> string \<times> string) list" where
  "requested targets = concat (map (\<lambda>t. map (\<lambda>k. (fst t, fst k, snd k)) (snd t)) targets)"

definition create_consumer ::
  "'w ext \<Rightarrow> string \<Rightarrow> string \<Rightarrow> (string, (string, string) hmap) hmap \<Rightarrow> string \<Rightarrow> string \<Rightarrow> string \<Rightarrow>
   ('w, (string, (string, consumer_handle) hmap) hmap) op" where
  "create_consumer x participant_id consumer_transport_id target_participants rtp_capabilities meeting_id instance_id =
     and_then (gets (\<lambda>s. hm_get (transport_map s) consumer_transport_id)) (\<lambda>found.
     and_then (unwrap found) (\<lambda>t.
     and_then (read_shard x meeting_id) (\<lambda>existing.
     and_then (for_each (request_consumer x participant_id meeting_id instance_id (tim_transport t)
         consumer_transport_id rtp_capabilities existing) (requested target_participants)
         \<lparr>cb_new = [], cb_entities = [], cb_result = []\<rparr>) (\<lambda>batch.
     and_then (attempt (run_mutate x True (cb_entities batch))) (\<lambda>r.
     case r of
       Inr _ \<Rightarrow> and_then (write_shard x meeting_id (hm_extend (cb_new batch))) (\<lambda>_. ret (cb_result batch))
     | Inl e \<Rightarrow> fail (''Error in writing to DB '' @ show_db_error e))))))"

section \<open>Pausing, resuming, closing\<close>

definition set_consumer_state :: "string \<Rightarrow> (string \<Rightarrow> 'w \<Rightarrow> string option \<times> 'w) \<Rightarrow>
    (string, consumer_in_memory) hmap \<Rightarrow> string \<Rightarrow> string list \<Rightarrow> ('w, string list) op" where
  "set_consumer_state msg f cm consumer_id acc =
     and_then (unwrap (hm_get cm consumer_id)) (\<lambda>c.
     and_then (call_unit msg (f (co_id (cim_consumer c)))) (\<lambda>_.
     ret (acc @ [consumer_id])))"

definition resume_consumer :: "'w ext \<Rightarrow> string \<Rightarrow> string list \<Rightarrow> string \<Rightarrow> ('w, string list) op" where
  "resume_consumer x participant_id consumer_ids meeting_id =
     and_then (read_shard x meeting_id) (\<lambda>cm.
     for_each (set_consumer_state ''[mod.rs.resume_consumer] Failed to resume err ''
       (x_resume_consumer (ext_ms x)) cm) consumer_ids [])"

definition pause_consumer :: "'w ext \<Rightarrow> string \<Rightarrow> string list \<Rightarrow> string \<Rightarrow> ('w, string list) op" where
  "pause_consumer x participant_id consumer_ids meeting_id =
     and_then (read_shard x meeting_id) (\<lambda>cm.
     for_each (set_consumer_state ''[mod.rs.resume_consumer] Failed to pause err ''
       (x_pause_consumer (ext_ms x)) cm) consumer_ids [])"

definition close_consumer :: "'w ext \<Rightarrow> string \<Rightarrow> string list \<Rightarrow> string \<Rightarrow> ('w, unit) op" where
  "close_consumer x participant_id consumer_ids meeting_id =
     and_then (attempt (run_mutate x True (map (\<lambda>consumer_id. D_ParticipantConsumers
         \<lparr>pc_mutation_type = Delete, pc_participant_id = None, pc_consumers = None,
          pc_target_participant_id = None, pc_kind = None, pc_consumer_id = Some consumer_id,
          pc_meeting_id = Some meeting_id, pc_transport_id = None\<rparr>) consumer_ids))) (\<lambda>r.
     case r of
       Inl e \<Rightarrow> fail (''Error in cleaning up in DB '' @ show_db_error e)
     | Inr _ \<Rightarrow> write_shard x meeting_id (hm_remove_all consumer_ids))"

end
