(* ===== verification/Meetings.thy ===== *)
theory Meetings
  imports Producers Consumers
begin

text \<open>
  Meetings (\<open>src/mediasoupv1/mod.rs\<close>): creating a meeting with its routers, taking over the
  meetings of another container, leaving and ending a meeting. Creating a router on a worker is a
  call of mediasoup; the routers reach the map only once the database has taken their statements.
\<close>

section \<open>Routers\<close>

text \<open>The capacity a router is stored with: the first that is present, in this order.\<close>

definition stored_capacity :: "producer_consumer_capacity \<Rightarrow> int option" where
  "stored_capacity p =
     (if pcc_capacity p \<noteq> None then pcc_capacity p
      else if pcc_producer_capacity p \<noteq> None then pcc_producer_capacity p
      else pcc_consumer_capacity p)"

record router_batch =
  rb_workers :: "dao list"
  rb_meetings :: "dao list"
  rb_routers :: "(string, router_in_memory) hmap"

definition no_routers :: router_batch where
  "no_routers = \<lparr>rb_workers = [], rb_meetings = [], rb_routers = []\<rparr>"

definition add_router :: "string \<Rightarrow> string \<Rightarrow> string \<Rightarrow> producer_consumer_capacity \<Rightarrow> string \<Rightarrow>
    router_batch \<Rightarrow> router_batch" where
  "add_router meeting_id container_id worker_id p router_id b =
     \<lparr>rb_workers = rb_workers b @ [D_RouterWorker
        \<lparr>rw_mutation_type = Insert, rw_worker_id = Some worker_id, rw_router_id = router_id\<rparr>],
      rb_meetings = rb_meetings b @ [D_RouterMeeting
        \<lparr>rm_mutation_type = Insert, rm_router_id = Some router_id, rm_meeting_id = meeting_id,
         rm_producer_capacity = pcc_producer_capacity p, rm_consumer_capacity = pcc_consumer_capacity p,
         rm_capacity = pcc_capacity p, rm_container_id = Some container_id\<rparr>],
      rb_routers = (case stored_capacity p of
          None \<Rightarrow> rb_routers b
        | Some c \<Rightarrow> hm_insert router_id \<lparr>rim_router = router_id, rim_capacity = c\<rparr> (rb_routers b))\<rparr>"

definition create_router :: "'w ext \<Rightarrow> string \<Rightarrow> string \<Rightarrow> string \<times> producer_consumer_capacity \<Rightarrow>
    router_batch \<Rightarrow> ('w, router_batch) op" where
  "create_router x meeting_id container_id e b =
     and_then (gets (\<lambda>s. hm_get (workers_map s) (fst e))) (\<lambda>found.
     and_then (unwrap found) (\<lambda>worker.
     and_then (call_result ''Failed to create router '' (x_create_router (ext_ms x) worker media_codecs)) (\<lambda>router_id.
     ret (add_router meeting_id container_id (fst e) (snd e) router_id b))))"

section \<open>Creating a meeting\<close>

definition meeting_status_entity :: "mutation_type \<Rightarrow> bool option \<Rightarrow> string \<Rightarrow> dao" where
  "meeting_status_entity mt enabled meeting_id =
     D_MeetingStatus \<lparr>ms_mutation_type = mt, ms_meeting_id = meeting_id, ms_enabled = enabled\<rparr>"

text \<open>
  The routers of a meeting, worker by worker. A worker with no entry in its list is looked up (and
  must exist) all the same.
\<close>

definition create_worker_routers :: "'w ext \<Rightarrow> string \<Rightarrow> string \<Rightarrow>
    string \<times> producer_consumer_capacity list \<Rightarrow> router_batch \<Rightarrow> ('w, router_batch) op" where
  "create_worker_routers x meeting_id container_id e b =
     and_then (gets (\<lambda>s. hm_get (workers_map s) (fst e))) (\<lambda>found.
     and_then (unwrap found) (\<lambda>_.
     for_each (create_router x meeting_id container_id) (map (Pair (fst e)) (snd e)) b))"

definition create_meeting_and_routers_on_workers ::
  "'w ext \<Rightarrow> (string, producer_consumer_capacity list) hmap \<Rightarrow> string \<Rightarrow> string \<Rightarrow> ('w, string) op" where
  "create_meeting_and_routers_on_workers x worker_router_capacity meeting_id container_id =
     and_then (for_each (create_worker_routers x meeting_id container_id) worker_router_capacity no_routers) (\<lambda>b.
     and_then (attempt (run_mutate x True
         (meeting_status_entity Insert (Some True) meeting_id # rb_workers b @ rb_meetings b))) (\<lambda>r.
     case r of
       Inr _ \<Rightarrow>
         and_then (modify (\<lambda>s. s\<lparr>routers_map := hm_extend (rb_routers b) (routers_map s)\<rparr>)) (\<lambda>_.
         ret ''created the required routers'')
     | Inl e \<Rightarrow>
         (case e of
            MySqlError c m \<Rightarrow>
              if c = duplicate_code then ret ''Meeting already exists''
              else fail (''Error in writing to DB '' @ m)
          | _ \<Rightarrow> fail (''Error in writing to DB '' @ show_db_error e))))"

section \<open>Taking over meetings\<close>

record meeting_payload =
  mp_worker_payload :: "(string, producer_consumer_capacity) hmap"
  mp_old_container_id :: string
  mp_new_container_id :: string

definition create_meeting_routers :: "'w ext \<Rightarrow> string \<times> meeting_payload \<Rightarrow> router_batch \<Rightarrow> ('w, router_batch) op" where
  "create_meeting_routers x e b =
     for_each (create_router x (fst e) (mp_new_container_id (snd e))) (mp_worker_payload (snd e)) b"

definition status_entities :: "(string, meeting_payload) hmap \<Rightarrow> dao list" where
  "status_entities meeting_map =
     concat (map (\<lambda>e. [meeting_status_entity Delete None (fst e),
                        meeting_status_entity Insert (Some True) (fst e)]) meeting_map)"

definition batch_create_router_on_worker ::
  "'w ext \<Rightarrow> (string, meeting_payload) hmap \<Rightarrow> ('w, string) op" where
  "batch_create_router_on_worker x meeting_map =
     and_then (for_each (create_meeting_routers x) meeting_map no_routers) (\<lambda>b.
     and_then (attempt (on_world (mutate (ext_sql x)
         \<lparr>rollback_on_duplicate = True, tx_opts = SerializableReadWrite\<rparr>
         (status_entities meeting_map @ rb_workers b @ rb_meetings b)))) (\<lambda>r.
     case r of
       Inr _ \<Rightarrow>
         and_then (modify (\<lambda>s. s\<lparr>routers_map := hm_extend (rb_routers b) (routers_map s)\<rparr>)) (\<lambda>_.
         ret ''created the required routers'')
     | Inl e \<Rightarrow> fail (''Error in writing to DB '' @ show_db_error e)))"

definition get_router_capabilities :: "'w ext \<Rightarrow> string \<Rightarrow> ('w, string) op" where
  "get_router_capabilities x router_id =
     and_then (gets (\<lambda>s. hm_get (routers_map s) router_id)) (\<lambda>found.
     and_then (unwrap found) (\<lambda>router.
     ret (x_router_rtp_capabilities (ext_ms x) (rim_router router))))"

section \<open>Leaving a meeting\<close>

record leave_meeting_response =
  lmr_response :: string
  lmr_send_signal :: bool

definition opt_list :: "'a option \<Rightarrow> 'a list" where
  "opt_list opt = (case opt of None \<Rightarrow> [] | Some a \<Rightarrow> [a])"

text \<open>What a participant leaves in memory is closed: consumers, producers, consumers of those.\<close>

definition close_instance :: "'w ext \<Rightarrow> string \<Rightarrow> string \<Rightarrow> string \<Rightarrow> ('w, unit) op" where
  "close_instance x participant_id meeting_id instance_id =
     and_then (get_participant_consumers_for_instance_in_meeting x participant_id meeting_id instance_id) (\<lambda>old_consumers.
     and_then (close_all_consumers_in_memory x old_consumers meeting_id) (\<lambda>_.
     and_then (get_participant_producers_for_instance_in_meeting participant_id meeting_id instance_id) (\<lambda>old_producer_ids.
     and_then (if old_producer_ids \<noteq> []
               then map_err (\<lambda>e. ''Failed to close all producers in memory '' @ e)
                      (and_then (close_all_producers_in_memory x [participant_id] old_producer_ids meeting_id True)
                        (\<lambda>_. ret ()))
               else ret ()) (\<lambda>_.
     and_then (get_consumers_for_producer_ids x old_producer_ids meeting_id) (\<lambda>close_consumer_ids.
     if close_consumer_ids \<noteq> []
     then close_all_consumers_in_memory x close_consumer_ids meeting_id else ret ())))))"

definition leave_meeting :: "'w ext \<Rightarrow> string \<Rightarrow> string \<Rightarrow> string \<Rightarrow> string option \<Rightarrow> string option \<Rightarrow>
    ('w, leave_meeting_response) op" where
  "leave_meeting x participant_id meeting_id instance_id producer_transport_id consumer_transport_id =
     and_then (attempt (on_world (delete (ext_sql x) [D_ParticipantMeeting
         \<lparr>pm_mutation_type = Delete, pm_meeting_id = meeting_id, pm_participant_id = Some participant_id,
          pm_instance_id = Some instance_id\<rparr>]))) (\<lambda>r.
     case r of
       Inl _ \<Rightarrow> fail ''Failure in leaving the meeting''
     | Inr rows \<Rightarrow>
         if rows = 0
         then ret \<lparr>lmr_response = ''Participant not found in the meeting'', lmr_send_signal = False\<rparr>
         else
           and_then (modify (\<lambda>s. s\<lparr>transport_map := hm_remove_all
               (opt_list producer_transport_id @ opt_list consumer_transport_id) (transport_map s)\<rparr>)) (\<lambda>_.
           and_then (close_instance x participant_id meeting_id instance_id) (\<lambda>_.
           and_then (push_user_session_event x participant_id meeting_id ''LEAVE'' instance_id) (\<lambda>_.
           ret \<lparr>lmr_response = ''Participant left the meeting'', lmr_send_signal = True\<rparr>))))"

section \<open>Ending a meeting\<close>

text \<open>
  The pipeline is taken out of a clone of the map, so the map keeps it; it is set to \<open>Null\<close> by a
  task of its own, whose result is only logged (here the call happens before the answer).
\<close>

definition stop_pipeline :: "'w ext \<Rightarrow> string \<Rightarrow> ('w, unit) op" where
  "stop_pipeline x meeting_id =
     and_then (gets (\<lambda>s. hm_get (pipeline_map s) meeting_id)) (\<lambda>gstreamer_from_map.
     case gstreamer_from_map of
       None \<Rightarrow> ret ()
     | Some g_option \<Rightarrow>
         and_then (unwrap g_option) (\<lambda>g.
         and_then (unwrap (gst_pipeline g)) (\<lambda>pipeline.
         and_then (call_world (x_set_state (ext_gst x) pipeline GstNull)) (\<lambda>_. ret ()))))"

definition end_meeting :: "'w ext \<Rightarrow> string \<Rightarrow> string list \<Rightarrow> string list \<Rightarrow> string list \<Rightarrow> ('w, string) op" where
  "end_meeting x meeting_id router_ids transport_ids participant_ids =
     and_then (attempt (run_mutate x True [meeting_status_entity Delete None meeting_id])) (\<lambda>r.
     case r of
       Inl _ \<Rightarrow> fail ''Failure in ending the meeting''
     | Inr _ \<Rightarrow>
         and_then (modify (\<lambda>s. s\<lparr>routers_map := hm_remove_all router_ids (routers_map s)\<rparr>)) (\<lambda>_.
         and_then (modify (\<lambda>s. s\<lparr>transport_map := hm_remove_all transport_ids (transport_map s)\<rparr>)) (\<lambda>_.
         and_then (get_all_consumers_for_meeting x meeting_id) (\<lambda>old_consumers.
         and_then (close_all_consumers_in_memory x old_consumers meeting_id) (\<lambda>_.
         and_then (get_all_producers_for_meeting meeting_id) (\<lambda>old_producer_ids.
         and_then (if old_producer_ids \<noteq> []
                   then map_err (\<lambda>e. ''Failed to close all producers in memory '' @ e)
                          (and_then (close_all_producers_in_memory x participant_ids old_producer_ids meeting_id False)
                            (\<lambda>_. ret ()))
                   else ret ()) (\<lambda>_.
         and_then (stop_pipeline x meeting_id) (\<lambda>_.
         ret ''Success ended the meeting''))))))))"

end
