(* ===== verification/Analytics.thy ===== *)
theory Analytics
  imports Config
begin

text \<open>
  The analytics side: the client that posts user events (\<open>src/client/mod.rs\<close>), the task that takes
  them out of the channel and retries (\<open>receive_and_send_user_event\<close>,
  \<open>src/mediasoupv1/metrics.rs\<close>), and the bounded channel between the handlers and that task. HTTP
  and its header types (crates \<open>reqwest\<close>, \<open>http\<close>) are the record \<open>net_ext\<close>.
\<close>

section \<open>The client\<close>

record client_config_details =
  client_config_endpoint :: string
  client_headers :: "(string, string) hmap"

record event_payload =
  ep_name :: string
  ep_client_reference_id :: "string option"
  ep_event_timestamp :: nat
  ep_event :: user_event

record 'w net_ext =
  x_clock_millis :: "'w \<Rightarrow> int \<times> 'w"
  x_http_post :: "string \<Rightarrow> (string, string) hmap \<Rightarrow> event_payload \<Rightarrow> 'w \<Rightarrow> (string + nat \<times> string) \<times> 'w"
  x_header_name :: "string \<Rightarrow> string option"
  x_header_value :: "string \<Rightarrow> string option"

text \<open>Malformed JSON gives no headers; a missing variable panics, whatever the comment says.\<close>

definition client_config_from_env ::
  "(string \<Rightarrow> (string, string) hmap option) \<Rightarrow> (environment, client_config_details, string) eff" where
  "client_config_from_env headers_of_json =
     and_then (gets (\<lambda>e. env_process e ''CLIENT_CONFIG_SERVICE_HEADERS'')) (\<lambda>raw.
     and_then (unwrap raw) (\<lambda>text.
     and_then (gets (\<lambda>e. get_env e ''CLIENT_CONFIG_SERVICE_ENDPOINT'' '''')) (\<lambda>endpoint.
     ret \<lparr>client_config_endpoint = endpoint,
          client_headers = (case headers_of_json text of None \<Rightarrow> [] | Some h \<Rightarrow> h)\<rparr>)))"

definition add_header :: "'w net_ext \<Rightarrow> string \<times> string \<Rightarrow> (string, string) hmap \<Rightarrow>
    ('w, (string, string) hmap, string) eff" where
  "add_header x kv hs =
     and_then (unwrap (x_header_name x (fst kv))) (\<lambda>name.
     and_then (unwrap (x_header_value x (snd kv))) (\<lambda>v.
     ret (hm_insert name v hs)))"

definition user_agent :: string where
  "user_agent = ''user-agent''"

text \<open>An answer of the service is a success whatever its status, which is only logged.\<close>

definition send_event :: "'w net_ext \<Rightarrow> client_config_details \<Rightarrow> string \<Rightarrow> user_event \<Rightarrow> ('w, unit, string) eff" where
  "send_event x c event_name ev =
     and_then (call (x_clock_millis x)) (\<lambda>current_time.
     let payload = \<lparr>ep_name = event_name, ep_client_reference_id = Some (show_int current_time),
                    ep_event_timestamp = nat (current_time mod 2 ^ 64), ep_event = ev\<rparr> in
     and_then (for_each (add_header x) (client_headers c) []) (\<lambda>hs.
     and_then (unwrap (x_header_value x ''analytic-metric-client/1.0'')) (\<lambda>agent.
     and_then (call (x_http_post x (client_config_endpoint c) (hm_insert user_agent agent hs) payload)) (\<lambda>r.
     case r of Inl e \<Rightarrow> fail e | Inr _ \<Rightarrow> ret ()))))"

section \<open>The publisher\<close>

definition event_topic :: string where
  "event_topic = ''doordarshan-user-session-events''"

definition retries :: nat where
  "retries = 3"

text \<open>The argument counts the attempts left.\<close>

fun send_attempts :: "'w net_ext \<Rightarrow> client_config_details \<Rightarrow> user_event \<Rightarrow> nat \<Rightarrow> ('w, unit, string) eff" where
  "send_attempts x c ev 0 = ret ()"
| "send_attempts x c ev (Suc n) =
     and_then (attempt (send_event x c event_topic ev)) (\<lambda>r.
     case r of Inr _ \<Rightarrow> ret () | Inl _ \<Rightarrow> send_attempts x c ev n)"

text \<open>The events received one after the other, until the senders are gone.\<close>

fun receive_and_send_user_event :: "'w net_ext \<Rightarrow> client_config_details \<Rightarrow> user_event list \<Rightarrow>
    ('w, unit, string) eff" where
  "receive_and_send_user_event x c [] = ret ()"
| "receive_and_send_user_event x c (ev # evs) =
     and_then (send_attempts x c ev retries) (\<lambda>_. receive_and_send_user_event x c evs)"

section \<open>What is sent\<close>

text \<open>
  What the service has been sent, as an observation of the world: a post adds its event at the end,
  the clock adds nothing.
\<close>

definition observes_posts :: "'w net_ext \<Rightarrow> ('w \<Rightarrow> user_event list) \<Rightarrow> bool" where
  "observes_posts x sent \<longleftrightarrow>
     (\<forall>u hs p w. sent (snd (x_http_post x u hs p w)) = sent w @ [ep_event p]) \<and>
     (\<forall>w. sent (snd (x_clock_millis x w)) = sent w)"

lemma add_headers_world: "for_each (add_header x) kvs hs w = (r, w') \<Longrightarrow> w' = w"
proof -
  assume run: "for_each (add_header x) kvs hs w = (r, w')"
  have "keeps (\<lambda>v. v = w) (for_each (add_header x) kvs hs)"
    unfolding add_header_def by (intro keeps_intros)
  from keepsD [OF this refl run] show "w' = w" .
qed

lemma add_headers_no_Err: "for_each (add_header x) kvs hs w \<noteq> (Err e, w')"
  by (induction kvs arbitrary: hs w) (auto simp: ret_def add_header_def run_iffs)

lemma send_event_sent:
  assumes "observes_posts x sent" and "send_event x c n ev w = (r, w')" and "r \<noteq> Panic"
  shows "sent w' = sent w @ [ev]"
proof -
  obtain now w1 where clock: "x_clock_millis x w = (now, w1)" by fastforce
  obtain r2 w2 where headers: "for_each (add_header x) (client_headers c) [] w1 = (r2, w2)" by fastforce
  from add_headers_world [OF headers] have w2: "w2 = w1" .
  from assms(2,3) clock headers w2 obtain hs agent where "r2 = Ok hs"
    "x_header_value x ''analytic-metric-client/1.0'' = Some agent"
    by (cases r2; cases "x_header_value x ''analytic-metric-client/1.0''")
      (auto simp: send_event_def and_then_def call_def unwrap_def panic_def Let_def add_headers_no_Err)
  let ?payload = "\<lparr>ep_name = n, ep_client_reference_id = Some (show_int now),
    ep_event_timestamp = nat (now mod 2 ^ 64), ep_event = ev\<rparr>"
  from assms(2) clock headers w2 \<open>r2 = Ok hs\<close> \<open>_ = Some agent\<close>
  have "w' = snd (x_http_post x (client_config_endpoint c) (hm_insert user_agent agent hs) ?payload w1)"
    by (auto simp: send_event_def and_then_def call_def unwrap_def ret_def fail_def Let_def
        split: prod.splits sum.splits)
  then show ?thesis using assms(1) clock unfolding observes_posts_def by (metis snd_conv event_payload.select_convs(4))
qed

lemma send_attempts_sent:
  assumes "observes_posts x sent"
  shows "send_attempts x c ev n w = (Ok (), w') \<Longrightarrow>
     \<exists>k. k \<le> n \<and> (n > 0 \<longrightarrow> 0 < k) \<and> sent w' = sent w @ replicate k ev"
proof (induction n arbitrary: w)
  case 0
  then show ?case by (simp add: ret_def)
next
  case (Suc n)
  obtain r1 w1 where run: "send_event x c event_topic ev w = (r1, w1)" by fastforce
  with Suc.prems have first: "send_event x c event_topic ev w = (r1, w1)" "r1 \<noteq> Panic"
    and rest: "w' = w1 \<or> send_attempts x c ev n w1 = (Ok (), w')"
    by (cases r1; simp add: and_then_def attempt_def ret_def)+
  have w1: "sent w1 = sent w @ [ev]" by (rule send_event_sent [OF assms first])
  from rest show ?case
  proof
    assume "w' = w1"
    with w1 show ?thesis by (intro exI [of _ 1]) simp
  next
    assume "send_attempts x c ev n w1 = (Ok (), w')"
    from Suc.IH [OF this] obtain k where "k \<le> n" "sent w' = sent w1 @ replicate k ev" by blast
    with w1 show ?thesis by (intro exI [of _ "Suc k"]) simp
  qed
qed


text \<open>A service that fails the first two posts of every three.\<close>

definition flaky_net :: "user_event list net_ext" where
  "flaky_net = \<lparr>x_clock_millis = (\<lambda>w. (1700, w)),
     x_http_post = (\<lambda>u hs p w. (if length w mod 3 = 2 then Inr (200, '''') else Inl ''down'', w @ [ep_event p])),
     x_header_name = Some, x_header_value = Some\<rparr>"

definition sample_event :: "string \<Rightarrow> user_event" where
  "sample_event i = \<lparr>ue_event_id = i, ue_user_id = ''u'', ue_event_type = ''JOIN'', ue_event_time = 5,
     ue_instance_id = ''i'', ue_meeting_id = ''m''\<rparr>"

lemma retries_Suc: "retries = Suc (Suc (Suc 0))"
  by (simp add: retries_def)

lemma flaky_send:
  "send_event flaky_net \<lparr>client_config_endpoint = ''url'', client_headers = [(''a'', ''b'')]\<rparr> n ev w =
   (if length w mod 3 = 2 then Ok () else Err ''down'', w @ [ev])"
  by (simp add: send_event_def add_header_def flaky_net_def and_then_def call_def unwrap_def ret_def fail_def Let_def)


section \<open>The channel of user events\<close>

text \<open>
  The channel between the handlers and the publisher (\<open>std::sync::mpsc::sync_channel\<close>) holds as
  many events as configured; a send to a full channel waits. The receiver is kept alive by the
  server, so a send never finds it gone. A panic of the publisher ends its task for good.
\<close>

datatype publisher = Publishing | Stopped

inductive channel_step :: "'w net_ext \<Rightarrow> client_config_details \<Rightarrow> nat \<Rightarrow>
    publisher \<times> user_event list \<times> 'w \<Rightarrow> publisher \<times> user_event list \<times> 'w \<Rightarrow> bool"
  for x c capacity where
  send: "length ch < capacity \<Longrightarrow> channel_step x c capacity (p, ch, w) (p, ch @ [ev], w)"
| publish: "send_attempts x c ev retries w = (Ok (), w') \<Longrightarrow>
    channel_step x c capacity (Publishing, ev # ch, w) (Publishing, ch, w')"
| crash: "send_attempts x c ev retries w = (Panic, w') \<Longrightarrow>
    channel_step x c capacity (Publishing, ev # ch, w) (Stopped, ch, w')"

inductive_simps channel_stopped_iff: "channel_step x c capacity (Stopped, ch, w) st"
inductive_cases channel_publishingE: "channel_step x c capacity (Publishing, ch, w) st"

lemma stopped_for_good:
  "(channel_step x c capacity)\<^sup>*\<^sup>* (Stopped, ch, w) (p, ch', w') \<Longrightarrow> p = Stopped \<and> (\<exists>more. ch' = ch @ more)"
proof (induction "(p, ch', w')" arbitrary: p ch' w' rule: rtranclp_induct)
  case base
  then show ?case by simp
next
  case (step st)
  obtain p1 ch1 w1 where st: "st = (p1, ch1, w1)" by (cases st)
  from step.hyps(3) [OF st] obtain more where "p1 = Stopped" "ch1 = ch @ more" by blast
  with step.hyps(2) show ?case by (auto simp: st channel_stopped_iff)
qed

lemma headers_accepted:
  "for_each (add_header x) kvs hs w = (Ok hs', w') \<Longrightarrow> kv \<in> set kvs \<Longrightarrow> x_header_name x (fst kv) \<noteq> None"
  by (induction kvs arbitrary: hs w) (auto simp: add_header_def run_iffs)

lemma bad_header_panics:
  assumes "kv \<in> set (client_headers c)" and "x_header_name x (fst kv) = None"
  shows "\<exists>w'. send_attempts x c ev retries w = (Panic, w')"
proof -
  obtain now w1 where clock: "x_clock_millis x w = (now, w1)" by fastforce
  obtain r w2 where headers: "for_each (add_header x) (client_headers c) [] w1 = (r, w2)" by fastforce
  have "r = Panic"
  proof (cases r)
    case (Ok hs)
    from headers_accepted [OF headers [unfolded Ok] assms(1)] assms(2) show ?thesis by simp
  next
    case (Err e)
    then show ?thesis using headers add_headers_no_Err [of x "client_headers c" "[]" w1 e w2] by simp
  qed
  with clock headers have "send_event x c event_topic ev w = (Panic, w2)"
    by (simp add: send_event_def and_then_def call_def Let_def)
  then show ?thesis by (simp add: retries_def numeral_3_eq_3 and_then_def attempt_def)
qed

text \<open>
  C34: A header the client cannot send stops the events for good. With a header whose name is not
  valid, the publisher panics at the first event; from then on no event is ever taken out of the
  channel, and once the channel is full no step is left: every handler that pushes an event waits
  for ever.
\<close>

theorem publisher_stops_for_good:
  assumes "kv \<in> set (client_headers c)" and "x_header_name x (fst kv) = None"
  shows "\<exists>w'. channel_step x c capacity (Publishing, ev # ch, w) (Stopped, ch, w') \<and>
    (\<forall>p ch' v. (channel_step x c capacity)\<^sup>*\<^sup>* (Stopped, ch, w') (p, ch', v) \<longrightarrow>
       p = Stopped \<and> (\<exists>more. ch' = ch @ more) \<and>
       (capacity \<le> length ch' \<longrightarrow> (\<forall>st. \<not> channel_step x c capacity (p, ch', v) st)))"
proof -
  from bad_header_panics [OF assms] obtain w' where "send_attempts x c ev retries w = (Panic, w')" ..
  then have "channel_step x c capacity (Publishing, ev # ch, w) (Stopped, ch, w')" by (rule channel_step.crash)
  then show ?thesis
    by (intro exI [of _ w'] conjI allI impI) (use stopped_for_good in \<open>fastforce simp: channel_stopped_iff\<close>)+
qed

text \<open>A channel of one event: after the crash one more event is taken in, and that is the last step.\<close>

theorem publisher_stops_for_good_witness:
  "\<exists>w'. channel_step (flaky_net\<lparr>x_header_name := \<lambda>_. None\<rparr>)
      \<lparr>client_config_endpoint = ''url'', client_headers = [(''a b'', ''c'')]\<rparr> 1
      (Publishing, [sample_event ''1''], []) (Stopped, [], w') \<and>
    (\<forall>st. \<not> channel_step (flaky_net\<lparr>x_header_name := \<lambda>_. None\<rparr>)
      \<lparr>client_config_endpoint = ''url'', client_headers = [(''a b'', ''c'')]\<rparr> 1 (Stopped, [sample_event ''2''], w') st)"
proof -
  let ?x = "flaky_net\<lparr>x_header_name := \<lambda>_. None\<rparr>"
  let ?c = "\<lparr>client_config_endpoint = ''url'', client_headers = [(''a b'', ''c'')]\<rparr>"
  obtain w' where crash: "channel_step ?x ?c 1 (Publishing, [sample_event ''1''], []) (Stopped, [], w')"
    and after: "\<forall>p ch' v. (channel_step ?x ?c 1)\<^sup>*\<^sup>* (Stopped, [], w') (p, ch', v) \<longrightarrow>
       p = Stopped \<and> (\<exists>more. ch' = [] @ more) \<and>
       (1 \<le> length ch' \<longrightarrow> (\<forall>st. \<not> channel_step ?x ?c 1 (p, ch', v) st))"
    using publisher_stops_for_good [of "(''a b'', ''c'')" ?c ?x 1 "sample_event ''1''" "[]" "[]"] by (auto simp: flaky_net_def)
  have "channel_step ?x ?c 1 (Stopped, [], w') (Stopped, [] @ [sample_event ''2''], w')"
    by (rule channel_step.send) simp
  then have "(channel_step ?x ?c 1)\<^sup>*\<^sup>* (Stopped, [], w') (Stopped, [sample_event ''2''], w')" by auto
  with after crash show ?thesis by fastforce
qed

end
