(* ===== verification/Metrics.thy ===== *)
theory Metrics
  imports Consumers Analytics
begin

text \<open>
  Metrics (\<open>src/mediasoupv1/metrics.rs\<close>): what one pass over the transports, producers and consumers
  records in the meter. The source says these functions are work in progress, and \<open>SFU::new\<close> has
  the tasks that call them commented out. The statistics come from mediasoup, a parameter; the type
  of floating point numbers is a type variable, its conversions from and to integers are parameters.
  A pass is one round of an endless loop with a pause of five seconds.
\<close>

section \<open>Recordings\<close>

datatype instrument = U64Gauge | U64Histogram | F64Gauge

datatype 'f reading = Whole nat | Floating 'f

record 'f recording =
  rec_instrument :: instrument
  rec_name :: string
  rec_reading :: "'f reading"
  rec_attributes :: "(string \<times> string) list"

datatype ice_role = IceControlling | IceControlled

record 'f float_ops =
  f64_of :: "int \<Rightarrow> 'f"
  u64_of :: "'f \<Rightarrow> nat"

section \<open>Gauges\<close>

datatype ice_state = IceNew | IceConnected | IceCompleted | IceDisconnected

datatype dtls_state = DtlsNew | DtlsConnecting | DtlsConnected | DtlsFailed | DtlsClosed

fun ice_gauges :: "ice_state \<Rightarrow> (string \<times> nat) list" where
  "ice_gauges IceNew =
     [(''new'', 1), (''connected'', 0), (''completed'', 0), (''disconnected'', 0)]"
| "ice_gauges IceConnected =
     [(''new'', 0), (''connected'', 1), (''completed'', 0), (''disconnected'', 0)]"
| "ice_gauges IceCompleted =
     [(''new'', 0), (''connected'', 0), (''completed'', 1), (''disconnected'', 0)]"
| "ice_gauges IceDisconnected =
     [(''new'', 0), (''connected'', 0), (''completed'', 0), (''disconnected'', 1)]"

fun dtls_gauges :: "dtls_state \<Rightarrow> (string \<times> nat) list" where
  "dtls_gauges DtlsNew =
     [(''new'', 1), (''connected'', 0), (''closed'', 0), (''connecting'', 0), (''failed'', 0)]"
| "dtls_gauges DtlsConnecting =
     [(''new'', 0), (''connected'', 0), (''connecting'', 1), (''closed'', 0), (''failed'', 0)]"
| "dtls_gauges DtlsConnected =
     [(''new'', 0), (''connected'', 1), (''closed'', 0), (''connecting'', 0), (''failed'', 0)]"
| "dtls_gauges DtlsFailed =
     [(''new'', 0), (''connected'', 1), (''closed'', 0), (''connecting'', 0), (''failed'', 1)]"
| "dtls_gauges DtlsClosed =
     [(''new'', 0), (''connected'', 0), (''closed'', 1), (''connecting'', 0), (''failed'', 0)]"

text \<open>The gauge that stands for a state, and a report that raises exactly that one.\<close>

fun ice_name :: "ice_state \<Rightarrow> string" where
  "ice_name IceNew = ''new''"
| "ice_name IceConnected = ''connected''"
| "ice_name IceCompleted = ''completed''"
| "ice_name IceDisconnected = ''disconnected''"

fun dtls_name :: "dtls_state \<Rightarrow> string" where
  "dtls_name DtlsNew = ''new''"
| "dtls_name DtlsConnecting = ''connecting''"
| "dtls_name DtlsConnected = ''connected''"
| "dtls_name DtlsFailed = ''failed''"
| "dtls_name DtlsClosed = ''closed''"

definition raises_only :: "string \<Rightarrow> (string \<times> nat) list \<Rightarrow> bool" where
  "raises_only n gs \<longleftrightarrow> map fst (filter (\<lambda>g. snd g \<noteq> 0) gs) = [n]"

instantiation dtls_state :: enum
begin

definition "enum_class.enum = [DtlsNew, DtlsConnecting, DtlsConnected, DtlsFailed, DtlsClosed]"
definition "enum_class.enum_all P \<longleftrightarrow> list_all P [DtlsNew, DtlsConnecting, DtlsConnected, DtlsFailed, DtlsClosed]"
definition "enum_class.enum_ex P \<longleftrightarrow> list_ex P [DtlsNew, DtlsConnecting, DtlsConnected, DtlsFailed, DtlsClosed]"

instance
proof
  have u: "(UNIV :: dtls_state set) = {DtlsNew, DtlsConnecting, DtlsConnected, DtlsFailed, DtlsClosed}"
    using dtls_state.exhaust by auto
  show "(UNIV :: dtls_state set) = set enum_class.enum"
    by (simp add: enum_dtls_state_def u)
  show "distinct (enum_class.enum :: dtls_state list)"
    by (simp add: enum_dtls_state_def)
  show "enum_class.enum_all P \<longleftrightarrow> Ball UNIV P" for P :: "dtls_state \<Rightarrow> bool"
    unfolding enum_all_dtls_state_def u by simp
  show "enum_class.enum_ex P \<longleftrightarrow> Bex UNIV P" for P :: "dtls_state \<Rightarrow> bool"
    unfolding enum_ex_dtls_state_def u by simp
qed

end

section \<open>A transport\<close>

record 'f transport_stat =
  st_bytes_received :: nat
  st_recv_bitrate :: nat
  st_bytes_sent :: nat
  st_send_bitrate :: nat
  st_rtp_bytes_received :: nat
  st_rtp_recv_bitrate :: nat
  st_rtp_bytes_sent :: nat
  st_rtp_send_bitrate :: nat
  st_rtx_bytes_received :: nat
  st_rtx_recv_bitrate :: nat
  st_rtx_bytes_sent :: nat
  st_rtx_send_bitrate :: nat
  st_probation_bytes_sent :: nat
  st_probation_send_bitrate :: nat
  st_available_outgoing_bitrate :: "nat option"
  st_available_incoming_bitrate :: "nat option"
  st_max_incoming_bitrate :: "nat option"
  st_max_outgoing_bitrate :: "nat option"
  st_min_outgoing_bitrate :: "nat option"
  st_rtp_packet_loss_received :: "'f option"
  st_rtp_packet_loss_sent :: "'f option"
  st_ice_role :: ice_role
  st_ice_state :: ice_state
  st_dtls_state :: dtls_state

definition whole :: "string \<Rightarrow> (string \<times> string) list \<Rightarrow> instrument \<Rightarrow> string \<Rightarrow> nat \<Rightarrow> 'f recording" where
  "whole prefix attributes i name v = \<lparr>rec_instrument = i, rec_name = prefix @ name, rec_reading = Whole v,
     rec_attributes = attributes\<rparr>"

definition floating :: "string \<Rightarrow> (string \<times> string) list \<Rightarrow> string \<Rightarrow> 'f \<Rightarrow> 'f recording" where
  "floating prefix attributes name v = \<lparr>rec_instrument = F64Gauge, rec_name = prefix @ name, rec_reading = Floating v,
     rec_attributes = attributes\<rparr>"

fun ice_role_gauges :: "ice_role \<Rightarrow> (string \<times> nat) list" where
  "ice_role_gauges IceControlling = [(''controlling'', 1), (''controlled'', 0)]"
| "ice_role_gauges IceControlled = [(''controlling'', 0), (''controlled'', 1)]"

definition state_recordings :: "'f float_ops \<Rightarrow> string \<Rightarrow> (string \<times> string) list \<Rightarrow> string \<Rightarrow> (string \<times> nat) list \<Rightarrow>
    'f recording list" where
  "state_recordings fo prefix attributes set_name gs =
     map (\<lambda>(name, v). floating prefix attributes (set_name @ name) (f64_of fo (int v))) gs"

definition optional :: "('a \<Rightarrow> 'r) \<Rightarrow> 'a option \<Rightarrow> 'r list" where
  "optional f v = (case v of None \<Rightarrow> [] | Some a \<Rightarrow> [f a])"

definition stat_recordings :: "'f float_ops \<Rightarrow> string \<Rightarrow> (string \<times> string) list \<Rightarrow> 'f transport_stat \<Rightarrow>
    'f recording list" where
  "stat_recordings fo prefix attributes st =
     (let w = whole prefix attributes in
     [w U64Gauge ''bytes_received'' (st_bytes_received st),
      w U64Histogram ''recv_bitrate'' (st_recv_bitrate st),
      w U64Gauge ''bytes_sent'' (st_bytes_sent st),
      w U64Histogram ''send_bitrate'' (st_send_bitrate st),
      w U64Gauge ''rtp_bytes_received'' (st_rtp_bytes_received st),
      w U64Histogram ''rtp_recv_bitrate'' (st_rtp_recv_bitrate st),
      w U64Gauge ''rtp_bytes_sent'' (st_rtp_bytes_sent st),
      w U64Histogram ''rtp_send_bitrate'' (st_rtp_send_bitrate st),
      w U64Gauge ''rtx_bytes_received'' (st_rtx_bytes_received st),
      w U64Histogram ''rtx_recv_bitrate'' (st_rtx_recv_bitrate st),
      w U64Gauge ''rtx_bytes_sent'' (st_rtx_bytes_sent st),
      w U64Histogram ''rtx_send_bitrate'' (st_rtx_send_bitrate st),
      w U64Gauge ''probation_bytes_sent'' (st_probation_bytes_sent st),
      w U64Histogram ''probation_send_bitrate'' (st_probation_send_bitrate st)] @
     optional (w U64Histogram ''available_incoming_bitrate'') (st_available_outgoing_bitrate st) @
     optional (w U64Histogram ''available_incoming_bitrate'') (st_available_incoming_bitrate st) @
     optional (w U64Histogram ''max_incoming_bitrate'') (st_max_incoming_bitrate st) @
     optional (w U64Histogram ''max_outgoing_bitrate'') (st_max_outgoing_bitrate st) @
     optional (w U64Histogram ''min_outgoing_bitrate'') (st_min_outgoing_bitrate st) @
     optional (floating prefix attributes ''rtp_packet_loss_received'') (st_rtp_packet_loss_received st) @
     optional (floating prefix attributes ''rtp_packet_loss_sent'') (st_rtp_packet_loss_sent st) @
     optional (floating prefix attributes ''rtp_packet_loss_sent'') (st_rtp_packet_loss_sent st) @
     state_recordings fo prefix attributes ''ice_role.'' (ice_role_gauges (st_ice_role st)) @
     state_recordings fo prefix attributes ''ice_state.'' (ice_gauges (st_ice_state st)) @
     state_recordings fo prefix attributes ''dtls_state.'' (dtls_gauges (st_dtls_state st)))"

definition webrtc_prefix :: "string \<Rightarrow> string" where
  "webrtc_prefix meeting_id = ''metric_'' @ meeting_id @ ''_webrtc_transport.stat.''"

definition transport_recordings :: "'f float_ops \<Rightarrow> string \<Rightarrow> (string \<times> string) list \<Rightarrow> 'f transport_stat \<Rightarrow>
    'f recording list" where
  "transport_recordings fo meeting_id = stat_recordings fo (webrtc_prefix meeting_id)"

section \<open>Producers and consumers\<close>

record 'f rtp_stat =
  rs_packets_lost :: int
  rs_fraction_lost :: nat
  rs_packets_discarded :: nat
  rs_packets_retransmitted :: nat
  rs_packets_repaired :: nat
  rs_nack_count :: nat
  rs_nack_packet_count :: nat
  rs_pli_count :: nat
  rs_fir_count :: nat
  rs_score :: nat
  rs_packet_count :: nat
  rs_byte_count :: nat
  rs_bitrate :: nat
  rs_round_trip_time :: "'f option"
  rs_rtx_packets_discarded :: "nat option"
  rs_jitter :: nat

definition counters :: "(instrument \<Rightarrow> string \<Rightarrow> nat \<Rightarrow> 'f recording) \<Rightarrow> 'f rtp_stat \<Rightarrow> 'f recording list" where
  "counters w st =
     [w U64Gauge ''fraction_lost'' (rs_fraction_lost st),
      w U64Gauge ''packets_discarded'' (rs_packets_discarded st),
      w U64Gauge ''packets_retransmitted'' (rs_packets_retransmitted st),
      w U64Gauge ''packets_repaired'' (rs_packets_repaired st),
      w U64Gauge ''nack_count'' (rs_nack_count st),
      w U64Gauge ''nack_packet_count'' (rs_nack_packet_count st),
      w U64Gauge ''pli_count'' (rs_pli_count st),
      w U64Gauge ''fir_count'' (rs_fir_count st),
      w U64Gauge ''score'' (rs_score st),
      w U64Gauge ''packet_count'' (rs_packet_count st),
      w U64Gauge ''byte_count'' (rs_byte_count st),
      w U64Histogram ''bitrate'' (rs_bitrate st)]"

definition producer_recordings :: "'f float_ops \<Rightarrow> string \<Rightarrow> (string \<times> string) list \<Rightarrow> 'f rtp_stat \<Rightarrow> 'f recording list" where
  "producer_recordings fo meeting_id attributes st =
     (let prefix = ''metric_'' @ meeting_id @ ''_producer.stat.'' in
     floating prefix attributes ''packets_lost'' (f64_of fo (rs_packets_lost st)) #
     counters (whole prefix attributes) st @
     optional (floating prefix attributes ''round_trip_time'') (rs_round_trip_time st) @
     optional (whole prefix attributes U64Gauge ''rtx_packets_discarded'') (rs_rtx_packets_discarded st) @
     [floating prefix attributes ''jitter'' (f64_of fo (int (rs_jitter st)))])"

definition consumer_recordings :: "'f float_ops \<Rightarrow> string \<Rightarrow> (string \<times> string) list \<Rightarrow> 'f rtp_stat \<Rightarrow> 'f recording list" where
  "consumer_recordings fo meeting_id attributes st =
     (let prefix = ''metric_'' @ meeting_id @ ''_consumer.stat.''; w = whole prefix attributes in
     w U64Gauge ''packets_lost'' (nat (rs_packets_lost st)) #
     counters w st @
     optional (\<lambda>v. w U64Gauge ''round_trip_time'' (u64_of fo v)) (rs_round_trip_time st))"

section \<open>A pass\<close>

text \<open>Where statistics come from and where recordings go.\<close>

record ('f, 'w) meter_ext =
  x_transport_stats :: "string \<Rightarrow> 'w \<Rightarrow> (string + 'f transport_stat list) \<times> 'w"
  x_producer_stats :: "string \<Rightarrow> 'w \<Rightarrow> (string + 'f rtp_stat list) \<times> 'w"
  x_consumer_stats :: "string \<Rightarrow> 'w \<Rightarrow> (string + 'f rtp_stat) \<times> 'w"
  x_consumer_kind :: "string \<Rightarrow> media_kind"
  x_record :: "'f recording \<Rightarrow> 'w \<Rightarrow> 'w"
  x_floats :: "'f float_ops"

definition record_all :: "('f, 'w) meter_ext \<Rightarrow> 'f recording list \<Rightarrow> 'w \<Rightarrow> 'w" where
  "record_all x rs w = fold (x_record x) rs w"

text \<open>Statistics that cannot be had leave nothing recorded.\<close>

definition push_metrics :: "('f, 'w) meter_ext \<Rightarrow> string \<Rightarrow> transport_in_memory \<Rightarrow> 'w \<Rightarrow> 'w" where
  "push_metrics x host t w =
     (case x_transport_stats x (wt_id (tim_transport t)) w of
        (Inl _, w') \<Rightarrow> w'
      | (Inr stats, w') \<Rightarrow>
          record_all x (concat (map (transport_recordings (x_floats x) (tim_meeting_id t)
            [(''host'', host), (''participant_id'', tim_participant_id t)]) stats)) w')"

definition push_metrics_for_producer :: "('f, 'w) meter_ext \<Rightarrow> string \<Rightarrow> producer_in_memory \<Rightarrow> 'w \<Rightarrow> 'w" where
  "push_metrics_for_producer x host p w =
     (case x_producer_stats x (pim_producer p) w of
        (Inl _, w') \<Rightarrow> w'
      | (Inr stats, w') \<Rightarrow>
          record_all x (concat (map (producer_recordings (x_floats x) (pim_meeting_id p)
            [(''host'', host), (''participant_id'', pim_participant_id p), (''kind'', pim_kind p)]) stats)) w')"

fun media_kind_to_string :: "media_kind \<Rightarrow> string" where
  "media_kind_to_string MediaAudio = ''audio''"
| "media_kind_to_string MediaVideo = ''video''"

definition push_metrics_for_consumer :: "('f, 'w) meter_ext \<Rightarrow> string \<Rightarrow> consumer_in_memory \<Rightarrow> 'w \<Rightarrow> 'w" where
  "push_metrics_for_consumer x host c w =
     (case x_consumer_stats x (co_id (cim_consumer c)) w of
        (Inl _, w') \<Rightarrow> w'
      | (Inr st, w') \<Rightarrow>
          record_all x (consumer_recordings (x_floats x) (cim_meeting_id c)
            [(''host'', host), (''participant_id'', cim_participant_id c),
             (''kind'', media_kind_to_string (x_consumer_kind x (co_id (cim_consumer c))))] st) w')"

definition push_metrics_for_transports :: "('f, 'w) meter_ext \<Rightarrow> string \<Rightarrow> (string, transport_in_memory) hmap \<Rightarrow> 'w \<Rightarrow> 'w" where
  "push_metrics_for_transports x host m = fold (push_metrics x host) (hm_values m)"

definition push_metrics_for_producers :: "('f, 'w) meter_ext \<Rightarrow> string \<Rightarrow> (string, producer_in_memory) hmap \<Rightarrow> 'w \<Rightarrow> 'w" where
  "push_metrics_for_producers x host m = fold (push_metrics_for_producer x host) (hm_values m)"

definition push_metrics_for_consumers :: "('f, 'w) meter_ext \<Rightarrow> string \<Rightarrow> (string, consumer_in_memory) hmap \<Rightarrow> 'w \<Rightarrow> 'w" where
  "push_metrics_for_consumers x host m = fold (push_metrics_for_consumer x host) (hm_values m)"

section \<open>What a transport reports\<close>

definition readings :: "string \<Rightarrow> 'f recording list \<Rightarrow> 'f reading list" where
  "readings name rs = map rec_reading (filter (\<lambda>r. rec_name r = name) rs)"

lemma readings_simps [simp]:
  "readings n [] = []"
  "readings n (rs @ rs') = readings n rs @ readings n rs'"
  "readings n (whole p a i name v # rs) = (if p @ name = n then Whole v # readings n rs else readings n rs)"
  "readings n (floating p a name' u # rs') = (if p @ name' = n then Floating u # readings n rs' else readings n rs')"
  by (simp_all add: readings_def whole_def floating_def)

lemma readings_optional [simp]:
  "readings n (optional (whole p a i name) v) = (if p @ name = n then map Whole (optional (\<lambda>x. x) v) else [])"
  "readings n (optional (floating p a name') u) = (if p @ name' = n then map Floating (optional (\<lambda>x. x) u) else [])"
  by (simp_all add: optional_def split: option.split)

lemma readings_state:
  "readings (p @ n) (state_recordings fo p a g gs) =
   map (\<lambda>e. Floating (f64_of fo (int (snd e)))) (filter (\<lambda>e. g @ fst e = n) gs)"
  by (induction gs) (auto simp: state_recordings_def readings_def floating_def)

lemma role_names: "fst ` set (ice_role_gauges r) = {''controlling'', ''controlled''}"
  by (cases r) auto

lemma no_role: "(\<And>k. ''ice_role.'' @ k \<noteq> n) \<Longrightarrow> readings (p @ n) (state_recordings fo p a ''ice_role.'' gs) = []"
  by (simp add: readings_state)

lemma ice_reading:
  "map (\<lambda>e. Floating (f64_of fo (int (snd e)))) (filter (\<lambda>e. fst e = ice_name i) (ice_gauges j)) =
   [Floating (f64_of fo (if j = i then 1 else 0))]"
  by (cases i; cases j) simp_all

lemma dtls_reading:
  "map (\<lambda>e. Floating (f64_of fo (int (snd e)))) (filter (\<lambda>e. fst e = dtls_name d) (dtls_gauges j)) =
   [Floating (f64_of fo (if j = d \<or> d = DtlsConnected \<and> j = DtlsFailed then 1 else 0))]"
  by (cases d; cases j) simp_all

lemma stat_readings:
  "readings (p @ ''ice_state.'' @ ice_name i) (stat_recordings fo p a st) =
      [Floating (f64_of fo (if st_ice_state st = i then 1 else 0))] \<and>
    readings (p @ ''dtls_state.'' @ dtls_name d) (stat_recordings fo p a st) =
      [Floating (f64_of fo (if st_dtls_state st = d \<or> d = DtlsConnected \<and> st_dtls_state st = DtlsFailed then 1 else 0))] \<and>
    readings (p @ ''available_outgoing_bitrate'') (stat_recordings fo p a st) = [] \<and>
    readings (p @ ''available_incoming_bitrate'') (stat_recordings fo p a st) =
      map Whole (optional (\<lambda>v. v) (st_available_outgoing_bitrate st) @ optional (\<lambda>v. v) (st_available_incoming_bitrate st))"
  by (simp add: stat_recordings_def Let_def readings_state ice_reading dtls_reading)

text \<open>
  C40: What a transport reports. The gauge of an ICE state is 1 when the transport is in it and 0
  otherwise; so is the gauge of a DTLS state, except that \<open>connected\<close> is also 1 for a failed
  transport. The bitrate available for sending is recorded under the name of the one for receiving,
  before it, and nothing is ever recorded under its own name.
\<close>

theorem transport_reports:
  "readings (webrtc_prefix m @ ''ice_state.'' @ ice_name i) (transport_recordings fo m attributes st) =
      [Floating (f64_of fo (if st_ice_state st = i then 1 else 0))] \<and>
    readings (webrtc_prefix m @ ''dtls_state.'' @ dtls_name d) (transport_recordings fo m attributes st) =
      [Floating (f64_of fo (if st_dtls_state st = d \<or> d = DtlsConnected \<and> st_dtls_state st = DtlsFailed then 1 else 0))] \<and>
    readings (webrtc_prefix m @ ''available_outgoing_bitrate'') (transport_recordings fo m attributes st) = [] \<and>
    readings (webrtc_prefix m @ ''available_incoming_bitrate'') (transport_recordings fo m attributes st) =
      map Whole (optional (\<lambda>v. v) (st_available_outgoing_bitrate st) @ optional (\<lambda>v. v) (st_available_incoming_bitrate st))"
  unfolding transport_recordings_def by (rule stat_readings)

end
