(* ===== verification/Startup.thy ===== *)
theory Startup
  imports Sample
begin

text \<open>
  Start-up (\<open>SFU::new\<close>, \<open>SFU::create_inner\<close>, \<open>SFU::worker_settings\<close> in
  \<open>src/mediasoupv1/mod.rs\<close>): two workers, the registration of the container in the database, the
  empty maps, and the thread that refreshes the heartbeat of the container every five seconds. The
  thread is a step relation; its sleep and the two thread pools are left out.
\<close>

section \<open>The initial state\<close>

definition worker_log_settings :: "worker_settings \<Rightarrow> worker_settings" where
  "worker_log_settings s = s\<lparr>ws_log_level := ''error'',
     ws_log_tags := [''info'', ''ice'', ''dtls'', ''rtp'', ''srtp'', ''rtcp'', ''rtx'', ''bwe'', ''score'',
                     ''simulcast'', ''svc'', ''sctp'', ''message''],
     ws_enable_liburing := False\<rparr>"

definition worker_settings :: "worker_settings \<Rightarrow> sfu_config \<Rightarrow> worker_settings" where
  "worker_settings dflt c =
     worker_log_settings (dflt\<lparr>ws_rtc_port_range := (rtc_port_range_start c, rtc_port_range_end c)\<rparr>)"

text \<open>The default settings (\<open>WorkerSettings::default\<close> of the crate) are the argument \<open>dflt\<close>.\<close>

fun create_workers :: "'w ext \<Rightarrow> worker_settings \<Rightarrow> nat \<Rightarrow> (string, string) hmap \<Rightarrow>
    ('w, (string, string) hmap, string) eff" where
  "create_workers x st 0 m = ret m"
| "create_workers x st (Suc n) m =
     and_then (call (x_create_worker (ext_ms x) st)) (\<lambda>r.
     case r of
       Inl _ \<Rightarrow> panic
     | Inr w \<Rightarrow> create_workers x st n (hm_insert w w m))"

definition container_id_of :: "instance_meta \<Rightarrow> nat \<Rightarrow> string" where
  "container_id_of m boot_timestamp = internal_ip m @ ''-'' @ show_nat boot_timestamp"

definition registration :: "instance_meta \<Rightarrow> nat \<Rightarrow> string \<Rightarrow> (string, string) hmap \<Rightarrow> dao list" where
  "registration m boot_timestamp tenant workers =
     D_ContainerHeartbeat \<lparr>ch_mutation_type = Insert, ch_container_id = container_id_of m boot_timestamp,
       ch_heartbeat = Some boot_timestamp, ch_host = Some (internal_ip m), ch_tenant = Some tenant\<rparr>
     # map (\<lambda>e. D_WorkerContainer \<lparr>wc_mutation_type = Insert,
              wc_container_id = container_id_of m boot_timestamp, wc_worker_id = fst e\<rparr>) workers"

definition empty_sfu :: "sfu_config \<Rightarrow> instance_meta \<Rightarrow> (string, string) hmap \<Rightarrow> 'w \<Rightarrow> 'w sfu" where
  "empty_sfu c m workers w = \<lparr>config = c, instance_meta = m, workers_map = workers, routers_map = [],
     transport_map = [], producer_map = [], consumer_map_shards = replicate (consumer_shard_count c) [],
     plain_transport_map = [], plain_transport_consumer_map = [], pipeline_map = [], lock_map = [],
     user_channel = [], world = w\<rparr>"

definition create_inner :: "'w ext \<Rightarrow> worker_settings \<Rightarrow> sfu_config \<Rightarrow> nat \<Rightarrow> instance_meta \<Rightarrow> string \<Rightarrow>
    ('w, 'w sfu, string) eff" where
  "create_inner x dflt c boot_timestamp m tenant =
     and_then (create_workers x (worker_settings dflt c) 2 []) (\<lambda>workers.
     and_then (attempt (mutate (ext_sql x) \<lparr>rollback_on_duplicate = True, tx_opts = DefaultTx\<rparr>
         (registration m boot_timestamp tenant workers))) (\<lambda>r.
     case r of
       Inl e \<Rightarrow> fail (''Error in writing to DB '' @ show_db_error e)
     | Inr _ \<Rightarrow> gets (empty_sfu c m workers)))"

definition sfu_new :: "'w ext \<Rightarrow> worker_settings \<Rightarrow> sfu_config \<Rightarrow> nat \<Rightarrow> instance_meta \<Rightarrow> string \<Rightarrow>
    ('w, 'w sfu, string) eff" where
  "sfu_new x dflt c boot_timestamp m tenant =
     and_then (attempt (create_inner x dflt c boot_timestamp m tenant)) (\<lambda>r.
     case r of Inl _ \<Rightarrow> panic | Inr s \<Rightarrow> ret s)"

section \<open>The heartbeat\<close>

definition heartbeat_tick :: "'w ext \<Rightarrow> string \<Rightarrow> ('w, unit, string) eff" where
  "heartbeat_tick x container_id =
     and_then (call (x_now_nanos (ext_os x))) (\<lambda>current_timestamp.
     and_then (attempt (update (ext_sql x) [D_ContainerHeartbeat \<lparr>ch_mutation_type = Update,
         ch_container_id = container_id, ch_heartbeat = Some current_timestamp, ch_host = None,
         ch_tenant = None\<rparr>])) (\<lambda>_. ret ()))"

datatype heartbeat_thread = Beating | Dead

text \<open>A tick, and a panic that ends the thread; nothing restarts it.\<close>

inductive heartbeat_step :: "'w ext \<Rightarrow> string \<Rightarrow> heartbeat_thread \<times> 'w \<Rightarrow> heartbeat_thread \<times> 'w \<Rightarrow> bool"
  for x cid where
  tick: "heartbeat_tick x cid w = (Ok (), w') \<Longrightarrow> heartbeat_step x cid (Beating, w) (Beating, w')"
| crash: "heartbeat_tick x cid w = (Panic, w') \<Longrightarrow> heartbeat_step x cid (Beating, w) (Dead, w')"

inductive_cases heartbeat_deadE: "heartbeat_step x cid (Dead, w) p"
inductive_simps heartbeat_beating_iff: "heartbeat_step x cid (Beating, w) p"

text \<open>
  C35: One failed statement ends the heartbeat. The update of \<open>MySql::update\<close> unwraps the result of
  its statement, so when the connection and the transaction are there and the statement fails, the
  thread panics at that tick, and no step of it ever follows: the container is not refreshed again
  while the server goes on serving.
\<close>

theorem heartbeat_dies_on_statement_error:
  assumes "x_now_nanos (ext_os x) w = (now, w0)" and "d_get_conn (ext_sql x) w0 = (None, w1)"
    and "d_start_tx (ext_sql x) DefaultTx w1 = (None, w2)"
    and "\<And>q. d_query_drop (ext_sql x) q w2 = (Some (err q), w3 q)"
  shows "\<exists>w'. heartbeat_step x cid (Beating, w) (Dead, w') \<and>
    (\<forall>p. heartbeat_step x cid (Beating, w) p \<longrightarrow> p = (Dead, w')) \<and> (\<forall>p. \<not> heartbeat_step x cid (Dead, w') p)"
proof -
  have "\<exists>w'. heartbeat_tick x cid w = (Panic, w')"
    using assms
    by (simp add: heartbeat_tick_def and_then_def call_def attempt_def update_def container_heartbeat_update_def)
  then obtain w' where "heartbeat_tick x cid w = (Panic, w')" ..
  then show ?thesis
    by (intro exI [of _ w']) (auto simp: heartbeat_beating_iff elim: heartbeat_deadE)
qed

theorem heartbeat_dies_on_statement_error_witness:
  "\<exists>w'. heartbeat_step sample_ext ''c'' (Beating, sample_start\<lparr>sw_script := [Some (OtherError ''down'')]\<rparr>) (Dead, w') \<and>
    (\<forall>p. \<not> heartbeat_step sample_ext ''c'' (Dead, w') p)"
proof -
  let ?w = "sample_start\<lparr>sw_script := [Some (OtherError ''down'')]\<rparr>"
  have "x_now_nanos (ext_os sample_ext) ?w = (9, ?w)" "d_get_conn (ext_sql sample_ext) ?w = (None, ?w)"
    "d_start_tx (ext_sql sample_ext) DefaultTx ?w = (None, ?w)"
    "\<And>q. d_query_drop (ext_sql sample_ext) q ?w = (Some (OtherError ''down''), ?w\<lparr>sw_script := []\<rparr>)"
    by (simp_all add: sample_start_def)
  from heartbeat_dies_on_statement_error [OF this, of "''c''"] show ?thesis by blast
qed

end
