(* ===== verification/Invariant.thy ===== *)
theory Invariant
  imports Meetings
begin

text \<open>
  The invariant of the maps of the server, and that every operation keeps it, whatever mediasoup,
  GStreamer and the database answer, also on the paths that fail or panic half way.
\<close>

section \<open>The invariant\<close>

text \<open>
  Every producer is stored under its own id, and a participant has at most one producer of a kind
  in a meeting.
\<close>

definition same_stream :: "producer_in_memory \<Rightarrow> producer_in_memory \<Rightarrow> bool" where
  "same_stream p q \<longleftrightarrow> pim_meeting_id p = pim_meeting_id q \<and>
     pim_participant_id p = pim_participant_id q \<and> pim_kind p = pim_kind q"

definition producers_ok :: "(string, producer_in_memory) hmap \<Rightarrow> bool" where
  "producers_ok m \<longleftrightarrow> hm_wf m \<and> (\<forall>(k, v) \<in> set m. k = pim_producer v) \<and>
     (\<forall>(k, v) \<in> set m. \<forall>(k', v') \<in> set m. same_stream v v' \<longrightarrow> k = k')"

text \<open>
  Every consumer is stored under its own id, in the shard of its meeting, and a participant
  instance has at most one consumer for a stream of another participant.
\<close>

definition same_consumption :: "consumer_in_memory \<Rightarrow> consumer_in_memory \<Rightarrow> bool" where
  "same_consumption c = same_consumer (cim_participant_id c) (cim_target_participant_id c) (cim_kind c)
     (cim_meeting_id c) (cim_instance_id c)"

definition shard_ok :: "bool \<Rightarrow> (string \<Rightarrow> bool) \<Rightarrow> (string, consumer_in_memory) hmap \<Rightarrow> bool" where
  "shard_ok unique here m \<longleftrightarrow> hm_wf m \<and> (\<forall>(k, v) \<in> set m. k = co_id (cim_consumer v) \<and> here (cim_meeting_id v)) \<and>
     (unique \<longrightarrow> (\<forall>(k, v) \<in> set m. \<forall>(k', v') \<in> set m. same_consumption v v' \<longrightarrow> k = k'))"

text \<open>Every pipeline of the map has been built, and the chains of its participants are complete.\<close>

definition pipeline_ok :: "gstreamer \<Rightarrow> bool" where
  "pipeline_ok g \<longleftrightarrow> gst_pipeline g \<noteq> None \<and> chains_ok (gst_inner g)"

definition pipelines_ok :: "(string, gstreamer option) hmap \<Rightarrow> bool" where
  "pipelines_ok m \<longleftrightarrow> (\<forall>(k, v) \<in> set m. \<exists>g. v = Some g \<and> pipeline_ok g)"

definition routers_ok :: "(string, router_in_memory) hmap \<Rightarrow> bool" where
  "routers_ok m \<longleftrightarrow> hm_wf m \<and> (\<forall>(k, v) \<in> set m. k = rim_router v)"

definition transports_ok :: "(string, transport_in_memory) hmap \<Rightarrow> bool" where
  "transports_ok m \<longleftrightarrow> hm_wf m \<and> (\<forall>(k, v) \<in> set m. k = wt_id (tim_transport v))"

text \<open>
  The invariant, with the uniqueness of producers and consumers (\<open>unique\<close>) or without: requests one after
  the other keep both, for requests that overlap they need arguments of their own.
\<close>

definition sound :: "bool \<Rightarrow> 'w ext \<Rightarrow> 'w sfu \<Rightarrow> bool" where
  "sound unique x s \<longleftrightarrow> (unique \<longrightarrow> producers_ok (producer_map s)) \<and> routers_ok (routers_map s) \<and>
     transports_ok (transport_map s) \<and> pipelines_ok (pipeline_map s) \<and>
     length (consumer_map_shards s) = consumer_shard_count (config s) \<and>
     (\<forall>i < length (consumer_map_shards s).
        shard_ok unique (\<lambda>m. shard_index x s m = i) (consumer_map_shards s ! i))"

abbreviation sfu_inv :: "'w ext \<Rightarrow> 'w sfu \<Rightarrow> bool" where
  "sfu_inv \<equiv> sound True"

section \<open>Changes of one map\<close>

lemma producers_ok_remove: "producers_ok m \<Longrightarrow> producers_ok (hm_remove_all ids m)"
  unfolding producers_ok_def by (auto simp: set_hm_remove_all)

lemma producers_ok_remove1: "producers_ok m \<Longrightarrow> producers_ok (hm_remove i m)"
  using producers_ok_remove [of m "[i]"] by (simp add: hm_remove_all_Cons)

lemma find_producer_None:
  "find_producer p m k pm = None \<longleftrightarrow>
   (\<forall>(i, v) \<in> set pm. \<not> (pim_meeting_id v = m \<and> pim_participant_id v = p \<and> pim_kind v = k))"
  by (auto simp: find_producer_def find_None_iff)

lemma producers_ok_insert:
  assumes "producers_ok m" and "find_producer (pim_participant_id v) (pim_meeting_id v) (pim_kind v) m = None"
  shows "producers_ok (hm_insert (pim_producer v) v m)"
proof -
  have other: "\<not> same_stream v v' \<and> \<not> same_stream v' v" if "(k', v') \<in> set m" for k' v'
    using assms(2) that by (auto simp: find_producer_None same_stream_def)
  show ?thesis
    using assms(1) other unfolding producers_ok_def by (fastforce simp: set_hm_insert)
qed

lemma shard_ok_remove: "shard_ok u h m \<Longrightarrow> shard_ok u h (hm_remove_all ids m)"
  unfolding shard_ok_def by (auto simp: set_hm_remove_all)

lemma pipelines_ok_insert: "pipelines_ok m \<Longrightarrow> pipeline_ok g \<Longrightarrow> pipelines_ok (hm_insert k (Some g) m)"
  unfolding pipelines_ok_def by (auto simp: set_hm_insert)

lemma shared_inner_chains:
  assumes "pipelines_ok m" and "chains_ok (gst_inner g)"
  shows "chains_ok (shared_inner k g m)"
proof -
  have "chains_ok (gst_inner g')" if "hm_get m k = Some (Some g')" for g'
    using assms map_of_SomeD [OF that [unfolded hm_get_def]] by (auto simp: pipelines_ok_def pipeline_ok_def)
  then show ?thesis using assms by (auto simp: shared_inner_def split: option.split)
qed

lemma pipelines_ok_adopt:
  assumes "pipelines_ok m" and "pipeline_ok g"
  shows "pipelines_ok (adopt_pipeline k g m)"
proof -
  have "chains_ok (shared_inner k g m)" using assms by (intro shared_inner_chains) (auto simp: pipeline_ok_def)
  with assms show ?thesis
    unfolding adopt_pipeline_def by (intro pipelines_ok_insert) (auto simp: pipeline_ok_def)
qed

lemma hm_get_in_set: "hm_get m k = Some v \<Longrightarrow> (k, v) \<in> set m"
  unfolding hm_get_def by (rule map_of_SomeD)

lemma pipelines_ok_get: "pipelines_ok m \<Longrightarrow> hm_get m k = Some v \<Longrightarrow> \<exists>g. v = Some g \<and> pipeline_ok g"
  unfolding pipelines_ok_def by (fast dest: hm_get_in_set)

lemma routers_ok_remove: "routers_ok m \<Longrightarrow> routers_ok (hm_remove_all ids m)"
  unfolding routers_ok_def by (auto simp: set_hm_remove_all)

lemma routers_ok_extend: "routers_ok m \<Longrightarrow> (\<forall>(k, v) \<in> set new. k = rim_router v) \<Longrightarrow> routers_ok (hm_extend new m)"
  unfolding routers_ok_def by (auto dest!: set_hm_extend_subset)

lemma transports_ok_remove: "transports_ok m \<Longrightarrow> transports_ok (hm_remove_all ids m)"
  unfolding transports_ok_def by (auto simp: set_hm_remove_all)

lemma transports_ok_remove_option: "transports_ok m \<Longrightarrow> transports_ok (remove_option i m)"
  unfolding transports_ok_def by (auto simp: remove_option_def set_hm_remove split: option.splits)

lemma transports_ok_insert:
  "transports_ok m \<Longrightarrow> wt_id (tim_transport t) = i \<Longrightarrow> transports_ok (hm_insert i t m)"
  unfolding transports_ok_def by (auto simp: set_hm_insert)

section \<open>Changes of the state\<close>

lemma shard_index_frame [simp]:
  "shard_index x (s\<lparr>world := w\<rparr>) = shard_index x s" "shard_index x (s\<lparr>producer_map := a\<rparr>) = shard_index x s"
  "shard_index x (s\<lparr>routers_map := b\<rparr>) = shard_index x s" "shard_index x (s\<lparr>transport_map := c\<rparr>) = shard_index x s"
  "shard_index x (s\<lparr>pipeline_map := d\<rparr>) = shard_index x s" "shard_index x (s\<lparr>lock_map := e\<rparr>) = shard_index x s"
  "shard_index x (s\<lparr>user_channel := f\<rparr>) = shard_index x s"
  "shard_index x (s\<lparr>plain_transport_map := g\<rparr>) = shard_index x s"
  "shard_index x (s\<lparr>plain_transport_consumer_map := h\<rparr>) = shard_index x s"
  by (simp_all add: shard_index_def fun_eq_iff)

lemma sfu_inv_frame [simp]:
  "sound u x (s\<lparr>world := w\<rparr>) = sound u x s" "sound u x (s\<lparr>lock_map := e\<rparr>) = sound u x s"
  "sound u x (s\<lparr>user_channel := f\<rparr>) = sound u x s" "sound u x (s\<lparr>plain_transport_map := g\<rparr>) = sound u x s"
  "sound u x (s\<lparr>plain_transport_consumer_map := h\<rparr>) = sound u x s"
  by (simp_all add: sound_def)

lemma sfu_inv_producers: "sound u x s \<Longrightarrow> (u \<Longrightarrow> producers_ok m) \<Longrightarrow> sound u x (s\<lparr>producer_map := m\<rparr>)"
  and sfu_inv_routers: "sound u x s \<Longrightarrow> routers_ok r \<Longrightarrow> sound u x (s\<lparr>routers_map := r\<rparr>)"
  and sfu_inv_transports: "sound u x s \<Longrightarrow> transports_ok t \<Longrightarrow> sound u x (s\<lparr>transport_map := t\<rparr>)"
  and sfu_inv_pipelines: "sound u x s \<Longrightarrow> pipelines_ok p \<Longrightarrow> sound u x (s\<lparr>pipeline_map := p\<rparr>)"
  by (simp_all add: sound_def)

lemma sfu_invD:
  "sound True x s \<Longrightarrow> producers_ok (producer_map s)" "sound u x s \<Longrightarrow> routers_ok (routers_map s)"
  "sound u x s \<Longrightarrow> transports_ok (transport_map s)" "sound u x s \<Longrightarrow> pipelines_ok (pipeline_map s)"
  by (simp_all add: sound_def)

lemma sound_producers: "sound u x s \<Longrightarrow> u \<Longrightarrow> producers_ok (producer_map s)"
  by (simp add: sound_def)

lemma sfu_inv_shard:
  assumes "sound u x s" and "consumer_map_shards s \<noteq> []"
  shows "shard_ok u (\<lambda>m. shard_index x s m = shard_index x s k) (shard_of x s k)"
  using assms shard_index_less [OF assms(2)] by (simp add: sound_def shard_of_def)

lemma sfu_inv_write_shard:
  assumes "sound u x s" and "consumer_map_shards s \<noteq> []"
    and "shard_ok u (\<lambda>m. shard_index x s m = shard_index x s k) (f (shard_of x s k))"
  shows "sound u x (s\<lparr>consumer_map_shards := sh_update (shard_index x s k) f (consumer_map_shards s)\<rparr>)"
proof -
  let ?s = "s\<lparr>consumer_map_shards := sh_update (shard_index x s k) f (consumer_map_shards s)\<rparr>"
  have idx: "shard_index x ?s m = shard_index x s m" for m
    by (rule shard_index_cong) simp
  show ?thesis
    using assms shard_index_less [OF assms(2), of x k]
    by (auto simp: sound_def idx shard_of_def)
qed

section \<open>The shared operations\<close>

lemma keeps_inv_on_world [keeps_intros]: "keeps (sound u x) (on_world m)"
  by (simp add: keeps_def on_world_run)

lemma keeps_inv_call_world [keeps_intros]: "keeps (sound u x) (call_world f)"
  by (simp add: keeps_def call_world_run)

lemma keeps_inv_call_result [keeps_intros]: "keeps (sound u x) (call_result pre f)"
  unfolding call_result_def by (intro keeps_intros)

lemma keeps_inv_call_unit [keeps_intros]: "keeps (sound u x) (call_unit pre f)"
  unfolding call_unit_def by (intro keeps_intros)

lemma keeps_inv_run_mutate [keeps_intros]: "keeps (sound u x) (run_mutate y rb es)"
  unfolding run_mutate_def by (intro keeps_intros)

lemma keeps_inv_read_shard [keeps_intros]: "keeps (sound u x) (read_shard y m)"
  by (simp add: keeps_def read_shard_run)

lemma keeps_inv_lock_entry [keeps_intros]: "keeps (sound u x) (lock_entry k)"
  by (simp add: keeps_def lock_entry_def modify_def)

lemma keeps_inv_push_event [keeps_intros]: "keeps (sound u x) (push_user_session_event y p m t i)"
  unfolding push_user_session_event_def by (intro keeps_intros keeps_modify) simp

lemma keeps_inv_close_consumers [keeps_intros]:
  "keeps (sound u x) (close_all_consumers_in_memory x ids m)"
  by (rule keepsI)
    (auto simp: close_all_consumers_run split: if_splits intro!: sfu_inv_write_shard shard_ok_remove sfu_inv_shard)

lemma keeps_inv_close_producers [keeps_intros]:
  "keeps (sound u x) (close_producers_loop participants ids)"
proof (induction ids)
  case Nil
  then show ?case by (simp add: keeps_intros)
next
  case (Cons p ps)
  show ?case
    unfolding close_producers_loop.simps
    by (intro keeps_intros Cons keeps_modify)
      (use Cons in \<open>auto split: list.splits intro!: keeps_intros keeps_modify sfu_inv_producers
        producers_ok_remove1 dest: sound_producers\<close>)
qed

lemma keeps_inv_remove_participants [keeps_intros]:
  "keeps (sound u x) (remove_participants_from_pipeline y ids m)"
proof (rule keepsI)
  fix s r s'
  assume inv: "sound u x s" and run: "remove_participants_from_pipeline y ids m s = (r, s')"
  from remove_participants_run [OF run] show "sound u x s'"
  proof (elim disjE exE conjE)
    fix g gi w
    assume g: "hm_get (pipeline_map s) m = Some (Some g)" and ok: "chains_ok (gst_inner g) \<longrightarrow> chains_ok gi"
      and s': "s' = s\<lparr>pipeline_map := hm_insert m (Some (g\<lparr>gst_inner := gi\<rparr>)) (pipeline_map s), world := w\<rparr>"
    have "pipeline_ok (g\<lparr>gst_inner := gi\<rparr>)"
      using pipelines_ok_get [OF sfu_invD(4) [OF inv] g] ok by (auto simp: pipeline_ok_def)
    then show ?thesis
      unfolding s' by (simp add: sfu_inv_pipelines [OF inv] pipelines_ok_insert sfu_invD(4) [OF inv])
  qed (use inv in simp)
qed

lemma keeps_inv_close_all_producers [keeps_intros]:
  "keeps (sound u x) (close_all_producers_in_memory y ps ids m rem)"
  unfolding close_all_producers_in_memory_def by (intro keeps_intros)

section \<open>Transports\<close>

lemma keeps_inv_create_transport [keeps_intros]: "keeps (sound u x) (create_transport y r)"
  unfolding create_transport_def by (intro keeps_intros)

lemma keeps_inv_set_bitrates [keeps_intros]: "keeps (sound u x) (set_bitrates y t)"
  unfolding set_bitrates_def by (intro keeps_intros)

lemma keeps_inv_db_error [keeps_intros]:
  "(\<And>c m. keeps (sound u x) (f c m)) \<Longrightarrow> (\<And>m. keeps (sound u x) (g m)) \<Longrightarrow> (\<And>m. keeps (sound u x) (h m)) \<Longrightarrow>
   keeps (sound u x) (case e of MySqlError c m \<Rightarrow> f c m | GenericError m \<Rightarrow> g m | RollbackError m \<Rightarrow> h m)"
  by (cases e) simp_all

lemma keeps_inv_transport_db_failure [keeps_intros]: "keeps (sound u x) (transport_db_failure p m k e)"
  unfolding transport_db_failure_def by (intro keeps_intros)

lemma keeps_inv_create_producer_transport [keeps_intros]:
  "keeps (sound u x) (create_producer_transport y r p m a b)"
  unfolding create_producer_transport_def
  by (intro keeps_intros keeps_modify sfu_inv_transports transports_ok_insert transports_ok_remove_option)
    (simp_all add: sfu_invD)

lemma keeps_inv_create_consumer_transport [keeps_intros]:
  "keeps (sound u x) (create_consumer_transport y r p m a b)"
  unfolding create_consumer_transport_def
  by (intro keeps_intros keeps_modify sfu_inv_transports transports_ok_insert transports_ok_remove_option)
    (simp_all add: sfu_invD)

lemma keeps_inv_connect_transport [keeps_intros]: "keeps (sound u x) (connect_transport y p t d)"
  unfolding connect_transport_def by (intro keeps_intros)

lemma keeps_inv_restart_ice [keeps_intros]: "keeps (sound u x) (restart_ice y p ts)"
  unfolding restart_ice_def restart_one_def by (intro keeps_intros)

lemma keeps_inv_membership [keeps_intros]:
  "keeps (sound u x) (remove_and_add_participant_to_meeting y p m i a b)"
  unfolding remove_and_add_participant_to_meeting_def by (intro keeps_intros)

lemma keeps_inv_row_get [keeps_intros]: "keeps (sound u x) (row_get r i)"
  unfolding row_get_def by (intro keeps_intros)

lemma keeps_inv_rows_to_details [keeps_intros]: "keeps (sound u x) (rows_to_details rs)"
  by (induction rs) (auto intro!: keeps_intros)

lemma keeps_inv_get_producers [keeps_intros]: "keeps (sound u x) (get_producers_of_meeting y m)"
  unfolding get_producers_of_meeting_def by (intro keeps_intros)

lemma keeps_inv_get_producers_excluding [keeps_intros]:
  "keeps (sound u x) (get_producers_of_meeting_excluding_participant y m p)"
  unfolding get_producers_of_meeting_excluding_participant_def by (intro keeps_intros)

lemmas query_defs =
  get_participant_producers_def get_participant_consumers_def
  get_participant_producers_for_instance_in_meeting_def get_participant_consumers_for_instance_in_meeting_def
  get_participant_producers_excluding_instance_def get_participant_consumers_excluding_instance_def
  get_consumers_for_producer_ids_def get_all_producers_for_meeting_def get_all_consumers_for_meeting_def

lemma keeps_inv_close_older [keeps_intros]: "keeps (sound u x) (close_older_instances x p m i)"
  unfolding close_older_instances_def query_defs by (intro keeps_intros)

lemma keeps_inv_recreate_producer_transport [keeps_intros]:
  "keeps (sound u x) (recreate_producer_transport x p m a b r i)"
  unfolding recreate_producer_transport_def by (intro keeps_intros)

lemma keeps_inv_recreate_consumer_transport [keeps_intros]:
  "keeps (sound u x) (recreate_consumer_transport x p r m i a b)"
  unfolding recreate_consumer_transport_def by (intro keeps_intros)

lemma keeps_inv_recreate_producer_helper [keeps_intros]:
  "keeps (sound u x) (recreate_producer_transport_helper x p m i r a b)"
  unfolding recreate_producer_transport_helper_def Let_def by (intro keeps_intros)

lemma keeps_inv_recreate_consumer_helper [keeps_intros]:
  "keeps (sound u x) (recreate_consumer_transport_helper x p m i r a b)"
  unfolding recreate_consumer_transport_helper_def Let_def by (intro keeps_intros)

section \<open>Meetings\<close>

text \<open>The routers a request has created so far are stored under their own ids.\<close>

definition batch_ok :: "router_batch \<Rightarrow> bool" where
  "batch_ok b \<longleftrightarrow> (\<forall>(k, v) \<in> set (rb_routers b). k = rim_router v)"

lemma batch_ok_add: "batch_ok b \<Longrightarrow> batch_ok (add_router m c w p r b)"
  unfolding batch_ok_def add_router_def by (auto simp: set_hm_insert split: option.splits)

lemma keeps_inv_create_router [keeps_intros]: "keeps (sound u x) (create_router y m c e b)"
  unfolding create_router_def by (intro keeps_intros)

lemma for_each_acc:
  assumes "for_each f xs b s = (Ok b', s')" and "Q b"
    and "\<And>x b b' s s'. x \<in> set xs \<Longrightarrow> Q b \<Longrightarrow> f x b s = (Ok b', s') \<Longrightarrow> Q b'"
  shows "Q b'"
  using assms
proof (induction xs arbitrary: b s)
  case Nil
  then show ?case by (simp add: ret_def)
next
  case (Cons a xs)
  then obtain b1 s1 where "f a b s = (Ok b1, s1)" and rest: "for_each f xs b1 s1 = (Ok b', s')"
    by (auto simp: run_iffs)
  with Cons.prems have "Q b1" by (meson list.set_intros(1))
  show ?case by (rule Cons.IH [OF rest \<open>Q b1\<close>]) (meson Cons.prems(3) list.set_intros(2))
qed

lemma create_router_batch: "batch_ok b \<Longrightarrow> create_router y m c e b s = (Ok b', s') \<Longrightarrow> batch_ok b'"
  by (auto simp: create_router_def run_iffs ret_def intro: batch_ok_add)

lemma create_routers_batch:
  "batch_ok b \<Longrightarrow> for_each (create_router y m c) es b s = (Ok b', s') \<Longrightarrow> batch_ok b'"
  by (erule for_each_acc) (auto intro: create_router_batch)

lemma create_worker_routers_batch:
  "batch_ok b \<Longrightarrow> create_worker_routers y m c e b s = (Ok b', s') \<Longrightarrow> batch_ok b'"
  by (auto simp: create_worker_routers_def run_iffs gets_def dest: create_routers_batch)

lemma create_meeting_routers_batch:
  "batch_ok b \<Longrightarrow> create_meeting_routers y e b s = (Ok b', s') \<Longrightarrow> batch_ok b'"
  unfolding create_meeting_routers_def by (rule create_routers_batch)

lemma no_routers_ok [simp]: "batch_ok no_routers"
  by (simp add: batch_ok_def no_routers_def)

text \<open>What a computation returns from a state of the invariant, and a computation whose rest depends on it.\<close>

definition returns :: "('s \<Rightarrow> bool) \<Rightarrow> ('s, 'a, 'e) eff \<Rightarrow> ('a \<Rightarrow> bool) \<Rightarrow> bool" where
  "returns I m Q \<longleftrightarrow> (\<forall>s a s'. I s \<longrightarrow> m s = (Ok a, s') \<longrightarrow> Q a)"

lemma returnsI: "(\<And>s a s'. I s \<Longrightarrow> m s = (Ok a, s') \<Longrightarrow> Q a) \<Longrightarrow> returns I m Q"
  unfolding returns_def by blast

lemma returnsD: "returns I m Q \<Longrightarrow> I s \<Longrightarrow> m s = (Ok a, s') \<Longrightarrow> Q a"
  unfolding returns_def by blast

lemma returns_ret: "Q a \<Longrightarrow> returns I (ret a) Q"
  by (simp add: returns_def ret_def)

lemma returns_bind:
  assumes "keeps I m" and "returns I m R" and "\<And>a. R a \<Longrightarrow> returns I (f a) Q"
  shows "returns I (and_then m f) Q"
proof (rule returnsI)
  fix s b s'
  assume "I s" and run: "and_then m f s = (Ok b, s')"
  then obtain a s1 where m: "m s = (Ok a, s1)" and f: "f a s1 = (Ok b, s')" by (auto simp: run_iffs)
  show "Q b"
    by (rule returnsD [OF assms(3) [OF returnsD [OF assms(2) \<open>I s\<close> m]] keepsD [OF assms(1) \<open>I s\<close> m] f])
qed

lemma returns_then: "keeps I m \<Longrightarrow> (\<And>a. returns I (f a) Q) \<Longrightarrow> returns I (and_then m f) Q"
  by (rule returns_bind [where R = "\<lambda>_. True"]) (simp_all add: returns_def)

lemma returns_map_err: "returns I m Q \<Longrightarrow> returns I (map_err g m) Q"
  unfolding returns_def by (simp add: map_err_Ok_iff)

lemma returns_weaken: "returns J m Q \<Longrightarrow> (\<And>s. I s \<Longrightarrow> J s) \<Longrightarrow> returns I m Q"
  unfolding returns_def by blast

lemma keeps_and_then_post:
  assumes "keeps I m" and "returns I m Q" and "\<And>a. Q a \<Longrightarrow> keeps I (f a)"
  shows "keeps I (and_then m f)"
proof (rule keepsI)
  fix s r s'
  assume "I s" and run: "and_then m f s = (r, s')"
  obtain r1 s1 where m: "m s = (r1, s1)" by fastforce
  have "I s1" by (rule keepsD [OF assms(1) \<open>I s\<close> m])
  show "I s'"
  proof (cases r1)
    case (Ok a)
    from assms(3) [OF returnsD [OF assms(2) \<open>I s\<close> m [unfolded Ok]]] have "keeps I (f a)" .
    from keepsD [OF this \<open>I s1\<close>] show ?thesis using run m Ok by (simp add: and_then_def)
  qed (use run m \<open>I s1\<close> in \<open>auto simp: and_then_def\<close>)
qed

lemma keeps_inv_create_worker_routers [keeps_intros]: "keeps (sound u x) (create_worker_routers y m c e b)"
  unfolding create_worker_routers_def by (intro keeps_intros)

lemma keeps_inv_create_meeting_routers [keeps_intros]: "keeps (sound u x) (create_meeting_routers y e b)"
  unfolding create_meeting_routers_def by (intro keeps_intros)

lemma sfu_inv_add_routers:
  "batch_ok b \<Longrightarrow> sound u x s \<Longrightarrow> sound u x (s\<lparr>routers_map := hm_extend (rb_routers b) (routers_map s)\<rparr>)"
  by (rule sfu_inv_routers) (auto intro: routers_ok_extend simp: batch_ok_def sfu_invD)

lemma keeps_inv_create_meeting [keeps_intros]:
  "keeps (sound u x) (create_meeting_and_routers_on_workers y caps m c)"
  unfolding create_meeting_and_routers_on_workers_def
  by (rule keeps_and_then_post [where Q = batch_ok])
    (auto intro!: keeps_intros keeps_modify sfu_inv_add_routers returnsI
      elim: for_each_acc [where Q = batch_ok] create_worker_routers_batch)

lemma keeps_inv_batch_create [keeps_intros]: "keeps (sound u x) (batch_create_router_on_worker y mm)"
  unfolding batch_create_router_on_worker_def
  by (rule keeps_and_then_post [where Q = batch_ok])
    (auto intro!: keeps_intros keeps_modify sfu_inv_add_routers returnsI
      elim: for_each_acc [where Q = batch_ok] create_meeting_routers_batch)

lemma keeps_inv_capabilities [keeps_intros]: "keeps (sound u x) (get_router_capabilities y r)"
  unfolding get_router_capabilities_def by (intro keeps_intros)

lemma keeps_inv_close_instance [keeps_intros]: "keeps (sound u x) (close_instance x p m i)"
  unfolding close_instance_def query_defs by (intro keeps_intros)

lemma keeps_inv_leave [keeps_intros]: "keeps (sound u x) (leave_meeting x p m i a b)"
  unfolding leave_meeting_def
  by (intro keeps_intros keeps_modify sfu_inv_transports transports_ok_remove) (simp_all add: sfu_invD)

lemma keeps_inv_stop_pipeline [keeps_intros]: "keeps (sound u x) (stop_pipeline y m)"
  unfolding stop_pipeline_def by (intro keeps_intros)

lemma keeps_inv_end [keeps_intros]: "keeps (sound u x) (end_meeting x m rs ts ps)"
  unfolding end_meeting_def query_defs
  by (intro keeps_intros keeps_modify sfu_inv_transports transports_ok_remove sfu_inv_routers routers_ok_remove)
    (simp_all add: sfu_invD)

section \<open>Producers\<close>

lemma keeps_inv_share:
  assumes inv: "sound u x s" and gi: "chains_ok gi"
  shows "sound u x (share_inner m gi s)"
  unfolding share_inner_def
  using pipelines_ok_get [OF sfu_invD(4) [OF inv], of m] gi
  by (auto simp: pipeline_ok_def split: option.splits
      intro!: sfu_inv_pipelines inv pipelines_ok_insert sfu_invD(4) [OF inv])

text \<open>
  A builder keeps the chains, and a pipeline it returns has the shared elements it worked on.
\<close>

definition shares_inner :: "('w, gstreamer) gst_eff \<Rightarrow> bool" where
  "shares_inner m \<longleftrightarrow> (\<forall>s g gi w. m s = (Ok g, (gi, w)) \<longrightarrow> gst_inner g = gi)"

lemma shares_inner_bind: "(\<And>a. shares_inner (f a)) \<Longrightarrow> shares_inner (and_then m f)"
  unfolding shares_inner_def and_then_Ok_iff by blast

lemma shares_inner_prod: "(\<And>a b. shares_inner (f a b)) \<Longrightarrow> shares_inner (case z of (a, b) \<Rightarrow> f a b)"
  by (simp split: prod.split)

lemma shares_inner_attach: "shares_inner (attach x g p rb m i)"
  by (auto simp: shares_inner_def attach_def run_iffs gets_def ret_def split: prod.splits)

definition builds :: "(gstreamer \<Rightarrow> int \<Rightarrow> string \<Rightarrow> string \<Rightarrow> string \<Rightarrow> ('w, gstreamer) gst_eff) \<Rightarrow> bool" where
  "builds start \<longleftrightarrow> (\<forall>g port m p t. keeps chains (start g port m p t) \<and> shares_inner (start g port m p t))"

lemma builds_recorders: "builds (start_audio_recording y)" "builds (start_vp8_recording y)"
proof -
  have "shares_inner (start_audio_recording y g port m p t)" for g port m p t
    unfolding start_audio_recording_def by (intro shares_inner_bind shares_inner_prod shares_inner_attach)
  then show "builds (start_audio_recording y)" by (simp add: builds_def keeps_chains_start)
  have "shares_inner (start_vp8_recording y g port m p t)" for g port m p t
    unfolding start_vp8_recording_def by (intro shares_inner_bind shares_inner_prod shares_inner_attach)
  then show "builds (start_vp8_recording y)" by (simp add: builds_def keeps_chains_start)
qed

lemma builds_run:
  assumes "builds start" and "chains_ok gi0"
    and run: "map_err h (start g p m i t) (gi0, w) = (r, gi, w')"
  shows "chains_ok gi" and "r = Ok g' \<Longrightarrow> gst_inner g' = gi"
proof -
  have "keeps chains (map_err h (start g p m i t))" using assms(1) by (auto simp: builds_def intro: keeps_intros)
  from keepsD [OF this _ run] assms(2) show "chains_ok gi" by simp
  show "gst_inner g' = gi" if "r = Ok g'"
    using assms(1) run that unfolding builds_def shares_inner_def by (simp add: map_err_Ok_iff) blast
qed

lemma keeps_inv_run_recorder:
  assumes "builds (rec (ext_gst y))" and "chains_ok (gst_inner g)"
  shows "keeps (sound u x) (run_recorder rec y g p m i t)"
proof (rule keepsI)
  fix s r s'
  assume inv: "sound u x s" and run: "run_recorder rec y g p m i t s = (r, s')"
  have "chains_ok (shared_inner m g (pipeline_map s))" by (rule shared_inner_chains [OF sfu_invD(4) [OF inv] assms(2)])
  note ok = builds_run(1) [OF assms(1) this]
  from run inv show "sound u x s'"
    by (auto simp: run_recorder_def split: prod.splits intro!: keeps_inv_share dest: ok)
qed

lemma returns_run_recorder:
  assumes "builds (rec (ext_gst y))" and "chains_ok (gst_inner g)"
  shows "returns (sound u x) (run_recorder rec y g p m i t) (\<lambda>g'. chains_ok (gst_inner g'))"
proof (rule returnsI)
  fix s g' s'
  assume inv: "sound u x s" and run: "run_recorder rec y g p m i t s = (Ok g', s')"
  have ok: "chains_ok (shared_inner m g (pipeline_map s))" by (rule shared_inner_chains [OF sfu_invD(4) [OF inv] assms(2)])
  show "chains_ok (gst_inner g')"
    using run unfolding run_recorder_def
    by (auto split: prod.splits dest: builds_run(1) [OF assms(1) ok] builds_run(2) [OF assms(1) ok _ refl])
qed

lemma keeps_inv_first_free [keeps_intros]: "keeps (sound u x) (first_free y ps)"
  by (induction ps) (auto intro!: keeps_intros)

lemma keeps_inv_ports [keeps_intros]:
  "keeps (sound u x) (get_free_video_port y)" "keeps (sound u x) (get_free_audio_port y)"
  unfolding get_free_video_port_def get_free_audio_port_def by (intro keeps_intros)+

lemma keeps_inv_build_recording:
  "chains_ok (gst_inner g) \<Longrightarrow> keeps (sound u x) (build_recording y g m p t k)"
  unfolding build_recording_def by (intro keeps_intros keeps_inv_run_recorder builds_recorders)

lemma returns_build_recording:
  assumes "chains_ok (gst_inner g)"
  shows "returns (sound u x) (build_recording y g m p t k) (\<lambda>(g', port). chains_ok (gst_inner g'))"
proof -
  have "returns (sound u x) (and_then (map_err h (run_recorder rec y g port m p t)) (\<lambda>g'. ret (g', port)))
      (\<lambda>(g', port). chains_ok (gst_inner g'))" if "builds (rec (ext_gst y))" for h rec port
    by (rule returns_bind [OF _ returns_map_err [OF returns_run_recorder [where rec = rec and y = y, OF that assms]]])
      (auto intro!: keeps_intros keeps_inv_run_recorder that assms returns_ret)
  note built = this
  show ?thesis
  proof (cases "k = Audio")
    case True
    show ?thesis unfolding build_recording_def if_P [OF True]
      by (rule returns_then, intro keeps_intros) (rule built, rule builds_recorders)
  next
    case False
    show ?thesis unfolding build_recording_def if_not_P [OF False]
      by (rule returns_then, intro keeps_intros) (rule built, rule builds_recorders)
  qed
qed

lemma keeps_inv_undo_recording [keeps_intros]: "keeps (sound u x) (undo_recording y m p k o1 pl)"
proof (rule keepsI)
  fix s r s'
  assume inv: "sound u x s" and run: "undo_recording y m p k o1 pl s = (r, s')"
  show "sound u x s'"
  proof (cases "hm_get (pipeline_map s) m")
    case None
    then show ?thesis using inv run by (simp add: undo_recording_def)
  next
    case (Some gopt)
    from pipelines_ok_get [OF sfu_invD(4) [OF inv] Some] obtain g
      where g: "gopt = Some g" "pipeline_ok g" by blast
    let ?c = "handle_udp_src_failure (ext_gst y) o1 p (if k = Audio then ''audio'' else ''video'')"
    obtain gi w where s1: "snd (with_pipeline m g ?c s) =
        s\<lparr>pipeline_map := hm_insert m (Some (g\<lparr>gst_inner := gi\<rparr>)) (pipeline_map s), world := w\<rparr>"
      and gi: "chains_ok gi"
      using with_pipeline_run [of m g ?c s] g(2) keeps_chains_failure [of "ext_gst y" o1 p] by (auto simp: pipeline_ok_def)
    have "sound u x (snd (with_pipeline m g ?c s))"
      unfolding s1 using g gi by (auto simp: pipeline_ok_def intro!: sfu_inv_pipelines inv pipelines_ok_insert sfu_invD(4) [OF inv])
    moreover have "\<exists>w'. s' = (snd (with_pipeline m g ?c s))\<lparr>world := w'\<rparr> \<or> s' = snd (with_pipeline m g ?c s)"
      using run Some g
      by (auto simp: undo_recording_def and_then_def call_world_run ret_def split: prod.splits outcome.splits)
    ultimately show ?thesis by auto
  qed
qed

text \<open>The pipeline a recording starts from: the one of the meeting, or a new one.\<close>

lemma gstreamer_new_chains [simp]: "chains_ok (gst_inner gstreamer_new)"
  by (simp add: gstreamer_new_def)

lemma returns_from_map:
  "returns (sound u x) (gets (\<lambda>s. hm_get (pipeline_map s) m)) (\<lambda>found. \<forall>g. found = Some (Some g) \<longrightarrow> pipeline_ok g)"
  by (rule returnsI) (auto simp: gets_def dest!: pipelines_ok_get [OF sfu_invD(4)])

lemma returns_source:
  "\<forall>g. found = Some (Some g) \<longrightarrow> pipeline_ok g \<Longrightarrow>
   returns I (case found of None \<Rightarrow> ret gstreamer_new | Some g_option \<Rightarrow> unwrap g_option)
     (\<lambda>g. chains_ok (gst_inner g))"
  by (auto simp: returns_def ret_def unwrap_def panic_def pipeline_ok_def split: option.splits)

lemma keeps_inv_start_recording [keeps_intros]: "keeps (sound u x) (start_recording y m p t k)"
  unfolding start_recording_def
proof (rule keeps_and_then_post [OF _ returns_from_map], intro keeps_intros)
  fix found :: "gstreamer option option"
  assume found: "\<forall>g. found = Some (Some g) \<longrightarrow> pipeline_ok g"
  show "keeps (sound u x) (and_then (case found of None \<Rightarrow> ret gstreamer_new | Some g_option \<Rightarrow> unwrap g_option) (\<lambda>g.
     let exists = (found \<noteq> None) in
     and_then (build_recording y g m p t k) (\<lambda>(g', port).
     and_then (unwrap (gst_pipeline g')) (\<lambda>pipeline.
     and_then (call_world (x_set_state (ext_gst y) pipeline GstPlaying)) (\<lambda>r.
     case r of
       None \<Rightarrow> ret (g', port)
     | Some _ \<Rightarrow>
         and_then (if exists then undo_recording y m p k (gst_pipeline g) pipeline else ret ()) (\<lambda>_.
         fail (''Failed to add new producer for meetingId '' @ m @ '' and participantId '' @ p)))))))"
    unfolding Let_def
    by (rule keeps_and_then_post [OF _ returns_source [OF found]])
      (intro keeps_intros keeps_inv_build_recording; assumption?)+
qed

lemma keeps_inv_create_folder [keeps_intros]: "keeps (sound u x) (create_folder y m)"
  unfolding create_folder_def Let_def by (intro keeps_intros)

lemma keeps_inv_record_producer [keeps_intros]: "keeps (sound u x) (record_producer y rm m p r i k)"
  unfolding record_producer_def by (intro keeps_intros)

lemma keeps_inv_pipe [keeps_intros]: "keeps (sound u x) (pipe_to_routers y rm r i rs)"
  by (induction rs) (auto intro!: keeps_intros)

text \<open>Only the pipeline map and the world change until the producer is stored.\<close>

definition same_producers :: "(string, producer_in_memory) hmap \<Rightarrow> 'w sfu \<Rightarrow> bool" where
  "same_producers pm s \<longleftrightarrow> producer_map s = pm"

lemma keeps_producers_on_world [keeps_intros]: "keeps (same_producers pm) (on_world m)"
  by (simp add: keeps_def on_world_run same_producers_def)

lemma keeps_producers_call_world [keeps_intros]: "keeps (same_producers pm) (call_world f)"
  by (simp add: keeps_def call_world_run same_producers_def)

lemma keeps_producers_calls [keeps_intros]:
  "keeps (same_producers pm) (call_result pre f)" "keeps (same_producers pm) (call_unit pre u)"
  unfolding call_result_def call_unit_def by (intro keeps_intros)+

lemma keeps_producers_run_recorder [keeps_intros]: "keeps (same_producers pm) (run_recorder rec x g p m i t)"
  by (rule keepsI) (auto simp: run_recorder_def share_inner_def same_producers_def
      split: prod.splits sum.splits option.splits)

lemma keeps_producers_first_free [keeps_intros]: "keeps (same_producers pm) (first_free y ps)"
  by (induction ps) (auto intro!: keeps_intros)

lemma keeps_producers_build_recording [keeps_intros]: "keeps (same_producers pm) (build_recording y g m p t k)"
  unfolding build_recording_def get_free_video_port_def get_free_audio_port_def by (intro keeps_intros)

lemma keeps_producers_with_pipeline [keeps_intros]: "keeps (same_producers pm) (with_pipeline m g c)"
  by (rule keepsI) (auto simp: with_pipeline_def same_producers_def split: prod.splits)

lemma keeps_producers_undo [keeps_intros]: "keeps (same_producers pm) (undo_recording y m p k o1 pl)"
proof (rule keepsI)
  fix s r s'
  assume s: "same_producers pm s" and run: "undo_recording y m p k o1 pl s = (r, s')"
  show "same_producers pm s'"
  proof (cases "\<exists>g. hm_get (pipeline_map s) m = Some (Some g)")
    case True
    then obtain g where g: "hm_get (pipeline_map s) m = Some (Some g)" ..
    have "keeps (same_producers pm) (and_then (with_pipeline m g (handle_udp_src_failure (ext_gst y) o1 p
        (if k = Audio then ''audio'' else ''video''))) (\<lambda>_.
        and_then (call_world (x_set_state (ext_gst y) pl GstPlaying)) (\<lambda>_. ret ())))"
      by (intro keeps_intros)
    from keepsD [OF this s] run g show ?thesis by (simp add: undo_recording_def)
  next
    case False
    then show ?thesis using s run by (auto simp: undo_recording_def split: option.splits)
  qed
qed

lemma keeps_producers_record [keeps_intros]: "keeps (same_producers pm) (record_producer y rm m p r i k)"
  unfolding record_producer_def start_recording_def create_folder_def Let_def by (intro keeps_intros)

lemma keeps_producers_pipe [keeps_intros]: "keeps (same_producers pm) (pipe_to_routers y rm r i rs)"
  by (induction rs) (auto intro!: keeps_intros)

text \<open>A recording that has started hands over a pipeline.\<close>

definition recording_ok :: "(gstreamer \<times> string \<times> consumer_handle) option \<Rightarrow> bool" where
  "recording_ok rec \<longleftrightarrow> (\<forall>g t c. rec = Some (g, t, c) \<longrightarrow> pipeline_ok g)"

lemma returns_start_recording:
  "returns (sound u x) (start_recording y m p t k) (\<lambda>(g, port). pipeline_ok g)"
proof -
  have "returns (sound u x) (and_then (build_recording y g m p t k) (\<lambda>(g', port).
     and_then (unwrap (gst_pipeline g')) (\<lambda>pipeline.
     and_then (call_world (x_set_state (ext_gst y) pipeline GstPlaying)) (\<lambda>r.
     case r of
       None \<Rightarrow> ret (g', port)
     | Some _ \<Rightarrow>
         and_then (if found \<noteq> None then undo_recording y m p k (gst_pipeline g) pipeline else ret ()) (\<lambda>_.
         fail (''Failed to add new producer for meetingId '' @ m @ '' and participantId '' @ p))))))
     (\<lambda>(g, port). pipeline_ok g)" if "chains_ok (gst_inner g)" for g and found :: "gstreamer option option"
    by (rule returns_bind [OF keeps_inv_build_recording [OF that] returns_build_recording [OF that]])
      (auto simp: returns_def run_iffs ret_def fail_def pipeline_ok_def split: option.splits)
  note started = this
  show ?thesis
    unfolding start_recording_def Let_def
    apply (rule returns_bind [OF _ returns_from_map], intro keeps_intros)
    apply (rule returns_bind [OF _ returns_source], intro keeps_intros, assumption)
    apply (rule started, assumption)
    done
qed

lemma returns_record_producer:
  "returns (sound u x) (record_producer y rm m p r i k) (\<lambda>(g, t, c). pipeline_ok g)"
proof -
  have start: "returns (sound u x) (map_err f (start_recording y m p t k)) (\<lambda>(g, port). pipeline_ok g)" for f t
    by (rule returns_map_err [OF returns_start_recording])
  show ?thesis
    unfolding record_producer_def
    apply (rule returns_then, intro keeps_intros)
    apply (rule returns_then, intro keeps_intros)
    apply (rule returns_then, intro keeps_intros)
    apply (rule returns_then, intro keeps_intros)
    apply (rule returns_bind [OF _ start], intro keeps_intros)
    apply (clarsimp split: prod.splits)
    apply (rule returns_then, intro keeps_intros)+
    apply (rule returns_ret, simp)
    done
qed

text \<open>From one condition to another: a computation that keeps the first until its last step.\<close>

definition leads :: "('s \<Rightarrow> bool) \<Rightarrow> ('s, 'a, 'e) eff \<Rightarrow> ('s \<Rightarrow> bool) \<Rightarrow> bool" where
  "leads I m J \<longleftrightarrow> (\<forall>s r s'. I s \<longrightarrow> m s = (r, s') \<longrightarrow> J s')"

lemma leadsD: "leads I m J \<Longrightarrow> I s \<Longrightarrow> m s = (r, s') \<Longrightarrow> J s'"
  unfolding leads_def by blast

lemma leads_and_then:
  assumes "keeps I m" and "\<And>s. I s \<Longrightarrow> J s" and "returns I m Q" and "\<And>a. Q a \<Longrightarrow> leads I (f a) J"
  shows "leads I (and_then m f) J"
  unfolding leads_def
proof (intro allI impI)
  fix s r s'
  assume "I s" and run: "and_then m f s = (r, s')"
  obtain r1 s1 where m: "m s = (r1, s1)" by fastforce
  have "I s1" by (rule keepsD [OF assms(1) \<open>I s\<close> m])
  show "J s'"
  proof (cases r1)
    case (Ok a)
    from assms(4) [OF returnsD [OF assms(3) \<open>I s\<close> m [unfolded Ok]]] have "leads I (f a) J" .
    from leadsD [OF this \<open>I s1\<close>] show ?thesis using run m Ok by (simp add: and_then_def)
  qed (use run m assms(2) [OF \<open>I s1\<close>] in \<open>auto simp: and_then_def\<close>)
qed

lemma keeps_conj: "keeps I m \<Longrightarrow> keeps J m \<Longrightarrow> keeps (\<lambda>s. I s \<and> J s) m"
  unfolding keeps_def by blast

lemma sfu_inv_store:
  assumes inv: "sfu_inv x s"
    and new: "find_producer (pim_participant_id p) (pim_meeting_id p) (pim_kind p) (producer_map s) = None"
    and rec: "recording_ok rec"
  shows "sfu_inv x (store_producer (pim_producer p) p rec s)"
proof -
  have one: "sfu_inv x (s\<lparr>producer_map := hm_insert (pim_producer p) p (producer_map s)\<rparr>)"
    by (intro sfu_inv_producers inv producers_ok_insert sfu_invD(1) [OF inv] new)
  show ?thesis
  proof (cases rec)
    case None
    with one show ?thesis by (simp add: store_producer_def)
  next
    case (Some a)
    obtain g t c where a: "a = (g, t, c)" by (cases a)
    from rec Some a have "pipelines_ok (adopt_pipeline (pim_meeting_id p) g (pipeline_map s))"
      by (auto simp: recording_ok_def intro: pipelines_ok_adopt sfu_invD(4) [OF inv])
    then show ?thesis
      using one Some a by (simp add: store_producer_def Let_def sound_def)
  qed
qed

lemma finish_producer_run:
  assumes "finish_producer y i t p rec s = (r, s')"
  shows "\<exists>w. s' = s\<lparr>world := w\<rparr> \<or> s' = store_producer i p rec (s\<lparr>world := w\<rparr>) \<or>
    (\<exists>g t c. rec = Some (g, t, c) \<and>
      s' = s\<lparr>world := w, pipeline_map := adopt_pipeline (pim_meeting_id p) g (pipeline_map s)\<rparr>)"
  using assms unfolding finish_producer_def run_mutate_def
  by (auto simp: and_then_def attempt_def on_world_run modify_def ret_def fail_def
      split: prod.splits outcome.splits sum.splits option.splits)

lemma leads_finish_producer:
  assumes new: "find_producer (pim_participant_id p) (pim_meeting_id p) (pim_kind p) pm = None"
    and rec: "recording_ok rec" and i: "pim_producer p = i"
  shows "leads (\<lambda>s. sfu_inv x s \<and> same_producers pm s) (finish_producer y i t p rec) (sfu_inv x)"
  unfolding leads_def
proof (intro allI impI)
  fix s r s'
  assume s: "sfu_inv x s \<and> same_producers pm s" and run: "finish_producer y i t p rec s = (r, s')"
  have "sfu_inv x (store_producer (pim_producer p) p rec (s\<lparr>world := w\<rparr>))" for w
    using s new by (intro sfu_inv_store rec) (auto simp: same_producers_def)
  moreover have "sfu_inv x (s\<lparr>world := w, pipeline_map := adopt_pipeline (pim_meeting_id p) g (pipeline_map s)\<rparr>)"
    if "rec = Some (g, t', c)" for w g t' c
    using s rec that by (auto simp: recording_ok_def intro!: sfu_inv_pipelines pipelines_ok_adopt dest: sfu_invD)
  ultimately show "sfu_inv x s'"
    using finish_producer_run [OF run] s i by auto
qed

lemma leads_bind:
  assumes "keeps I m" and "\<And>s. I s \<Longrightarrow> J s" and "\<And>a. leads I (f a) J"
  shows "leads I (and_then m f) J"
  by (rule leads_and_then [where Q = "\<lambda>_. True"]) (simp_all add: assms returns_def)

lemma returns_recording:
  "returns (\<lambda>s. sound u x s \<and> same_producers pm s)
     (if start_rec then and_then (record_producer y rm m p r i k) (\<lambda>rec. ret (Some rec)) else ret None) recording_ok"
  by (rule returnsI)
    (auto simp: run_iffs ret_def recording_ok_def split: if_splits dest!: returnsD [OF returns_record_producer])

lemma leads_produce_on:
  assumes "find_producer p m k pm = None"
  shows "leads (\<lambda>s. sfu_inv x s \<and> same_producers pm s) (produce_on y p rtp k m r rs t start_rec i tr) (sfu_inv x)"
  unfolding produce_on_def
  apply (rule leads_bind, intro keeps_conj keeps_intros, simp)
  apply (rule leads_bind, intro keeps_conj keeps_intros, simp)
  apply (rule leads_bind, intro keeps_conj keeps_intros, simp)
  apply (rule leads_and_then [where Q = recording_ok], intro keeps_conj keeps_intros, simp)
   apply (rule returns_recording)
  apply (rule leads_bind, intro keeps_conj keeps_intros, simp)+
  apply (rule leads_finish_producer)
  using assms by simp_all

lemma leads_create_new_producer:
  assumes "find_producer p m k pm = None"
  shows "leads (\<lambda>s. sfu_inv x s \<and> same_producers pm s) (create_new_producer y p rtp k m r rs t start_rec i) (sfu_inv x)"
  unfolding create_new_producer_def
  by (rule leads_bind, intro keeps_conj keeps_intros, simp)+ (rule leads_produce_on [OF assms])

lemma keeps_inv_create_producer [keeps_intros]:
  "keeps (sfu_inv x) (create_producer y p rtp k m r rs t start_rec i)"
proof (rule keepsI)
  fix s res s'
  assume inv: "sfu_inv x s" and run: "create_producer y p rtp k m r rs t start_rec i s = (res, s')"
  let ?s = "s\<lparr>lock_map := hm_entry m () (lock_map s)\<rparr>"
  show "sfu_inv x s'"
  proof (cases "find_producer p m k (producer_map s)")
    case None
    then have "create_new_producer y p rtp k m r rs t start_rec i ?s = (res, s')"
      using run by (simp add: create_producer_def and_then_def lock_entry_def modify_def gets_def)
    from leadsD [OF leads_create_new_producer [OF None] _ this] inv show ?thesis
      by (simp add: same_producers_def)
  next
    case (Some d)
    then show ?thesis
      using inv run by (auto simp: create_producer_def and_then_def lock_entry_def modify_def gets_def ret_def)
  qed
qed

lemma keeps_inv_resume_producer [keeps_intros]: "keeps (sound u x) (resume_producer y p ids)"
  unfolding resume_producer_def set_producer_state_def by (intro keeps_intros)

lemma keeps_inv_pause_producer [keeps_intros]: "keeps (sound u x) (pause_producer y p ids)"
  unfolding pause_producer_def set_producer_state_def by (intro keeps_intros)

lemma keeps_inv_close_producer [keeps_intros]: "keeps (sound u x) (close_producer y p m ids)"
  unfolding close_producer_def Let_def by (intro keeps_intros)

section \<open>Consumers\<close>

text \<open>
  What \<open>HashMap\<close> guarantees of the requested streams: no target twice, and no kind twice for a target.
\<close>

definition targets_wf :: "(string, (string, string) hmap) hmap \<Rightarrow> bool" where
  "targets_wf ts \<longleftrightarrow> hm_wf ts \<and> (\<forall>(t, ks) \<in> set ts. hm_wf ks)"

abbreviation stream_of :: "string \<times> string \<times> string \<Rightarrow> string \<times> string" where
  "stream_of r \<equiv> (fst r, fst (snd r))"

lemma requested_distinct: "targets_wf ts \<Longrightarrow> distinct (map stream_of (requested ts))"
proof (induction ts)
  case Nil
  then show ?case by (simp add: requested_def)
next
  case (Cons a ts)
  obtain t ks where a: "a = (t, ks)" by (cases a)
  have ks: "hm_wf ks" and ts: "targets_wf ts" and t: "t \<notin> fst ` set ts"
    using Cons.prems by (auto simp: targets_wf_def hm_wf_def a)
  have "distinct (map (\<lambda>k. (t, fst k)) ks)"
    using ks by (simp add: hm_wf_def distinct_map inj_on_def)
  moreover have "map stream_of (requested (a # ts)) = map (\<lambda>k. (t, fst k)) ks @ map stream_of (requested ts)"
    by (simp add: requested_def a comp_def)
  moreover have "(t, k) \<notin> set (map stream_of (requested ts))" for k
    using t by (force simp: requested_def)
  ultimately show ?case using Cons.IH [OF ts] by auto
qed

text \<open>The new entries of a batch: stored under their ids, for this instance, none of them a stream it has.\<close>

definition new_ok :: "string \<Rightarrow> string \<Rightarrow> string \<Rightarrow> (string, consumer_in_memory) hmap \<Rightarrow>
    (string, consumer_in_memory) hmap \<Rightarrow> bool" where
  "new_ok p m i existing new \<longleftrightarrow>
     (\<forall>(k, v) \<in> set new. k = co_id (cim_consumer v) \<and> cim_participant_id v = p \<and> cim_meeting_id v = m \<and>
        cim_instance_id v = i \<and> (\<forall>(k', v') \<in> set existing. \<not> same_consumption v v')) \<and>
     (\<forall>(k, v) \<in> set new. \<forall>(k', v') \<in> set new. same_consumption v v' \<longrightarrow> k = k')"

lemma new_okD:
  assumes "new_ok p m i existing new" and "(k, v) \<in> set new"
  shows "k = co_id (cim_consumer v)" "cim_meeting_id v = m" "cim_participant_id v = p" "cim_instance_id v = i"
    and "(k', v') \<in> set existing \<Longrightarrow> \<not> same_consumption v v'"
    and "(k', v') \<in> set new \<Longrightarrow> same_consumption v v' \<Longrightarrow> k = k'"
  using assms unfolding new_ok_def by fast+

lemma new_okI:
  assumes "\<And>k v. (k, v) \<in> set new \<Longrightarrow> k = co_id (cim_consumer v) \<and> cim_participant_id v = p \<and>
      cim_meeting_id v = m \<and> cim_instance_id v = i"
    and "\<And>k v k' v'. (k, v) \<in> set new \<Longrightarrow> (k', v') \<in> set existing \<Longrightarrow> \<not> same_consumption v v'"
    and "\<And>k v k' v'. (k, v) \<in> set new \<Longrightarrow> (k', v') \<in> set new \<Longrightarrow> same_consumption v v' \<Longrightarrow> k = k'"
  shows "new_ok p m i existing new"
  using assms unfolding new_ok_def by blast

lemma shard_okD:
  assumes "shard_ok True h m" and "(k, v) \<in> set m"
  shows "k = co_id (cim_consumer v)" "h (cim_meeting_id v)"
    and "(k', v') \<in> set m \<Longrightarrow> same_consumption v v' \<Longrightarrow> k = k'"
  using assms unfolding shard_ok_def by fast+

lemma same_consumption_sym: "same_consumption a b = same_consumption b a"
  by (auto simp: same_consumption_def same_consumer_def)

definition streams_of :: "(string, consumer_in_memory) hmap \<Rightarrow> (string \<times> string) set" where
  "streams_of m = (\<lambda>e. (cim_target_participant_id (snd e), cim_kind (snd e))) ` set m"

lemma request_consumer_new:
  assumes ok: "new_ok p m i existing (cb_new acc)" and fresh: "stream_of req \<notin> streams_of (cb_new acc)"
    and run: "request_consumer x p m i t tid caps existing req acc s = (Ok acc', s')"
  shows "new_ok p m i existing (cb_new acc') \<and>
    streams_of (cb_new acc') \<subseteq> insert (stream_of req) (streams_of (cb_new acc))"
proof -
  obtain target knd pid where req: "req = (target, knd, pid)" by (cases req)
  show ?thesis
  proof (cases "filter (same_consumer p target knd m i) (hm_values existing)")
    case (Cons c cs)
    then show ?thesis
      using run ok by (auto simp: request_consumer_def req ret_def fail_def split: list.splits)
  next
    case Nil
    then have none: "\<not> same_consumer p target knd m i v" if "(k, v) \<in> set existing" for k v
      using that by (force simp: filter_empty_conv hm_values_def)
    from run Nil obtain c where "cb_new acc' = hm_insert (co_id c)
        \<lparr>cim_consumer = c, cim_meeting_id = m, cim_participant_id = p, cim_target_participant_id = target,
         cim_kind = knd, cim_instance_id = i, cim_producer_id = pid\<rparr> (cb_new acc)" (is "_ = hm_insert _ ?v _")
      by (auto simp: request_consumer_def req run_iffs ret_def)
    note new = this
    have other: "\<not> same_consumption ?v v" if "(k, v) \<in> set (cb_new acc)" for k v
      using fresh that by (force simp: streams_of_def req same_consumption_def same_consumer_def)
    have "new_ok p m i existing (hm_insert (co_id c) ?v (cb_new acc))"
    proof (rule new_okI)
      fix k v assume kv: "(k, v) \<in> set (hm_insert (co_id c) ?v (cb_new acc))"
      then consider "k = co_id c" "v = ?v" | "(k, v) \<in> set (cb_new acc)" by (auto simp: set_hm_insert)
      note kv_cases = this
      show "k = co_id (cim_consumer v) \<and> cim_participant_id v = p \<and> cim_meeting_id v = m \<and> cim_instance_id v = i"
        using kv_cases by cases (use new_okD [OF ok] in auto)
      show "\<not> same_consumption v v'" if "(k', v') \<in> set existing" for k' v'
        using kv_cases
      proof cases
        case 1
        then show ?thesis using none [OF that] by (simp add: same_consumption_def)
      next
        case 2
        from new_okD(5) [OF ok this that] show ?thesis .
      qed
      show "k = k'" if "(k', v') \<in> set (hm_insert (co_id c) ?v (cb_new acc))" "same_consumption v v'" for k' v'
      proof -
        from that(1) consider "k' = co_id c" "v' = ?v" | "(k', v') \<in> set (cb_new acc)" by (auto simp: set_hm_insert)
        then show ?thesis
          using kv_cases that(2) other new_okD(6) [OF ok] same_consumption_sym [of v v'] by metis
      qed
    qed
    moreover have "streams_of (hm_insert (co_id c) ?v (cb_new acc)) \<subseteq> insert (stream_of req) (streams_of (cb_new acc))"
      by (auto simp: streams_of_def req set_hm_insert)
    ultimately show ?thesis unfolding new by blast
  qed
qed

lemma disjoint_step: "A' \<subseteq> insert r A \<Longrightarrow> r \<notin> B \<Longrightarrow> A \<inter> B = {} \<Longrightarrow> A' \<inter> B = {}"
  by blast

lemma request_consumers_new:
  assumes "new_ok p m i existing (cb_new acc)" and "distinct (map stream_of reqs)"
    and "streams_of (cb_new acc) \<inter> stream_of ` set reqs = {}"
    and "for_each (request_consumer x p m i t tid caps existing) reqs acc s = (Ok acc', s')"
  shows "new_ok p m i existing (cb_new acc')"
  using assms
proof (induction reqs arbitrary: acc s)
  case Nil
  then show ?case by (simp add: ret_def)
next
  case (Cons r rs)
  from Cons.prems(4) obtain acc1 s1 where run: "request_consumer x p m i t tid caps existing r acc s = (Ok acc1, s1)"
    and rest: "for_each (request_consumer x p m i t tid caps existing) rs acc1 s1 = (Ok acc', s')"
    by (auto simp: run_iffs)
  have "stream_of r \<notin> streams_of (cb_new acc)" using Cons.prems(3) by auto
  from request_consumer_new [OF Cons.prems(1) this run]
  have step: "new_ok p m i existing (cb_new acc1)"
    "streams_of (cb_new acc1) \<subseteq> insert (stream_of r) (streams_of (cb_new acc))" by auto
  moreover have "streams_of (cb_new acc1) \<inter> stream_of ` set rs = {}"
  proof -
    have "stream_of r \<notin> stream_of ` set rs" using Cons.prems(2) by simp
    moreover have "streams_of (cb_new acc) \<inter> stream_of ` set rs = {}" using Cons.prems(3) by auto
    ultimately show ?thesis by (rule disjoint_step [OF step(2)])
  qed
  ultimately show ?case using Cons.IH [OF step(1) _ _ rest] Cons.prems(2) by simp
qed

lemma shard_ok_extend:
  assumes ok: "shard_ok True h existing" and new: "new_ok p m i existing new" and here: "h m"
  shows "shard_ok True h (hm_extend new existing)"
proof -
  have "hm_wf (hm_extend new existing)" using ok by (auto simp: shard_ok_def)
  moreover have "k = co_id (cim_consumer v) \<and> h (cim_meeting_id v)" if "(k, v) \<in> set (hm_extend new existing)" for k v
    using set_hm_extend_subset [OF that] new_okD [OF new] shard_okD [OF ok] here by auto
  moreover have "k = k'" if kv: "(k, v) \<in> set (hm_extend new existing)" and kv': "(k', v') \<in> set (hm_extend new existing)"
      and same: "same_consumption v v'" for k v k' v'
  proof -
    from set_hm_extend_subset [OF kv] have "(k, v) \<in> set new \<or> (k, v) \<in> set existing" by blast
    moreover from set_hm_extend_subset [OF kv'] have "(k', v') \<in> set new \<or> (k', v') \<in> set existing" by blast
    moreover note same same_consumption_sym [of v v'] new_okD(5,6) [OF new] shard_okD(3) [OF ok]
    ultimately show ?thesis by metis
  qed
  ultimately show ?thesis unfolding shard_ok_def by blast
qed

lemma keeps_sbw_request_consumer [keeps_intros]:
  "keeps (same_but_world s0) (request_consumer x p m i t tid caps existing req acc)"
proof -
  obtain target knd pid where req: "req = (target, knd, pid)" by (cases req)
  show ?thesis
    unfolding request_consumer_def req Let_def
    by (auto split: list.splits intro!: keeps_intros)
qed

lemma keeps_inv_create_consumer:
  assumes wf: "targets_wf ts"
  shows "keeps (sfu_inv x) (create_consumer x p tid ts caps m i)"
proof (rule keepsI)
  fix s r s'
  assume inv: "sfu_inv x s" and run: "create_consumer x p tid ts caps m i s = (r, s')"
  show "sfu_inv x s'"
  proof (cases "hm_get (transport_map s) tid = None \<or> consumer_map_shards s = []")
    case True
    then show ?thesis
      using inv run by (auto simp: create_consumer_def and_then_def gets_def unwrap_def panic_def ret_def
          read_shard_run split: option.splits)
  next
    case False
    then obtain t where t: "hm_get (transport_map s) tid = Some t" and shards: "consumer_map_shards s \<noteq> []" by auto
    let ?b = "\<lparr>cb_new = [], cb_entities = [], cb_result = []\<rparr>"
    let ?loop = "for_each (request_consumer x p m i (tim_transport t) tid caps (shard_of x s m)) (requested ts) ?b"
    obtain r1 s1 where loop: "?loop s = (r1, s1)" by fastforce
    have "keeps (same_but_world s) ?loop" by (intro keeps_intros)
    from sbw_run [OF this loop] obtain w where s1: "s1 = s\<lparr>world := w\<rparr>" ..
    show ?thesis
    proof (cases r1)
      case (Ok batch)
      have new: "new_ok p m i (shard_of x s m) (cb_new batch)"
        by (rule request_consumers_new [OF _ requested_distinct [OF wf] _ loop [unfolded Ok]])
          (simp_all add: new_ok_def streams_of_def)
      obtain r2 w2 where mut: "run_mutate x True (cb_entities batch) s1 = (r2, s1\<lparr>world := w2\<rparr>)"
        by (auto simp: run_mutate_def on_world_run)
      have sh: "shard_of x (s\<lparr>world := w2\<rparr>) m = shard_of x s m" for w2
        by (simp add: shard_of_def)
      have "shard_ok True (\<lambda>k. shard_index x (s\<lparr>world := w2\<rparr>) k = shard_index x (s\<lparr>world := w2\<rparr>) m)
          (hm_extend (cb_new batch) (shard_of x (s\<lparr>world := w2\<rparr>) m))"
        using sfu_inv_shard [OF inv shards, of m] by (auto simp: sh intro!: shard_ok_extend [OF _ new])
      then have "sfu_inv x (s\<lparr>world := w2, consumer_map_shards :=
          sh_update (shard_index x (s\<lparr>world := w2\<rparr>) m) (hm_extend (cb_new batch)) (consumer_map_shards (s\<lparr>world := w2\<rparr>))\<rparr>)"
        using inv shards by (intro sfu_inv_write_shard) auto
      moreover have "s' = s\<lparr>world := w2\<rparr> \<or> s' = s\<lparr>world := w2, consumer_map_shards :=
          sh_update (shard_index x (s\<lparr>world := w2\<rparr>) m) (hm_extend (cb_new batch)) (consumer_map_shards (s\<lparr>world := w2\<rparr>))\<rparr>"
        using run t shards loop Ok mut s1
        by (auto simp: create_consumer_def and_then_def gets_def unwrap_def ret_def fail_def attempt_def
            read_shard_run write_shard_run split: outcome.splits)
      ultimately show ?thesis using inv by auto
    qed (use run t shards loop s1 inv in
      \<open>auto simp: create_consumer_def and_then_def gets_def unwrap_def ret_def read_shard_run\<close>)
  qed
qed

lemma keeps_inv_resume_consumer [keeps_intros]: "keeps (sound u x) (resume_consumer y p ids m)"
  unfolding resume_consumer_def set_consumer_state_def by (intro keeps_intros)

lemma keeps_inv_pause_consumer [keeps_intros]: "keeps (sound u x) (pause_consumer y p ids m)"
  unfolding pause_consumer_def set_consumer_state_def by (intro keeps_intros)

lemma keeps_inv_write_shard_remove [keeps_intros]: "keeps (sound u x) (write_shard x m (hm_remove_all ids))"
  by (rule keepsI) (auto simp: write_shard_run split: if_splits
      intro!: sfu_inv_write_shard shard_ok_remove sfu_inv_shard)

lemma keeps_inv_close_consumer [keeps_intros]: "keeps (sound u x) (close_consumer x p ids m)"
  unfolding close_consumer_def by (intro keeps_intros)

end
