(* ===== verification/Payloads.thy ===== *)
theory Payloads
  imports Transports
begin

text \<open>
  The request bodies (\<open>src/service/payload.rs\<close>) and the answers of the handlers. Decoding a body
  is \<open>serde_json\<close>; a handler takes the decoder of its payload as an argument. A payload keeps the
  fields of the struct; RTP parameters and capabilities are their JSON text.
\<close>

section \<open>Requests\<close>

record router_details =
  rd_router_capacity :: int
  rd_worker_id :: string

record create_meeting_payload =
  cm_producer_router_details :: "router_details list option"
  cm_consumer_router_details :: "router_details list option"
  cm_routers :: "router_details option"
  cm_meeting_id :: string
  cm_container_id :: string

record replace_meeting_payload =
  rp_producer_router_details :: "router_details list option"
  rp_consumer_router_details :: "router_details list option"
  rp_routers :: "router_details option"
  rp_meeting_id :: string
  rp_old_container_id :: string
  rp_new_container_id :: string

record join_meeting_payload =
  jm_producer_router_id :: string
  jm_consumer_router_id :: string
  jm_participant_id :: string
  jm_instance_id :: string
  jm_meeting_id :: string

record create_transport_request =
  ct_meeting_id :: string
  ct_participant_id :: string
  ct_instance_id :: string
  ct_router_id :: string
  ct_old_producer_transport_id :: "string option"
  ct_old_consumer_transport_id :: "string option"
  ct_old_producer_ids :: "string list option"
  ct_old_consumer_ids :: "string list option"

record restart_ice_request =
  ri_participant_id :: string
  ri_meeting_id :: string
  ri_transport_ids :: "string list"

record create_produce_request =
  cp_participant_id :: string
  cp_rtp_parameters :: string
  cp_meeting_id :: string
  cp_kind :: string
  cp_producer_router_id :: string
  cp_consumer_router_ids :: "string list option"
  cp_producer_transport_id :: string
  cp_start_recording :: bool
  cp_instance_id :: string

record connect_transport_request =
  cn_participant_id :: string
  cn_transport_id :: string
  cn_dtls_parameters :: string
  cn_meeting_id :: string

record create_consume_request =
  cc_participant_id :: string
  cc_rtp_capabilities :: string
  cc_meeting_id :: string
  cc_transport_id :: string
  cc_target_participants :: "(string, (string, string) hmap) hmap"
  cc_instance_id :: string

text \<open>\<open>ResumeConsumeRequest\<close>, \<open>PauseConsumerRequest\<close> and \<open>CloseConsumerRequest\<close> have the same fields.\<close>

record consumers_request =
  cr_participant_id :: string
  cr_meeting_id :: string
  cr_consumer_ids :: "string list"

text \<open>So have \<open>ResumeProducerRequest\<close>, \<open>PauseProducerRequest\<close> and \<open>CloseProducerRequest\<close>.\<close>

record producers_request =
  pr_participant_id :: string
  pr_meeting_id :: string
  pr_producer_kind_map :: "(string, string) hmap"

record leave_meeting_request =
  lm_participant_id :: string
  lm_instance_id :: string
  lm_meeting_id :: string
  lm_producer_transport_id :: "string option"
  lm_consumer_transport_id :: "string option"
  lm_producer_ids :: "string list option"
  lm_consumer_ids :: "string list option"

record end_meeting_request =
  em_meeting_id :: string
  em_router_ids :: "string list"
  em_transport_ids :: "string list"
  em_producer_ids :: "string list"
  em_consumer_ids :: "string list"
  em_participant_ids :: "string list"

record capabilities_request =
  cq_meeting_id :: string
  cq_producer_router_id :: string
  cq_consumer_router_id :: string

record pre_meeting_details_request =
  pq_meeting_id :: string
  pq_producer_router_id :: string
  pq_consumer_router_id :: string
  pq_participant_id :: string

section \<open>Answers\<close>

record consumer_details =
  cd_consumer_id :: string
  cd_rtp_parameters :: string
  cd_producer_id :: string
  cd_target_participant_id :: string
  cd_kind :: string

datatype body =
    ErrorBody string
  | TextBody string
  | GenericResponse string
  | LeaveMeetingResponse string bool
  | RtpCapabilities string string
  | PreClassDetails string string "producer_detail list"
  | ProducerDetailBody producer_detail
  | ProducerDetails "producer_detail list"
  | ConsumerDetailsBody "consumer_details list"
  | IceParametersBody "(string, string) hmap"
  | RecreatedProducerTransport recreate_producer_transport_response
  | CreatedTransport create_transport_response
  | IdList "string list"

record response =
  status :: nat
  body :: body

definition ok_status :: nat where "ok_status = 200"
definition bad_request :: nat where "bad_request = 400"
definition server_error :: nat where "server_error = 500"

end
