(* ===== verification/Service.thy ===== *)
theory Service
  imports Payloads Meetings
begin

text \<open>
  The HTTP handlers (\<open>src/service/v1/mod.rs\<close>) and their routes (\<open>src/service/mod.rs\<close>). A handler
  decodes its body, calls the operation of \<open>SFU\<close> and answers; a panic inside is a panic of the
  handler. The two options of the server state, which \<open>main\<close> always fills, are not kept. The
  handler of \<open>/pprofStart\<close>, which only profiles the process, is left out.
\<close>

section \<open>Decoding and answering\<close>

definition parse_payload :: "(string \<Rightarrow> string + 'p) \<Rightarrow> string \<Rightarrow> response + 'p" where
  "parse_payload decode request_payload =
     (case decode request_payload of
        Inl e \<Rightarrow> Inl \<lparr>status = bad_request, body = ErrorBody e\<rparr>
      | Inr v \<Rightarrow> Inr v)"

definition with_payload :: "(string \<Rightarrow> string + 'p) \<Rightarrow> string \<Rightarrow> ('p \<Rightarrow> ('s, response, 'e) eff) \<Rightarrow> ('s, response, 'e) eff" where
  "with_payload decode request_payload f =
     (case parse_payload decode request_payload of Inl r \<Rightarrow> ret r | Inr v \<Rightarrow> f v)"

definition answer :: "('a \<Rightarrow> body) \<Rightarrow> ('e \<Rightarrow> response) \<Rightarrow> ('s, 'a, 'e) eff \<Rightarrow> ('s, response, 'f) eff" where
  "answer ok err m =
     and_then (attempt m) (\<lambda>r. case r of
       Inr a \<Rightarrow> ret \<lparr>status = ok_status, body = ok a\<rparr>
     | Inl e \<Rightarrow> ret (err e))"

definition server_error_text :: "string \<Rightarrow> string \<Rightarrow> response" where
  "server_error_text prefix e = \<lparr>status = server_error, body = TextBody (prefix @ e)\<rparr>"

text \<open>An error answered with a fixed text.\<close>

definition server_error_fixed :: "string \<Rightarrow> string \<Rightarrow> response" where
  "server_error_fixed t e = \<lparr>status = server_error, body = TextBody t\<rparr>"

text \<open>An error answered with a text alone: axum sends it with status 200.\<close>

definition plain_text :: "string \<Rightarrow> string \<Rightarrow> response" where
  "plain_text t e = \<lparr>status = ok_status, body = TextBody t\<rparr>"

section \<open>Meetings\<close>

definition router_capacity_of :: "router_details \<Rightarrow> producer_consumer_capacity" where
  "router_capacity_of d = \<lparr>pcc_producer_capacity = None, pcc_consumer_capacity = None,
     pcc_capacity = Some (rd_router_capacity d)\<rparr>"

definition producer_capacity_of :: "router_details \<Rightarrow> producer_consumer_capacity" where
  "producer_capacity_of d = \<lparr>pcc_producer_capacity = Some (rd_router_capacity d),
     pcc_consumer_capacity = None, pcc_capacity = None\<rparr>"

definition consumer_capacity_of :: "router_details \<Rightarrow> producer_consumer_capacity" where
  "consumer_capacity_of d = \<lparr>pcc_producer_capacity = None,
     pcc_consumer_capacity = Some (rd_router_capacity d), pcc_capacity = None\<rparr>"

text \<open>One entry per worker: a later entry of the same worker replaces an earlier one.\<close>

definition worker_entries :: "(producer_consumer_capacity \<Rightarrow> 'v) \<Rightarrow> router_details list \<Rightarrow> router_details list \<Rightarrow>
    (string, 'v) hmap" where
  "worker_entries v producers consumers =
     fold (\<lambda>d. hm_insert (rd_worker_id d) (v (consumer_capacity_of d))) consumers
       (fold (\<lambda>d. hm_insert (rd_worker_id d) (v (producer_capacity_of d))) producers [])"

text \<open>The validation of the code; its condition can never hold.\<close>

definition invalid_details :: "create_meeting_payload \<Rightarrow> bool" where
  "invalid_details p \<longleftrightarrow> cm_routers p = None \<and>
     (cm_producer_router_details p = None \<and> cm_consumer_router_details p \<noteq> None) \<and>
     (cm_producer_router_details p \<noteq> None \<and> cm_consumer_router_details p = None)"

definition worker_router_capacity :: "create_meeting_payload \<Rightarrow>
    ('s, (string, producer_consumer_capacity list) hmap, 'e) eff" where
  "worker_router_capacity p =
     (case cm_routers p of
        Some d \<Rightarrow> ret [(rd_worker_id d, [router_capacity_of d])]
      | None \<Rightarrow>
          and_then (unwrap (cm_producer_router_details p)) (\<lambda>producers.
          and_then (unwrap (cm_consumer_router_details p)) (\<lambda>consumers.
          ret (worker_entries (\<lambda>c. [c]) producers consumers))))"

definition create_meeting_handler :: "'w ext \<Rightarrow> (string \<Rightarrow> string + create_meeting_payload) \<Rightarrow> string \<Rightarrow>
    ('w, response) op" where
  "create_meeting_handler x decode request_payload =
     with_payload decode request_payload (\<lambda>p.
     if invalid_details p
     then ret \<lparr>status = bad_request, body =
       TextBody ''Neither single router details are present nor producer and consumer details are absent''\<rparr>
     else and_then (worker_router_capacity p) (\<lambda>caps.
       answer GenericResponse (server_error_text ''Error in creation of meeting '')
         (create_meeting_and_routers_on_workers x caps (cm_meeting_id p) (cm_container_id p))))"

definition meeting_payload_of :: "replace_meeting_payload \<Rightarrow> ('s, meeting_payload, 'e) eff" where
  "meeting_payload_of p =
     and_then (case rp_routers p of
         Some d \<Rightarrow> ret [(rd_worker_id d, router_capacity_of d)]
       | None \<Rightarrow>
           and_then (unwrap (rp_producer_router_details p)) (\<lambda>producers.
           and_then (unwrap (rp_consumer_router_details p)) (\<lambda>consumers.
           ret (worker_entries id producers consumers)))) (\<lambda>workers.
     ret \<lparr>mp_worker_payload = workers, mp_old_container_id = rp_old_container_id p,
          mp_new_container_id = rp_new_container_id p\<rparr>)"

definition add_meeting_payload :: "replace_meeting_payload \<Rightarrow> (string, meeting_payload) hmap \<Rightarrow>
    ('s, (string, meeting_payload) hmap, 'e) eff" where
  "add_meeting_payload p m =
     and_then (meeting_payload_of p) (\<lambda>mp. ret (hm_insert (rp_meeting_id p) mp m))"

definition replace_meetings_handler :: "'w ext \<Rightarrow> (string \<Rightarrow> string + replace_meeting_payload list) \<Rightarrow> string \<Rightarrow>
    ('w, response) op" where
  "replace_meetings_handler x decode request_payload =
     with_payload decode request_payload (\<lambda>ps.
     and_then (for_each add_meeting_payload ps []) (\<lambda>batch.
     answer TextBody (server_error_text ''Error in creation of meeting '')
       (batch_create_router_on_worker x batch)))"

definition capabilities_of :: "'w ext \<Rightarrow> string \<Rightarrow> string \<Rightarrow> ('w, string \<times> string) op" where
  "capabilities_of x producer_router_id consumer_router_id =
     and_then (get_router_capabilities x producer_router_id) (\<lambda>producer_rtp_capabilities.
     and_then (get_router_capabilities x consumer_router_id) (\<lambda>consumer_rtp_capabilities.
     ret (producer_rtp_capabilities, consumer_rtp_capabilities)))"

definition join_meeting_handler :: "'w ext \<Rightarrow> (string \<Rightarrow> string + join_meeting_payload) \<Rightarrow> string \<Rightarrow>
    ('w, response) op" where
  "join_meeting_handler x decode request_payload =
     with_payload decode request_payload (\<lambda>p.
     and_then (capabilities_of x (jm_producer_router_id p) (jm_consumer_router_id p)) (\<lambda>(pc, cc).
     ret \<lparr>status = ok_status, body = RtpCapabilities pc cc\<rparr>))"

definition get_rtp_capabilities_handler :: "'w ext \<Rightarrow> (string \<Rightarrow> string + capabilities_request) \<Rightarrow> string \<Rightarrow>
    ('w, response) op" where
  "get_rtp_capabilities_handler x decode request_payload =
     with_payload decode request_payload (\<lambda>p.
     and_then (capabilities_of x (cq_producer_router_id p) (cq_consumer_router_id p)) (\<lambda>(pc, cc).
     ret \<lparr>status = ok_status, body = RtpCapabilities pc cc\<rparr>))"

definition get_producers_of_meeting_handler :: "'w ext \<Rightarrow> (string \<Rightarrow> string + string) \<Rightarrow> string \<Rightarrow>
    ('w, response) op" where
  "get_producers_of_meeting_handler x decode request_payload =
     with_payload decode request_payload (\<lambda>meeting_id.
     answer ProducerDetails (plain_text ''Error in getting participants of meeting'')
       (get_producers_of_meeting x meeting_id))"

definition pre_meeting_details_handler :: "'w ext \<Rightarrow> (string \<Rightarrow> string + pre_meeting_details_request) \<Rightarrow> string \<Rightarrow>
    ('w, response) op" where
  "pre_meeting_details_handler x decode request_payload =
     with_payload decode request_payload (\<lambda>p.
     and_then (capabilities_of x (pq_producer_router_id p) (pq_consumer_router_id p)) (\<lambda>(pc, cc).
     answer (PreClassDetails pc cc) (plain_text ''Error in getting participants of meeting'')
       (get_producers_of_meeting x (pq_meeting_id p))))"

definition leave_meeting_handler :: "'w ext \<Rightarrow> (string \<Rightarrow> string + leave_meeting_request) \<Rightarrow> string \<Rightarrow>
    ('w, response) op" where
  "leave_meeting_handler x decode request_payload =
     with_payload decode request_payload (\<lambda>p.
     answer (\<lambda>r. LeaveMeetingResponse (lmr_response r) (lmr_send_signal r))
       (server_error_text ''Error in leaving meeting '')
       (leave_meeting x (lm_participant_id p) (lm_meeting_id p) (lm_instance_id p)
          (lm_producer_transport_id p) (lm_consumer_transport_id p)))"

definition end_meeting_handler :: "'w ext \<Rightarrow> (string \<Rightarrow> string + end_meeting_request) \<Rightarrow> string \<Rightarrow>
    ('w, response) op" where
  "end_meeting_handler x decode request_payload =
     with_payload decode request_payload (\<lambda>p.
     answer (\<lambda>_. GenericResponse ''Successfully ended meeting'') (server_error_text ''Error in ending meeting '')
       (end_meeting x (em_meeting_id p) (em_router_ids p) (em_transport_ids p) (em_participant_ids p)))"

section \<open>Transports\<close>

definition connect_transport_handler :: "'w ext \<Rightarrow> (string \<Rightarrow> string + connect_transport_request) \<Rightarrow> string \<Rightarrow>
    ('w, response) op" where
  "connect_transport_handler x decode request_payload =
     with_payload decode request_payload (\<lambda>p.
     answer GenericResponse (server_error_fixed ''Error in connecting producer transport'')
       (connect_transport x (cn_participant_id p) (cn_transport_id p) (cn_dtls_parameters p)))"

definition restart_ice_handler :: "'w ext \<Rightarrow> (string \<Rightarrow> string + restart_ice_request) \<Rightarrow> string \<Rightarrow>
    ('w, response) op" where
  "restart_ice_handler x decode request_payload =
     with_payload decode request_payload (\<lambda>p.
     answer IceParametersBody (server_error_fixed ''Error in restarting ice'')
       (restart_ice x (ri_participant_id p) (ri_transport_ids p)))"

definition recreate_producer_transport_handler ::
  "'w ext \<Rightarrow> (string \<Rightarrow> string + create_transport_request) \<Rightarrow> string \<Rightarrow> ('w, response) op" where
  "recreate_producer_transport_handler x decode request_payload =
     with_payload decode request_payload (\<lambda>p.
     answer RecreatedProducerTransport (server_error_fixed ''Error in creating producer transport'')
       (recreate_producer_transport_helper x (ct_participant_id p) (ct_meeting_id p) (ct_instance_id p)
          (ct_router_id p) (ct_old_producer_transport_id p) (ct_old_consumer_transport_id p)))"

definition recreate_consumer_transport_handler ::
  "'w ext \<Rightarrow> (string \<Rightarrow> string + create_transport_request) \<Rightarrow> string \<Rightarrow> ('w, response) op" where
  "recreate_consumer_transport_handler x decode request_payload =
     with_payload decode request_payload (\<lambda>p.
     answer CreatedTransport (server_error_fixed ''Failed to fetch producers of meeting'')
       (recreate_consumer_transport_helper x (ct_participant_id p) (ct_meeting_id p) (ct_instance_id p)
          (ct_router_id p) (ct_old_producer_transport_id p) (ct_old_consumer_transport_id p)))"

section \<open>Producers and consumers\<close>

definition create_producer_handler :: "'w ext \<Rightarrow> (string \<Rightarrow> string + create_produce_request) \<Rightarrow> string \<Rightarrow>
    ('w, response) op" where
  "create_producer_handler x decode request_payload =
     with_payload decode request_payload (\<lambda>p.
     answer ProducerDetailBody (server_error_fixed ''Error in creating producer'')
       (create_producer x (cp_participant_id p) (cp_rtp_parameters p) (cp_kind p) (cp_meeting_id p)
          (cp_producer_router_id p) (cp_consumer_router_ids p) (cp_producer_transport_id p)
          (cp_start_recording p) (cp_instance_id p)))"

definition consumer_details_of :: "(string, (string, consumer_handle) hmap) hmap \<Rightarrow> consumer_details list" where
  "consumer_details_of m = concat (map (\<lambda>(target, ks). map (\<lambda>(knd, c).
     \<lparr>cd_consumer_id = co_id c, cd_rtp_parameters = co_rtp_parameters c, cd_producer_id = co_producer_id c,
      cd_target_participant_id = target, cd_kind = knd\<rparr>) ks) m)"

definition create_consumer_handler :: "'w ext \<Rightarrow> (string \<Rightarrow> string + create_consume_request) \<Rightarrow> string \<Rightarrow>
    ('w, response) op" where
  "create_consumer_handler x decode request_payload =
     with_payload decode request_payload (\<lambda>p.
     answer (\<lambda>m. ConsumerDetailsBody (consumer_details_of m)) (server_error_text ''Error in creating consumer '')
       (create_consumer x (cc_participant_id p) (cc_transport_id p) (cc_target_participants p)
          (cc_rtp_capabilities p) (cc_meeting_id p) (cc_instance_id p)))"

definition resume_consumer_handler :: "'w ext \<Rightarrow> (string \<Rightarrow> string + consumers_request) \<Rightarrow> string \<Rightarrow>
    ('w, response) op" where
  "resume_consumer_handler x decode request_payload =
     with_payload decode request_payload (\<lambda>p.
     answer (\<lambda>_. GenericResponse ''Successfully resumed'') (server_error_text ''Error in resuming consumer '')
       (resume_consumer x (cr_participant_id p) (cr_consumer_ids p) (cr_meeting_id p)))"

definition resume_producer_handler :: "'w ext \<Rightarrow> (string \<Rightarrow> string + producers_request) \<Rightarrow> string \<Rightarrow>
    ('w, response) op" where
  "resume_producer_handler x decode request_payload =
     with_payload decode request_payload (\<lambda>p.
     answer ProducerDetails (server_error_text ''Error in resuming producer '')
       (resume_producer x (pr_participant_id p) (pr_producer_kind_map p)))"

definition pause_producer_handler :: "'w ext \<Rightarrow> (string \<Rightarrow> string + producers_request) \<Rightarrow> string \<Rightarrow>
    ('w, response) op" where
  "pause_producer_handler x decode request_payload =
     with_payload decode request_payload (\<lambda>p.
     answer ProducerDetails (server_error_text ''Error in creating consumer '')
       (pause_producer x (pr_participant_id p) (pr_producer_kind_map p)))"

definition pause_consumer_handler :: "'w ext \<Rightarrow> (string \<Rightarrow> string + consumers_request) \<Rightarrow> string \<Rightarrow>
    ('w, response) op" where
  "pause_consumer_handler x decode request_payload =
     with_payload decode request_payload (\<lambda>p.
     answer (\<lambda>_. GenericResponse ''Successfully paused'') (server_error_text ''Error in creating consumer '')
       (pause_consumer x (cr_participant_id p) (cr_consumer_ids p) (cr_meeting_id p)))"

definition close_producer_handler :: "'w ext \<Rightarrow> (string \<Rightarrow> string + producers_request) \<Rightarrow> string \<Rightarrow>
    ('w, response) op" where
  "close_producer_handler x decode request_payload =
     with_payload decode request_payload (\<lambda>p.
     answer ProducerDetails (server_error_text ''Error in closing producer '')
       (close_producer x (pr_participant_id p) (pr_meeting_id p) (pr_producer_kind_map p)))"

definition close_consumer_handler :: "'w ext \<Rightarrow> (string \<Rightarrow> string + consumers_request) \<Rightarrow> string \<Rightarrow>
    ('w, response) op" where
  "close_consumer_handler x decode request_payload =
     with_payload decode request_payload (\<lambda>p.
     answer (\<lambda>_. GenericResponse ''Successfully closed consumer'') (server_error_text ''Error in closing consumer '')
       (close_consumer x (cr_participant_id p) (cr_consumer_ids p) (cr_meeting_id p)))"

text \<open>The two queries decode a \<open>RestartIceRequest\<close>.\<close>

definition get_participant_producers_handler :: "(string \<Rightarrow> string + restart_ice_request) \<Rightarrow> string \<Rightarrow>
    ('w, response) op" where
  "get_participant_producers_handler decode request_payload =
     with_payload decode request_payload (\<lambda>p.
     and_then (get_participant_producers (ri_participant_id p)) (\<lambda>ids.
     ret \<lparr>status = ok_status, body = IdList ids\<rparr>))"

definition get_participant_consumers_handler :: "'w ext \<Rightarrow> (string \<Rightarrow> string + restart_ice_request) \<Rightarrow> string \<Rightarrow>
    ('w, response) op" where
  "get_participant_consumers_handler x decode request_payload =
     with_payload decode request_payload (\<lambda>p.
     and_then (get_participant_consumers x (ri_participant_id p) (ri_meeting_id p)) (\<lambda>ids.
     ret \<lparr>status = ok_status, body = IdList ids\<rparr>))"

section \<open>Routes\<close>

record decoders =
  of_create_meeting :: "string \<Rightarrow> string + create_meeting_payload"
  of_replace_meetings :: "string \<Rightarrow> string + replace_meeting_payload list"
  of_join_meeting :: "string \<Rightarrow> string + join_meeting_payload"
  of_meeting_id :: "string \<Rightarrow> string + string"
  of_connect_transport :: "string \<Rightarrow> string + connect_transport_request"
  of_restart_ice :: "string \<Rightarrow> string + restart_ice_request"
  of_create_transport :: "string \<Rightarrow> string + create_transport_request"
  of_create_consume :: "string \<Rightarrow> string + create_consume_request"
  of_create_produce :: "string \<Rightarrow> string + create_produce_request"
  of_consumers :: "string \<Rightarrow> string + consumers_request"
  of_producers :: "string \<Rightarrow> string + producers_request"
  of_leave_meeting :: "string \<Rightarrow> string + leave_meeting_request"
  of_end_meeting :: "string \<Rightarrow> string + end_meeting_request"
  of_capabilities :: "string \<Rightarrow> string + capabilities_request"
  of_pre_meeting_details :: "string \<Rightarrow> string + pre_meeting_details_request"

definition setup_routes :: "'w ext \<Rightarrow> decoders \<Rightarrow> (string \<times> (string \<Rightarrow> ('w, response) op)) list" where
  "setup_routes x d =
     [(''/v1/createMeeting'', create_meeting_handler x (of_create_meeting d)),
      (''/v1/replaceMeetings'', replace_meetings_handler x (of_replace_meetings d)),
      (''/v1/joinMeeting'', join_meeting_handler x (of_join_meeting d)),
      (''/v1/getProducersOfMeeting'', get_producers_of_meeting_handler x (of_meeting_id d)),
      (''/v1/connectTransport'', connect_transport_handler x (of_connect_transport d)),
      (''/v1/restartIce'', restart_ice_handler x (of_restart_ice d)),
      (''/v1/recreateProducerTransport'', recreate_producer_transport_handler x (of_create_transport d)),
      (''/v1/recreateConsumerTransport'', recreate_consumer_transport_handler x (of_create_transport d)),
      (''/v1/createConsumer'', create_consumer_handler x (of_create_consume d)),
      (''/v1/createProducer'', create_producer_handler x (of_create_produce d)),
      (''/v1/resumeConsumer'', resume_consumer_handler x (of_consumers d)),
      (''/v1/resumeProducer'', resume_producer_handler x (of_producers d)),
      (''/v1/pauseProducer'', pause_producer_handler x (of_producers d)),
      (''/v1/pauseConsumer'', pause_consumer_handler x (of_consumers d)),
      (''/v1/closeProducer'', close_producer_handler x (of_producers d)),
      (''/v1/closeConsumer'', close_consumer_handler x (of_consumers d)),
      (''/v1/leaveMeeting'', leave_meeting_handler x (of_leave_meeting d)),
      (''/v1/endMeeting'', end_meeting_handler x (of_end_meeting d)),
      (''/v1/getRTPCapabilities'', get_rtp_capabilities_handler x (of_capabilities d)),
      (''/v1/preMeetingDetails'', pre_meeting_details_handler x (of_pre_meeting_details d)),
      (''/v1/getParticipantProducers'', get_participant_producers_handler (of_restart_ice d)),
      (''/v1/getParticipantConsumers'', get_participant_consumers_handler x (of_restart_ice d))]"

text \<open>A POST to a path; a path with no route is answered by the router with 404.\<close>

definition handle :: "'w ext \<Rightarrow> decoders \<Rightarrow> string \<Rightarrow> string \<Rightarrow> ('w, response) op" where
  "handle x d path request_payload =
     (case map_of (setup_routes x d) path of
        Some h \<Rightarrow> h request_payload
      | None \<Rightarrow> ret \<lparr>status = 404, body = TextBody ''''\<rparr>)"

end
