(* ===== verification/Server.thy ===== *)
theory Server
  imports Service Invariant Startup Analytics
begin

text \<open>
  The server as a state machine. A step is a request handled to its end (also when it fails or
  panics, which leaves what the handler had changed), the publisher taking one event out of the
  channel, an rtpbin of a pipeline adding a pad, or a change of the world outside. Handlers of
  different meetings run concurrently in the code; a step here is one handler, as if the locks it
  takes were held to its end.
\<close>

section \<open>Steps\<close>

inductive server_step :: "'w ext \<Rightarrow> decoders \<Rightarrow> 'w net_ext \<Rightarrow> client_config_details \<Rightarrow> 'w sfu \<Rightarrow> 'w sfu \<Rightarrow> bool"
  for x d n c where
  request: "handle x d path request_payload s = (r, s') \<Longrightarrow> server_step x d n c s s'"
| publish: "user_channel s = ev # evs \<Longrightarrow> send_attempts n c ev retries (world s) = (Ok (), w) \<Longrightarrow>
    server_step x d n c s (s\<lparr>user_channel := evs, world := w\<rparr>)"
| pad: "hm_get (pipeline_map s) m = Some (Some g) \<Longrightarrow>
    with_pipeline m g (rtp_bin_element_handling (ext_gst x) (gst_pipeline g) new_pad) s = (r, s') \<Longrightarrow>
    server_step x d n c s s'"
| outside: "server_step x d n c s (s\<lparr>world := w\<rparr>)"

inductive_cases server_stepE: "server_step x d n c s s'"

inductive reachable :: "'w ext \<Rightarrow> decoders \<Rightarrow> 'w net_ext \<Rightarrow> client_config_details \<Rightarrow> 'w sfu \<Rightarrow> bool"
  for x d n c where
  start: "sfu_new x dflt cfg boot_timestamp m tenant w = (Ok s, w') \<Longrightarrow> reachable x d n c s"
| step: "reachable x d n c s \<Longrightarrow> server_step x d n c s s' \<Longrightarrow> reachable x d n c s'"

text \<open>A decoded \<open>HashMap\<close> has no key twice.\<close>

definition decoders_wf :: "decoders \<Rightarrow> bool" where
  "decoders_wf d \<longleftrightarrow> (\<forall>t p. of_create_consume d t = Inr p \<longrightarrow> targets_wf (cc_target_participants p))"

section \<open>Handlers keep the invariant\<close>

lemma keeps_with_payload:
  "(\<And>p. decode t = Inr p \<Longrightarrow> keeps I (f p)) \<Longrightarrow> keeps I (with_payload decode t f)"
  unfolding with_payload_def parse_payload_def by (auto split: sum.splits intro: keeps_intros)

lemma keeps_answer [keeps_intros]: "keeps I m \<Longrightarrow> keeps I (answer ok err m)"
  unfolding answer_def by (intro keeps_intros)

lemma keeps_inv_worker_router_capacity [keeps_intros]: "keeps (sound u x) (worker_router_capacity p)"
  unfolding worker_router_capacity_def by (intro keeps_intros)

lemma keeps_inv_add_meeting_payload [keeps_intros]: "keeps (sound u x) (add_meeting_payload p m)"
  unfolding add_meeting_payload_def meeting_payload_of_def by (intro keeps_intros)

lemma keeps_inv_capabilities_of [keeps_intros]: "keeps (sound u x) (capabilities_of y a b)"
  unfolding capabilities_of_def by (intro keeps_intros)

lemma keeps_inv_create_consumer_handler:
  assumes "\<And>p. decode t = Inr p \<Longrightarrow> targets_wf (cc_target_participants p)"
  shows "keeps (sfu_inv x) (create_consumer_handler x decode t)"
  unfolding create_consumer_handler_def
  by (intro keeps_with_payload keeps_answer keeps_inv_create_consumer assms)

lemmas handler_defs =
  create_meeting_handler_def replace_meetings_handler_def join_meeting_handler_def
  get_producers_of_meeting_handler_def connect_transport_handler_def restart_ice_handler_def
  recreate_producer_transport_handler_def recreate_consumer_transport_handler_def
  create_producer_handler_def resume_consumer_handler_def resume_producer_handler_def
  pause_producer_handler_def pause_consumer_handler_def close_producer_handler_def
  close_consumer_handler_def leave_meeting_handler_def end_meeting_handler_def
  get_rtp_capabilities_handler_def pre_meeting_details_handler_def
  get_participant_producers_handler_def get_participant_consumers_handler_def

lemma keeps_inv_handlers:
  "keeps (sound u x) (create_meeting_handler x d1 t)" "keeps (sound u x) (replace_meetings_handler x d2 t)"
  "keeps (sound u x) (join_meeting_handler x d3 t)" "keeps (sound u x) (get_producers_of_meeting_handler x d4 t)"
  "keeps (sound u x) (connect_transport_handler x d5 t)" "keeps (sound u x) (restart_ice_handler x d6 t)"
  "keeps (sound u x) (recreate_producer_transport_handler x d7 t)"
  "keeps (sound u x) (recreate_consumer_transport_handler x d8 t)"
  "keeps (sound u x) (resume_consumer_handler x d10 t)"
  "keeps (sound u x) (resume_producer_handler x d11 t)" "keeps (sound u x) (pause_producer_handler x d12 t)"
  "keeps (sound u x) (pause_consumer_handler x d13 t)" "keeps (sound u x) (close_producer_handler x d14 t)"
  "keeps (sound u x) (close_consumer_handler x d15 t)" "keeps (sound u x) (leave_meeting_handler x d16 t)"
  "keeps (sound u x) (end_meeting_handler x d17 t)" "keeps (sound u x) (get_rtp_capabilities_handler x d18 t)"
  "keeps (sound u x) (pre_meeting_details_handler x d19 t)"
  "keeps (sound u x) (get_participant_producers_handler d20 t)"
  "keeps (sound u x) (get_participant_consumers_handler x d21 t)"
  unfolding handler_defs query_defs by (intro keeps_with_payload keeps_intros)+

lemma keeps_inv_create_producer_handler: "keeps (sfu_inv x) (create_producer_handler x d9 t)"
  unfolding create_producer_handler_def by (intro keeps_with_payload keeps_intros)

lemma keeps_inv_handle:
  assumes "decoders_wf d"
  shows "keeps (sfu_inv x) (handle x d path t)"
proof -
  have "keeps (sfu_inv x) (create_consumer_handler x (of_create_consume d) t)"
    using assms by (intro keeps_inv_create_consumer_handler) (simp add: decoders_wf_def)
  then have "\<forall>h \<in> snd ` set (setup_routes x d). keeps (sfu_inv x) (h t)"
    by (simp add: setup_routes_def keeps_inv_handlers keeps_inv_create_producer_handler)
  then have "keeps (sfu_inv x) (h t)" if "map_of (setup_routes x d) path = Some h" for h
    using map_of_SomeD [OF that] by force
  then show ?thesis
    unfolding handle_def by (auto split: option.splits intro: keeps_intros)
qed

lemma sfu_inv_empty: "sfu_inv x (empty_sfu c m workers w)"
  by (simp add: sound_def empty_sfu_def producers_ok_def routers_ok_def transports_ok_def pipelines_ok_def
      shard_ok_def hm_wf_def)

lemma sfu_new_empty: "sfu_new x dflt c b m tenant w = (Ok s, w') \<Longrightarrow> \<exists>workers v. s = empty_sfu c m workers v"
  by (auto simp: sfu_new_def create_inner_def and_then_def attempt_def ret_def fail_def panic_def gets_def
      split: sum.splits prod.splits outcome.splits)

text \<open>The handler of a new pad, on a pipeline of the map.\<close>

lemma sound_pad:
  assumes inv: "sound u x s" and g: "hm_get (pipeline_map s) m = Some (Some g)"
    and run: "with_pipeline m g (rtp_bin_element_handling (ext_gst x) (gst_pipeline g) new_pad) s = (r, s')"
  shows "sound u x s'"
proof -
  let ?h = "rtp_bin_element_handling (ext_gst x) (gst_pipeline g) new_pad"
  have s': "s' = snd (with_pipeline m g ?h s)" using run by simp
  have ok: "pipeline_ok g" using pipelines_ok_get [OF sfu_invD(4) [OF inv] g] by simp
  obtain gi w where run: "snd (with_pipeline m g ?h s) =
      s\<lparr>pipeline_map := hm_insert m (Some (g\<lparr>gst_inner := gi\<rparr>)) (pipeline_map s), world := w\<rparr>" and "chains_ok gi"
    using with_pipeline_run [of m g ?h s] keeps_chains_handling [of "ext_gst x" "gst_pipeline g" new_pad] ok
    by (auto simp: pipeline_ok_def)
  with ok have "pipeline_ok (g\<lparr>gst_inner := gi\<rparr>)" by (simp add: pipeline_ok_def)
  then show ?thesis
    unfolding s' run by (simp add: sfu_inv_pipelines [OF inv] pipelines_ok_insert sfu_invD(4) [OF inv])
qed

lemma sfu_inv_step:
  assumes "decoders_wf d" and "server_step x d n c s s'" and "sfu_inv x s"
  shows "sfu_inv x s'"
  using assms(2)
proof (rule server_stepE)
  fix path t r
  assume "handle x d path t s = (r, s')"
  from keepsD [OF keeps_inv_handle [OF assms(1)] assms(3) this] show ?thesis .
next
  fix m and g :: gstreamer and new_pad r
  assume "hm_get (pipeline_map s) m = Some (Some g)"
    and "with_pipeline m g (rtp_bin_element_handling (ext_gst x) (gst_pipeline g) new_pad) s = (r, s')"
  then show ?thesis by (rule sound_pad [OF assms(3)])
qed (use assms(3) in simp_all)

lemma reachable_inv:
  assumes "decoders_wf d" and "reachable x d n c s"
  shows "sfu_inv x s"
  using assms(2)
proof induction
  case (start dflt cfg b m tenant w s w')
  then show ?case by (auto dest!: sfu_new_empty simp: sfu_inv_empty)
next
  case (step s s')
  show ?case by (rule sfu_inv_step [OF assms(1) step.hyps(2) step.IH])
qed

end
