(* ===== verification/Meeting_Facts.thy ===== *)
theory Meeting_Facts
  imports Invariant
begin

text \<open>
  What leaving and ending a meeting leave behind in memory: the listing queries and the closing
  operations together remove exactly the entries that belong to the instance or to the meeting.
\<close>

section \<open>Closing what a query lists\<close>

definition owned_by :: "string \<Rightarrow> string \<Rightarrow> string \<Rightarrow> producer_in_memory \<Rightarrow> bool" where
  "owned_by p m i v \<longleftrightarrow> pim_participant_id v = p \<and> pim_meeting_id v = m \<and> pim_instance_id v = i"

definition consumed_by :: "string \<Rightarrow> string \<Rightarrow> string \<Rightarrow> consumer_in_memory \<Rightarrow> bool" where
  "consumed_by p m i v \<longleftrightarrow> cim_participant_id v = p \<and> cim_meeting_id v = m \<and> cim_instance_id v = i"

lemma close_producers_if:
  assumes "(if ids \<noteq> [] then map_err f (and_then (close_all_producers_in_memory x (p # ps) ids m rem) (\<lambda>_. ret ()))
      else ret ()) s = (Ok (), s')"
  shows "\<exists>pt pc pm w. s' = s\<lparr>producer_map := hm_remove_all ids (producer_map s), plain_transport_map := pt,
    plain_transport_consumer_map := pc, pipeline_map := pm, world := w\<rparr>"
proof (cases "ids = []")
  case True
  have "s = s\<lparr>producer_map := hm_remove_all [] (producer_map s), plain_transport_map := plain_transport_map s,
    plain_transport_consumer_map := plain_transport_consumer_map s, pipeline_map := pipeline_map s, world := world s\<rparr>"
    by simp
  moreover have "s' = s" using True assms by (simp add: ret_def)
  ultimately show ?thesis using True by blast
next
  case False
  with assms obtain ds where "close_all_producers_in_memory x (p # ps) ids m rem s = (Ok ds, s')"
    by (auto simp: run_iffs ret_def)
  from close_all_producers_run(1) [OF this] show ?thesis by blast
qed

lemma close_consumers_if:
  "consumer_map_shards s \<noteq> [] \<Longrightarrow>
   (if ids \<noteq> [] then close_all_consumers_in_memory x ids m else ret ()) s =
   (Ok (), s\<lparr>consumer_map_shards := sh_update (shard_index x s m) (hm_remove_all ids) (consumer_map_shards s)\<rparr>)"
proof (cases "ids = []")
  case True
  have "sh_update i (hm_remove_all []) sh = sh" for i and sh :: "(string, consumer_in_memory) shards"
    by (simp add: sh_update_def)
  with True show ?thesis by (simp add: ret_def)
qed (simp add: close_all_consumers_run)

lemma producer_ids_exact:
  fixes s :: "'w sfu"
  assumes "producers_ok (producer_map s)" and "ids = producer_ids_where p (producer_map s)"
  shows "set (hm_remove_all ids (producer_map s)) = {e \<in> set (producer_map s). \<not> p (snd e)}"
proof -
  have "\<forall>e \<in> set (producer_map s). fst e = pim_producer (snd e)" and "hm_wf (producer_map s)"
    using assms(1) by (auto simp: producers_ok_def)
  from producers.close_listed_exact [where p = p, OF this assms(2) [unfolded producer_ids_where_def]]
  show ?thesis by (simp add: close_producers_loop_run)
qed

lemma consumer_ids_exact:
  fixes s :: "'w sfu"
  assumes "shard_ok True h (shard_of x s m)" and shards: "consumer_map_shards s \<noteq> []"
    and "ids = consumer_ids_where p (shard_of x s m)"
  shows "set (hm_remove_all ids (shard_of x s m)) = {e \<in> set (shard_of x s m). \<not> p (snd e)}"
proof -
  have "\<forall>e \<in> set (shard_of x s m). fst e = co_id (cim_consumer (snd e))" and "hm_wf (shard_of x s m)"
    using assms(1) by (auto simp: shard_ok_def)
  from consumers.close_listed_exact [where p = p, OF this assms(3) [unfolded consumer_ids_where_def]]
  have "set (shard_of x (s\<lparr>consumer_map_shards :=
      sh_update (shard_index x s m) (hm_remove_all ids) (consumer_map_shards s)\<rparr>) m) = {e \<in> set (shard_of x s m). \<not> p (snd e)}"
    using shards by (simp only: close_all_consumers_run if_False snd_conv)
  then show ?thesis by (simp only: shard_of_write [OF shards] simp_thms if_True)
qed

lemma producer_ids_set:
  "producers_ok m \<Longrightarrow> set (producer_ids_where p m) = {k. \<exists>v. (k, v) \<in> set m \<and> p v}"
proof -
  assume "producers_ok m"
  then have "(k, v) \<in> set m \<Longrightarrow> k = pim_producer v" for k v unfolding producers_ok_def by fast
  then show ?thesis unfolding set_eq_iff in_producer_ids_where mem_Collect_eq by metis
qed

section \<open>Closing an instance\<close>

text \<open>
  The run of \<open>close_instance\<close>: the shard of the meeting loses the participant's consumers and then
  those of its producers, the producer map loses its producers.
\<close>

lemma close_instance_run:
  fixes s :: "'w sfu"
  assumes run: "close_instance x p m i s = (Ok (), s')"
    and own: "own = consumer_ids_where (consumed_by p m i) (shard_of x s m)"
    and ids: "ids = producer_ids_where (owned_by p m i) (producer_map s)"
    and dep: "dep = consumer_ids_where (\<lambda>v. cim_producer_id v \<in> set ids) (hm_remove_all own (shard_of x s m))"
  shows "consumer_map_shards s \<noteq> [] \<and> producer_map s' = hm_remove_all ids (producer_map s) \<and>
    (\<forall>k. shard_of x s' k = (if shard_index x s k = shard_index x s m
       then hm_remove_all dep (hm_remove_all own (shard_of x s m)) else shard_of x s k)) \<and>
    transport_map s' = transport_map s \<and> routers_map s' = routers_map s \<and> user_channel s' = user_channel s"
proof -
  let ?i = "shard_index x s m"
  have shards: "consumer_map_shards s \<noteq> []"
    using run unfolding close_instance_def query_defs
    by (auto simp: run_iffs read_shard_run split: if_splits)
  define s1 where "s1 = s\<lparr>consumer_map_shards := sh_update ?i (hm_remove_all own) (consumer_map_shards s)\<rparr>"
  have idx1: "shard_index x s1 k = shard_index x s k" for k
    unfolding s1_def by (rule shard_index_cong) simp
  have shards1: "consumer_map_shards s1 \<noteq> []" using shards by (simp add: s1_def sh_update_def)
  have sh1: "shard_of x s1 k = (if shard_index x s k = ?i then hm_remove_all own (shard_of x s m) else shard_of x s k)" for k
    unfolding s1_def by (rule shard_of_write [OF shards])
  from run obtain s2 dep' where
    close: "(if ids \<noteq> [] then map_err (\<lambda>e. ''Failed to close all producers in memory '' @ e)
        (and_then (close_all_producers_in_memory x [p] ids m True) (\<lambda>_. ret ())) else ret ()) s1 = (Ok (), s2)"
    and dep': "get_consumers_for_producer_ids x ids m s2 = (Ok dep', s2)"
    and last: "(if dep' \<noteq> [] then close_all_consumers_in_memory x dep' m else ret ()) s2 = (Ok (), s')"
    using shards unfolding close_instance_def get_participant_consumers_for_instance_in_meeting_def
      get_participant_producers_for_instance_in_meeting_def get_consumers_for_producer_ids_def
    by (auto simp: and_then_Ok_iff read_shard_run close_all_consumers_run ret_def gets_def own ids s1_def
        consumed_by_def [abs_def] owned_by_def [abs_def] simp del: map_err_Ok_iff split: if_splits)
  from close_producers_if [OF close] obtain pt pc pm w where
    s2: "s2 = s1\<lparr>producer_map := hm_remove_all ids (producer_map s1), plain_transport_map := pt,
       plain_transport_consumer_map := pc, pipeline_map := pm, world := w\<rparr>" by blast
  have idx2: "shard_index x s2 k = shard_index x s k" and sh2: "shard_of x s2 k = shard_of x s1 k" for k
    unfolding s2 using idx1 by (simp_all add: shard_of_def)
  have shards2: "consumer_map_shards s2 \<noteq> []" unfolding s2 using shards1 by simp
  have "dep' = dep"
    using dep' shards2 by (simp add: get_consumers_for_producer_ids_def run_iffs read_shard_run ret_def sh2 sh1 dep)
  with last have s': "s' = s2\<lparr>consumer_map_shards := sh_update (shard_index x s2 m) (hm_remove_all dep) (consumer_map_shards s2)\<rparr>"
    by (simp only: close_consumers_if [OF shards2]) simp
  have "shard_of x s' k = (if shard_index x s k = ?i then hm_remove_all dep (shard_of x s1 m) else shard_of x s1 k)" for k
    unfolding s' using shard_of_write [OF shards2, of x m "hm_remove_all dep" k] by (simp only: idx2 sh2)
  then show ?thesis using shards unfolding s' s2 s1_def by (simp add: sh1 [unfolded s1_def])
qed

text \<open>
  What is left when the consumers and the producers that two queries list are removed, and then the
  consumers of those producers.
\<close>

lemma closed_listed_exact:
  fixes s :: "'w sfu"
  assumes inv: "sfu_inv x s" and shards: "consumer_map_shards s \<noteq> []"
    and own: "own = consumer_ids_where P (shard_of x s m)" and ids: "ids = producer_ids_where Q (producer_map s)"
    and dep: "dep = consumer_ids_where (\<lambda>v. cim_producer_id v \<in> set ids) (hm_remove_all own (shard_of x s m))"
  shows "set (hm_remove_all ids (producer_map s)) = {e \<in> set (producer_map s). \<not> Q (snd e)}"
    and "set (hm_remove_all dep (hm_remove_all own (shard_of x s m))) = {e \<in> set (shard_of x s m). \<not> P (snd e) \<and>
      \<not> (\<exists>v. (cim_producer_id (snd e), v) \<in> set (producer_map s) \<and> Q v)}"
proof -
  let ?left = "hm_remove_all own (shard_of x s m)" and ?uses = "\<lambda>v. cim_producer_id v \<in> set ids"
  let ?s1 = "s\<lparr>consumer_map_shards := sh_update (shard_index x s m) (hm_remove_all own) (consumer_map_shards s)\<rparr>"
  show "set (hm_remove_all ids (producer_map s)) = {e \<in> set (producer_map s). \<not> Q (snd e)}"
    by (rule producer_ids_exact [OF sfu_invD(1) [OF inv] ids])
  have sh1: "shard_of x ?s1 m = ?left" using shards by (simp add: shard_of_write)
  note ok = sfu_inv_shard [OF inv shards, of m]
  have "shard_ok True (\<lambda>k. shard_index x s k = shard_index x s m) (shard_of x ?s1 m)"
    unfolding sh1 by (rule shard_ok_remove [OF ok])
  moreover have "consumer_map_shards ?s1 \<noteq> []" using shards by (simp add: sh_update_def)
  ultimately have "set (hm_remove_all (consumer_ids_where ?uses (shard_of x ?s1 m)) (shard_of x ?s1 m)) =
      {e \<in> set (shard_of x ?s1 m). \<not> ?uses (snd e)}"
    by (rule consumer_ids_exact [OF _ _ refl])
  then have "set (hm_remove_all dep ?left) = {e \<in> set ?left. \<not> ?uses (snd e)}"
    unfolding sh1 dep .
  also have "set ?left = {e \<in> set (shard_of x s m). \<not> P (snd e)}"
    by (rule consumer_ids_exact [OF ok shards own])
  finally show "set (hm_remove_all dep ?left) = {e \<in> set (shard_of x s m). \<not> P (snd e) \<and>
      \<not> (\<exists>v. (cim_producer_id (snd e), v) \<in> set (producer_map s) \<and> Q v)}"
    by (auto simp: ids producer_ids_set [OF sfu_invD(1) [OF inv]])
qed

lemma close_instance_exact:
  fixes s :: "'w sfu"
  assumes inv: "sfu_inv x s" and run: "close_instance x p m i s = (Ok (), s')"
  shows "set (producer_map s') = {e \<in> set (producer_map s). \<not> owned_by p m i (snd e)}"
    and "set (shard_of x s' m) = {e \<in> set (shard_of x s m). \<not> consumed_by p m i (snd e) \<and>
      \<not> (\<exists>v. (cim_producer_id (snd e), v) \<in> set (producer_map s) \<and> owned_by p m i v)}"
    and "shard_index x s k \<noteq> shard_index x s m \<Longrightarrow> shard_of x s' k = shard_of x s k"
    and "transport_map s' = transport_map s \<and> routers_map s' = routers_map s \<and> user_channel s' = user_channel s"
  using close_instance_run [OF run refl refl refl] closed_listed_exact [OF inv _ refl refl refl] by simp_all

section \<open>Leaving\<close>

text \<open>The state in which \<open>leave_meeting\<close> closes the instance.\<close>

definition transports_dropped :: "string option \<Rightarrow> string option \<Rightarrow> 'w \<Rightarrow> 'w sfu \<Rightarrow> 'w sfu" where
  "transports_dropped a b w s =
     s\<lparr>world := w, transport_map := hm_remove_all (opt_list a @ opt_list b) (transport_map s)\<rparr>"

lemma transports_dropped_frame [simp]:
  "producer_map (transports_dropped a b w s) = producer_map s"
  "consumer_map_shards (transports_dropped a b w s) = consumer_map_shards s"
  "routers_map (transports_dropped a b w s) = routers_map s"
  "user_channel (transports_dropped a b w s) = user_channel s"
  "transport_map (transports_dropped a b w s) = hm_remove_all (opt_list a @ opt_list b) (transport_map s)"
  "shard_index x (transports_dropped a b w s) = shard_index x s"
  "shard_of x (transports_dropped a b w s) = shard_of x s"
  by (simp_all add: transports_dropped_def shard_of_def fun_eq_iff)

lemma sfu_inv_transports_dropped: "sfu_inv x s \<Longrightarrow> sfu_inv x (transports_dropped a b w s)"
  unfolding transports_dropped_def by (intro sfu_inv_transports transports_ok_remove) (simp_all add: sfu_invD)

lemma leave_meeting_cases:
  assumes "leave_meeting x p m i a b s = (r, s')"
  obtains (failed) w where "r = Panic \<or> r = Err ''Failure in leaving the meeting''" "s' = s\<lparr>world := w\<rparr>"
  | (absent) w where "r = Ok \<lparr>lmr_response = ''Participant not found in the meeting'', lmr_send_signal = False\<rparr>"
      "s' = s\<lparr>world := w\<rparr>"
  | (stuck) w r1 where "close_instance x p m i (transports_dropped a b w s) = (r1, s')" 
      "(r = Panic \<and> r1 = Panic) \<or> (\<exists>e. r = Err e \<and> r1 = Err e)"
  | (left) w s1 where "close_instance x p m i (transports_dropped a b w s) = (Ok (), s1)"
      "r = Ok \<lparr>lmr_response = ''Participant left the meeting'', lmr_send_signal = True\<rparr>"
      "push_user_session_event x p m ''LEAVE'' i s1 = (Ok () :: (unit, string) outcome, s')"
proof -
  let ?del = "delete (ext_sql x) [D_ParticipantMeeting \<lparr>pm_mutation_type = Delete, pm_meeting_id = m,
    pm_participant_id = Some p, pm_instance_id = Some i\<rparr>]"
  obtain r0 w where del: "?del (world s) = (r0, w)" by fastforce
  show ?thesis
  proof (cases r0)
    case (Ok rows)
    show ?thesis
    proof (cases "rows = 0")
      case True
      with assms Ok del show ?thesis
        by (intro absent [of w]) (auto simp: leave_meeting_def and_then_def attempt_def on_world_run ret_def)
    next
      case False
      obtain r1 s1 where close: "close_instance x p m i (transports_dropped a b w s) = (r1, s1)" by fastforce
      have run: "leave_meeting x p m i a b s =
        (case (r1, s1) of (Ok _, s1) \<Rightarrow> (case push_user_session_event x p m ''LEAVE'' i s1 of
            (Ok _, s2) \<Rightarrow> (Ok \<lparr>lmr_response = ''Participant left the meeting'', lmr_send_signal = True\<rparr>, s2)
          | (Err e, s2) \<Rightarrow> (Err e, s2) | (Panic, s2) \<Rightarrow> (Panic, s2))
        | (Err e, s1) \<Rightarrow> (Err e, s1) | (Panic, s1) \<Rightarrow> (Panic, s1))"
        using close False Ok del
        by (simp add: leave_meeting_def and_then_def attempt_def on_world_run modify_def ret_def
            transports_dropped_def split: outcome.splits prod.splits)
      show ?thesis
      proof (cases r1)
        case r1: (Ok u)
        obtain ev w2 where ev: "push_user_session_event x p m ''LEAVE'' i s1 =
            (Ok () :: (unit, string) outcome, s1\<lparr>world := w2, user_channel := user_channel s1 @ [ev]\<rparr>)"
          using push_event_run [of x p m "''LEAVE''" i s1] by blast
        show ?thesis
          using close r1 run assms ev by (intro left [of w s1]) auto
      qed (use assms run close in \<open>auto intro: stuck [of w r1]\<close>)
    qed
  qed (use assms del in \<open>auto simp: leave_meeting_def and_then_def attempt_def on_world_run ret_def fail_def
      intro: failed\<close>)
qed

text \<open>
  C1: Leaving a meeting. When the answer says that the participant left, the producer map has lost
  exactly the producers of that instance, the shard of the meeting exactly its consumers and the
  consumers of those producers, the other meetings' shards and the routers are as before, the
  named transports are gone, and exactly one \<open>LEAVE\<close> event for it is at the end of the channel.
\<close>

theorem leave_meeting_clears:
  assumes inv: "sfu_inv x s"
    and run: "leave_meeting x p m i a b s = (Ok \<lparr>lmr_response = t, lmr_send_signal = True\<rparr>, s')"
  shows "set (producer_map s') = {e \<in> set (producer_map s). \<not> owned_by p m i (snd e)} \<and>
    set (shard_of x s' m) = {e \<in> set (shard_of x s m). \<not> consumed_by p m i (snd e) \<and>
      \<not> (\<exists>v. (cim_producer_id (snd e), v) \<in> set (producer_map s) \<and> owned_by p m i v)} \<and>
    (\<forall>k. shard_index x s k \<noteq> shard_index x s m \<longrightarrow> shard_of x s' k = shard_of x s k) \<and>
    transport_map s' = hm_remove_all (opt_list a @ opt_list b) (transport_map s) \<and>
    routers_map s' = routers_map s \<and>
    (\<exists>ev. user_channel s' = user_channel s @ [ev] \<and> ue_event_type ev = ''LEAVE'' \<and> ue_user_id ev = p \<and>
      ue_meeting_id ev = m \<and> ue_instance_id ev = i)"
  using run
proof (cases rule: leave_meeting_cases)
  case (left w s1)
  from push_event_run [of x p m "''LEAVE''" i s1] left(3) obtain ev w2
    where s': "s' = s1\<lparr>world := w2, user_channel := user_channel s1 @ [ev]\<rparr>"
      and ev: "ue_user_id ev = p" "ue_meeting_id ev = m" "ue_event_type ev = ''LEAVE''" "ue_instance_id ev = i"
    by (metis prod.inject)
  have frame: "shard_of x s' k = shard_of x s1 k" for k unfolding s' by (simp add: shard_of_def)
  note exact = close_instance_exact [OF sfu_inv_transports_dropped [OF inv] left(1), simplified]
  show ?thesis
    using exact(1,2,4) exact(3) frame ev by (simp add: s')
qed auto



section \<open>Ending\<close>

lemma keeps_pipelines_end: "keeps (\<lambda>s. pipeline_map s = pl) (end_meeting x m rs ts ps)"
proof -
  have loop: "keeps (\<lambda>s. pipeline_map s = pl) (close_producers_loop participants ids)" for participants ids
  proof (induction ids)
    case Nil
    then show ?case by (simp add: keeps_intros)
  next
    case (Cons a ids)
    show ?case
      unfolding close_producers_loop.simps
      by (intro keeps_intros Cons keeps_modify)
        (use Cons in \<open>auto split: list.splits intro!: keeps_intros keeps_modify\<close>)
  qed
  have world: "keeps (\<lambda>s. pipeline_map s = pl) (on_world w)" for w by (simp add: keeps_def on_world_run)
  have call: "keeps (\<lambda>s. pipeline_map s = pl) (call_world f)" for f by (simp add: keeps_def call_world_run)
  have shard: "keeps (\<lambda>s. pipeline_map s = pl) (read_shard x m)"
    "keeps (\<lambda>s. pipeline_map s = pl) (close_all_consumers_in_memory x ids m)" for ids
    by (auto simp: keeps_def read_shard_run close_all_consumers_run split: if_splits)
  show ?thesis
    unfolding end_meeting_def query_defs stop_pipeline_def close_all_producers_in_memory_def run_mutate_def if_False
    by (intro keeps_intros keeps_modify loop world call shard) simp_all
qed

text \<open>
  C37: The pipeline of an ended meeting stays. Whatever happens while a meeting is ended, the pipeline
  map is afterwards what it was: the pipeline is removed from a clone of the map only, so a meeting
  of the same name finds the pipeline that was set to \<open>Null\<close>.
\<close>

theorem end_meeting_keeps_pipelines: "pipeline_map (snd (end_meeting x m rs ts ps s)) = pipeline_map s"
  using keepsD [OF keeps_pipelines_end [of "pipeline_map s" x m rs ts ps] refl] by (metis prod.collapse)

lemma end_meeting_run:
  fixes s :: "'w sfu"
  assumes run: "end_meeting x m rs ts (q # qs) s = (Ok t, s')"
  shows "consumer_map_shards s \<noteq> [] \<and>
    producer_map s' = hm_remove_all (producer_ids_where (\<lambda>v. pim_meeting_id v = m) (producer_map s)) (producer_map s) \<and>
    (\<forall>k. shard_of x s' k = (if shard_index x s k = shard_index x s m
       then hm_remove_all (consumer_ids_where (\<lambda>v. cim_meeting_id v = m) (shard_of x s m)) (shard_of x s m)
       else shard_of x s k)) \<and>
    routers_map s' = hm_remove_all rs (routers_map s) \<and> transport_map s' = hm_remove_all ts (transport_map s) \<and>
    user_channel s' = user_channel s"
proof -
  let ?ids = "producer_ids_where (\<lambda>v. pim_meeting_id v = m) (producer_map s)"
  let ?cs = "consumer_ids_where (\<lambda>v. cim_meeting_id v = m) (shard_of x s m)"
  obtain r0 w where mut: "run_mutate x True [meeting_status_entity Delete None m] s = (r0, s\<lparr>world := w\<rparr>)"
    by (auto simp: run_mutate_def on_world_run)
  define s1 where "s1 = s\<lparr>world := w, routers_map := hm_remove_all rs (routers_map s),
    transport_map := hm_remove_all ts (transport_map s)\<rparr>"
  have frame1: "shard_of x s1 k = shard_of x s k" "shard_index x s1 k = shard_index x s k"
    "consumer_map_shards s1 = consumer_map_shards s" "producer_map s1 = producer_map s" for k
    by (simp_all add: s1_def shard_of_def)
  define s2 where "s2 = s1\<lparr>consumer_map_shards := sh_update (shard_index x s1 m) (hm_remove_all ?cs) (consumer_map_shards s1)\<rparr>"
  from run mut obtain s3 where shards: "consumer_map_shards s \<noteq> []"
    and close: "(if ?ids \<noteq> [] then map_err (\<lambda>e. ''Failed to close all producers in memory '' @ e)
        (and_then (close_all_producers_in_memory x (q # qs) ?ids m False) (\<lambda>_. ret ())) else ret ()) s2 = (Ok (), s3)"
    and stop: "stop_pipeline x m s3 = (Ok (), s')"
    unfolding end_meeting_def get_all_consumers_for_meeting_def get_all_producers_for_meeting_def
    by (cases r0) (auto simp: and_then_Ok_iff attempt_def modify_def gets_def ret_def fail_def read_shard_run
        close_all_consumers_run s1_def s2_def shard_of_def split: if_splits)
  from close_producers_if [OF close] obtain pt pc pm v where
    s3: "s3 = s2\<lparr>producer_map := hm_remove_all ?ids (producer_map s2), plain_transport_map := pt,
       plain_transport_consumer_map := pc, pipeline_map := pm, world := v\<rparr>" by blast
  have "keeps (same_but_world s3) (stop_pipeline x m)" unfolding stop_pipeline_def by (intro keeps_intros)
  from sbw_run [OF this stop] obtain u where s': "s' = s3\<lparr>world := u\<rparr>" ..
  have shards1: "consumer_map_shards s1 \<noteq> []" using shards frame1 by simp
  have "shard_of x s' k = shard_of x s2 k" for k unfolding s' s3 by (simp add: shard_of_def)
  moreover have "shard_of x s2 k = (if shard_index x s k = shard_index x s m
       then hm_remove_all ?cs (shard_of x s m) else shard_of x s k)" for k
    unfolding s2_def using shard_of_write [OF shards1, of x m "hm_remove_all ?cs" k] by (simp only: frame1)
  ultimately show ?thesis using shards unfolding s' s3 by (simp add: s2_def s1_def)
qed

text \<open>
  C6: Ending a meeting. When the request names a participant and the answer is a success, the producer
  map has lost exactly the producers of the meeting, its shard exactly the consumers of the meeting
  (consumers of other meetings in the same shard stay), the routers and transports named in the
  request are gone, and nothing else is: no other shard changes and no event is pushed.
\<close>

theorem end_meeting_clears:
  assumes inv: "sfu_inv x s" and run: "end_meeting x m rs ts (q # qs) s = (Ok t, s')"
  shows "set (producer_map s') = {e \<in> set (producer_map s). pim_meeting_id (snd e) \<noteq> m} \<and>
    set (shard_of x s' m) = {e \<in> set (shard_of x s m). cim_meeting_id (snd e) \<noteq> m} \<and>
    (\<forall>k. shard_index x s k \<noteq> shard_index x s m \<longrightarrow> shard_of x s' k = shard_of x s k) \<and>
    routers_map s' = hm_remove_all rs (routers_map s) \<and> transport_map s' = hm_remove_all ts (transport_map s) \<and>
    user_channel s' = user_channel s"
proof -
  from end_meeting_run [OF run] have shards: "consumer_map_shards s \<noteq> []" by blast
  note producer_ids_exact [OF sfu_invD(1) [OF inv] refl, of "\<lambda>v. pim_meeting_id v = m"]
  moreover note consumer_ids_exact [OF sfu_inv_shard [OF inv shards] shards refl,
      where m = m and p = "\<lambda>v. cim_meeting_id v = m"]
  ultimately show ?thesis using end_meeting_run [OF run] by simp
qed


section \<open>Witnesses\<close>

lemma sample_inv: "sfu_inv sample_ext sample_sfu"
  by (auto simp: sound_def sample_sfu_def sample_config_def sfu_config_default_def producers_ok_def routers_ok_def
      transports_ok_def pipelines_ok_def pipeline_ok_def shard_ok_def hm_wf_def alice_producer_def bob_consumer_def
      sample_transport_def sample_gstreamer_def gstreamer_new_def chains_ok_def chain_maps aligned_def inner_new_def
      shard_index_def nth_Cons split: nat.splits)

lemmas effect_defs =
  and_then_def attempt_def map_err_def gets_def modify_def ret_def fail_def panic_def unwrap_def call_world_run on_world_run

lemmas sample_defs =
  sample_sfu_def sample_start_def shard_of_def shard_index_def sh_update_def consumer_ids_where_def
  producer_ids_where_def bob_consumer_def alice_producer_def hm_remove_all_def hm_remove_def hm_get_def

lemma bob_leaves:
  "fst (leave_meeting sample_ext ''bob'' ''m'' ''i2'' None (Some ''tb'') sample_sfu) =
   Ok \<lparr>lmr_response = ''Participant left the meeting'', lmr_send_signal = True\<rparr>"
  by (simp add: leave_meeting_def close_instance_def query_defs effect_defs delete_def participant_meeting_delete_def
      read_shard_run close_all_consumers_run push_user_session_event_def sample_defs)

text \<open>When \<open>bob\<close> leaves, his consumer and his transport go and the producer of \<open>alice\<close> stays.\<close>

theorem leave_meeting_clears_witness:
  "\<exists>s'. leave_meeting sample_ext ''bob'' ''m'' ''i2'' None (Some ''tb'') sample_sfu =
     (Ok \<lparr>lmr_response = ''Participant left the meeting'', lmr_send_signal = True\<rparr>, s') \<and>
   set (producer_map s') = {(''p1'', alice_producer)} \<and> set (shard_of sample_ext s' ''m'') = {} \<and>
   transport_map s' = [(''ta'', sample_transport ''ta'' ''alice'')]"
proof -
  obtain s' where run: "leave_meeting sample_ext ''bob'' ''m'' ''i2'' None (Some ''tb'') sample_sfu =
     (Ok \<lparr>lmr_response = ''Participant left the meeting'', lmr_send_signal = True\<rparr>, s')"
    using bob_leaves by (metis prod.collapse)
  note facts = leave_meeting_clears [OF sample_inv run]
  have "set (producer_map s') = {(''p1'', alice_producer)}"
    unfolding facts [THEN conjunct1] by (auto simp: sample_sfu_def owned_by_def alice_producer_def)
  moreover have "set (shard_of sample_ext s' ''m'') = {}"
    unfolding facts [THEN conjunct2, THEN conjunct1] by (auto simp: sample_defs consumed_by_def)
  moreover have "transport_map s' = [(''ta'', sample_transport ''ta'' ''alice'')]"
    unfolding facts [THEN conjunct2, THEN conjunct2, THEN conjunct2, THEN conjunct1]
    by (simp add: sample_defs opt_list_def)
  ultimately show ?thesis using run by blast
qed

lemma nobody_leaves:
  "leave_meeting sample_ext ''eve'' ''m'' ''i9'' None None (sample_sfu\<lparr>world := sample_start\<lparr>sw_affected := 0\<rparr>\<rparr>) =
   (Ok \<lparr>lmr_response = ''Participant not found in the meeting'', lmr_send_signal = False\<rparr>,
    sample_sfu\<lparr>world := sample_start\<lparr>sw_affected := 0, sw_pending := [], sw_committed :=
      [DeleteFrom ''participant_meeting'' (''meeting_id = '' @ quoted ''m'' @ '' and participant_id = '' @ quoted ''eve''
        @ '' and instance_id = '' @ quoted ''i9'')]\<rparr>\<rparr>)"
  by (simp add: leave_meeting_def effect_defs delete_def participant_meeting_delete_def sample_defs)


lemma meeting_ends:
  "fst (end_meeting sample_ext ''m'' [''r1''] [''ta''] [''alice''] sample_sfu) = Ok ''Success ended the meeting''"
  by (simp add: end_meeting_def query_defs effect_defs run_mutate_def mutate_def mutation_statement_def
      meeting_status_entity_def pick_statement_def meeting_status_delete_def read_shard_run close_all_consumers_run
      close_all_producers_in_memory_def stop_pipeline_def sample_gstreamer_def gstreamer_new_def sample_defs)

theorem end_meeting_clears_witness:
  "\<exists>s'. end_meeting sample_ext ''m'' [''r1''] [''ta''] [''alice''] sample_sfu = (Ok ''Success ended the meeting'', s') \<and>
   set (producer_map s') = {} \<and> set (shard_of sample_ext s' ''m'') = {} \<and> routers_map s' = []"
proof -
  obtain s' where run: "end_meeting sample_ext ''m'' [''r1''] [''ta''] [''alice''] sample_sfu =
     (Ok ''Success ended the meeting'', s')"
    using meeting_ends by (metis prod.collapse)
  note facts = end_meeting_clears [OF sample_inv run]
  have "set (producer_map s') = {}"
    unfolding facts [THEN conjunct1] by (auto simp: sample_sfu_def alice_producer_def)
  moreover have "set (shard_of sample_ext s' ''m'') = {}"
    unfolding facts [THEN conjunct2, THEN conjunct1] by (auto simp: sample_defs)
  moreover have "routers_map s' = []"
    unfolding facts [THEN conjunct2, THEN conjunct2, THEN conjunct2, THEN conjunct1] by (simp add: sample_defs)
  ultimately show ?thesis using run by blast
qed


end
