(* ===== verification/Database_Facts.thy ===== *)
theory Database_Facts
  imports Sample
begin

text \<open>
  What the statements of the entities promise, and what the transactions that run them promise.
\<close>

section \<open>Statements\<close>

text \<open>
  C23: The statement of a mutation. Whatever entity and mutation type, the statement that \<open>mutate\<close>
  runs names the entity's own table; and when no text field of the entity holds a quote character,
  the quotes of the statement are balanced (the second custom query apart).
\<close>

theorem mutation_statement_ok:
  assumes "mutation_statement d = Ok s"
  shows "sql_table s = dao_table d \<and>
    (get_mutation_type d \<noteq> CustomQuery2 \<longrightarrow> all_quote_free (dao_texts d) \<longrightarrow> sql_balanced s)"
  using assms dao.picked_table dao.picked_balanced unfolding mutation_statement_def by blast

theorem mutation_statement_ok_witness:
  "sql_table (DeleteFrom ''meeting_status'' (''meeting_id = '' @ quoted ''m'')) = ''meeting_status'' \<and>
   sql_balanced (DeleteFrom ''meeting_status'' (''meeting_id = '' @ quoted ''m''))"
  using mutation_statement_ok [of "D_MeetingStatus \<lparr>ms_mutation_type = Delete, ms_meeting_id = ''m'', ms_enabled = None\<rparr>"
      "DeleteFrom ''meeting_status'' (''meeting_id = '' @ quoted ''m'')"]
  by (simp add: mutation_statement_def pick_statement_def meeting_status_delete_def quote_free_def)

text \<open>
  The second custom query is never well formed. For every participant and meeting, the query that
  excludes a participant has an odd number of quotes, when the ids hold none: its closing quote is
  missing, so the server cannot run it.
\<close>

lemma custom_query2_unbalanced:
  assumes "get_custom_query2_string (D_ParticipantProducers d) = Ok s" and "all_quote_free (dao_texts (D_ParticipantProducers d))"
  shows "\<not> sql_balanced s"
  using assms by (auto simp: participant_producers_custom_query2_def balanced_simps split: option.splits)

text \<open>
  A producer's insert. It is built exactly when all six fields are there; a missing transport id
  alone is a panic, any other missing field the error \<open>Mandatory fields are missing\<close>.
\<close>

lemma producer_insert_cases:
  "(\<exists>s. participant_producers_insert d = Ok s) =
     (pp_kind d \<noteq> None \<and> pp_producers d \<noteq> None \<and> pp_producer_id d \<noteq> None \<and> pp_meeting_id d \<noteq> None \<and>
      pp_participant_id d \<noteq> None \<and> pp_transport_id d \<noteq> None) \<and>
   (participant_producers_insert d = Panic) =
     (pp_kind d \<noteq> None \<and> pp_producers d \<noteq> None \<and> pp_producer_id d \<noteq> None \<and> pp_meeting_id d \<noteq> None \<and>
      pp_participant_id d \<noteq> None \<and> pp_transport_id d = None)"
  by (auto simp: participant_producers_insert_def split: option.splits)

section \<open>Transactions\<close>

text \<open>
  C17: A mutation is atomic. When the server isolates transactions and commits do not fail, a mutation
  that does not succeed, by an error or by a panic, changes nothing that other sessions see; whatever
  the entities and whether duplicates roll back or are skipped.
\<close>

theorem mutate_failure_invisible:
  assumes "tx_isolated drv view" and "\<And>v. fst (d_commit drv v) = None"
    and "mutate drv ctx es w = (r, w')" and "\<And>a. r \<noteq> Ok a"
  shows "view w' = view w"
  using assms by (rule mutate.failure_invisible)

lemma sample_isolated: "tx_isolated sample_sql sw_committed"
proof -
  have "sw_committed (snd (sample_statement q w)) = sw_committed w" for q w
    by (simp split: list.splits option.splits)
  then show ?thesis by (simp add: tx_isolated_def del: sample_statement.simps)
qed

definition status_insert :: "string \<Rightarrow> dao" where
  "status_insert m = D_MeetingStatus \<lparr>ms_mutation_type = Insert, ms_meeting_id = m, ms_enabled = Some True\<rparr>"

lemma status_insert_statement:
  "mutation_statement (status_insert m) =
   Ok (InsertInto ''meeting_status (meeting_id, enabled)'' (''('' @ quoted m @ '','' @ show_bool True @ '')''))"
  by (simp add: mutation_statement_def pick_statement_def meeting_status_insert_def status_insert_def)

text \<open>Two inserts, the second a duplicate.\<close>

definition duplicate_second :: sample_world where
  "duplicate_second = sample_start\<lparr>sw_script := [None, Some (ServerError duplicate_code ''dup'')]\<rparr>"

theorem mutate_failure_invisible_witness:
  "sw_committed (snd (mutate sample_sql \<lparr>rollback_on_duplicate = True, tx_opts = DefaultTx\<rparr>
     [status_insert ''a'', status_insert ''b''] duplicate_second)) = []"
proof -
  let ?ctx = "\<lparr>rollback_on_duplicate = True, tx_opts = DefaultTx\<rparr>"
  obtain w' where run: "mutate sample_sql ?ctx [status_insert ''a'', status_insert ''b''] duplicate_second =
      (Err (MySqlError duplicate_code ''dup''), w')"
    by (simp add: mutate_def status_insert_statement duplicate_second_def sample_start_def)
  have "sw_committed w' = sw_committed duplicate_second"
    by (rule mutate_failure_invisible [OF sample_isolated _ run]) simp_all
  then show ?thesis by (simp only: run snd_conv) (simp add: duplicate_second_def sample_start_def)
qed

text \<open>
  C19: Skipping duplicates. With \<open>rollback_on_duplicate\<close> off, when every statement succeeds or is
  answered with the duplicate error and the commit succeeds, \<open>mutate\<close> runs all of them in order,
  commits, and its flag tells whether some statement was a duplicate.
\<close>

theorem mutate_skips_duplicates:
  assumes "build_all mutation_statement es = Ok qs" and "d_get_conn drv w = (None, w1)"
    and "d_start_tx drv opts w1 = (None, w2)" and "run_statements drv qs w2 = (rs, w3)"
    and "\<And>r. r \<in> set rs \<Longrightarrow> r = None \<or> is_duplicate r" and "d_commit drv w3 = (None, w4)"
  shows "mutate drv \<lparr>rollback_on_duplicate = False, tx_opts = opts\<rparr> es w =
    (Ok (''Success'', list_ex is_duplicate rs), w4)"
  using assms(1-3,6) mutate_loop_skips [OF assms(4,5), of False] by (simp add: mutate_def)

theorem mutate_skips_duplicates_witness:
  "\<exists>w. mutate sample_sql \<lparr>rollback_on_duplicate = False, tx_opts = DefaultTx\<rparr>
     [status_insert ''a'', status_insert ''b''] duplicate_second = (Ok (''Success'', True), w) \<and>
   length (sw_committed w) = 1"
proof -
  let ?q = "\<lambda>m. InsertInto ''meeting_status (meeting_id, enabled)'' (''('' @ quoted m @ '','' @ show_bool True @ '')'')"
  let ?w3 = "sample_start\<lparr>sw_script := [], sw_pending := [?q ''a'']\<rparr>"
  let ?w4 = "?w3\<lparr>sw_pending := [], sw_committed := [?q ''a'']\<rparr>"
  have "mutate sample_sql \<lparr>rollback_on_duplicate = False, tx_opts = DefaultTx\<rparr>
     [status_insert ''a'', status_insert ''b''] duplicate_second =
     (Ok (''Success'', list_ex is_duplicate [None, Some (ServerError duplicate_code ''dup'')]), ?w4)"
    by (rule mutate_skips_duplicates [where qs = "[?q ''a'', ?q ''b'']" and ?w1.0 = duplicate_second and
          ?w2.0 = duplicate_second and ?w3.0 = ?w3])
      (auto simp: status_insert_statement duplicate_second_def sample_start_def)
  then show ?thesis by (intro exI [of _ ?w4]) simp
qed

text \<open>
  C18: Strict mutations. With \<open>rollback_on_duplicate\<close> on, a mutation that succeeds has run every
  statement without any error, so the flag it returns is always false, and it ends in a commit that
  succeeded.
\<close>

theorem mutate_strict:
  assumes "mutate drv \<lparr>rollback_on_duplicate = True, tx_opts = opts\<rparr> es w = (Ok (t, dup), w')"
  shows "\<not> dup \<and> t = ''Success'' \<and> (\<exists>qs w2 rs w3. build_all mutation_statement es = Ok qs \<and>
    run_statements drv qs w2 = (rs, w3) \<and> (\<forall>r \<in> set rs. r = None) \<and> d_commit drv w3 = (None, w'))"
  using assms unfolding mutate_def
  by (auto split: outcome.splits prod.splits option.splits dest!: mutate_loop_strict)

theorem mutate_strict_witness:
  "\<exists>qs w2 rs w3. build_all mutation_statement [status_insert ''a''] = Ok qs \<and>
    run_statements sample_sql qs w2 = (rs, w3) \<and> (\<forall>r \<in> set rs. r = None) \<and>
    d_commit sample_sql w3 = (None, snd (mutate sample_sql \<lparr>rollback_on_duplicate = True, tx_opts = DefaultTx\<rparr>
      [status_insert ''a''] sample_start))"
proof -
  let ?m = "mutate sample_sql \<lparr>rollback_on_duplicate = True, tx_opts = DefaultTx\<rparr> [status_insert ''a''] sample_start"
  have "fst ?m = Ok (''Success'', False)"
    by (simp add: mutate_def status_insert_statement sample_start_def)
  then have "?m = (Ok (''Success'', False), snd ?m)" by (metis prod.collapse)
  from mutate_strict [OF this] show ?thesis by blast
qed

text \<open>
  A failing \<open>delete\<close> panics. Its documentation promises a rollback and an error; the code unwraps
  the result of every statement, so the first statement that fails makes the caller panic, and the
  transaction is dropped unseen by others.
\<close>

theorem delete_panics:
  assumes "tx_isolated drv view" and "build_all get_delete_string es = Ok (q # qs)" and "d_get_conn drv w = (None, w1)"
    and "d_start_tx drv DefaultTx w1 = (None, w2)" and "d_query_drop drv q w2 = (Some e, w3)"
  shows "\<exists>w'. delete drv es w = (Panic, w') \<and> view w' = view w"
proof -
  have "delete drv es w = (Panic, d_drop_tx drv w3)" using assms(2-5) by (simp add: delete_def)
  then show ?thesis using delete.op_panic [OF assms(1)] by blast
qed

theorem delete_panics_witness:
  "\<exists>w'. delete sample_sql [status_insert ''a''] (sample_start\<lparr>sw_script := [Some (OtherError ''gone'')]\<rparr>) = (Panic, w') \<and>
     sw_committed w' = []"
proof -
  let ?w = "sample_start\<lparr>sw_script := [Some (OtherError ''gone'')]\<rparr>"
  have "\<exists>w'. delete sample_sql [status_insert ''a''] ?w = (Panic, w') \<and> sw_committed w' = sw_committed ?w"
    by (rule delete_panics [OF sample_isolated, where q = "DeleteFrom ''meeting_status'' (''meeting_id = '' @ quoted ''a'')"
          and qs = "[]" and ?w1.0 = ?w and ?w2.0 = ?w and e = "OtherError ''gone''" and ?w3.0 = "?w\<lparr>sw_script := []\<rparr>"])
      (simp_all add: status_insert_def meeting_status_delete_def sample_start_def)
  then show ?thesis by (simp add: sample_start_def)
qed

end
