(* ===== verification/Stream_Facts.thy ===== *)
theory Stream_Facts
  imports Meeting_Facts
begin

text \<open>
  Properties of transports, producers and consumers: what each operation answers on every branch and
  what it leaves in the maps, with the combinator \<open>ends\<close> for what holds at the end of a computation.
\<close>

section \<open>Transports\<close>

text \<open>
  Connecting twice is no error. \<open>connect_transport\<close> succeeds when mediasoup connects the transport
  and when it answers that it is connected already; any other error, and a transport that is not in
  memory, is an error; the maps never change.
\<close>

lemma connect_transport_cases:
  "case connect_transport x p tid dtls s of (r, s') \<Rightarrow> same_but_world s s' \<and>
     (case hm_get (transport_map s) tid of
        None \<Rightarrow> r = Err ''Transport not found in memory''
      | Some t \<Rightarrow>
         (case fst (x_connect_transport (ext_ms x) (wt_id (tim_transport t)) dtls (world s)) of
            None \<Rightarrow> r = Ok ''Successfully connected producer transport''
          | Some (ResponseError reason shown) \<Rightarrow>
              if \<exists>a b. reason = a @ already_called @ b then r = Ok ''Transport already connected, ignoring''
              else r = Err (''Failure in connecting producer transport '' @ shown)
          | Some (OtherRequestError shown) \<Rightarrow> r = Err (''Failure in connecting producer transport '' @ shown)))"
  by (simp add: connect_transport_def and_then_def gets_def ret_def fail_def call_world_run str_contains_iff
      split: option.splits request_error.splits)

lemma restart_one_run:
  "\<exists>m' w. restart_one x tm t m s = (Ok m', s\<lparr>world := w\<rparr>) \<and>
     set (hm_keys m') \<subseteq> set (hm_keys m) \<union> {t' \<in> {t}. hm_get tm t' \<noteq> None}"
proof (cases "hm_get tm t")
  case None
  then show ?thesis by (intro exI [of _ m] exI [of _ "world s"]) (simp add: restart_one_def ret_def)
next
  case (Some tr)
  let ?c = "x_restart_ice (ext_ms x) (wt_id (tim_transport tr)) (world s)"
  show ?thesis
    using Some by (cases "fst ?c")
      (auto simp: restart_one_def and_then_def call_world_run ret_def hm_insert_def hm_keys_def hm_remove_def)
qed

text \<open>
  Restarting ICE never fails. Whatever the transports named, the answer is a success whose keys are
  named transports that are in memory; unknown transports and failed restarts are left out silently,
  and no map changes.
\<close>

lemma restart_ice_total:
  "\<exists>m w. restart_ice x p ts s = (Ok m, s\<lparr>world := w\<rparr>) \<and>
     set (hm_keys m) \<subseteq> {t \<in> set ts. hm_get (transport_map s) t \<noteq> None}"
proof -
  have "\<exists>m' w. for_each (restart_one x tm) ts m s = (Ok m', s\<lparr>world := w\<rparr>) \<and>
     set (hm_keys m') \<subseteq> set (hm_keys m) \<union> {t \<in> set ts. hm_get tm t \<noteq> None}" for tm m
  proof (induction ts arbitrary: m s)
    case Nil
    show ?case by (intro exI [of _ m] exI [of _ "world s"]) (simp add: ret_def)
  next
    case (Cons t ts)
    from restart_one_run [of x tm t m s] obtain m1 w1 where one: "restart_one x tm t m s = (Ok m1, s\<lparr>world := w1\<rparr>)"
      "set (hm_keys m1) \<subseteq> set (hm_keys m) \<union> {t' \<in> {t}. hm_get tm t' \<noteq> None}" by blast
    from Cons.IH [of m1 "s\<lparr>world := w1\<rparr>"] obtain m2 w2 where
      "for_each (restart_one x tm) ts m1 (s\<lparr>world := w1\<rparr>) = (Ok m2, s\<lparr>world := w2\<rparr>)"
      "set (hm_keys m2) \<subseteq> set (hm_keys m1) \<union> {t \<in> set ts. hm_get tm t \<noteq> None}" by auto
    with one show ?case by (intro exI [of _ m2] exI [of _ w2]) (auto simp: and_then_def)
  qed
  from this [of "transport_map s" "[]"] show ?thesis
    by (simp add: restart_ice_def and_then_def gets_def hm_keys_def)
qed

lemma join_run:
  "case remove_and_add_participant_to_meeting x p m i a b s of (r, s') \<Rightarrow>
     (case r of
        Ok _ \<Rightarrow> \<exists>ev w. s' = s\<lparr>world := w, user_channel := user_channel s @ [ev]\<rparr> \<and> ue_event_type ev = ''JOIN'' \<and>
          ue_user_id ev = p \<and> ue_meeting_id ev = m \<and> ue_instance_id ev = i
      | _ \<Rightarrow> same_but_world s s')"
proof -
  let ?es = "membership_entities p m i a b"
  obtain r w where mut: "run_mutate x False ?es s = (r, s\<lparr>world := w\<rparr>)"
    by (auto simp: run_mutate_def on_world_run)
  obtain ev v where ev: "push_user_session_event x p m ''JOIN'' i (s\<lparr>world := w\<rparr>) =
      (Ok () :: (unit, string) outcome, s\<lparr>world := v, user_channel := user_channel s @ [ev]\<rparr>)"
      "ue_user_id ev = p" "ue_meeting_id ev = m" "ue_event_type ev = ''JOIN''" "ue_instance_id ev = i"
    using push_event_run [of x p m "''JOIN''" i "s\<lparr>world := w\<rparr>"] by auto
  show ?thesis
    using mut ev by (cases r)
      (auto simp: remove_and_add_participant_to_meeting_def and_then_def attempt_def ret_def fail_def)
qed

text \<open>
  Joining and its event. When the participant is written to the database, one \<open>JOIN\<close> event for it
  is pushed and nothing else changes; on every other outcome nothing changes and no event is pushed.
\<close>

lemma join_event:
  "case remove_and_add_participant_to_meeting x p m i a b s of (r, s') \<Rightarrow>
     (case r of
        Ok _ \<Rightarrow> \<exists>ev w. s' = s\<lparr>world := w, user_channel := user_channel s @ [ev]\<rparr> \<and> ue_event_type ev = ''JOIN'' \<and>
          ue_user_id ev = p \<and> ue_meeting_id ev = m \<and> ue_instance_id ev = i
      | _ \<Rightarrow> same_but_world s s')"
  by (rule join_run)

text \<open>
  C39: The query that should leave a participant out. \<open>get_producers_of_meeting_excluding_participant\<close>
  runs the same statement as \<open>get_producers_of_meeting\<close> and answers the same, so the participant's own
  producers are in the answer.
\<close>

theorem excluding_participant_excludes_nobody:
  "get_producers_of_meeting_excluding_participant x m p s = get_producers_of_meeting x m s"
  by (simp add: get_producers_of_meeting_excluding_participant_def get_producers_of_meeting_def query_def
      participant_producers_query_def on_world_def zoom_def)

section \<open>Keeping old transports\<close>

definition has_transports :: "string set \<Rightarrow> 'w sfu \<Rightarrow> bool" where
  "has_transports K s \<longleftrightarrow> (\<forall>k \<in> K. hm_get (transport_map s) k \<noteq> None)"

lemma keeps_has_close_producers [keeps_intros]: "keeps (has_transports K) (close_producers_loop ps ids)"
proof (induction ids)
  case Nil
  then show ?case by (simp add: keeps_intros)
next
  case (Cons a ids)
  show ?case
    unfolding close_producers_loop.simps
    by (intro keeps_intros Cons keeps_modify)
      (use Cons in \<open>auto simp: has_transports_def split: list.splits intro!: keeps_intros keeps_modify\<close>)
qed

lemma keeps_has_world [keeps_intros]:
  "keeps (has_transports K) (on_world w)" "keeps (has_transports K) (call_world f)"
  by (simp_all add: keeps_def on_world_run call_world_run has_transports_def)

lemma keeps_has_calls [keeps_intros]:
  "keeps (has_transports K) (call_result pre f)" "keeps (has_transports K) (call_unit pre u)"
  unfolding call_result_def call_unit_def by (intro keeps_intros)+

lemma keeps_has_remove_participants [keeps_intros]:
  "keeps (has_transports K) (remove_participants_from_pipeline x ids m)"
  by (rule keepsI) (auto simp: has_transports_def dest!: remove_participants_run)

lemma keeps_has_close_older [keeps_intros]: "keeps (has_transports K) (close_older_instances x p m i)"
proof -
  have "keeps (has_transports K) (read_shard x m)" "keeps (has_transports K) (close_all_consumers_in_memory x ids m)" for ids
    by (auto simp: keeps_def read_shard_run close_all_consumers_run has_transports_def split: if_splits)
  then show ?thesis
    unfolding close_older_instances_def query_defs close_all_producers_in_memory_def by (intro keeps_intros)
qed

lemma keeps_has_db_failure [keeps_intros]: "keeps (has_transports K) (transport_db_failure p m k e)"
  unfolding transport_db_failure_def by (cases e) (auto intro!: keeps_intros)

lemma keeps_has_create [keeps_intros]:
  "keeps (has_transports K) (create_producer_transport x r p m None None)"
proof -
  have "keeps (has_transports K) (create_transport x r)" "keeps (has_transports K) (set_bitrates x t)" for t
    unfolding create_transport_def set_bitrates_def by (intro keeps_intros)+
  then show ?thesis
    unfolding create_producer_transport_def run_mutate_def
    by (intro keeps_intros keeps_modify) (auto simp: has_transports_def remove_option_def hm_simps)
qed

text \<open>
  C24: A known participant keeps its transports. When the membership of the participant was already
  there (the flag of \<open>remove_and_add_participant_to_meeting\<close> is false), recreating the producer
  transport removes no transport from memory, whatever old transports the request names and however
  the request ends. The documentation of the flag says the opposite.
\<close>

theorem known_participant_keeps_transports:
  assumes "remove_and_add_participant_to_meeting x p m i (Some r) None (snd (lock_entry p s :: (unit, string) outcome \<times> 'w sfu)) =
      (Ok (t, False), s1)"
    and "recreate_producer_transport_helper x p m i r old_p old_c s = (res, s')"
    and "hm_get (transport_map s) k \<noteq> None"
  shows "hm_get (transport_map s') k \<noteq> None"
proof -
  from join_run [where x = x and p = p and m = m and i = i and a = "Some r" and b = None and
      s = "snd (lock_entry p s :: (unit, string) outcome \<times> 'w sfu)"] assms(1)
  have "transport_map s1 = transport_map s"
    by (auto simp: lock_entry_def modify_def)
  then have "has_transports {k} s1" using assms(3) by (simp add: has_transports_def)
  moreover have "recreate_producer_transport x p m None None r i s1 = (res, s')"
    using assms(1,2)
    by (simp add: recreate_producer_transport_helper_def and_then_def lock_entry_def modify_def map_err_def Let_def)
  moreover have "keeps (has_transports {k}) (recreate_producer_transport x p m None None r i)"
    unfolding recreate_producer_transport_def by (intro keeps_intros)
  ultimately have "has_transports {k} s'" by (meson keepsD)
  then show ?thesis by (simp add: has_transports_def)
qed

definition known_alice :: "sample_world sfu" where
  "known_alice = sample_sfu\<lparr>world := sample_start\<lparr>sw_script := [None, Some (ServerError duplicate_code ''dup'')]\<rparr>\<rparr>"

lemma known_alice_membership:
  "fst (remove_and_add_participant_to_meeting sample_ext ''alice'' ''m'' ''i1'' (Some ''r1'') None
     (snd (lock_entry ''alice'' known_alice :: (unit, string) outcome \<times> sample_world sfu))) =
   Ok (''Success in writing to DB'', False)"
  by (simp add: remove_and_add_participant_to_meeting_def lock_entry_def hm_entry_def effect_defs run_mutate_def mutate_def
      membership_entities_def mutation_statement_def pick_statement_def participant_meeting_custom_query1_def
      participant_meeting_insert_def participant_producer_router_insert_def push_user_session_event_def
      known_alice_def sample_defs)

theorem known_participant_keeps_transports_witness:
  "hm_get (transport_map (snd (recreate_producer_transport_helper sample_ext ''alice'' ''m'' ''i1'' ''r1''
     (Some ''ta'') None known_alice))) ''ta'' \<noteq> None"
proof -
  let ?join = "remove_and_add_participant_to_meeting sample_ext ''alice'' ''m'' ''i1'' (Some ''r1'') None
     (snd (lock_entry ''alice'' known_alice :: (unit, string) outcome \<times> sample_world sfu))"
  have "?join = (Ok (''Success in writing to DB'', False), snd ?join)"
    using known_alice_membership by (metis prod.collapse)
  from known_participant_keeps_transports [OF this prod.collapse [symmetric]] show ?thesis
    by (simp add: known_alice_def sample_sfu_def hm_get_def)
qed

section \<open>Producers\<close>

text \<open>
  Producing again. When the participant already has a producer of the kind in the meeting,
  \<open>create_producer\<close> answers that one and touches nothing outside: no call of mediasoup, no
  statement, no recording; only the lock of the meeting is entered.
\<close>

lemma create_producer_again:
  assumes "find_producer p m k (producer_map s) = Some d"
  shows "create_producer x p rtp k m r rs t start_rec i s = (Ok d, s\<lparr>lock_map := hm_entry m () (lock_map s)\<rparr>)"
  using assms by (simp add: create_producer_def and_then_def lock_entry_def modify_def gets_def ret_def)

text \<open>What a new producer leaves unchanged before it is stored.\<close>

definition same_streams :: "'w sfu \<Rightarrow> 'w sfu \<Rightarrow> bool" where
  "same_streams s0 s \<longleftrightarrow> producer_map s = producer_map s0 \<and> plain_transport_map s = plain_transport_map s0 \<and>
     plain_transport_consumer_map s = plain_transport_consumer_map s0 \<and> transport_map s = transport_map s0 \<and>
     routers_map s = routers_map s0 \<and> consumer_map_shards s = consumer_map_shards s0 \<and>
     config s = config s0 \<and> user_channel s = user_channel s0"

lemma keeps_streams_world [keeps_intros]:
  "keeps (same_streams s0) (on_world w)" "keeps (same_streams s0) (call_world f)"
  by (simp_all add: keeps_def on_world_run call_world_run same_streams_def)

lemma keeps_streams_calls [keeps_intros]:
  "keeps (same_streams s0) (call_result pre f)" "keeps (same_streams s0) (call_unit pre u)"
  unfolding call_result_def call_unit_def by (intro keeps_intros)+

lemma keeps_streams_run_recorder [keeps_intros]: "keeps (same_streams s0) (run_recorder rec x g p m i t)"
  by (rule keepsI) (auto simp: run_recorder_def share_inner_def same_streams_def
      split: prod.splits sum.splits option.splits)

lemma keeps_streams_first_free [keeps_intros]: "keeps (same_streams s0) (first_free y ps)"
  by (induction ps) (auto intro!: keeps_intros)

lemma keeps_streams_build [keeps_intros]: "keeps (same_streams s0) (build_recording y g m p t k)"
  unfolding build_recording_def get_free_video_port_def get_free_audio_port_def by (intro keeps_intros)

lemma keeps_streams_undo [keeps_intros]: "keeps (same_streams s0) (undo_recording y m p k o1 pl)"
  by (rule keepsI) (auto simp: undo_recording_def and_then_def with_pipeline_def same_streams_def call_world_run ret_def
      split: option.splits prod.splits outcome.splits)

lemma keeps_streams_record [keeps_intros]: "keeps (same_streams s0) (record_producer y rm m p r i k)"
  unfolding record_producer_def start_recording_def create_folder_def Let_def by (intro keeps_intros)

lemma keeps_streams_pipe [keeps_intros]: "keeps (same_streams s0) (pipe_to_routers y rm r i rs)"
  by (induction rs) (auto intro!: keeps_intros)

text \<open>A computation that keeps a condition until its last step: what holds of its result.\<close>

definition ends :: "('s \<Rightarrow> bool) \<Rightarrow> ('s, 'a, 'e) eff \<Rightarrow> (('a, 'e) outcome \<Rightarrow> 's \<Rightarrow> bool) \<Rightarrow> bool" where
  "ends I m P \<longleftrightarrow> (\<forall>s r s'. I s \<longrightarrow> m s = (r, s') \<longrightarrow> P r s')"

lemma endsD: "ends I m P \<Longrightarrow> I s \<Longrightarrow> m s = (r, s') \<Longrightarrow> P r s'"
  unfolding ends_def by blast

lemma ends_and_then:
  assumes "keeps I m" and "\<And>s r. I s \<Longrightarrow> (\<And>a. r \<noteq> Ok a) \<Longrightarrow> P r s"
    and "\<And>s a s'. m s = (Ok a, s') \<Longrightarrow> Q a" and "\<And>a. Q a \<Longrightarrow> ends I (f a) P"
  shows "ends I (and_then m f) P"
  unfolding ends_def
proof (intro allI impI)
  fix s r s'
  assume "I s" and run: "and_then m f s = (r, s')"
  obtain r1 s1 where m: "m s = (r1, s1)" by fastforce
  have "I s1" by (rule keepsD [OF assms(1) \<open>I s\<close> m])
  show "P r s'"
  proof (cases r1)
    case (Ok a)
    from endsD [OF assms(4) [OF assms(3) [OF m [unfolded Ok]]] \<open>I s1\<close>] show ?thesis
      using run m Ok by (simp add: and_then_def)
  qed (use run m assms(2) [OF \<open>I s1\<close>] in \<open>auto simp: and_then_def\<close>)
qed

lemma ends_bind:
  assumes "keeps I m" and "\<And>s r. I s \<Longrightarrow> (\<And>a. r \<noteq> Ok a) \<Longrightarrow> P r s" and "\<And>a. ends I (f a) P"
  shows "ends I (and_then m f) P"
  by (rule ends_and_then [where Q = "\<lambda>_. True"]) (simp_all add: assms)

text \<open>A new producer reaches its last step with the streams unchanged, or fails with them unchanged.\<close>

definition stored_end :: "'w sfu \<Rightarrow> (string \<Rightarrow> producer_in_memory) \<Rightarrow> bool \<Rightarrow>
    (producer_detail, string) outcome \<Rightarrow> 'w sfu \<Rightarrow> bool" where
  "stored_end s0 p start_rec res s' \<longleftrightarrow>
     (case res of
        Ok d \<Rightarrow> \<exists>pid rec s1. same_streams s0 s1 \<and> start_rec = (rec \<noteq> None) \<and>
          d = \<lparr>pd_producer_id = pid, pd_participant_id = pim_participant_id (p pid), pd_kind = pim_kind (p pid)\<rparr> \<and>
          s' = store_producer pid (p pid) rec s1
      | _ \<Rightarrow> same_streams s0 s')"

lemma stored_end_early: "same_streams s0 s \<Longrightarrow> (\<And>a. res \<noteq> Ok a) \<Longrightarrow> stored_end s0 q start_rec res s"
  by (cases res) (auto simp: stored_end_def)

lemma ends_finish_producer:
  assumes "start_rec = (rec \<noteq> None)"
  shows "ends (same_streams s0) (finish_producer x pid t (p pid) rec) (stored_end s0 p start_rec)"
  unfolding ends_def
proof (intro allI impI)
  fix s r s'
  assume s: "same_streams s0 s" and run: "finish_producer x pid t (p pid) rec s = (r, s')"
  let ?es = "[D_ParticipantProducers \<lparr>pp_mutation_type = Insert, pp_participant_id = Some (pim_participant_id (p pid)),
    pp_producers = Some 1, pp_kind = Some (pim_kind (p pid)), pp_producer_id = Some pid,
    pp_meeting_id = Some (pim_meeting_id (p pid)), pp_transport_id = Some t\<rparr>]"
  obtain r1 w where mut: "run_mutate x True ?es s = (r1, s\<lparr>world := w\<rparr>)"
    by (auto simp: run_mutate_def on_world_run)
  have s1: "same_streams s0 (s\<lparr>world := w\<rparr>)" using s by (simp add: same_streams_def)
  show "stored_end s0 p start_rec r s'"
  proof (cases r1)
    case (Ok a)
    with run mut have "r = Ok \<lparr>pd_producer_id = pid, pd_participant_id = pim_participant_id (p pid), pd_kind = pim_kind (p pid)\<rparr>"
      "s' = store_producer pid (p pid) rec (s\<lparr>world := w\<rparr>)"
      by (auto simp: finish_producer_def and_then_def attempt_def modify_def ret_def)
    then show ?thesis using s1 assms by (simp add: stored_end_def) blast
  next
    case (Err e)
    with run mut have "same_streams s0 s' \<and> (\<exists>e. r = Err e)"
      using s1 by (auto simp: finish_producer_def and_then_def attempt_def modify_def fail_def same_streams_def
          split: option.splits prod.splits)
    then show ?thesis by (auto simp: stored_end_def)
  next
    case Panic
    with run mut s1 show ?thesis by (auto simp: finish_producer_def and_then_def attempt_def stored_end_def)
  qed
qed

lemma ends_produce_on:
  "ends (same_streams s0) (produce_on x p rtp k m r rs t start_rec i tr)
     (stored_end s0 (\<lambda>pid. \<lparr>pim_producer = pid, pim_meeting_id = m, pim_participant_id = p, pim_kind = k,
        pim_instance_id = i\<rparr>) start_rec)"
  unfolding produce_on_def
  apply (rule ends_bind, intro keeps_intros, rule stored_end_early, assumption, assumption)
  apply (rule ends_bind, intro keeps_intros, rule stored_end_early, assumption, assumption)
  apply (rule ends_bind, intro keeps_intros, rule stored_end_early, assumption, assumption)
  apply (rule ends_and_then [where Q = "\<lambda>rec. start_rec = (rec \<noteq> None)"], intro keeps_intros,
      rule stored_end_early, assumption, assumption)
   apply (auto simp: run_iffs ret_def split: if_splits) []
  apply (rule ends_bind, intro keeps_intros, rule stored_end_early, assumption, assumption)+
  apply (erule ends_finish_producer [where p = "\<lambda>pid. \<lparr>pim_producer = pid, pim_meeting_id = m,
        pim_participant_id = p, pim_kind = k, pim_instance_id = i\<rparr>"])
  done

lemma ends_create_new_producer:
  "ends (same_streams s0) (create_new_producer x p rtp k m r rs t start_rec i)
     (stored_end s0 (\<lambda>pid. \<lparr>pim_producer = pid, pim_meeting_id = m, pim_participant_id = p, pim_kind = k,
        pim_instance_id = i\<rparr>) start_rec)"
  unfolding create_new_producer_def
  by (rule ends_bind, intro keeps_intros, rule stored_end_early, assumption, assumption)+ (rule ends_produce_on)

lemma create_producer_end:
  assumes "find_producer p m k (producer_map s) = None"
    and "create_producer x p rtp k m r rs t start_rec i s = (res, s')"
  shows "stored_end s (\<lambda>pid. \<lparr>pim_producer = pid, pim_meeting_id = m, pim_participant_id = p, pim_kind = k,
        pim_instance_id = i\<rparr>) start_rec res s'"
proof -
  let ?s = "s\<lparr>lock_map := hm_entry m () (lock_map s)\<rparr>"
  have run: "create_new_producer x p rtp k m r rs t start_rec i ?s = (res, s')"
    using assms by (simp add: create_producer_def and_then_def lock_entry_def modify_def gets_def)
  have "same_streams s ?s" by (simp add: same_streams_def)
  from endsD [OF ends_create_new_producer this run] show ?thesis .
qed

text \<open>
  C2: A new producer. When the participant has none of the kind in the meeting and the answer is a
  success, the producer map has gained exactly one entry, under the id of the answer and with the
  names of the request; with recording asked for, its plain transport and the consumer of it are
  stored under the same id and the meeting has a pipeline; without, those maps are as before.
\<close>

theorem create_producer_stores:
  assumes "find_producer p m k (producer_map s) = None"
    and "create_producer x p rtp k m r rs t start_rec i s = (Ok d, s')"
  shows "pd_participant_id d = p \<and> pd_kind d = k \<and>
    producer_map s' = hm_insert (pd_producer_id d) \<lparr>pim_producer = pd_producer_id d, pim_meeting_id = m,
      pim_participant_id = p, pim_kind = k, pim_instance_id = i\<rparr> (producer_map s) \<and>
    (if start_rec then hm_get (plain_transport_map s') (pd_producer_id d) \<noteq> None \<and>
        hm_get (plain_transport_consumer_map s') (pd_producer_id d) \<noteq> None \<and> hm_get (pipeline_map s') m \<noteq> None
     else plain_transport_map s' = plain_transport_map s \<and>
        plain_transport_consumer_map s' = plain_transport_consumer_map s)"
proof -
  from create_producer_end [OF assms] obtain pid rec s1 where s1: "same_streams s s1" and rec: "start_rec = (rec \<noteq> None)"
    and d: "d = \<lparr>pd_producer_id = pid, pd_participant_id = p, pd_kind = k\<rparr>"
    and s': "s' = store_producer pid \<lparr>pim_producer = pid, pim_meeting_id = m, pim_participant_id = p, pim_kind = k,
        pim_instance_id = i\<rparr> rec s1"
    unfolding stored_end_def by auto
  show ?thesis
  proof (cases rec)
    case None
    then show ?thesis using s1 rec by (simp add: d s' store_producer_def Let_def same_streams_def)
  next
    case (Some a)
    obtain g pt c where "a = (g, pt, c)" by (cases a)
    then show ?thesis using s1 rec Some by (simp add: d s' store_producer_def adopt_pipeline_def Let_def same_streams_def hm_simps)
  qed
qed

text \<open>
  C3: A producer that could not be created. When the answer is an error or the handler panics, no
  stream of the server has changed: producers, plain transports and their consumers, transports,
  routers and consumers are what they were, and no event was pushed.
\<close>

theorem create_producer_failure:
  assumes "find_producer p m k (producer_map s) = None"
    and "create_producer x p rtp k m r rs t start_rec i s = (res, s')" and "\<And>d. res \<noteq> Ok d"
  shows "same_streams s s'"
  using create_producer_end [OF assms(1,2)] assms(3) unfolding stored_end_def by (cases res) auto

lemmas build_defs =
  start_vp8_recording_def pipeline_of_def make_video_source_def make_video_rtcp_source_def must_def must_have_def
  set_properties_def on_gst_world_def touch_gst_world_def set_inner_def shared_video_tail_def shared_element_def
  shared_split_mux_def shared_rtp_bin_def make_or_def element_name_def shared_name_def rtp_caps_def raw_caps_def
  add_source_def add_video_tail_def add_new_def link_video_source_def link_video_tail_def split_video_pad_def
  session_of_def store_session_def attach_def expect_some_def expect_done_def chunk_file_def
  strip_prefix_def starts_with_def parse_show_unsigned inner_new_def

lemma alice_shares:
  "fst (create_producer sample_ext ''alice'' ''rtp'' ''screenshare'' ''m'' ''r1'' (Some [''r1'']) ''ta'' True ''i1'' sample_sfu) =
   Ok \<lparr>pd_producer_id = ''p'', pd_participant_id = ''alice'', pd_kind = ''screenshare''\<rparr>"
  by (simp add: create_producer_def create_new_producer_def produce_on_def record_producer_def start_recording_def build_recording_def
      create_folder_def get_free_video_port_def run_recorder_def share_inner_def shared_inner_def build_defs call_result_def
      call_unit_def effect_defs from_result_def hm_insert_def lock_entry_def find_producer_def parse_kind_def to_lowercase_def lower_char_def
      finish_producer_def run_mutate_def mutate_def mutation_statement_def pick_statement_def
      participant_producers_insert_def sample_config_def sfu_config_default_def port_range_def sample_gstreamer_def
      gstreamer_new_def Let_def sample_transport_def sample_defs upt_rec)

theorem create_producer_stores_witness:
  "\<exists>s'. create_producer sample_ext ''alice'' ''rtp'' ''screenshare'' ''m'' ''r1'' (Some [''r1'']) ''ta'' True ''i1'' sample_sfu =
     (Ok \<lparr>pd_producer_id = ''p'', pd_participant_id = ''alice'', pd_kind = ''screenshare''\<rparr>, s') \<and>
   length (producer_map s') = 2 \<and> hm_get (plain_transport_map s') ''p'' \<noteq> None"
proof -
  let ?run = "create_producer sample_ext ''alice'' ''rtp'' ''screenshare'' ''m'' ''r1'' (Some [''r1'']) ''ta'' True ''i1'' sample_sfu"
  have run: "?run = (Ok \<lparr>pd_producer_id = ''p'', pd_participant_id = ''alice'', pd_kind = ''screenshare''\<rparr>, snd ?run)"
    using alice_shares by (metis prod.collapse)
  have none: "find_producer ''alice'' ''m'' ''screenshare'' (producer_map sample_sfu) = None"
    by (simp add: find_producer_def sample_defs)
  note facts = create_producer_stores [OF none run]
  have "length (producer_map (snd ?run)) = 2"
    unfolding facts [THEN conjunct2, THEN conjunct2, THEN conjunct1] by (simp add: sample_defs hm_insert_def)
  moreover have "hm_get (plain_transport_map (snd ?run)) ''p'' \<noteq> None"
    using facts [THEN conjunct2, THEN conjunct2, THEN conjunct2] by simp
  ultimately show ?thesis using run by blast
qed

lemma unknown_kind:
  "fst (create_producer sample_ext ''alice'' ''rtp'' ''smell'' ''m'' ''r1'' None ''ta'' True ''i1'' sample_sfu) =
   Err (''Failed to parse kind: '' @ quoted ''smell'' @ '' is not a valid color'')"
  by (simp add: create_producer_def create_new_producer_def produce_on_def effect_defs from_result_def lock_entry_def
      find_producer_def parse_kind_def to_lowercase_def lower_char_def Let_def sample_transport_def sample_defs)

theorem create_producer_failure_witness:
  "same_streams sample_sfu (snd (create_producer sample_ext ''alice'' ''rtp'' ''smell'' ''m'' ''r1'' None ''ta'' True ''i1'' sample_sfu))"
proof -
  let ?run = "create_producer sample_ext ''alice'' ''rtp'' ''smell'' ''m'' ''r1'' None ''ta'' True ''i1'' sample_sfu"
  have none: "find_producer ''alice'' ''m'' ''smell'' (producer_map sample_sfu) = None"
    by (simp add: find_producer_def sample_defs)
  from create_producer_failure [OF none prod.collapse [symmetric], of sample_ext "''rtp''" "''r1''" None "''ta''" True "''i1''"]
  show ?thesis using unknown_kind by auto
qed

text \<open>
  Resuming producers. A success names every producer of the request, in its order and with its
  kinds, and every one of them is in memory; a request whose first producer is not in memory
  panics. The maps never change.
\<close>

theorem resume_producer_answers:
  "case resume_producer x p ids s of (r, s') \<Rightarrow> same_but_world s s' \<and>
     (\<forall>ds. r = Ok ds \<longrightarrow>
        ds = map (\<lambda>e. \<lparr>pd_producer_id = fst e, pd_participant_id = p, pd_kind = snd e\<rparr>) ids \<and>
        (\<forall>e \<in> set ids. hm_get (producer_map s) (fst e) \<noteq> None)) \<and>
     (\<forall>e rest. ids = e # rest \<and> hm_get (producer_map s) (fst e) = None \<longrightarrow> r = Panic)"
proof -
  let ?f = "set_producer_state (x_resume_producer (ext_ms x)) p"
  have loop: "for_each (?f pm) ids acc s = (Ok ds, s') \<Longrightarrow>
     ds = acc @ map (\<lambda>e. \<lparr>pd_producer_id = fst e, pd_participant_id = p, pd_kind = snd e\<rparr>) ids \<and>
     (\<forall>e \<in> set ids. hm_get pm (fst e) \<noteq> None)" for pm acc ds s'
  proof (induction ids arbitrary: acc s)
    case Nil
    then show ?case by (simp add: ret_def)
  next
    case (Cons e ids)
    from Cons.prems obtain acc1 s1 where one: "?f pm e acc s = (Ok acc1, s1)"
      and rest: "for_each (?f pm) ids acc1 s1 = (Ok ds, s')" by (auto simp: run_iffs)
    from one have "acc1 = acc @ [\<lparr>pd_producer_id = fst e, pd_participant_id = p, pd_kind = snd e\<rparr>]"
      "hm_get pm (fst e) \<noteq> None" by (auto simp: set_producer_state_def run_iffs ret_def)
    with Cons.IH [OF rest] show ?case by simp
  qed
  have "keeps (same_but_world s) (resume_producer x p ids)"
    unfolding resume_producer_def set_producer_state_def by (intro keeps_intros)
  then have "same_but_world s (snd (resume_producer x p ids s))"
    by (rule keepsD) (auto intro: prod.collapse [symmetric])
  obtain r s' where run: "resume_producer x p ids s = (r, s')" by fastforce
  have eq: "resume_producer x p ids s = for_each (?f (producer_map s)) ids [] s"
    by (simp add: resume_producer_def and_then_def gets_def)
  have "fst (for_each (?f (producer_map s)) (e # rest) [] s) = Panic"
    if "hm_get (producer_map s) (fst e) = None" for e rest
    using that by (simp add: set_producer_state_def and_then_def unwrap_def panic_def)
  then have "r = Panic" if "ids = e # rest" "hm_get (producer_map s) (fst e) = None" for e rest
    using that run eq by (metis fst_conv)
  moreover have "ds = map (\<lambda>e. \<lparr>pd_producer_id = fst e, pd_participant_id = p, pd_kind = snd e\<rparr>) ids \<and>
      (\<forall>e \<in> set ids. hm_get (producer_map s) (fst e) \<noteq> None)" if "r = Ok ds" for ds
    using loop [of "producer_map s" "[]" ds s'] run eq that by simp
  ultimately show ?thesis
    using \<open>same_but_world s (snd (resume_producer x p ids s))\<close> unfolding run prod.case snd_conv by blast
qed

theorem resume_producer_answers_witness:
  "resume_producer sample_ext ''alice'' [(''p1'', ''video'')] sample_sfu =
     (Ok [\<lparr>pd_producer_id = ''p1'', pd_participant_id = ''alice'', pd_kind = ''video''\<rparr>], sample_sfu) \<and>
   (\<exists>s'. resume_producer sample_ext ''alice'' [(''p9'', ''video'')] sample_sfu = (Panic, s'))"
proof -
  have "fst (resume_producer sample_ext ''alice'' [(''p1'', ''video'')] sample_sfu) =
      Ok [\<lparr>pd_producer_id = ''p1'', pd_participant_id = ''alice'', pd_kind = ''video''\<rparr>]"
   "snd (resume_producer sample_ext ''alice'' [(''p1'', ''video'')] sample_sfu) = sample_sfu"
    by (simp_all add: resume_producer_def set_producer_state_def effect_defs call_unit_def sample_defs hm_get_def)
  moreover have "\<exists>s'. resume_producer sample_ext ''alice'' [(''p9'', ''video'')] sample_sfu = (Panic, s')"
  proof -
    have "hm_get (producer_map sample_sfu) ''p9'' = None" by (simp add: sample_defs)
    then show ?thesis
      using resume_producer_answers [where x = sample_ext and p = "''alice''" and ids = "[(''p9'', ''video'')]" and s = sample_sfu]
      by (cases "resume_producer sample_ext ''alice'' [(''p9'', ''video'')] sample_sfu") simp
  qed
  ultimately show ?thesis by (simp add: prod_eq_iff)
qed

section \<open>Consumers\<close>

definition answered :: "(string, (string, consumer_handle) hmap) hmap \<Rightarrow> (string \<times> string) set" where
  "answered m = {(t, k). \<exists>ks. hm_get m t = Some ks \<and> hm_get ks k \<noteq> None}"

lemma answered_add: "answered (add_result t k c m) = insert (t, k) (answered m)"
  by (auto simp: answered_def add_result_def hm_simps hm_get_def [of "[]"] split: if_splits option.splits)

lemma request_consumer_answers:
  assumes "request_consumer x p m i t tid caps existing req acc s = (Ok acc', s')"
  shows "answered (cb_result acc') = insert (stream_of req) (answered (cb_result acc))"
proof -
  obtain target knd pid where req: "req = (target, knd, pid)" by (cases req)
  show ?thesis
    using assms by (auto simp: req request_consumer_def run_iffs ret_def fail_def answered_add split: list.splits)
qed

text \<open>
  C4: The answer to a consume request. A success has a consumer for every requested stream and for no
  other: the pairs of target and kind in the answer are exactly the requested ones.
\<close>

theorem create_consumer_answers:
  assumes "create_consumer x p tid ts caps m i s = (Ok res, s')"
  shows "answered res = stream_of ` set (requested ts)"
proof -
  have loop: "for_each (request_consumer x p m i t tid caps existing) reqs acc s = (Ok acc', s1) \<Longrightarrow>
      answered (cb_result acc') = stream_of ` set reqs \<union> answered (cb_result acc)" for t existing reqs acc acc' s s1
  proof (induction reqs arbitrary: acc s)
    case Nil
    then show ?case by (simp add: ret_def)
  next
    case (Cons a reqs)
    then obtain acc1 s2 where one: "request_consumer x p m i t tid caps existing a acc s = (Ok acc1, s2)"
      and rest: "for_each (request_consumer x p m i t tid caps existing) reqs acc1 s2 = (Ok acc', s1)"
      by (auto simp: run_iffs)
    from request_consumer_answers [OF one] Cons.IH [OF rest] show ?case by auto
  qed
  have none: "answered [] = {}" by (simp add: answered_def hm_get_def)
  let ?P = "\<lambda>r s'. \<forall>res. r = Ok res \<longrightarrow> answered res = stream_of ` set (requested ts)"
  have last: "ends (\<lambda>_. True) (case r of Inr _ \<Rightarrow> and_then (write_shard x m f) (\<lambda>_. ret a)
       | Inl e \<Rightarrow> fail (g e)) ?P" if "answered a = stream_of ` set (requested ts)"
    for r :: "db_error + (string \<times> bool)" and f and a and g :: "db_error \<Rightarrow> string"
    using that by (cases r) (auto simp: ends_def and_then_def write_shard_run ret_def fail_def)
  have mid: "answered (cb_result b) = stream_of ` set (requested ts)"
    if "for_each (request_consumer x p m i t tid caps existing) (requested ts)
       \<lparr>cb_new = [], cb_entities = [], cb_result = []\<rparr> s = (Ok b, s1)" for t existing s b s1
    using loop [OF that] none by simp
  have "ends (\<lambda>_. True) (create_consumer x p tid ts caps m i) ?P"
    unfolding create_consumer_def
    apply (rule ends_bind, simp add: keeps_def, simp)
    apply (rule ends_bind, simp add: keeps_def, simp)
    apply (rule ends_bind, simp add: keeps_def, simp)
    apply (rule ends_and_then [where Q = "\<lambda>b. answered (cb_result b) = stream_of ` set (requested ts)"],
        simp add: keeps_def, simp)
     apply (drule mid, simp)
    apply (rule ends_bind, simp add: keeps_def, simp)
    apply (erule last)
    done
  from endsD [OF this _ assms] show ?thesis by simp
qed

lemma bob_consumes:
  "fst (create_consumer sample_ext ''bob'' ''tb'' [(''alice'', [(''video'', ''p1''), (''audio'', ''p2'')])] ''caps'' ''m'' ''i2'' sample_sfu) =
    Ok [(''alice'', [(''audio'', \<lparr>co_id = ''c'', co_producer_id = ''p2'', co_rtp_parameters = ''rtp''\<rparr>),
        (''video'', \<lparr>co_id = ''c1'', co_producer_id = ''p1'', co_rtp_parameters = ''rtp''\<rparr>)])]"
  by (simp add: create_consumer_def requested_def request_consumer_def same_consumer_def add_result_def
      effect_defs call_result_def from_result_def hm_insert_def hm_get_def run_mutate_def mutate_def mutation_statement_def
      pick_statement_def participant_consumers_insert_def read_shard_def shard_index_def hm_values_def get_shard_def write_shard_def sample_defs sample_config_def)

theorem create_consumer_answers_witness:
  "answered [(''alice'', [(''audio'', \<lparr>co_id = ''c'', co_producer_id = ''p2'', co_rtp_parameters = ''rtp''\<rparr>),
      (''video'', \<lparr>co_id = ''c1'', co_producer_id = ''p1'', co_rtp_parameters = ''rtp''\<rparr>)])] =
   {(''alice'', ''video''), (''alice'', ''audio'')}"
proof -
  let ?run = "create_consumer sample_ext ''bob'' ''tb'' [(''alice'', [(''video'', ''p1''), (''audio'', ''p2'')])] ''caps''
      ''m'' ''i2'' sample_sfu"
  have "?run = (fst ?run, snd ?run)" by simp
  from create_consumer_answers [OF this [unfolded bob_consumes]] show ?thesis by (simp add: requested_def)
qed

lemma create_consumer_unchanged:
  assumes "create_consumer x p tid ts caps m i s = (r, s')" and "\<And>res. r \<noteq> Ok res"
  shows "same_but_world s s'"
proof -
  let ?P = "\<lambda>r s'. (\<forall>res. r \<noteq> Ok res) \<longrightarrow> same_but_world s s'"
  have shard: "keeps (same_but_world s) (read_shard x m)" by (simp add: keeps_def read_shard_run)
  have last: "ends (same_but_world s) (case r of Inr _ \<Rightarrow> and_then (write_shard x m f) (\<lambda>_. ret a)
       | Inl e \<Rightarrow> fail (g e)) ?P" for r :: "db_error + (string \<times> bool)" and f and a and g :: "db_error \<Rightarrow> string"
    by (cases r) (auto simp: ends_def and_then_def write_shard_run ret_def fail_def)
  have "ends (same_but_world s) (create_consumer x p tid ts caps m i) ?P"
    unfolding create_consumer_def by (intro ends_bind keeps_intros shard last) simp_all
  from endsD [OF this _ assms(1)] assms(2) show ?thesis by simp
qed

text \<open>
  C5: A consume request that fails. On an error or a panic the shards of consumers are what they were:
  consumers created for the earlier streams of the request are dropped.
\<close>

theorem create_consumer_failure:
  assumes "create_consumer x p tid ts caps m i s = (r, s')" and "\<And>res. r \<noteq> Ok res"
  shows "same_but_world s s'"
  using assms by (rule create_consumer_unchanged)

lemma bob_cannot_store:
  "fst (create_consumer sample_ext ''bob'' ''tb'' [(''alice'', [(''audio'', ''p2'')])] ''caps'' ''m'' ''i2''
     (sample_sfu\<lparr>world := sample_start\<lparr>sw_script := [Some (OtherError ''down'')]\<rparr>\<rparr>)) \<noteq> Ok res"
  by (simp add: create_consumer_def requested_def request_consumer_def same_consumer_def add_result_def
      effect_defs call_result_def from_result_def hm_insert_def run_mutate_def mutate_def mutation_statement_def
      pick_statement_def participant_consumers_insert_def read_shard_def shard_index_def hm_values_def
      get_shard_def write_shard_def sample_defs sample_config_def)

theorem create_consumer_failure_witness:
  "same_but_world sample_sfu (snd (create_consumer sample_ext ''bob'' ''tb'' [(''alice'', [(''audio'', ''p2'')])] ''caps'' ''m'' ''i2''
     (sample_sfu\<lparr>world := sample_start\<lparr>sw_script := [Some (OtherError ''down'')]\<rparr>\<rparr>)))"
proof -
  let ?s = "sample_sfu\<lparr>world := sample_start\<lparr>sw_script := [Some (OtherError ''down'')]\<rparr>\<rparr>"
  from create_consumer_failure [OF prod.collapse [symmetric] bob_cannot_store]
  have "same_but_world ?s (snd (create_consumer sample_ext ''bob'' ''tb'' [(''alice'', [(''audio'', ''p2'')])] ''caps'' ''m'' ''i2'' ?s))" .
  moreover have "same_but_world ?s s' \<Longrightarrow> same_but_world sample_sfu s'" for s'
    by (drule same_but_worldD) (auto simp: same_but_world_def)
  ultimately show ?thesis by blast
qed

end
