(* ===== verification/Lifecycle_Facts.thy ===== *)
theory Lifecycle_Facts
  imports Stream_Facts
begin

text \<open>
  The life of a meeting and of a participant in it: what creating a meeting stores, what moving a
  participant to a new instance closes and opens, and what closing a stream takes out of the recording.
\<close>

section \<open>Creating a meeting\<close>

text \<open>The routers a request asks for, in the order the code visits them, with their workers.\<close>

definition routers_asked :: "(string, producer_consumer_capacity list) hmap \<Rightarrow> (string \<times> producer_consumer_capacity) list" where
  "routers_asked ws = concat (map (\<lambda>e. map (Pair (fst e)) (snd e)) ws)"

fun add_routers :: "string \<Rightarrow> string \<Rightarrow> (string \<times> producer_consumer_capacity) list \<Rightarrow> string list \<Rightarrow>
    router_batch \<Rightarrow> router_batch" where
  "add_routers m c (e # es) (i # ids) b = add_routers m c es ids (add_router m c (fst e) (snd e) i b)"
| "add_routers m c _ _ b = b"

lemma create_router_run:
  assumes "create_router x m c e b s = (Ok b', s')"
  shows "\<exists>i. b' = add_router m c (fst e) (snd e) i b"
  using assms by (auto simp: create_router_def run_iffs ret_def)

lemma add_routers_append:
  "length es = length ids \<Longrightarrow> add_routers m c (es @ fs) (ids @ js) b = add_routers m c fs js (add_routers m c es ids b)"
  by (induction es ids b rule: add_routers.induct [of _ m c]) auto

lemma create_routers_run:
  "for_each (create_router x m c) es b s = (Ok b', s') \<Longrightarrow> \<exists>ids. length ids = length es \<and> b' = add_routers m c es ids b"
proof (induction es arbitrary: b s)
  case Nil
  then show ?case by (simp add: ret_def)
next
  case (Cons e es)
  then obtain b1 s1 where one: "create_router x m c e b s = (Ok b1, s1)"
    and rest: "for_each (create_router x m c) es b1 s1 = (Ok b', s')" by (auto simp: run_iffs)
  from create_router_run [OF one] Cons.IH [OF rest] obtain i ids where "b1 = add_router m c (fst e) (snd e) i b"
    "length ids = length es" "b' = add_routers m c es ids b1" by blast
  then show ?case by (intro exI [of _ "i # ids"]) simp
qed

lemma create_all_routers_run:
  "for_each (create_worker_routers x m c) ws b s = (Ok b', s') \<Longrightarrow>
   \<exists>ids. length ids = length (routers_asked ws) \<and> b' = add_routers m c (routers_asked ws) ids b"
proof (induction ws arbitrary: b s)
  case Nil
  then show ?case by (simp add: ret_def routers_asked_def)
next
  case (Cons e ws)
  then obtain b1 s1 where one: "create_worker_routers x m c e b s = (Ok b1, s1)"
    and rest: "for_each (create_worker_routers x m c) ws b1 s1 = (Ok b', s')" by (auto simp: run_iffs)
  from one obtain s2 where "for_each (create_router x m c) (map (Pair (fst e)) (snd e)) b s2 = (Ok b1, s1)"
    by (auto simp: create_worker_routers_def run_iffs)
  from create_routers_run [OF this] Cons.IH [OF rest] obtain ids js where "length ids = length (snd e)"
    "b1 = add_routers m c (map (Pair (fst e)) (snd e)) ids b" "length js = length (routers_asked ws)"
    "b' = add_routers m c (routers_asked ws) js b1" by auto
  then show ?case by (intro exI [of _ "ids @ js"]) (simp add: routers_asked_def add_routers_append)
qed

lemma keeps_sbw_create_routers: "keeps (same_but_world s0) (for_each (create_worker_routers x m c) ws b)"
  unfolding create_worker_routers_def create_router_def by (intro keeps_intros)

text \<open>The routers of a batch: each with the first capacity given for it.\<close>

fun routers_with_capacity :: "(string \<times> producer_consumer_capacity) list \<Rightarrow> string list \<Rightarrow> (string \<times> router_in_memory) list" where
  "routers_with_capacity (e # es) (i # ids) =
     (case stored_capacity (snd e) of None \<Rightarrow> [] | Some c \<Rightarrow> [(i, \<lparr>rim_router = i, rim_capacity = c\<rparr>)]) @
     routers_with_capacity es ids"
| "routers_with_capacity _ _ = []"

lemma add_routers_routers:
  "rb_routers (add_routers m c es ids b) = hm_extend (routers_with_capacity es ids) (rb_routers b)"
  by (induction es ids b rule: add_routers.induct [of _ m c])
    (auto simp: add_router_def hm_extend_def split: option.splits)

text \<open>
  C8: Creating a meeting. When the answer says that the routers were created, there is one new router for
  each capacity of the request, the router map has gained exactly those with a capacity, with the first
  of the total, the producer and the consumer capacity that is given, and nothing else has changed. On
  every other outcome, an answer that the meeting exists already included, no map has changed: the
  routers that mediasoup made are dropped.
\<close>

theorem create_meeting_stores:
  "case create_meeting_and_routers_on_workers x ws m c s of (r, s') \<Rightarrow>
     if r = Ok ''created the required routers''
     then \<exists>ids w. length ids = length (routers_asked ws) \<and>
       s' = s\<lparr>world := w, routers_map := hm_extend (hm_extend (routers_with_capacity (routers_asked ws) ids) []) (routers_map s)\<rparr>
     else same_but_world s s'"
proof -
  let ?loop = "for_each (create_worker_routers x m c) ws no_routers"
  obtain r1 s1 where loop: "?loop s = (r1, s1)" by fastforce
  from sbw_run [OF keeps_sbw_create_routers loop] obtain w1 where s1: "s1 = s\<lparr>world := w1\<rparr>" ..
  show ?thesis
  proof (cases r1)
    case (Ok b)
    from create_all_routers_run [OF loop [unfolded Ok]] obtain ids where "length ids = length (routers_asked ws)"
      and b: "rb_routers b = hm_extend (routers_with_capacity (routers_asked ws) ids) []"
      by (auto simp: add_routers_routers no_routers_def)
    obtain r2 w2 where "run_mutate x True (meeting_status_entity Insert (Some True) m # rb_workers b @ rb_meetings b) s1 =
        (r2, s\<lparr>world := w2\<rparr>)"
      by (auto simp: run_mutate_def on_world_run s1)
    with loop Ok \<open>length ids = _\<close> b show ?thesis
      by (auto simp: create_meeting_and_routers_on_workers_def and_then_def attempt_def modify_def ret_def fail_def
          split: outcome.splits db_error.splits)
  qed (use loop s1 in \<open>auto simp: create_meeting_and_routers_on_workers_def and_then_def\<close>)
qed

section \<open>Closing a stream and the recording\<close>

text \<open>What the removal of participants leaves alone.\<close>

definition leaves :: "(string, element) hmap \<Rightarrow> (string, pad) hmap \<Rightarrow> gst_inner \<times> 'w \<Rightarrow> bool" where
  "leaves sinks pads = (\<lambda>(g, w). udp_rtcp_sink_element_video_map g = sinks \<and> video_compositor_pad_map g = pads)"

lemma keeps_leaves_drained:
  "keeps (leaves a b) (detach_sources x ids)" "keeps (leaves a b) (detach_audio_chain x ids d)"
  "keeps (leaves a b) (detach_video_chain x ids d)" "keeps (leaves a b) (drop_sessions gone)"
  by (auto simp: keeps_def leaves_def detach_sources_def detach_audio_chain_def detach_video_chain_def drop_sessions_def
      and_then_def gets_def ret_def drain_field_run release_mixer_pads_def split: prod.splits)

lemma keeps_leaves_calls [keeps_intros]:
  "keeps (leaves a b) (on_gst_world f)" "keeps (leaves a b) (touch_gst_world h)"
  by (auto simp: keeps_def leaves_def on_gst_world_def touch_gst_world_def split: prod.splits)

lemma keeps_leaves_or [keeps_intros]:
  "keeps (leaves a b) (set_state_or x msg e st)" "keeps (leaves a b) (remove_or x p what es)"
  unfolding set_state_or_def remove_or_def by (intro keeps_intros)+

lemma keeps_leaves_loops [keeps_intros]:
  "keeps (leaves a b) (null_all x es)" "keeps (leaves a b) (clear_sessions x rb ss)"
proof -
  show "keeps (leaves a b) (null_all x es)" by (induction es) (auto intro!: keeps_intros)
  have "keeps (leaves a b) (clear_session x rb sid)" for sid
    by (auto simp: keeps_def leaves_def clear_session_def split: option.splits prod.splits)
  then show "keeps (leaves a b) (clear_sessions x rb ss)" by (induction ss) (auto intro!: keeps_intros)
qed

lemma keeps_leaves_detach: "keeps (leaves a b) (detach_participants x ids p)"
  unfolding detach_participants_def teardown_def release_session_pads_def remove_audio_chain_def remove_video_chain_def
  by (intro keeps_intros keeps_leaves_drained)

lemma remove_participants_detaches:
  assumes g: "hm_get (pipeline_map s) m = Some (Some g)" and p: "gst_pipeline g = Some pl"
    and run: "remove_participants_from_pipeline x ids m s = (r, s')"
  shows "\<exists>gi. hm_get (pipeline_map s') m = Some (Some (g\<lparr>gst_inner := gi\<rparr>)) \<and>
    participant_maps gi = map (hm_remove_all ids) (participant_maps (gst_inner g)) \<and>
    session_participant_meta_map gi =
      filter (\<lambda>e. psm_participant_id (snd e) \<notin> set ids) (session_participant_meta_map (gst_inner g)) \<and>
    udp_rtcp_sink_element_video_map gi = udp_rtcp_sink_element_video_map (gst_inner g) \<and>
    video_compositor_pad_map gi = video_compositor_pad_map (gst_inner g)"
proof -
  obtain r1 gi w where inner: "detach_participants (ext_gst x) ids pl (gst_inner g, world s) = (r1, (gi, w))"
    by (metis prod_cases3)
  have s': "hm_get (pipeline_map s') m = Some (Some (g\<lparr>gst_inner := gi\<rparr>))"
    using run g p inner
    by (auto simp: remove_participants_from_pipeline_def and_then_def gets_def unwrap_def ret_def with_pipeline_def hm_simps)
  have "leaves (udp_rtcp_sink_element_video_map (gst_inner g)) (video_compositor_pad_map (gst_inner g)) (gst_inner g, world s)"
    by (simp add: leaves_def)
  from keepsD [OF keeps_leaves_detach this inner] detach_participants_run [OF inner] s' show ?thesis
    by (intro exI [of _ gi]) (simp add: leaves_def)
qed

text \<open>
  C21: Closing a stream and the recording. When a producer is closed that is not a lone screen share, and
  the meeting is recorded, the participant is taken out of the recording as a whole, whichever stream was
  closed and whatever others it still has: none of the fifteen maps of sources, chains and mixer pads and no
  session names it, and the entries of all other participants stay. Two maps keep its entries: the
  RTCP sinks of its video and its pads of the compositor.
\<close>

theorem close_producer_detaches:
  assumes run: "close_producer x p m kinds s = (Ok ds, s')"
    and lone: "\<not> (length kinds = 1 \<and> hm_values kinds ! 0 = ''screenshare'')"
    and g: "hm_get (pipeline_map s) m = Some (Some g)" and pl: "gst_pipeline g = Some pl"
  shows "\<exists>gi. hm_get (pipeline_map s') m = Some (Some (g\<lparr>gst_inner := gi\<rparr>)) \<and>
    list_all2 (\<lambda>old new. hm_get new p = None \<and> (\<forall>k. k \<noteq> p \<longrightarrow> hm_get new k = hm_get old k))
      (participant_maps (gst_inner g)) (participant_maps gi) \<and>
    session_participant_meta_map gi = filter (\<lambda>e. psm_participant_id (snd e) \<noteq> p) (session_participant_meta_map (gst_inner g)) \<and>
    udp_rtcp_sink_element_video_map gi = udp_rtcp_sink_element_video_map (gst_inner g) \<and>
    video_compositor_pad_map gi = video_compositor_pad_map (gst_inner g)"
proof -
  have kinds: "length (hm_values kinds) = length kinds" by (simp add: hm_values_def)
  obtain w s1 s2 u where "close_producers_loop [p] (hm_keys kinds) (s\<lparr>world := w\<rparr>) = (Ok u, s1)"
    and remove: "remove_participants_from_pipeline x [p] m s1 = (Ok (), s2)" and s': "s' = s2"
    using run lone unfolding close_producer_def kinds
    by (auto simp: and_then_def attempt_def on_world_run map_err_def fail_def close_all_producers_in_memory_def ret_def Let_def
        kinds split: prod.splits outcome.splits sum.splits if_splits)
  then have "pipeline_map s1 = pipeline_map s" by (auto simp: close_producers_loop_run)
  with g have "hm_get (pipeline_map s1) m = Some (Some g)" by simp
  from remove_participants_detaches [OF this pl remove] obtain gi where
    "hm_get (pipeline_map s') m = Some (Some (g\<lparr>gst_inner := gi\<rparr>))"
    and maps: "participant_maps gi = map (hm_remove_all [p]) (participant_maps (gst_inner g))"
    and rest: "session_participant_meta_map gi =
        filter (\<lambda>e. psm_participant_id (snd e) \<notin> set [p]) (session_participant_meta_map (gst_inner g))"
      "udp_rtcp_sink_element_video_map gi = udp_rtcp_sink_element_video_map (gst_inner g)"
      "video_compositor_pad_map gi = video_compositor_pad_map (gst_inner g)"
    unfolding s' by blast
  moreover have "list_all2 (\<lambda>old new. hm_get new p = None \<and> (\<forall>k. k \<noteq> p \<longrightarrow> hm_get new k = hm_get old k))
      (participant_maps (gst_inner g)) (participant_maps gi)"
    unfolding maps by (simp add: list_all2_conv_all_nth hm_get_remove_all)
  ultimately show ?thesis by auto
qed

section \<open>Moving to a new instance\<close>

definition older_producer :: "string \<Rightarrow> string \<Rightarrow> string \<Rightarrow> producer_in_memory \<Rightarrow> bool" where
  "older_producer p m i v \<longleftrightarrow> pim_participant_id v = p \<and> pim_meeting_id v = m \<and> pim_instance_id v \<noteq> i"

definition older_consumer :: "string \<Rightarrow> string \<Rightarrow> string \<Rightarrow> consumer_in_memory \<Rightarrow> bool" where
  "older_consumer p m i v \<longleftrightarrow> cim_participant_id v = p \<and> cim_meeting_id v = m \<and> cim_instance_id v \<noteq> i"

lemma close_producers_or:
  assumes "(if ids \<noteq> [] then map_err f (close_all_producers_in_memory x [p] ids m True) else ret []) s = (Ok ds, s')"
  shows "ds = closed_details p ids (producer_map s)"
    and "\<exists>pt pc pm w. s' = s\<lparr>producer_map := hm_remove_all ids (producer_map s), plain_transport_map := pt,
      plain_transport_consumer_map := pc, pipeline_map := pm, world := w\<rparr>"
proof -
  have run: "close_all_producers_in_memory x [p] ids m True s = (Ok ds, s')" if "ids \<noteq> []"
    using assms that by (simp add: map_err_Ok_iff)
  show "ds = closed_details p ids (producer_map s)"
    using close_all_producers_run(2) [OF run] assms by (cases "ids = []") (auto simp: ret_def)
  show "\<exists>pt pc pm w. s' = s\<lparr>producer_map := hm_remove_all ids (producer_map s), plain_transport_map := pt,
      plain_transport_consumer_map := pc, pipeline_map := pm, world := w\<rparr>"
  proof (cases "ids = []")
    case True
    then have "s' = s" using assms by (simp add: ret_def)
    moreover have "s = s\<lparr>producer_map := hm_remove_all [] (producer_map s), plain_transport_map := plain_transport_map s,
      plain_transport_consumer_map := plain_transport_consumer_map s, pipeline_map := pipeline_map s, world := world s\<rparr>"
      by simp
    ultimately show ?thesis using True by blast
  next
    case False
    from close_all_producers_run(1) [OF run [OF False]] show ?thesis by blast
  qed
qed

lemma close_older_run:
  fixes s :: "'w sfu"
  assumes run: "close_older_instances x p m i s = (Ok ds, s')"
    and own: "own = consumer_ids_where (older_consumer p m i) (shard_of x s m)"
    and ids: "ids = producer_ids_where (older_producer p m i) (producer_map s)"
    and dep: "dep = consumer_ids_where (\<lambda>v. cim_producer_id v \<in> set ids) (hm_remove_all own (shard_of x s m))"
  shows "consumer_map_shards s \<noteq> [] \<and> ds = closed_details p ids (producer_map s) \<and>
    producer_map s' = hm_remove_all ids (producer_map s) \<and>
    (\<forall>k. shard_of x s' k = (if shard_index x s k = shard_index x s m
       then hm_remove_all dep (hm_remove_all own (shard_of x s m)) else shard_of x s k)) \<and>
    transport_map s' = transport_map s \<and> routers_map s' = routers_map s \<and> user_channel s' = user_channel s \<and>
    lock_map s' = lock_map s"
proof -
  let ?i = "shard_index x s m"
  have shards: "consumer_map_shards s \<noteq> []"
    using run unfolding close_older_instances_def query_defs
    by (auto simp: run_iffs read_shard_run split: if_splits)
  define s1 where "s1 = s\<lparr>consumer_map_shards := sh_update ?i (hm_remove_all own) (consumer_map_shards s)\<rparr>"
  have idx1: "shard_index x s1 k = shard_index x s k" for k
    unfolding s1_def by (rule shard_index_cong) simp
  have shards1: "consumer_map_shards s1 \<noteq> []" using shards by (simp add: s1_def sh_update_def)
  have sh1: "shard_of x s1 k = (if shard_index x s k = ?i then hm_remove_all own (shard_of x s m) else shard_of x s k)" for k
    unfolding s1_def by (rule shard_of_write [OF shards])
  from run obtain s2 dep' where
    dep': "get_consumers_for_producer_ids x ids m s1 = (Ok dep', s1)"
    and close: "(if ids \<noteq> [] then map_err (\<lambda>e. ''Failed to close all producers in memory '' @ e)
        (close_all_producers_in_memory x [p] ids m True) else ret []) s1 = (Ok ds, s2)"
    and last: "(if dep' \<noteq> [] then close_all_consumers_in_memory x dep' m else ret ()) s2 = (Ok (), s')"
    using shards unfolding close_older_instances_def get_participant_consumers_excluding_instance_def
      get_participant_producers_excluding_instance_def get_consumers_for_producer_ids_def
    by (auto simp: and_then_Ok_iff read_shard_run close_all_consumers_run ret_def gets_def own ids s1_def
        older_consumer_def [abs_def] older_producer_def [abs_def] simp del: map_err_Ok_iff split: if_splits)
  from close_producers_or(2) [OF close] obtain pt pc pm w where
    s2: "s2 = s1\<lparr>producer_map := hm_remove_all ids (producer_map s1), plain_transport_map := pt,
       plain_transport_consumer_map := pc, pipeline_map := pm, world := w\<rparr>" by blast
  have idx2: "shard_index x s2 k = shard_index x s k" and sh2: "shard_of x s2 k = shard_of x s1 k" for k
    unfolding s2 using idx1 by (simp_all add: shard_of_def)
  have shards2: "consumer_map_shards s2 \<noteq> []" unfolding s2 using shards1 by simp
  have "dep' = dep"
    using dep' shards1 by (simp add: get_consumers_for_producer_ids_def run_iffs read_shard_run ret_def sh1 dep)
  with last have s': "s' = s2\<lparr>consumer_map_shards := sh_update (shard_index x s2 m) (hm_remove_all dep) (consumer_map_shards s2)\<rparr>"
    by (simp only: close_consumers_if [OF shards2]) simp
  have "shard_of x s' k = (if shard_index x s k = ?i then hm_remove_all dep (shard_of x s1 m) else shard_of x s1 k)" for k
    unfolding s' using shard_of_write [OF shards2, of x m "hm_remove_all dep" k] by (simp only: idx2 sh2)
  moreover have "ds = closed_details p ids (producer_map s)"
    using close_producers_or(1) [OF close] by (simp add: s1_def)
  ultimately show ?thesis using shards unfolding s' s2 s1_def by (simp add: sh1 [unfolded s1_def])
qed

lemma close_older_exact:
  fixes s :: "'w sfu"
  assumes inv: "sfu_inv x s" and run: "close_older_instances x p m i s = (Ok ds, s')"
  shows "set (producer_map s') = {e \<in> set (producer_map s). \<not> older_producer p m i (snd e)}"
    and "set (shard_of x s' m) = {e \<in> set (shard_of x s m). \<not> older_consumer p m i (snd e) \<and>
      \<not> (\<exists>v. (cim_producer_id (snd e), v) \<in> set (producer_map s) \<and> older_producer p m i v)}"
    and "shard_index x s k \<noteq> shard_index x s m \<Longrightarrow> shard_of x s' k = shard_of x s k"
    and "transport_map s' = transport_map s \<and> routers_map s' = routers_map s \<and> user_channel s' = user_channel s"
  using close_older_run [OF run refl refl refl] closed_listed_exact [OF inv _ refl refl refl] by simp_all

text \<open>A transport a request names in its answer is the participant's, in memory, under that id.\<close>

definition holds_transport :: "string \<Rightarrow> string \<Rightarrow> string \<Rightarrow> string \<Rightarrow> 'w sfu \<Rightarrow> bool" where
  "holds_transport p m knd k s \<longleftrightarrow> (\<exists>t. hm_get (transport_map s) k = Some t \<and> tim_participant_id t = p \<and>
     tim_meeting_id t = m \<and> tim_kind t = knd)"

lemma find_transport_held:
  assumes "transports_ok (transport_map s)" and "find_transport p m knd (transport_map s) = Some t"
  shows "holds_transport p m knd (wt_id t) s"
proof -
  have findSomeD: "e \<in> set xs \<and> P e" if "find P xs = Some e" for P xs and e :: "string \<times> transport_in_memory"
    using that by (auto simp: find_Some_iff)
  from assms(2) obtain e where e: "e \<in> set (transport_map s)" "tim_participant_id (snd e) = p" "tim_meeting_id (snd e) = m"
    "tim_kind (snd e) = knd" "t = tim_transport (snd e)"
    by (auto simp: find_transport_def dest!: findSomeD)
  then have "(wt_id t, snd e) \<in> set (transport_map s)" using assms(1) by (cases e) (auto simp: transports_ok_def)
  with assms(1) have "hm_get (transport_map s) (wt_id t) = Some (snd e)" by (auto simp: transports_ok_def intro: hm_get_in)
  with e show ?thesis by (auto simp: holds_transport_def)
qed

lemma create_producer_transport_run:
  fixes s :: "'w sfu"
  assumes ok: "transports_ok (transport_map s)" and run: "create_producer_transport x r p m a b s = (Ok opts, s')"
  shows "holds_transport p m ''producer'' (to_id opts) s' \<and> (\<exists>w tm. s' = s\<lparr>world := w, transport_map := tm\<rparr>)"
proof -
  obtain r1 w1 where create: "map_err (\<lambda>e. ''Failed to create producer transport: '' @ e) (create_transport x r) s = (r1, s\<lparr>world := w1\<rparr>)"
  proof -
    have "keeps (same_but_world s) (map_err (\<lambda>e. ''Failed to create producer transport: '' @ e) (create_transport x r))"
      unfolding create_transport_def by (intro keeps_intros)
    from sbw_run [OF this prod.collapse [symmetric]] show ?thesis by (metis prod.collapse that)
  qed
  obtain t where t: "r1 = Ok t" using run create by (cases r1) (auto simp: create_producer_transport_def and_then_def)
  obtain w2 where bits: "set_bitrates x (wt_id t) (s\<lparr>world := w1\<rparr>) = (Ok (), s\<lparr>world := w2\<rparr>)"
    by (simp add: set_bitrates_def and_then_def gets_def call_world_run ret_def)
  obtain r3 w3 where mut: "run_mutate x True [D_ParticipantProducerTransport \<lparr>ppt_mutation_type = Insert, ppt_participant_id = p,
      ppt_transport_id = Some (wt_id t)\<rparr>] (s\<lparr>world := w2\<rparr>) = (r3, s\<lparr>world := w3\<rparr>)"
    by (auto simp: run_mutate_def on_world_run)
  show ?thesis
  proof (cases r3)
    case (Ok o1)
    then have "s' = s\<lparr>world := w3, transport_map := hm_insert (wt_id t) \<lparr>tim_transport = t, tim_meeting_id = m,
        tim_participant_id = p, tim_kind = ''producer''\<rparr> (remove_option b (remove_option a (transport_map s)))\<rparr>"
      and "to_id opts = wt_id t"
      using run create t bits mut
      by (auto simp: create_producer_transport_def and_then_def attempt_def modify_def ret_def options_of_def)
    then show ?thesis by (auto simp: holds_transport_def hm_simps)
  next
    case (Err e)
    then have fallback: "transport_db_failure p m ''producer'' e (s\<lparr>world := w3\<rparr>) = (Ok opts, s')"
      using run create t bits mut by (simp add: create_producer_transport_def and_then_def attempt_def ret_def)
    then obtain t' where "find_transport p m ''producer'' (transport_map s) = Some t'" "opts = options_of t'" "s' = s\<lparr>world := w3\<rparr>"
      by (auto simp: transport_db_failure_def and_then_def gets_def fail_def ret_def split: db_error.splits if_splits option.splits)
    with find_transport_held [OF ok this(1)] show ?thesis
      by (auto simp: options_of_def holds_transport_def intro!: exI [of _ w3] exI [of _ "transport_map s"])
  qed (use run create t bits mut in \<open>simp add: create_producer_transport_def and_then_def attempt_def\<close>)
qed


section \<open>Witnesses\<close>

lemmas detach_defs =
  remove_participants_from_pipeline_def with_pipeline_def detach_participants_def detach_sources_def detach_audio_chain_def
  detach_video_chain_def drain_field_run release_mixer_pads_def drop_sessions_def teardown_def set_state_or_def remove_or_def
  release_session_pads_def remove_audio_chain_def remove_video_chain_def remove_elements_def no_detached_def on_gst_world_def
  touch_gst_world_def sample_gstreamer_def gstreamer_new_def inner_new_def set_state_logged_def

lemma alice_stops:
  "fst (close_producer sample_ext ''alice'' ''m'' [(''p1'', ''video'')] sample_sfu) =
   Ok [\<lparr>pd_producer_id = ''p1'', pd_participant_id = ''alice'', pd_kind = ''video''\<rparr>]"
  by (simp add: close_producer_def close_all_producers_in_memory_def effect_defs delete_def participant_producers_delete_def
      hm_keys_def hm_values_def Let_def hm_insert_def detach_defs sample_defs)

theorem close_producer_detaches_witness:
  "\<exists>gi. hm_get (pipeline_map (snd (close_producer sample_ext ''alice'' ''m'' [(''p1'', ''video'')] sample_sfu))) ''m'' =
      Some (Some (sample_gstreamer\<lparr>gst_inner := gi\<rparr>)) \<and>
    list_all (\<lambda>old. hm_get old ''alice'' = None) (participant_maps gi)"
proof -
  let ?run = "close_producer sample_ext ''alice'' ''m'' [(''p1'', ''video'')] sample_sfu"
  have run: "?run = (Ok [\<lparr>pd_producer_id = ''p1'', pd_participant_id = ''alice'', pd_kind = ''video''\<rparr>], snd ?run)"
    using alice_stops by (metis prod.collapse)
  have lone: "\<not> (length [(''p1'', ''video'')] = 1 \<and> hm_values [(''p1'', ''video'')] ! 0 = ''screenshare'')"
    by (simp add: hm_values_def)
  have g: "hm_get (pipeline_map sample_sfu) ''m'' = Some (Some sample_gstreamer)" "gst_pipeline sample_gstreamer = Some ''pipe''"
    by (simp_all add: sample_sfu_def hm_get_def sample_gstreamer_def)
  from close_producer_detaches [OF run lone g] obtain gi where
    gi: "hm_get (pipeline_map (snd ?run)) ''m'' = Some (Some (sample_gstreamer\<lparr>gst_inner := gi\<rparr>))"
    and "list_all2 (\<lambda>old new. hm_get new ''alice'' = None \<and> (\<forall>k. k \<noteq> ''alice'' \<longrightarrow> hm_get new k = hm_get old k))
      (participant_maps (gst_inner sample_gstreamer)) (participant_maps gi)" by blast
  then have "list_all (\<lambda>new. hm_get new ''alice'' = None) (participant_maps gi)"
    unfolding list_all2_conv_all_nth list_all_length by metis
  with gi show ?thesis by blast
qed

lemma alice_moves:
  "fst (recreate_producer_transport_helper sample_ext ''alice'' ''m'' ''i9'' ''r1'' None None sample_sfu) =
   Ok \<lparr>rptr_transport_options = \<lparr>to_id = ''ti'', to_dtls_parameters = ''d'', to_ice_candidates = ''c'', to_ice_parameters = ''i''\<rparr>,
     rptr_closed_producer_details = [\<lparr>pd_producer_id = ''p1'', pd_participant_id = ''alice'', pd_kind = ''video''\<rparr>]\<rparr>"
  by (simp add: recreate_producer_transport_helper_def recreate_producer_transport_def close_older_instances_def
      remove_and_add_participant_to_meeting_def lock_entry_def hm_entry_def effect_defs run_mutate_def mutate_def
      membership_entities_def mutation_statement_def pick_statement_def participant_meeting_custom_query1_def
      participant_meeting_insert_def participant_producer_router_insert_def push_user_session_event_def
      participant_producer_transport_insert_def close_all_producers_in_memory_def read_shard_run close_all_consumers_run query_defs
      hm_insert_def hm_values_def Let_def create_producer_transport_def create_transport_def call_result_def set_bitrates_def
      remove_option_def options_of_def detach_defs sample_defs)


end
