(* ===== verification/Pad_Facts.thy ===== *)
theory Pad_Facts
  imports Chains Sample
begin

text \<open>
  What the handler of new pads and the builders of recordings achieve: with a GStreamer that hands
  out pads and takes messages, the handler of a media pad returns, records the SSRC of the pad and
  leaves a complete chain of elements of the participant, replacing an older one.
\<close>

section \<open>Computations that succeed\<close>

definition succeeds :: "('s \<Rightarrow> bool) \<Rightarrow> ('s, 'a, 'e) eff \<Rightarrow> ('a \<Rightarrow> bool) \<Rightarrow> bool" where
  "succeeds I m Q \<longleftrightarrow> (\<forall>s. I s \<longrightarrow> (\<exists>a s'. m s = (Ok a, s') \<and> I s' \<and> Q a))"

abbreviation returns_always :: "('s \<Rightarrow> bool) \<Rightarrow> ('s, 'a, 'e) eff \<Rightarrow> bool" where
  "returns_always I m \<equiv> succeeds I m (\<lambda>_. True)"

named_theorems succeeds_intros \<open>rules that show that a computation succeeds\<close>

lemma succeedsD: "succeeds I m Q \<Longrightarrow> I s \<Longrightarrow> \<exists>a s'. m s = (Ok a, s') \<and> I s' \<and> Q a"
  unfolding succeeds_def by blast

lemma succeeds_ret: "Q a \<Longrightarrow> succeeds I (ret a) Q"
  by (simp add: succeeds_def ret_def)

lemma succeeds_unwrap: "opt = Some a \<Longrightarrow> Q a \<Longrightarrow> succeeds I (unwrap opt) Q"
  by (simp add: succeeds_def unwrap_def ret_def)

lemma succeeds_gets: "(\<And>s. I s \<Longrightarrow> Q (f s)) \<Longrightarrow> succeeds I (gets f) Q"
  by (simp add: succeeds_def gets_def)

lemma succeeds_modify: "(\<And>s. I s \<Longrightarrow> I (f s)) \<Longrightarrow> returns_always I (modify f)"
  by (simp add: succeeds_def modify_def)

lemma succeeds_bind:
  assumes "succeeds I m R" and "\<And>a. R a \<Longrightarrow> succeeds I (f a) Q"
  shows "succeeds I (and_then m f) Q"
  using assms unfolding succeeds_def and_then_def by fastforce

lemma succeeds_then: "returns_always I m \<Longrightarrow> (\<And>a. succeeds I (f a) Q) \<Longrightarrow> succeeds I (and_then m f) Q"
  by (rule succeeds_bind)

lemma succeeds_choice [succeeds_intros]:
  "(c \<Longrightarrow> succeeds I m Q) \<Longrightarrow> (\<not> c \<Longrightarrow> succeeds I n Q) \<Longrightarrow> succeeds I (if c then m else n) Q"
  by simp

lemma succeeds_option [succeeds_intros]:
  "(opt = None \<Longrightarrow> succeeds I m Q) \<Longrightarrow> (\<And>a. opt = Some a \<Longrightarrow> succeeds I (f a) Q) \<Longrightarrow>
   succeeds I (case opt of None \<Rightarrow> m | Some a \<Rightarrow> f a) Q"
  by (cases opt) simp_all

lemma succeeds_prod: "(\<And>a b. z = (a, b) \<Longrightarrow> succeeds I (f a b) Q) \<Longrightarrow> succeeds I (case z of (a, b) \<Rightarrow> f a b) Q"
  by (cases z) simp

section \<open>A GStreamer that hands out pads and takes messages\<close>

definition obliging :: "'w gst_ext \<Rightarrow> bool" where
  "obliging x \<longleftrightarrow> (\<forall>p t w. fst (x_bus_post x p t w)) \<and> (\<forall>e n w. fst (x_static_pad x e n w) \<noteq> None) \<and>
     (\<forall>e n w. fst (x_request_pad x e n w) \<noteq> None)"

text \<open>The condition that holds throughout: complete chains, the shared elements, and the sessions.\<close>

definition serving :: "(nat, nat list) hmap \<Rightarrow> (nat, participant_session_meta) hmap \<Rightarrow> gst_inner \<Rightarrow> bool" where
  "serving ssrcs sessions gi \<longleftrightarrow> chains_ok gi \<and> video_compositor_element gi \<noteq> None \<and> audio_mixer_element gi \<noteq> None \<and>
     session_id_ssrc_map gi = ssrcs \<and> session_participant_meta_map gi = sessions"

abbreviation serves :: "(nat, nat list) hmap \<Rightarrow> (nat, participant_session_meta) hmap \<Rightarrow> gst_inner \<times> 'w \<Rightarrow> bool" where
  "serves ssrcs sessions \<equiv> \<lambda>(gi, w). serving ssrcs sessions gi"

lemma succeeds_world:
  "(\<And>w. Q (fst (f w))) \<Longrightarrow> succeeds (\<lambda>(gi, w). J gi) (on_gst_world f) Q"
  by (auto simp: succeeds_def on_gst_world_def split: prod.splits) (metis fst_conv)

lemma succeeds_touch [succeeds_intros]: "returns_always (\<lambda>(gi, w). J gi) (touch_gst_world h)"
  by (auto simp: succeeds_def touch_gst_world_def)

lemma succeeds_set_properties [succeeds_intros]: "returns_always (\<lambda>(gi, w). J gi) (set_properties x e ps)"
  unfolding set_properties_def by (rule succeeds_touch)

lemma succeeds_post [succeeds_intros]: "obliging x \<Longrightarrow> returns_always (\<lambda>(gi, w). J gi) (post_error x p t)"
  unfolding post_error_def
  by (rule succeeds_bind [where R = "\<lambda>ok. ok"], rule succeeds_world)
    (simp_all add: obliging_def succeeds_ret)

lemma succeeds_soft [succeeds_intros]: "obliging x \<Longrightarrow> returns_always (\<lambda>(gi, w). J gi) (soft x p t f)"
  unfolding soft_def
  by (rule succeeds_then, rule succeeds_world) (auto intro: succeeds_intros succeeds_ret)

lemma succeeds_or_stop [succeeds_intros]:
  "obliging x \<Longrightarrow> (\<And>a. returns_always (\<lambda>(gi, w). J gi) (rest a)) \<Longrightarrow>
   returns_always (\<lambda>(gi, w). J gi) (or_stop x p t f rest)"
  unfolding or_stop_def
  by (rule succeeds_then, rule succeeds_world) (auto intro: succeeds_intros)

lemma succeeds_make_or_stop [succeeds_intros]:
  "obliging x \<Longrightarrow> (\<And>a. returns_always (\<lambda>(gi, w). J gi) (rest a)) \<Longrightarrow>
   returns_always (\<lambda>(gi, w). J gi) (make_or_stop x p n m ps rest)"
  unfolding make_or_stop_def by (rule succeeds_or_stop)

lemma succeeds_pads [succeeds_intros]:
  "obliging x \<Longrightarrow> returns_always (\<lambda>(gi, w). J gi) (expect_some (x_static_pad x e n))"
  "obliging x \<Longrightarrow> returns_always (\<lambda>(gi, w). J gi) (compositor_pad x p e)"
proof -
  assume x: "obliging x"
  show "returns_always (\<lambda>(gi, w). J gi) (expect_some (x_static_pad x e n))"
    unfolding expect_some_def
    by (rule succeeds_bind [where R = "\<lambda>r. r \<noteq> None"], rule succeeds_world)
      (use x in \<open>auto simp: obliging_def intro: succeeds_unwrap\<close>)
  show "returns_always (\<lambda>(gi, w). J gi) (compositor_pad x p e)"
    unfolding compositor_pad_def
    by (rule succeeds_bind [where R = "\<lambda>r. r \<noteq> None"], rule succeeds_world)
      (use x in \<open>auto simp: obliging_def intro!: succeeds_then succeeds_unwrap succeeds_ret succeeds_intros\<close>)
qed

lemma succeeds_swap_entry:
  "(\<And>gi. J gi \<Longrightarrow> J (upd (hm_insert k v) gi)) \<Longrightarrow> returns_always (\<lambda>(gi, w). J gi) (swap_entry k v get upd)"
  by (auto simp: succeeds_def swap_entry_def)

section \<open>The pieces of the handler\<close>

lemma succeeds_drop_old [succeeds_intros]: "obliging x \<Longrightarrow> returns_always (\<lambda>(gi, w). J gi) (drop_old x p what t e)"
  unfolding drop_old_def by (rule succeeds_then; rule succeeds_soft)

lemma succeeds_drop_rest:
  "obliging x \<Longrightarrow> \<forall>(what, old) \<in> set rest. old \<noteq> None \<Longrightarrow> returns_always (\<lambda>(gi, w). J gi) (drop_rest x p t rest)"
proof (induction rest)
  case Nil
  then show ?case by (simp add: succeeds_ret)
next
  case (Cons r rest)
  obtain what e where r: "r = (what, Some e)" using Cons.prems(2) by auto
  have "returns_always (\<lambda>(gi, w). J gi) (drop_rest x p t rest)" using Cons by simp
  then show ?case
    unfolding r drop_rest.simps
    by (intro succeeds_then succeeds_drop_old Cons.prems(1); simp add: succeeds_unwrap)
qed

lemma succeeds_add_each [succeeds_intros]: "obliging x \<Longrightarrow> returns_always (\<lambda>(gi, w). J gi) (add_each x p es)"
  by (induction es) (auto intro!: succeeds_ret succeeds_then succeeds_intros)

lemma succeeds_link_each [succeeds_intros]: "obliging x \<Longrightarrow> returns_always (\<lambda>(gi, w). J gi) (link_each x p es)"
  by (induction x p es rule: link_each.induct) (auto intro!: succeeds_ret succeeds_then succeeds_intros)

lemma succeeds_link_queue [succeeds_intros]: "obliging x \<Longrightarrow> returns_always (\<lambda>(gi, w). J gi) (link_queue x p pd e)"
  unfolding link_queue_def by (intro succeeds_then succeeds_intros)

lemma succeeds_play [succeeds_intros]: "obliging x \<Longrightarrow> returns_always (\<lambda>(gi, w). J gi) (play x p)"
  unfolding play_def by (rule succeeds_soft)

text \<open>The chain that is replaced is complete or absent.\<close>

lemma chains_ok_video:
  "chains_ok gi \<Longrightarrow> hm_get (queue_element_vp8_video_map gi) p \<noteq> None \<Longrightarrow>
   hm_get (rtp_vp8_de_pay_element_video_map gi) p \<noteq> None \<and> hm_get (vp8_dec_element_video_map gi) p \<noteq> None \<and>
   hm_get (video_convert_element_video_map gi) p \<noteq> None \<and> hm_get (video_scale_element_video_map gi) p \<noteq> None \<and>
   hm_get (caps_filter_element_video_map gi) p \<noteq> None"
  unfolding chains_ok_def aligned_def chain_maps hm_domain_def by simp blast

lemma chains_ok_audio:
  "chains_ok gi \<Longrightarrow> hm_get (queue_element_audio_map gi) p \<noteq> None \<Longrightarrow>
   hm_get (rtp_opus_de_pay_element_audio_map gi) p \<noteq> None \<and> hm_get (opus_dec_element_audio_map gi) p \<noteq> None"
  unfolding chains_ok_def aligned_def chain_maps hm_domain_def by simp blast

definition droppable :: "element option \<times> (string \<times> element option) list \<Rightarrow> bool" where
  "droppable old \<longleftrightarrow> (fst old \<noteq> None \<longrightarrow> (\<forall>(what, e) \<in> set (snd old). e \<noteq> None))"

lemma succeeds_drop_chain:
  "obliging x \<Longrightarrow> droppable (q, rest) \<Longrightarrow> returns_always (\<lambda>(gi, w). J gi) (drop_chain x p t q rest)"
  unfolding drop_chain_def droppable_def
  by (cases q) (auto intro!: succeeds_ret succeeds_then succeeds_intros succeeds_drop_rest)

lemma succeeds_swap_video: "succeeds (serves M N) (swap_video_chain p c) droppable"
proof -
  have "serving M N gi \<Longrightarrow> \<exists>a s'. swap_video_chain p c (gi, w) = (Ok a, s') \<and> serves M N s' \<and> droppable a" for gi and w :: 'a
    using chains_ok_video [of gi p] keepsD [OF keeps_chains_swap(1) _ swap_video_chain_run [of p c gi w]]
    by (auto simp: swap_video_chain_run serving_def droppable_def)
  then show ?thesis unfolding succeeds_def by auto
qed

lemma succeeds_swap_audio: "succeeds (serves M N) (swap_audio_chain p c) droppable"
proof -
  have "serving M N gi \<Longrightarrow> \<exists>a s'. swap_audio_chain p c (gi, w) = (Ok a, s') \<and> serves M N s' \<and> droppable a" for gi and w :: 'a
    using chains_ok_audio [of gi p] keepsD [OF keeps_chains_swap(2) _ swap_audio_chain_run [of p c gi w]]
    by (auto simp: swap_audio_chain_run serving_def droppable_def)
  then show ?thesis unfolding succeeds_def by auto
qed

lemma serving_pads [simp]:
  "serving M N (video_compositor_pad_map_update f gi) = serving M N gi"
  "serving M N (audio_mixed_pad_map_update f gi) = serving M N gi"
  by (simp_all add: serving_def chains_ok_def chain_maps)

lemma succeeds_shared:
  "succeeds (serves M N) (gets (\<lambda>(gi, _). video_compositor_element gi)) (\<lambda>r. r \<noteq> None)"
  "succeeds (serves M N) (gets (\<lambda>(gi, _). audio_mixer_element gi)) (\<lambda>r. r \<noteq> None)"
  by (rule succeeds_gets; auto simp: serving_def)+

lemma succeeds_link_compositor [succeeds_intros]:
  "obliging x \<Longrightarrow> returns_always (serves M N) (link_compositor x p who e)"
  unfolding link_compositor_def
  apply (rule succeeds_then, rule succeeds_pads, assumption)
  apply (rule succeeds_bind, rule succeeds_shared)
  apply (rule succeeds_then, force intro: succeeds_unwrap)
  apply (intro succeeds_then succeeds_intros succeeds_swap_entry succeeds_ret; simp)
  done

lemma succeeds_link_mixer [succeeds_intros]:
  "obliging x \<Longrightarrow> returns_always (serves M N) (link_mixer x p who e)"
  unfolding link_mixer_def
  apply (rule succeeds_or_stop, assumption)
  apply (rule succeeds_bind, rule succeeds_shared)
  apply (rule succeeds_then, force intro: succeeds_unwrap)
  apply (rule succeeds_or_stop, assumption)
  apply (intro succeeds_then succeeds_intros succeeds_swap_entry succeeds_ret succeeds_world; simp)
  done

lemma succeeds_pad_added [succeeds_intros]:
  "obliging x \<Longrightarrow> returns_always (serves M N) (video_pad_added x p pd who)"
  "obliging x \<Longrightarrow> returns_always (serves M N) (audio_pad_added x p pd who)"
proof -
  assume x: "obliging x"
  have "returns_always (serves M N) (install_video_chain x p pd who c)" for c
    unfolding install_video_chain_def
    by (rule succeeds_bind [OF succeeds_swap_video], rule succeeds_prod)
      (intro succeeds_then succeeds_intros succeeds_drop_chain x; simp)
  then show "returns_always (serves M N) (video_pad_added x p pd who)"
    unfolding video_pad_added_def Let_def
    by (intro succeeds_then succeeds_world succeeds_make_or_stop x) simp_all
  have "returns_always (serves M N) (install_audio_chain x p pd who c)" for c
    unfolding install_audio_chain_def
    by (rule succeeds_bind [OF succeeds_swap_audio], rule succeeds_prod)
      (intro succeeds_then succeeds_intros succeeds_drop_chain x; simp)
  then show "returns_always (serves M N) (audio_pad_added x p pd who)"
    unfolding audio_pad_added_def Let_def
    by (intro succeeds_then succeeds_world succeeds_make_or_stop x) simp_all
qed

section \<open>A media pad\<close>

text \<open>The chain of the participant is there once its elements could be made.\<close>

definition has_chain :: "string \<Rightarrow> string \<Rightarrow> gst_inner \<Rightarrow> bool" where
  "has_chain media who gi \<longleftrightarrow>
     who \<in> hm_domain (if media = ''video'' then queue_element_vp8_video_map gi else queue_element_audio_map gi)"

definition makes :: "'w gst_ext \<Rightarrow> bool" where
  "makes x \<longleftrightarrow> (\<forall>f n ps w. fst (x_make x f n ps w) \<noteq> None)"

definition reaches :: "('w, 'a) gst_eff \<Rightarrow> (gst_inner \<Rightarrow> bool) \<Rightarrow> bool" where
  "reaches m P \<longleftrightarrow> (\<forall>s. P (fst (snd (m s))))"

lemma reaches_world: "(\<And>a. reaches (f a) P) \<Longrightarrow> reaches (and_then (on_gst_world h) f) P"
  by (simp add: reaches_def and_then_def on_gst_world_def split: prod.splits)

lemma reaches_make: "makes x \<Longrightarrow> (\<And>e. reaches (rest e) P) \<Longrightarrow> reaches (make_or_stop x p f n ps rest) P"
  unfolding make_or_stop_def or_stop_def
  by (auto simp: reaches_def and_then_def on_gst_world_def makes_def split: prod.splits option.splits)
    (metis fst_conv option.distinct(1))+

lemma reaches_bind:
  assumes "\<And>s. \<exists>a s1. m s = (Ok a, s1) \<and> P (fst s1)" and "\<And>a. keeps (\<lambda>(gi, w). P gi) (f a)"
  shows "reaches (and_then m f) P"
  unfolding reaches_def
proof
  fix s
  from assms(1) [of s] obtain a s1 where m: "m s = (Ok a, s1)" and P: "P (fst s1)" by blast
  obtain r gi w where run: "f a s1 = (r, gi, w)" by (metis prod_cases3)
  from keepsD [OF assms(2) _ run] P have "P gi" by (cases s1) simp
  with run m show "P (fst (snd (and_then m f s)))" by (simp add: and_then_def)
qed

abbreviation chained :: "string \<Rightarrow> string \<Rightarrow> gst_inner \<times> 'w \<Rightarrow> bool" where
  "chained media who \<equiv> \<lambda>(gi, w). has_chain media who gi"

lemma keeps_gst_world: "keeps (\<lambda>(gi, w). P gi) (on_gst_world f)" "keeps (\<lambda>(gi, w). P gi) (touch_gst_world h)"
  by (auto simp: keeps_def on_gst_world_def touch_gst_world_def split: prod.splits)

lemma keeps_chained_calls:
  "keeps (\<lambda>(gi, w). P gi) (soft x p t f)" "keeps (\<lambda>(gi, w). P gi) (expect_some g)"
  "keeps (\<lambda>(gi, w). P gi) (set_properties x e ps)" "keeps (\<lambda>(gi, w). P gi) (play x p)"
  "keeps (\<lambda>(gi, w). P gi) (post_error x p t)" "keeps (\<lambda>(gi, w). P gi) (compositor_pad x p e)"
  "keeps (\<lambda>(gi, w). P gi) (drop_old x p t s e)" "keeps (\<lambda>(gi, w). P gi) (link_queue x p pd e)"
  unfolding soft_def expect_some_def set_properties_def play_def post_error_def compositor_pad_def drop_old_def link_queue_def
  by (intro keeps_intros keeps_gst_world)+

lemma keeps_chained_loops:
  "keeps (\<lambda>(gi, w). P gi) (drop_rest x p t rest)" "keeps (\<lambda>(gi, w). P gi) (add_each x p es)"
  "keeps (\<lambda>(gi, w). P gi) (link_each x p es)" "keeps (\<lambda>(gi, w). P gi) (drop_chain x p t q rest)"
proof -
  show drop: "keeps (\<lambda>(gi, w). P gi) (drop_rest x p t rest)" for rest
    by (induction rest) (auto intro!: keeps_intros keeps_chained_calls)
  show "keeps (\<lambda>(gi, w). P gi) (add_each x p es)"
    by (induction es) (auto intro!: keeps_intros keeps_chained_calls)
  show "keeps (\<lambda>(gi, w). P gi) (link_each x p es)"
    by (induction x p es rule: link_each.induct) (auto intro!: keeps_intros keeps_chained_calls)
  show "keeps (\<lambda>(gi, w). P gi) (drop_chain x p t q rest)"
    unfolding drop_chain_def by (intro keeps_intros keeps_chained_calls drop)
qed

lemma keeps_chained_links:
  "keeps (chained media who) (link_compositor x p w2 e)" "keeps (chained media who) (link_mixer x p w2 e)"
proof -
  have swap: "keeps (chained media who) (swap_entry k v get upd)"
    if "\<And>gi f. has_chain media who (upd f gi) = has_chain media who gi" for k v get upd
    using that by (auto simp: keeps_def swap_entry_def)
  show "keeps (chained media who) (link_compositor x p w2 e)" "keeps (chained media who) (link_mixer x p w2 e)"
    unfolding link_compositor_def link_mixer_def or_stop_def
    by (intro keeps_intros keeps_chained_calls keeps_gst_world swap; simp add: has_chain_def)+
qed

lemma swaps:
  "\<exists>a s1. swap_video_chain who c s = (Ok a, s1) \<and> has_chain ''video'' who (fst s1)"
  "\<exists>a s1. swap_audio_chain who ac s = (Ok a, s1) \<and> has_chain ''audio'' who (fst s1)"
  by (cases s; simp add: swap_video_chain_run swap_audio_chain_run has_chain_def)+

lemma installed:
  "reaches (install_video_chain x p pd who c) (has_chain ''video'' who)"
  "reaches (install_audio_chain x p pd who ac) (has_chain ''audio'' who)"
  unfolding install_video_chain_def install_audio_chain_def
  by (rule reaches_bind, rule swaps, intro keeps_intros keeps_chained_calls keeps_chained_loops keeps_chained_links)+

lemma has_chain_audio: "media \<noteq> ''video'' \<Longrightarrow> has_chain media who = has_chain ''audio'' who"
  by (simp add: has_chain_def fun_eq_iff)

lemma pad_chain:
  assumes "makes x"
  shows "reaches (video_pad_added x p pd who) (has_chain ''video'' who)"
    and "media \<noteq> ''video'' \<Longrightarrow> reaches (audio_pad_added x p pd who) (has_chain media who)"
proof -
  show "reaches (video_pad_added x p pd who) (has_chain ''video'' who)"
    unfolding video_pad_added_def Let_def by (intro reaches_world reaches_make installed assms)
  have "reaches (audio_pad_added x p pd who) (has_chain ''audio'' who)"
    unfolding audio_pad_added_def Let_def by (intro reaches_world reaches_make installed assms)
  then show "reaches (audio_pad_added x p pd who) (has_chain media who)" if "media \<noteq> ''video''"
    using has_chain_audio [OF that] by simp
qed

text \<open>
  C20: A media pad gets its chain. GStreamer hands out pads and takes messages on the bus, the name
  of the new pad carries a session the builders have registered and an SSRC, and the shared
  elements are there: then the handler neither panics nor fails, whatever else GStreamer refuses.
  The chains stay complete, the SSRC is recorded under the session, the sessions are the same, and
  when the elements could be made the participant has a chain of the media of the session.
\<close>

theorem media_pad_handled:
  assumes x: "obliging x" and ok: "chains_ok gi"
    and shared: "video_compositor_element gi \<noteq> None" "audio_mixer_element gi \<noteq> None"
    and pad: "\<not> fst (x_pad_linked x pd w)" "starts_with (x_pad_name x pd) ''recv_rtp_src_''"
    and name: "name_part 3 (x_pad_name x pd) = Some sid" "name_part 4 (x_pad_name x pd) = Some ssrc"
    and meta: "hm_get (session_participant_meta_map gi) sid = Some m"
  shows "\<exists>gi' w'. rtp_bin_element_handling x (Some pl) pd (gi, w) = (Ok (), (gi', w')) \<and> chains_ok gi' \<and>
    session_id_ssrc_map gi' = hm_insert sid ((case hm_get (session_id_ssrc_map gi) sid of None \<Rightarrow> [] | Some l \<Rightarrow> l) @ [ssrc])
      (session_id_ssrc_map gi) \<and>
    session_participant_meta_map gi' = session_participant_meta_map gi \<and>
    (makes x \<longrightarrow> has_chain (psm_media m) (psm_participant_id m) gi')"
proof -
  let ?M = "hm_insert sid ((case hm_get (session_id_ssrc_map gi) sid of None \<Rightarrow> [] | Some l \<Rightarrow> l) @ [ssrc])
    (session_id_ssrc_map gi)"
  let ?gi = "gi\<lparr>session_id_ssrc_map := ?M\<rparr>"
  let ?build = "if psm_media m = ''video'' then video_pad_added x pl pd (psm_participant_id m)
    else audio_pad_added x pl pd (psm_participant_id m)"
  obtain l w1 where linked: "x_pad_linked x pd w = (l, w1)" by fastforce
  have "returns_always (\<lambda>(g, w). g = gi) (soft x pl ''Failed to pause pipeline'' (x_set_state x pl GstPaused))"
    by (rule succeeds_soft [OF x])
  from succeedsD [OF this, of "(gi, w1)"] obtain w2
    where pause: "soft x pl ''Failed to pause pipeline'' (x_set_state x pl GstPaused) (gi, w1) = (Ok (), (gi, w2))"
    by auto
  have run: "rtp_bin_element_handling x (Some pl) pd (gi, w) = ?build (?gi, w2)"
    using linked pause pad name meta
    by (simp add: rtp_bin_element_handling_def pad_added_def pad_session_def and_then_def on_gst_world_def unwrap_def
        ret_def set_inner_def modify_def gets_def)
  have "serving ?M (session_participant_meta_map gi) ?gi"
    using ok shared by (simp add: serving_def chains_ok_def chain_maps)
  then have "serves ?M (session_participant_meta_map gi) (?gi, w2)" by simp
  moreover have "returns_always (serves ?M (session_participant_meta_map gi)) ?build"
    by (intro succeeds_choice succeeds_pad_added x)
  ultimately obtain u s' where u: "?build (?gi, w2) = (Ok u, s')" "serves ?M (session_participant_meta_map gi) s'"
    using succeedsD [of _ ?build "\<lambda>_. True"] by blast
  obtain gi' w' where s': "s' = (gi', w')" by fastforce
  with u have res: "?build (?gi, w2) = (Ok (), (gi', w'))"
    and "serving ?M (session_participant_meta_map gi) gi'" by simp_all
  moreover have "has_chain (psm_media m) (psm_participant_id m) gi'" if "makes x"
  proof -
    have "reaches ?build (has_chain (psm_media m) (psm_participant_id m))"
      using pad_chain [OF that] by auto
    then show ?thesis unfolding reaches_def using res by (metis fst_conv snd_conv)
  qed
  ultimately show ?thesis unfolding run by (auto simp: serving_def)
qed

definition sample_inner :: gst_inner where
  "sample_inner = inner_new\<lparr>video_compositor_element := Some ''comp'', audio_mixer_element := Some ''mix'',
     queue_element_vp8_video_map := [(''alice'', ''q'')], rtp_vp8_de_pay_element_video_map := [(''alice'', ''d'')],
     vp8_dec_element_video_map := [(''alice'', ''v'')], video_convert_element_video_map := [(''alice'', ''o'')],
     video_scale_element_video_map := [(''alice'', ''s'')], caps_filter_element_video_map := [(''alice'', ''f'')],
     session_participant_meta_map := [(0, \<lparr>psm_meeting_id = ''m'', psm_participant_id = ''alice'',
       psm_media = ''video'', psm_port = 50002, psm_rtp_sink_pad = ''k'', psm_rtcp_sink_pad = ''l''\<rparr>)]\<rparr>"

text \<open>\<open>alice\<close>, whose chain is complete, gets a second media pad.\<close>

theorem media_pad_handled_witness:
  "\<exists>gi' w'. rtp_bin_element_handling sample_gst (Some ''pipe'') ''recv_rtp_src_0_7_96'' (sample_inner, sample_start) =
     (Ok (), (gi', w')) \<and> hm_get (session_id_ssrc_map gi') 0 = Some [7] \<and> has_chain ''video'' ''alice'' gi'"
proof -
  have x: "obliging sample_gst" "makes sample_gst" by (auto simp: obliging_def makes_def)
  have gi: "chains_ok sample_inner" "video_compositor_element sample_inner \<noteq> None" "audio_mixer_element sample_inner \<noteq> None"
    by (auto simp: sample_inner_def inner_new_def chains_ok_def chain_maps aligned_def hm_domain_def hm_get_def split: if_splits)
  have pad: "\<not> fst (x_pad_linked sample_gst ''recv_rtp_src_0_7_96'' sample_start)"
    "starts_with (x_pad_name sample_gst ''recv_rtp_src_0_7_96'') ''recv_rtp_src_''"
    "name_part 3 (x_pad_name sample_gst ''recv_rtp_src_0_7_96'') = Some 0"
    "name_part 4 (x_pad_name sample_gst ''recv_rtp_src_0_7_96'') = Some 7"
    by (simp_all add: starts_with_def name_part_def parse_unsigned_def read_nat_def strip_plus_def digit_of_def)
  have meta: "hm_get (session_participant_meta_map sample_inner) 0 = Some \<lparr>psm_meeting_id = ''m'', psm_participant_id = ''alice'',
       psm_media = ''video'', psm_port = 50002, psm_rtp_sink_pad = ''k'', psm_rtcp_sink_pad = ''l''\<rparr>"
    and "session_id_ssrc_map sample_inner = []"
    by (simp_all add: sample_inner_def hm_get_def inner_new_def)
  with media_pad_handled [OF x(1) gi pad meta, of "''pipe''"] x(2) show ?thesis
    by (auto simp: hm_get_def hm_insert_def hm_remove_def)
qed

section \<open>The source of a participant\<close>

abbreviation sourced :: "(string, element) hmap \<Rightarrow> gst_inner \<times> 'w \<Rightarrow> bool" where
  "sourced M \<equiv> \<lambda>(gi, w). udp_src_element_video_map gi = M"

lemma keeps_sourced_set:
  "(\<And>gi. udp_src_element_video_map (f gi) = udp_src_element_video_map gi) \<Longrightarrow> keeps (sourced M) (set_inner f)"
  unfolding set_inner_def by (rule keeps_modify) auto

lemma keeps_sourced_shared:
  "keeps (sourced M) build \<Longrightarrow> (\<And>e gi. udp_src_element_video_map (upd (\<lambda>_. Some e) gi) = udp_src_element_video_map gi) \<Longrightarrow>
   keeps (sourced M) (shared_element get upd build)"
  unfolding shared_element_def by (intro keeps_intros keeps_sourced_set)

lemma keeps_sourced_calls:
  "keeps (sourced M) (must e f)" "keeps (sourced M) (must_have e h)" "keeps (sourced M) (expect_some g)"
  "keeps (sourced M) (set_properties x el ps)" "keeps (sourced M) (make_or x n m ps)"
  unfolding must_def must_have_def expect_some_def set_properties_def make_or_def
  by (intro keeps_intros keeps_gst_world)+

lemma keeps_sourced_parts:
  "keeps (sourced M) (shared_video_tail x ts)" "keeps (sourced M) clock \<Longrightarrow> keeps (sourced M) (shared_split_mux x clock m)"
  "keeps (sourced M) (make_video_rtcp_source x p port ts)" "keeps (sourced M) (shared_rtp_bin x n ts)"
  "keeps (sourced M) (add_source x pl src rtcp rb)" "keeps (sourced M) (add_video_tail x pl err tail)"
  "keeps (sourced M) (add_new x pl what e)" "keeps (sourced M) (link_video_source x m p port src rtcp rbe)"
  "keeps (sourced M) (link_video_tail x err tail sm)" "keeps (sourced M) (attach x g pl rb m p)"
  unfolding shared_video_tail_def shared_split_mux_def make_video_rtcp_source_def shared_rtp_bin_def add_source_def
    add_video_tail_def add_new_def link_video_source_def link_video_tail_def attach_def session_of_def store_session_def
    split_video_pad_def
  by (intro keeps_intros keeps_sourced_shared keeps_sourced_calls keeps_sourced_set keeps_gst_world; simp)+

text \<open>
  C33: One entry per participant, whatever is recorded. Once the source of a video recording has
  been made, it is the entry of the participant in the map of video sources, also when the builder
  fails or panics later. An older source of the participant, of a camera when the screen is shared,
  is in no entry any more, so removing the participant from the pipeline leaves it there; and a
  builder that fails leaves the entry of a source it did not link.
\<close>

theorem video_source_replaced:
  assumes "gst_pipeline g = Some pl" and "x_now_secs x w = (ts, w1)"
    and "x_make x ''udpsrc'' (element_name ''udpsrc_vp8_video'' p ts) [] w1 = (Some src, w2)"
    and run: "start_vp8_recording x g port m p t (gi, w) = (r, (gi', w'))"
  shows "udp_src_element_video_map gi' = hm_insert p src (udp_src_element_video_map gi)"
proof -
  let ?M = "hm_insert p src (udp_src_element_video_map gi)"
  have src: "\<exists>w3. make_video_source x p port ts (gi, w1) = (Ok src, (udp_src_element_video_map_update (hm_insert p src) gi, w3))"
    using assms(3)
    by (simp add: make_video_source_def make_or_def must_have_def on_gst_world_def set_properties_def touch_gst_world_def
        set_inner_def and_then_def ret_def modify_def)
  then obtain w3 where src: "make_video_source x p port ts (gi, w1) =
      (Ok src, (udp_src_element_video_map_update (hm_insert p src) gi, w3))" ..
  have rest: "keeps (sourced ?M)
    (and_then (shared_video_tail x ts) (\<lambda>tail.
     and_then (shared_split_mux x (ret ts) m) (\<lambda>split_mux.
     and_then (make_video_rtcp_source x p port ts) (\<lambda>rtcp.
     and_then (shared_rtp_bin x ''rtpbin_vp8_video'' ts) (\<lambda>rtp_bin.
     and_then (add_source x pl src rtcp rtp_bin) (\<lambda>_.
     and_then (add_video_tail x pl
       ''Either compositor, x264enc, videoscale or capsfilter element is new, but not both'' tail) (\<lambda>_.
     and_then (add_new x pl ''splitmuxsink'' split_mux) (\<lambda>_.
     and_then (link_video_source x m p port src rtcp (fst rtp_bin)) (\<lambda>_.
     and_then (if snd (vt_compositor tail)
               then link_video_tail x ''Failed to link compositor and x264enc'' tail (fst split_mux)
               else ret ()) (\<lambda>_.
     attach x g pl rtp_bin m p))))))))))"
    by (intro keeps_intros keeps_sourced_parts)
  show ?thesis
    using run src keepsD [OF rest, of "(udp_src_element_video_map_update (hm_insert p src) gi, w3)"] assms(1,2)
    by (simp add: start_vp8_recording_def pipeline_of_def and_then_step ret_def and_then_def on_gst_world_def)
qed

theorem video_source_replaced_witness:
  "\<exists>r gi' w'. start_vp8_recording sample_gst sample_gstreamer 50004 ''m'' ''alice'' ''t''
      (gst_inner sample_gstreamer, sample_start) = (r, (gi', w')) \<and>
    hm_values (udp_src_element_video_map (gst_inner sample_gstreamer)) = [''src''] \<and>
    hm_values (udp_src_element_video_map gi') = [''e'']"
proof -
  obtain r gi' w' where run: "start_vp8_recording sample_gst sample_gstreamer 50004 ''m'' ''alice'' ''t''
      (gst_inner sample_gstreamer, sample_start) = (r, (gi', w'))" by (metis prod_cases3)
  have pl: "gst_pipeline sample_gstreamer = Some ''pipe''" by (simp add: sample_gstreamer_def)
  have clock: "x_now_secs sample_gst sample_start = (7, sample_start)" by simp
  have src: "x_make sample_gst ''udpsrc'' (element_name ''udpsrc_vp8_video'' ''alice'' 7) [] sample_start =
      (Some ''e'', sample_start\<lparr>sw_next := 1\<rparr>)"
    by (simp add: sample_start_def)
  have "udp_src_element_video_map gi' = hm_insert ''alice'' ''e'' (udp_src_element_video_map (gst_inner sample_gstreamer))"
    by (rule video_source_replaced [OF pl clock src run])
  with run show ?thesis
    by (fastforce simp: sample_gstreamer_def hm_values_def hm_insert_def hm_remove_def)
qed

end
