(* ===== verification/Recording_Facts.thy ===== *)
theory Recording_Facts
  imports Chains Sample
begin

text \<open>
  What a recording that fails leaves behind. The builders of \<open>src/gstreamer/mod.rs\<close> store a shared element
  in the \<open>Inner\<close> of the meeting as soon as it is made, before it is added to the pipeline; when a later
  step fails it stays there, and the next builder takes it for one that is in place.
\<close>

section \<open>The caps of a source\<close>

text \<open>What a source of the pipeline is told to expect is what the routers are told to send.\<close>

fun encoding_name :: "mime_type \<Rightarrow> string" where
  "encoding_name MimeAudioOpus = ''OPUS''"
| "encoding_name MimeVideoVp8 = ''VP8''"

fun codec_caps :: "rtp_codec_capability \<Rightarrow> string option" where
  "codec_caps (CodecAudio mime payload rate channels ps fb) =
     map_option (\<lambda>n. rtp_caps ''audio'' (show_nat rate) (encoding_name mime) (show_nat n)) payload"
| "codec_caps (CodecVideo mime payload rate ps fb) =
     map_option (\<lambda>n. rtp_caps ''video'' (show_nat rate) (encoding_name mime) (show_nat n)) payload"

lemma sources_expect_codecs:
  "map codec_caps media_codecs =
     [Some (rtp_caps ''audio'' ''48000'' ''OPUS'' ''111''), Some (rtp_caps ''video'' ''90000'' ''VP8'' ''96'')]"
  by (simp add: media_codecs_def show_nat.simps digit_char_def char_of_def bit_iff_odd)

section \<open>The shared elements of the audio builder\<close>

definition equipped :: "gst_inner \<Rightarrow> bool" where
  "equipped gi \<longleftrightarrow> rtp_bin_element gi \<noteq> None \<and> audio_mixer_element gi \<noteq> None \<and> opus_enc_element_audio gi \<noteq> None \<and>
     video_compositor_element gi \<noteq> None \<and> video_scale_post_compositor_element gi \<noteq> None \<and>
     caps_filter_post_compositor_element gi \<noteq> None \<and> x264_encode_element_video gi \<noteq> None \<and>
     split_mux_sink_element gi \<noteq> None"

text \<open>A builder that finds them all: the source is added and linked, and nothing else.\<close>

definition add_audio_source :: "'w gst_ext \<Rightarrow> gstreamer \<Rightarrow> int \<Rightarrow> string \<Rightarrow> string \<Rightarrow> element \<Rightarrow> ('w, gstreamer) gst_eff" where
  "add_audio_source x g audio_port meeting_id participant_id rtp_bin =
     and_then (pipeline_of x g) (\<lambda>pipeline.
     and_then (on_gst_world (x_now_secs x)) (\<lambda>ts.
     and_then (make_audio_source x participant_id audio_port ts) (\<lambda>(src, rtcp).
     and_then (add_source x pipeline src rtcp (rtp_bin, False)) (\<lambda>_.
     and_then (link_audio_source x meeting_id participant_id audio_port src rtcp rtp_bin) (\<lambda>_.
     attach x g pipeline (rtp_bin, False) meeting_id participant_id)))))"

definition same_shared :: "gst_inner \<Rightarrow> gst_inner \<times> 'w \<Rightarrow> bool" where
  "same_shared gi = (\<lambda>(gi', w). rtp_bin_element gi' = rtp_bin_element gi \<and> audio_mixer_element gi' = audio_mixer_element gi \<and>
     opus_enc_element_audio gi' = opus_enc_element_audio gi \<and> video_compositor_element gi' = video_compositor_element gi \<and>
     video_scale_post_compositor_element gi' = video_scale_post_compositor_element gi \<and>
     caps_filter_post_compositor_element gi' = caps_filter_post_compositor_element gi \<and>
     x264_encode_element_video gi' = x264_encode_element_video gi \<and> split_mux_sink_element gi' = split_mux_sink_element gi)"

lemma keeps_same_shared_calls [keeps_intros]:
  "keeps (same_shared gi) (on_gst_world f)" "keeps (same_shared gi) (touch_gst_world u)"
  by (auto simp: keeps_def on_gst_world_def touch_gst_world_def same_shared_def split: prod.splits)

lemma keeps_same_shared_maps [keeps_intros]:
  "keeps (same_shared gi) (set_inner (udp_src_element_audio_map_update f))"
  "keeps (same_shared gi) (set_inner (udp_rtcp_src_element_audio_map_update f))"
  "keeps (same_shared gi) (set_inner (session_participant_meta_map_update h))"
  by (auto simp: keeps_def set_inner_def modify_def same_shared_def)

lemma keeps_same_shared_source: "keeps (same_shared gi) (make_audio_source x p port ts)"
  unfolding make_audio_source_def make_or_def must_have_def set_properties_def by (intro keeps_intros)

lemma shared_element_found:
  "get gi = Some e \<Longrightarrow> shared_element get upd build (gi, w) = (Ok (e, False), (gi, w))"
  by (simp add: shared_element_def and_then_def gets_def ret_def)

lemma shared_video_tail_found:
  assumes "video_compositor_element gi = Some a" and "video_scale_post_compositor_element gi = Some b"
    and "caps_filter_post_compositor_element gi = Some c" and "x264_encode_element_video gi = Some e"
  shows "shared_video_tail x ts (gi, w) =
    (Ok \<lparr>vt_compositor = (a, False), vt_scale = (b, False), vt_caps = (c, False), vt_x264 = (e, False)\<rparr>, (gi, w))"
  using assms by (simp add: shared_video_tail_def shared_element_found and_then_def ret_def)

lemma and_then_cong:
  "(\<And>a s'. m s = (Ok a, s') \<Longrightarrow> f a s' = g a s') \<Longrightarrow> and_then m f s = and_then m g s"
  by (auto simp: and_then_def split: prod.splits outcome.splits)

lemma keeps_same_shared_pipeline: "keeps (same_shared gi) (pipeline_of x g)"
  unfolding pipeline_of_def by (intro keeps_intros)

lemma equipped_only_adds_source:
  assumes "equipped gi"
  shows "\<exists>rtp_bin. rtp_bin_element gi = Some rtp_bin \<and>
    start_audio_recording x g port m p t (gi, w) = add_audio_source x g port m p rtp_bin (gi, w)"
proof -
  obtain rb mix enc a b c e mux where shared: "rtp_bin_element gi = Some rb" "audio_mixer_element gi = Some mix"
    "opus_enc_element_audio gi = Some enc" "video_compositor_element gi = Some a"
    "video_scale_post_compositor_element gi = Some b" "caps_filter_post_compositor_element gi = Some c"
    "x264_encode_element_video gi = Some e" "split_mux_sink_element gi = Some mux"
    using assms by (auto simp: equipped_def)
  let ?rest = "\<lambda>pipeline src rtcp. and_then (add_source x pipeline src rtcp (rb, False)) (\<lambda>_.
     and_then (link_audio_source x m p port src rtcp rb) (\<lambda>_. attach x g pipeline (rb, False) m p))"
  let ?all = "\<lambda>pipeline ts src rtcp. and_then (shared_rtp_bin x ''rtpbin_audio'' ts) (\<lambda>rtp_bin.
     and_then (shared_audio_mixer x ts) (\<lambda>mixer.
     and_then (shared_opus_encoder x) (\<lambda>encoder.
     and_then (shared_video_tail x ts) (\<lambda>tail.
     and_then (shared_split_mux x (on_gst_world (x_now_secs x)) m) (\<lambda>split_mux.
     and_then (add_source x pipeline src rtcp rtp_bin) (\<lambda>_.
     and_then (add_audio_tail x pipeline mixer encoder) (\<lambda>_.
     and_then (add_video_tail x pipeline
       ''Either compositor, x264enc, video scale or caps filter element is not new, cannot add to pipeline'' tail) (\<lambda>_.
     and_then (add_new x pipeline ''splitmuxsink'' split_mux) (\<lambda>_.
     and_then (link_audio_source x m p port src rtcp (fst rtp_bin)) (\<lambda>_.
     and_then (if snd mixer then link_audio_tail x (fst mixer) (fst encoder) tail (fst split_mux) else ret ()) (\<lambda>_.
     attach x g pipeline rtp_bin m p)))))))))))"
  have same: "?all pipeline ts src rtcp s = ?rest pipeline src rtcp s" if "same_shared gi s" for pipeline ts src rtcp and s :: "gst_inner \<times> 'a"
  proof -
    obtain gi2 w2 where s: "s = (gi2, w2)" by (cases s)
    with that shared have found: "rtp_bin_element gi2 = Some rb" "audio_mixer_element gi2 = Some mix"
      "opus_enc_element_audio gi2 = Some enc" "video_compositor_element gi2 = Some a"
      "video_scale_post_compositor_element gi2 = Some b" "caps_filter_post_compositor_element gi2 = Some c"
      "x264_encode_element_video gi2 = Some e" "split_mux_sink_element gi2 = Some mux"
      by (simp_all add: same_shared_def)
    have "and_then (shared_rtp_bin x ''rtpbin_audio'' ts) k s = k (rb, False) s"
      "and_then (shared_audio_mixer x ts) k s = k (mix, False) s"
      "and_then (shared_opus_encoder x) k s = k (enc, False) s"
      "and_then (shared_split_mux x (on_gst_world (x_now_secs x)) m) k s = k (mux, False) s" for k :: "_ \<Rightarrow> ('a, gstreamer) gst_eff"
      unfolding s shared_rtp_bin_def shared_audio_mixer_def shared_opus_encoder_def shared_split_mux_def
      by (simp_all add: and_then_def shared_element_found found)
    moreover have "and_then (shared_video_tail x ts) k s =
      k \<lparr>vt_compositor = (a, False), vt_scale = (b, False), vt_caps = (c, False), vt_x264 = (e, False)\<rparr> s"
      for k :: "_ \<Rightarrow> ('a, gstreamer) gst_eff"
      unfolding s by (simp add: and_then_def shared_video_tail_found [OF found(4-7)])
    ultimately show ?thesis
      by (simp add: add_audio_tail_def add_video_tail_def add_new_def and_then_def ret_def split: prod.splits outcome.splits)
  qed
  have start: "same_shared gi (gi, w)" by (simp add: same_shared_def)
  have "start_audio_recording x g port m p t (gi, w) = add_audio_source x g port m p rb (gi, w)"
    unfolding start_audio_recording_def add_audio_source_def
  proof (intro and_then_cong, goal_cases)
    case (1 pipeline s1 ts s2 e s3)
    from keepsD [OF keeps_same_shared_pipeline start 1(1)] have "same_shared gi s1" .
    from keepsD [OF keeps_same_shared_calls(1) this 1(2)] have "same_shared gi s2" .
    from keepsD [OF keeps_same_shared_source this 1(3)] have "same_shared gi s3" .
    from same [OF this] show ?case by (cases e) simp
  qed
  with shared(1) show ?thesis by blast
qed

section \<open>A builder that fails\<close>

definition shared_elements :: "(gst_inner \<Rightarrow> element option) set" where
  "shared_elements = {rtp_bin_element, audio_mixer_element, opus_enc_element_audio, video_compositor_element,
     video_scale_post_compositor_element, caps_filter_post_compositor_element, x264_encode_element_video,
     split_mux_sink_element}"

definition stored :: "(gst_inner \<Rightarrow> element option) set \<Rightarrow> gst_inner \<times> 'w \<Rightarrow> bool" where
  "stored G = (\<lambda>(gi, w). \<forall>get \<in> G \<inter> shared_elements. get gi \<noteq> None)"

lemma keeps_stored_calls [keeps_intros]:
  "keeps (stored G) (on_gst_world f)" "keeps (stored G) (touch_gst_world u)"
  by (auto simp: keeps_def on_gst_world_def touch_gst_world_def stored_def split: prod.splits)

lemma keeps_stored_set [keeps_intros]:
  "keeps (stored G) (set_inner (udp_src_element_audio_map_update f))"
  "keeps (stored G) (set_inner (udp_rtcp_src_element_audio_map_update f))"
  "keeps (stored G) (set_inner (session_participant_meta_map_update h))"
  "keeps (stored G) (set_inner (split_mux_sink_video_pad_update v))"
  by (auto simp: keeps_def set_inner_def modify_def stored_def shared_elements_def)

lemma keeps_stored_element [keeps_intros]:
  "keeps (stored G) (set_inner (rtp_bin_element_update (\<lambda>_. Some e)))"
  "keeps (stored G) (set_inner (audio_mixer_element_update (\<lambda>_. Some e)))"
  "keeps (stored G) (set_inner (opus_enc_element_audio_update (\<lambda>_. Some e)))"
  "keeps (stored G) (set_inner (video_compositor_element_update (\<lambda>_. Some e)))"
  "keeps (stored G) (set_inner (video_scale_post_compositor_element_update (\<lambda>_. Some e)))"
  "keeps (stored G) (set_inner (caps_filter_post_compositor_element_update (\<lambda>_. Some e)))"
  "keeps (stored G) (set_inner (x264_encode_element_video_update (\<lambda>_. Some e)))"
  "keeps (stored G) (set_inner (split_mux_sink_element_update (\<lambda>_. Some e)))"
  by (auto simp: keeps_def set_inner_def modify_def stored_def shared_elements_def)

lemma keeps_stored_adding:
  "keeps (stored G) (add_source x p src rtcp rb)" "keeps (stored G) (add_audio_tail x p mix enc)"
  "keeps (stored G) (add_video_tail x p err t)" "keeps (stored G) (add_new x p what el)"
  "keeps (stored G) (link_audio_source x m i port src rtcp bin)"
  "keeps (stored G) (link_audio_tail x mixer encoder t mux)" "keeps (stored G) (attach x g p rb m i)"
  unfolding add_source_def add_audio_tail_def add_video_tail_def add_new_def link_audio_source_def link_audio_tail_def
    link_video_tail_def split_video_pad_def attach_def must_def must_have_def session_of_def store_session_def
  by (intro keeps_intros)+

text \<open>Errors of the first part, in which the elements are made.\<close>

definition not_made :: "string \<Rightarrow> bool" where
  "not_made e \<longleftrightarrow> (\<exists>what. e = ''Failed to create '' @ what)"

definition makes :: "(gst_inner \<Rightarrow> element option) set \<Rightarrow> ('w, 'a) gst_eff \<Rightarrow> bool" where
  "makes G m \<longleftrightarrow> (\<forall>H. post (stored H) m (\<lambda>_. stored (G \<union> H)) (\<lambda>e _. not_made e))"

lemma makesI:
  assumes "\<And>H s a s'. stored H s \<Longrightarrow> m s = (Ok a, s') \<Longrightarrow> stored (G \<union> H) s'"
    and "\<And>s e s'. m s = (Err e, s') \<Longrightarrow> not_made e"
  shows "makes G m"
  unfolding makes_def using assms by (intro allI postI)

lemma makes_nothing:
  assumes "\<And>H. keeps (stored H) m" and "\<And>s e s'. m s = (Err e, s') \<Longrightarrow> not_made e"
  shows "makes {} m"
  by (rule makesI) (use assms in \<open>auto dest: keepsD\<close>)

lemma makes_or: "makes {} (make_or x factory name ps)"
proof (rule makes_nothing)
  show "keeps (stored H) (make_or x factory name ps)" for H
    unfolding make_or_def must_have_def by (intro keeps_intros)
qed (auto simp: make_or_def must_have_def run_iffs on_gst_world_def fail_def ret_def not_made_def
    split: option.splits prod.splits)

lemma makes_okD: "makes G m \<Longrightarrow> stored H s \<Longrightarrow> m s = (Ok a, s') \<Longrightarrow> stored (G \<union> H) s'"
  unfolding makes_def by (blast dest: post_okD)

lemma makes_errD: "makes G m \<Longrightarrow> m s = (Err e, s') \<Longrightarrow> not_made e"
proof -
  have none: "stored {} s" by (simp add: stored_def split: prod.split)
  show "makes G m \<Longrightarrow> m s = (Err e, s') \<Longrightarrow> not_made e"
    unfolding makes_def using none by (blast dest: post_errD)
qed

lemma makes_then:
  assumes "makes G m" and "\<And>a. makes G' (f a)"
  shows "makes (G \<union> G') (and_then m f)"
proof (rule makesI)
  fix H s b s'
  assume "stored H s" and "and_then m f s = (Ok b, s')"
  then obtain a s1 where "stored (G \<union> H) s1" "f a s1 = (Ok b, s')"
    by (auto simp: run_iffs dest: makes_okD [OF assms(1)])
  from makes_okD [OF assms(2) this] show "stored (G \<union> G' \<union> H) s'" by (simp add: Un_ac)
next
  fix s e s'
  assume "and_then m f s = (Err e, s')"
  then show "not_made e" by (auto simp: run_iffs dest: makes_errD [OF assms(1)] makes_errD [OF assms(2)])
qed

lemma makes_basic: "makes {} (ret a)" "makes {} (on_gst_world f)" "makes {} (touch_gst_world u)"
  by (rule makes_nothing, intro keeps_intros; simp add: ret_def on_gst_world_def touch_gst_world_def split: prod.splits)+

lemma makes_shared:
  assumes build: "makes {} build" and get: "\<And>e gi. get (upd (\<lambda>_. Some e) gi) = Some e"
    and upd: "\<And>e H. keeps (stored H) (set_inner (upd (\<lambda>_. Some e)) :: ('w, unit) gst_eff)"
  shows "makes {get} (shared_element get upd (build :: ('w, element) gst_eff))"
proof (rule makesI)
  fix H and s s' :: "gst_inner \<times> 'w" and a
  assume "stored H s" and run: "shared_element get upd build s = (Ok a, s')"
  obtain gi w where s: "s = (gi, w)" by (cases s)
  show "stored ({get} \<union> H) s'"
  proof (cases "get gi")
    case (Some e)
    with run \<open>stored H s\<close> show ?thesis by (auto simp: s shared_element_found stored_def)
  next
    case None
    with run obtain e s1 where "build s = (Ok e, s1)" and set: "set_inner (upd (\<lambda>_. Some e)) s1 = (Ok () :: (unit, string) outcome, s')"
      by (auto simp: s shared_element_def gets_def ret_def run_iffs)
    from makes_okD [OF build \<open>stored H s\<close> this(1)] have "stored H s1" by simp
    from keepsD [OF upd this set] set get show ?thesis by (auto simp: set_inner_def modify_def stored_def split: prod.splits)
  qed
next
  fix s s' :: "gst_inner \<times> 'w" and e
  assume "shared_element get upd build s = (Err e, s')"
  then show "not_made e"
    by (auto simp: shared_element_def gets_def ret_def set_inner_def modify_def run_iffs
        split: option.splits dest: makes_errD [OF build])
qed

lemma makes_nothing_then: "makes {} m \<Longrightarrow> (\<And>a. makes {} (f a)) \<Longrightarrow> makes {} (and_then m f)"
  using makes_then [of "{}" m "{}" f] by simp

lemmas makes_parts = makes_nothing_then makes_basic makes_or

lemma makes_source: "makes {} (make_audio_source x p port ts)"
proof (rule makes_nothing)
  show "keeps (stored H) (make_audio_source x p port ts)" for H
    unfolding make_audio_source_def make_or_def must_have_def set_properties_def by (intro keeps_intros)
qed (auto simp: make_audio_source_def set_properties_def touch_gst_world_def set_inner_def modify_def ret_def run_iffs
    dest: makes_errD [OF makes_or])

lemma makes_shared_parts:
  "makes {rtp_bin_element} (shared_rtp_bin x prefix ts)" "makes {audio_mixer_element} (shared_audio_mixer x ts)"
  "makes {opus_enc_element_audio} (shared_opus_encoder x)"
  "makes {split_mux_sink_element} (shared_split_mux x (on_gst_world (x_now_secs x)) m)"
  unfolding shared_rtp_bin_def shared_audio_mixer_def shared_opus_encoder_def shared_split_mux_def set_properties_def
  by (intro makes_shared makes_parts keeps_stored_element; simp)+

lemma makes_tail:
  "makes {video_compositor_element, video_scale_post_compositor_element, caps_filter_post_compositor_element,
     x264_encode_element_video} (shared_video_tail x ts)"
proof -
  have "makes ({video_compositor_element} \<union> ({video_scale_post_compositor_element} \<union>
      ({caps_filter_post_compositor_element} \<union> ({x264_encode_element_video} \<union> {})))) (shared_video_tail x ts)"
    unfolding shared_video_tail_def
    by (intro makes_then makes_shared makes_or makes_basic keeps_stored_element; simp)
  then show ?thesis by (simp add: insert_commute)
qed

definition sticks :: "(gst_inner \<Rightarrow> element option) set \<Rightarrow> ('w, 'a) gst_eff \<Rightarrow> bool" where
  "sticks H m \<longleftrightarrow> (\<forall>s e s'. stored H s \<longrightarrow> m s = (Err e, s') \<longrightarrow> not_made e \<or> stored shared_elements s')"

lemma sticks_then:
  assumes "makes G m" and "\<And>a. sticks (G \<union> H) (f a)"
  shows "sticks H (and_then m f)"
  unfolding sticks_def
proof (intro allI impI)
  fix s e s'
  assume "stored H s" and "and_then m f s = (Err e, s')"
  then consider "not_made e" | a s1 where "stored (G \<union> H) s1" "f a s1 = (Err e, s')"
    by (auto simp: run_iffs dest: makes_okD [OF assms(1)] makes_errD [OF assms(1)])
  then show "not_made e \<or> stored shared_elements s'"
    using assms(2) unfolding sticks_def by cases blast+
qed

lemma sticks_kept:
  assumes "shared_elements \<subseteq> H" and "\<And>G. keeps (stored G) m"
  shows "sticks H m"
proof -
  have "stored shared_elements s" if "stored H s" for s :: "gst_inner \<times> 'a"
    using that assms(1) by (auto simp: stored_def split: prod.splits)
  then show ?thesis unfolding sticks_def by (auto dest: keepsD [OF assms(2)])
qed

lemma makes_pipeline: "makes {} (pipeline_of x g)"
  unfolding pipeline_of_def by (auto intro: makes_basic split: option.split)

lemma sticks_audio: "sticks {} (start_audio_recording x g port m p t)"
  unfolding start_audio_recording_def
  apply (rule sticks_then [OF makes_pipeline])
  apply (rule sticks_then [OF makes_basic(2)])
  apply (rule sticks_then [OF makes_source])
  apply (clarsimp split: prod.split)
  apply (rule sticks_then [OF makes_shared_parts(1)])
  apply (rule sticks_then [OF makes_shared_parts(2)])
  apply (rule sticks_then [OF makes_shared_parts(3)])
  apply (rule sticks_then [OF makes_tail])
  apply (rule sticks_then [OF makes_shared_parts(4)])
  apply (rule sticks_kept)
   apply (auto simp: shared_elements_def) [1]
  apply (intro keeps_intros keeps_stored_adding)
  done

text \<open>
  C22: A failed recording sticks. Let a builder fail in any way but one: that an element could not be
  made (a pipeline that cannot be paused, an element that cannot be added, a pad that is missing, a link
  that is refused). Then every shared element is in the \<open>Inner\<close> of the meeting, whether or not it has
  reached the pipeline, and every later audio recording on that \<open>Inner\<close> only adds and links its own
  source: the mixer, the encoders and the sink are never added or linked again.
\<close>

theorem failed_recording_sticks:
  assumes "start_audio_recording x g port m p t (gi, w) = (Err e, (gi', w'))" and "\<not> not_made e"
  shows "equipped gi' \<and>
    (\<exists>rtp_bin. rtp_bin_element gi' = Some rtp_bin \<and>
      (\<forall>g2 port2 m2 p2 t2 w2. start_audio_recording x g2 port2 m2 p2 t2 (gi', w2) =
         add_audio_source x g2 port2 m2 p2 rtp_bin (gi', w2)))"
proof -
  have "stored {} (gi, w)" by (simp add: stored_def)
  with sticks_audio [of x g port m p t] assms have "stored shared_elements (gi', w')" unfolding sticks_def by blast
  then have "equipped gi'" by (simp add: stored_def shared_elements_def equipped_def)
  moreover from this obtain rtp_bin where "rtp_bin_element gi' = Some rtp_bin" by (auto simp: equipped_def)
  moreover have "start_audio_recording x g2 port2 m2 p2 t2 (gi', w2) = add_audio_source x g2 port2 m2 p2 rtp_bin (gi', w2)"
    for g2 port2 m2 p2 t2 w2
    using equipped_only_adds_source [OF \<open>equipped gi'\<close>, of x g2 port2 m2 p2 t2 w2] calculation(2) by auto
  ultimately show ?thesis by blast
qed

text \<open>A pipeline that cannot be paused.\<close>

definition stuck_gst :: "sample_world gst_ext" where
  "stuck_gst = (ext_gst sample_ext)\<lparr>x_set_state := \<lambda>_ st w. (if st = GstPaused then Some ''busy'' else None, w)\<rparr>"

lemmas audio_defs =
  start_audio_recording_def pipeline_of_def make_audio_source_def shared_rtp_bin_def shared_audio_mixer_def
  shared_opus_encoder_def shared_video_tail_def shared_split_mux_def shared_element_def make_or_def must_have_def must_def
  set_properties_def on_gst_world_def touch_gst_world_def set_inner_def add_source_def

lemma pausing_fails:
  "fst (start_audio_recording stuck_gst gstreamer_new 5000 ''m'' ''alice'' ''t'' (inner_new, sample_start)) =
     Err ''Failed to pause pipeline''"
  by (simp add: audio_defs eff_simps stuck_gst_def gstreamer_new_def inner_new_def)

theorem failed_recording_sticks_witness:
  "\<exists>gi' w'. start_audio_recording stuck_gst gstreamer_new 5000 ''m'' ''alice'' ''t'' (inner_new, sample_start) =
      (Err ''Failed to pause pipeline'', (gi', w')) \<and> equipped gi' \<and>
    (\<exists>rtp_bin. \<forall>w2. start_audio_recording stuck_gst gstreamer_new 5002 ''m'' ''bob'' ''t'' (gi', w2) =
         add_audio_source stuck_gst gstreamer_new 5002 ''m'' ''bob'' rtp_bin (gi', w2))"
proof -
  obtain gi' w' where run: "start_audio_recording stuck_gst gstreamer_new 5000 ''m'' ''alice'' ''t'' (inner_new, sample_start) =
      (Err ''Failed to pause pipeline'', (gi', w'))"
    using pausing_fails by (metis prod.collapse)
  have "\<not> not_made ''Failed to pause pipeline''" by (simp add: not_made_def)
  from failed_recording_sticks [OF run this] run show ?thesis by blast
qed

end
