(* ===== verification/Server_Facts.thy ===== *)
theory Server_Facts
  imports Server Meeting_Facts
begin

text \<open>
  Properties of the server as a whole: the invariant of every reachable state, what the handlers
  answer, how a meeting request is validated and which port a recording gets.
\<close>

section \<open>Reachable states\<close>

text \<open>
  C9: The invariant of the server. In every state the server can reach from start-up, by requests
  handled to their end (answered, failed or panicked half way), new pads in the pipelines, published
  events and changes of the world outside: every producer, router and transport is stored under its
  own id, a participant has at most one producer of a kind in a meeting, every consumer is in the
  shard of its meeting and is the only one of its participant instance for a stream, the shards are
  as many as configured, and every pipeline in the map is built and has complete chains. No
  assumption is made on what mediasoup, GStreamer, the database or the operating system answer; a
  decoded map has no key twice.
\<close>

theorem reachable_state_ok:
  assumes "decoders_wf d" and "reachable x d n c s"
  shows "sfu_inv x s"
  by (rule reachable_inv [OF assms])

definition no_decoders :: decoders where
  "no_decoders = \<lparr>of_create_meeting = Inl, of_replace_meetings = Inl, of_join_meeting = Inl, of_meeting_id = Inl,
     of_connect_transport = Inl, of_restart_ice = Inl, of_create_transport = Inl, of_create_consume = Inl,
     of_create_produce = Inl, of_consumers = Inl, of_producers = Inl, of_leave_meeting = Inl, of_end_meeting = Inl,
     of_capabilities = Inl, of_pre_meeting_details = Inl\<rparr>"

text \<open>Decoders that read a request to take the screen share of \<open>bob\<close> from any body.\<close>

definition sample_decoders :: decoders where
  "sample_decoders = no_decoders\<lparr>of_create_consume := (\<lambda>_. Inr
     \<lparr>cc_participant_id = ''alice'', cc_rtp_capabilities = ''caps'', cc_meeting_id = ''m'', cc_transport_id = ''ta'',
      cc_target_participants = [(''bob'', [(''video'', ''p9'')])], cc_instance_id = ''i1''\<rparr>)\<rparr>"

definition sample_net :: "sample_world net_ext" where
  "sample_net = \<lparr>x_clock_millis = (\<lambda>w. (1700, w)), x_http_post = (\<lambda>u hs p w. (Inr (200, []), w)),
     x_header_name = Some, x_header_value = Some\<rparr>"

definition sample_settings :: worker_settings where
  "sample_settings = \<lparr>ws_rtc_port_range = (0, 0), ws_log_level = [], ws_log_tags = [], ws_enable_liburing = True\<rparr>"

lemma sample_boot:
  "\<exists>w. sfu_new sample_ext sample_settings sample_config 9 \<lparr>external_ip = ''1.2.3.4'', internal_ip = ''10.0.0.1''\<rparr> ''t''
     sample_start = (Ok (empty_sfu sample_config \<lparr>external_ip = ''1.2.3.4'', internal_ip = ''10.0.0.1''\<rparr>
       [(''wi'', ''wi''), (''w'', ''w'')] w), w)"
  by (simp add: sfu_new_def create_inner_def effect_defs numeral_2_eq_2 call_def registration_def
      mutate_def mutation_statement_def pick_statement_def container_heartbeat_insert_def worker_container_insert_def
      sample_start_def hm_insert_def hm_remove_def container_id_of_def worker_settings_def)

text \<open>A body that asks for the video of \<open>bob\<close> is handled, and the state after it is as good.\<close>

theorem reachable_state_ok_witness:
  "\<exists>s r s'. reachable sample_ext sample_decoders sample_net \<lparr>client_config_endpoint = ''url'', client_headers = []\<rparr> s \<and>
     handle sample_ext sample_decoders ''/v1/createConsumer'' ''b'' s = (r, s') \<and> sfu_inv sample_ext s'"
proof -
  let ?reach = "reachable sample_ext sample_decoders sample_net \<lparr>client_config_endpoint = ''url'', client_headers = []\<rparr>"
  have wf: "decoders_wf sample_decoders"
    by (simp add: decoders_wf_def sample_decoders_def targets_wf_def hm_wf_def)
  obtain s w where "sfu_new sample_ext sample_settings sample_config 9
      \<lparr>external_ip = ''1.2.3.4'', internal_ip = ''10.0.0.1''\<rparr> ''t'' sample_start = (Ok s, w)"
    using sample_boot by blast
  then have s: "?reach s" by (rule reachable.start)
  obtain r s' where run: "handle sample_ext sample_decoders ''/v1/createConsumer'' ''b'' s = (r, s')" by fastforce
  have "?reach s'" by (rule reachable.step [OF s server_step.request [OF run]])
  from reachable_state_ok [OF wf this] s run show ?thesis by blast
qed

section \<open>Answers\<close>

text \<open>What a handler may end with: an answer with one of the statuses, or a panic.\<close>

definition answers :: "nat set \<Rightarrow> ('s, response, 'e) eff \<Rightarrow> bool" where
  "answers S m \<longleftrightarrow> (\<forall>s. case fst (m s) of Ok r \<Rightarrow> status r \<in> S | Err e \<Rightarrow> False | Panic \<Rightarrow> True)"

named_theorems answers_intros \<open>rules for what a handler answers\<close>

lemma answers_ret [answers_intros]: "status r \<in> S \<Longrightarrow> answers S (ret r)"
  by (simp add: answers_def ret_def)

text \<open>A computation before the answer that does not fail.\<close>

definition no_error :: "('s, 'a, 'e) eff \<Rightarrow> bool" where
  "no_error m \<longleftrightarrow> (\<forall>s e s'. m s \<noteq> (Err e, s'))"

lemma answers_bind [answers_intros]:
  assumes "no_error m" and "\<And>a. answers S (f a)"
  shows "answers S (and_then m f)"
  unfolding answers_def
proof
  fix s
  show "case fst (and_then m f s) of Ok r \<Rightarrow> status r \<in> S | Err e \<Rightarrow> False | Panic \<Rightarrow> True"
    using assms by (cases "m s"; cases "fst (m s)") (auto simp: and_then_def answers_def no_error_def)
qed

lemma answers_answer [answers_intros]:
  "ok_status \<in> S \<Longrightarrow> (\<And>e. status (err e) \<in> S) \<Longrightarrow> answers S (answer ok err m)"
  unfolding answer_def
  by (rule answers_bind) (auto simp: no_error_def attempt_never_fails intro: answers_intros split: sum.splits)

lemma answers_payload [answers_intros]:
  "bad_request \<in> S \<Longrightarrow> (\<And>p. answers S (f p)) \<Longrightarrow> answers S (with_payload decode t f)"
  unfolding with_payload_def parse_payload_def by (auto split: sum.splits intro: answers_intros)

lemma answers_choice [answers_intros]: "answers S m \<Longrightarrow> answers S n \<Longrightarrow> answers S (if c then m else n)"
  by simp

lemma answers_prod [answers_intros]: "(\<And>a b. answers S (f a b)) \<Longrightarrow> answers S (case z of (a, b) \<Rightarrow> f a b)"
  by (cases z) simp

named_theorems no_error_intros \<open>computations that do not fail with an error\<close>

lemma no_error_basic [no_error_intros]:
  "no_error (ret a)" "no_error (gets f)" "no_error (unwrap opt)" "no_error (attempt m)"
  by (auto simp: no_error_def ret_def gets_def unwrap_no_Err attempt_never_fails)

lemma no_error_bind [no_error_intros]: "no_error m \<Longrightarrow> (\<And>a. no_error (f a)) \<Longrightarrow> no_error (and_then m f)"
  by (auto simp: no_error_def and_then_Err_iff)

lemma no_error_option [no_error_intros]:
  "no_error m \<Longrightarrow> (\<And>a. no_error (f a)) \<Longrightarrow> no_error (case opt of None \<Rightarrow> m | Some a \<Rightarrow> f a)"
  by (cases opt) simp_all

lemma no_error_for_each [no_error_intros]: "(\<And>e b. no_error (f e b)) \<Longrightarrow> no_error (for_each f xs b)"
  by (induction xs arbitrary: b) (auto intro: no_error_intros)

lemma no_error_read_shard [no_error_intros]: "no_error (read_shard x m)"
  by (auto simp: no_error_def read_shard_run)

lemma no_error_service [no_error_intros]:
  "no_error (worker_router_capacity p)" "no_error (add_meeting_payload q m)" "no_error (capabilities_of x a b)"
  unfolding worker_router_capacity_def add_meeting_payload_def meeting_payload_of_def capabilities_of_def
    get_router_capabilities_def
  by (intro no_error_intros)+

lemmas status_simps = ok_status_def bad_request_def server_error_def server_error_text_def server_error_fixed_def plain_text_def

lemma answers_handlers:
  "\<forall>h \<in> snd ` set (setup_routes x d). answers {200, 400, 500} (h t)"
  unfolding setup_routes_def handler_defs create_consumer_handler_def query_defs
  by (simp, intro conjI answers_intros no_error_intros; simp add: status_simps)


section \<open>Validation of a meeting\<close>

text \<open>
  C29: A meeting without router details is not refused but panics. When the request names no single
  router and leaves out the producer routers or the consumer routers, the validation lets it pass
  (its three conditions contradict each other) and the handler panics on the missing list instead
  of answering 400, before it has changed anything.
\<close>

theorem missing_details_panic:
  assumes "decode t = Inr p" and "cm_routers p = None"
    and "cm_producer_router_details p = None \<or> cm_consumer_router_details p = None"
  shows "\<not> invalid_details p \<and> create_meeting_handler x decode t s = (Panic, s)"
proof -
  have valid: "\<not> invalid_details p" by (auto simp: invalid_details_def)
  have "create_meeting_handler x decode t s = (Panic, s)"
    using assms valid
    by (cases "cm_producer_router_details p"; cases "cm_consumer_router_details p")
      (simp_all add: create_meeting_handler_def with_payload_def parse_payload_def worker_router_capacity_def effect_defs)
  with valid show ?thesis by blast
qed

definition producers_only :: create_meeting_payload where
  "producers_only = \<lparr>cm_producer_router_details = Some [\<lparr>rd_router_capacity = 5, rd_worker_id = ''w1''\<rparr>],
     cm_consumer_router_details = None, cm_routers = None, cm_meeting_id = ''m'', cm_container_id = ''c''\<rparr>"

theorem missing_details_panic_witness:
  "create_meeting_handler sample_ext (\<lambda>_. Inr producers_only) ''body'' sample_sfu = (Panic, sample_sfu)"
  using missing_details_panic [where decode = "\<lambda>_. Inr producers_only" and p = producers_only and t = "''body''"
      and x = sample_ext and s = sample_sfu]
  by (simp add: producers_only_def)

text \<open>
  C30: One entry per worker in a meeting request. The capacity kept for a worker is that of the last
  consumer router named for it; only for a worker with no consumer router is it that of its last
  producer router. So a worker named in both lists gets no producer router, and of several routers
  on one worker only the last is created.
\<close>

theorem worker_entries_lookup:
  "hm_get (worker_entries v producers consumers) w =
     (case find (\<lambda>d. rd_worker_id d = w) (rev consumers) of
        Some d \<Rightarrow> Some (v (consumer_capacity_of d))
      | None \<Rightarrow> map_option (\<lambda>d. v (producer_capacity_of d)) (find (\<lambda>d. rd_worker_id d = w) (rev producers)))"
proof -
  have fold: "hm_get (fold (\<lambda>d. hm_insert (rd_worker_id d) (f d)) ds m) w =
      (case find (\<lambda>d. rd_worker_id d = w) (rev ds) of Some d \<Rightarrow> Some (f d) | None \<Rightarrow> hm_get m w)"
    for f and ds and m :: "(string, 'a) hmap"
    by (induction ds arbitrary: m rule: rev_induct) (auto simp: hm_simps)
  show ?thesis
    unfolding worker_entries_def fold by (simp add: hm_get_def map_option_case split: option.split)
qed

section \<open>Ports\<close>

lemma first_free_in: "first_free x ps s = (Ok p, s') \<Longrightarrow> p \<in> set ps"
  by (induction ps arbitrary: s) (auto simp: fail_def and_then_def call_world_run ret_def split: if_splits)

lemma port_range_bounds: "p \<in> set (port_range lo hi) \<Longrightarrow> lo \<le> p \<and> p < hi \<and> even (p - lo)"
  by (auto simp: port_range_def)

text \<open>
  C31: The ports of a recording. The port found for a video or an audio recording lies in the
  configured range, at an even distance from its start, and so does not meet the RTCP port of another
  recording; its RTCP port is the next one, inside the range or its end, and never wraps around.
\<close>

theorem recording_port_bounds:
  assumes "config_fits v6 (config s)"
    and "get_free_video_port x s = (Ok p, s') \<and> lo = plain_transport_video_port_range_start (config s) \<and>
           hi = plain_transport_video_port_range_end (config s) \<or>
         get_free_audio_port x s = (Ok p, s') \<and> lo = plain_transport_audio_port_range_start (config s) \<and>
           hi = plain_transport_audio_port_range_end (config s)"
  shows "lo \<le> p \<and> p < hi \<and> even (p - lo) \<and> rtcp_port p = p + 1 \<and> rtcp_port p \<le> hi"
proof -
  have "p \<in> set (port_range lo hi)"
    using assms(2) first_free_in
    by (fastforce simp: get_free_video_port_def get_free_audio_port_def and_then_def gets_def)
  from port_range_bounds [OF this] have p: "lo \<le> p" "p < hi" "even (p - lo)" by auto
  moreover have "hi < 2 ^ 16" using assms by (auto simp: config_fits_def)
  ultimately show ?thesis by (simp add: rtcp_port_def)
qed

theorem recording_port_bounds_witness:
  "get_free_video_port sample_ext sample_sfu = (Ok 50002, sample_sfu) \<and> 50000 \<le> (50002::nat) \<and> (50002::nat) < 50005 \<and>
   even (50002 - 50000 :: nat) \<and> rtcp_port 50002 = 50002 + 1 \<and> rtcp_port 50002 \<le> 50005"
proof -
  have fits: "config_fits (\<lambda>_. False) (config sample_sfu)"
    by (simp add: sample_sfu_def sample_config_def config_fits_def sfu_config_default_def is_ipv4_def is_octet_def
        read_nat_def digit_of_def)
  have run: "get_free_video_port sample_ext sample_sfu = (Ok 50002, sample_sfu)"
    by (simp add: get_free_video_port_def effect_defs sample_defs sample_config_def sfu_config_default_def port_range_def
        upt_rec)
  with recording_port_bounds [OF fits, where x = sample_ext and p = 50002 and s' = sample_sfu and lo = 50000 and hi = 50005]
  show ?thesis by (simp add: sample_sfu_def sample_config_def sfu_config_default_def)
qed

text \<open>
  Kinds and their text. A text is a kind exactly when it is the name of the kind in any mix of
  cases, and every kind is read back from its name.
\<close>

lemma parse_kind_roundtrip:
  "(parse_kind t = Inr k) = (to_lowercase t = show_kind k) \<and> parse_kind (show_kind k) = Inr k"
proof -
  have "(parse_kind t = Inr k) = (to_lowercase t = show_kind k)"
    by (cases k) (auto simp: parse_kind_def Let_def)
  moreover have "to_lowercase (show_kind k) = show_kind k"
    by (cases k) (simp_all add: to_lowercase_def lower_char_def)
  then have "parse_kind (show_kind k) = Inr k" by (cases k) (simp_all add: parse_kind_def Let_def)
  ultimately show ?thesis by blast
qed

end
