(* ===== verification/Gathering.thy ===== *)
theory Gathering
  imports Stream_Facts
begin

text \<open>
  A gathering: who offers which stream and who takes it, without hash maps, shards, transports,
  pipelines and the database. Each request on streams (\<open>src/mediasoupv1/mod.rs\<close>) is permitted a set of
  changes of the gathering, and the operations of the server refine them.
\<close>

section \<open>The specification\<close>

record gathering =
  offers :: "producer_in_memory set"
  takes :: "consumer_in_memory set"
  announced :: "(string \<times> string \<times> string \<times> string) list"

datatype request =
    Share (share_participant: string) (share_meeting: string) (share_kind: string) (share_instance: string)
      (share_rtp: string) (share_router: string) (share_others: "string list option") (share_transport: string)
      (share_recorded: bool)
  | Take (take_participant: string) (take_meeting: string) (take_instance: string) (take_transport: string)
      (take_targets: "(string, (string, string) hmap) hmap") (take_capabilities: string)
  | Stop_Taking string string "string list"
  | Hold string "(string, string) hmap"
  | Unhold string "(string, string) hmap"
  | Leave string string string "string option" "string option"
  | Finish string "string list" "string list" string "string list"

fun run_request :: "'w ext \<Rightarrow> request \<Rightarrow> ('w, bool) op" where
  "run_request x (Share p m k i rtp r rs t rec) =
     and_then (create_producer x p rtp k m r rs t rec i) (\<lambda>_. ret True)"
| "run_request x (Take p m i t ts caps) = and_then (create_consumer x p t ts caps m i) (\<lambda>_. ret True)"
| "run_request x (Stop_Taking p m ids) = and_then (close_consumer x p ids m) (\<lambda>_. ret True)"
| "run_request x (Hold p ids) = and_then (pause_producer x p ids) (\<lambda>_. ret True)"
| "run_request x (Unhold p ids) = and_then (resume_producer x p ids) (\<lambda>_. ret True)"
| "run_request x (Leave p m i a b) = and_then (leave_meeting x p m i a b) (\<lambda>r. ret (lmr_send_signal r))"
| "run_request x (Finish m rs ts q qs) = and_then (end_meeting x m rs ts (q # qs)) (\<lambda>_. ret True)"

definition take_id :: "consumer_in_memory \<Rightarrow> string" where
  "take_id t = co_id (cim_consumer t)"

text \<open>
  What an answered request may do. Ids come from mediasoup: a new offer or take replaces an old one of
  the same id (which mediasoup never makes). The shard of a meeting may hold takes of other meetings;
  a take of another meeting goes with the id it shares, or may stay in another shard.
\<close>

fun permitted :: "request \<Rightarrow> bool \<Rightarrow> gathering \<Rightarrow> gathering \<Rightarrow> bool" where
  "permitted (Share p m k i rtp r rs t rec) b G G' \<longleftrightarrow>
     takes G' = takes G \<and> announced G' = announced G \<and>
     (if \<exists>v \<in> offers G. pim_participant_id v = p \<and> pim_meeting_id v = m \<and> pim_kind v = k
      then offers G' = offers G
      else \<exists>pid. offers G' = insert \<lparr>pim_producer = pid, pim_meeting_id = m, pim_participant_id = p, pim_kind = k,
             pim_instance_id = i\<rparr> {v \<in> offers G. pim_producer v \<noteq> pid})"
| "permitted (Take p m i t ts caps) b G G' \<longleftrightarrow>
     offers G' = offers G \<and> announced G' = announced G \<and>
     (\<exists>new. (\<forall>v \<in> new. consumed_by p m i v \<and> (cim_target_participant_id v, cim_kind v) \<in> stream_of ` set (requested ts)) \<and>
        {v \<in> takes G. take_id v \<notin> take_id ` new} \<subseteq> takes G' \<and> takes G' \<subseteq> takes G \<union> new)"
| "permitted (Stop_Taking p m ids) b G G' \<longleftrightarrow>
     offers G' = offers G \<and> announced G' = announced G \<and>
     {v \<in> takes G. take_id v \<notin> set ids} \<subseteq> takes G' \<and>
     takes G' \<subseteq> {v \<in> takes G. \<not> (take_id v \<in> set ids \<and> cim_meeting_id v = m)}"
| "permitted (Hold p ids) b G G' \<longleftrightarrow> G' = G"
| "permitted (Unhold p ids) b G G' \<longleftrightarrow> G' = G"
| "permitted (Leave p m i t1 t2) b G G' \<longleftrightarrow>
     (if b then
        (let gone = pim_producer ` {v \<in> offers G. owned_by p m i v} in
         offers G' = {v \<in> offers G. \<not> owned_by p m i v} \<and>
         {v \<in> takes G. \<not> consumed_by p m i v \<and> cim_producer_id v \<notin> gone} \<subseteq> takes G' \<and>
         takes G' \<subseteq> {v \<in> takes G. \<not> consumed_by p m i v \<and> \<not> (cim_producer_id v \<in> gone \<and> cim_meeting_id v = m)}) \<and>
        announced G' = announced G @ [(''LEAVE'', p, m, i)]
      else G' = G)"
| "permitted (Finish m rs ts q qs) b G G' \<longleftrightarrow>
     offers G' = {v \<in> offers G. pim_meeting_id v \<noteq> m} \<and> takes G' = {v \<in> takes G. cim_meeting_id v \<noteq> m} \<and>
     announced G' = announced G"

section \<open>The abstraction\<close>

definition announcement :: "user_event \<Rightarrow> string \<times> string \<times> string \<times> string" where
  "announcement ev = (ue_event_type ev, ue_user_id ev, ue_meeting_id ev, ue_instance_id ev)"

definition gathering_of :: "'w ext \<Rightarrow> 'w sfu \<Rightarrow> gathering" where
  "gathering_of x s = \<lparr>offers = snd ` set (producer_map s),
     takes = {v. \<exists>k. v \<in> snd ` set (shard_of x s k)}, announced = map announcement (user_channel s)\<rparr>"

lemma gathering_of_world [simp]: "gathering_of x (s\<lparr>world := w\<rparr>) = gathering_of x s"
  by (simp add: gathering_of_def shard_of_def)

lemma gathering_of_frame [simp]:
  "gathering_of x (s\<lparr>producer_map := pm\<rparr>) = (gathering_of x s)\<lparr>offers := snd ` set pm\<rparr>"
  "gathering_of x (s\<lparr>plain_transport_map := pt, plain_transport_consumer_map := pc\<rparr>) = gathering_of x s"
  "gathering_of x (s\<lparr>pipeline_map := pl\<rparr>) = gathering_of x s"
  "gathering_of x (s\<lparr>pipeline_map := pl, world := w\<rparr>) = gathering_of x s"
  "gathering_of x (s\<lparr>transport_map := tm\<rparr>) = gathering_of x s"
  "gathering_of x (s\<lparr>routers_map := rm\<rparr>) = gathering_of x s"
  "gathering_of x (s\<lparr>lock_map := lm\<rparr>) = gathering_of x s"
  by (simp_all add: gathering_of_def shard_of_def shard_index_def)

lemma offers_gathering: "offers (gathering_of x s) = snd ` set (producer_map s)"
  by (simp add: gathering_of_def)

lemma gathering_of_same: "same_but_world s s' \<Longrightarrow> gathering_of x s' = gathering_of x s"
  by (drule same_but_worldD) auto

lemma offer_key: "sfu_inv x s \<Longrightarrow> (k, v) \<in> set (producer_map s) \<Longrightarrow> k = pim_producer v"
  by (auto simp: sound_def producers_ok_def)

lemma offers_iff: "sfu_inv x s \<Longrightarrow> v \<in> snd ` set (producer_map s) \<longleftrightarrow> (pim_producer v, v) \<in> set (producer_map s)"
  by (metis (no_types, lifting) imageE image_eqI offer_key prod.collapse snd_conv)

lemma take_here:
  assumes inv: "sfu_inv x s" and v: "(j, v) \<in> set (shard_of x s k)"
  shows "j = take_id v \<and> shard_of x s (cim_meeting_id v) = shard_of x s k \<and>
    shard_index x s (cim_meeting_id v) = shard_index x s k"
proof -
  have shards: "consumer_map_shards s \<noteq> []" using v by (auto simp: shard_of_Nil)
  from shard_okD(1,2) [OF sfu_inv_shard [OF inv shards, of k] v]
  show ?thesis by (simp add: take_id_def shard_of_def)
qed

text \<open>A take is found in the shard of its meeting.\<close>

lemma takes_iff:
  assumes "sfu_inv x s"
  shows "v \<in> takes (gathering_of x s) \<longleftrightarrow> (take_id v, v) \<in> set (shard_of x s (cim_meeting_id v))"
  using take_here [OF assms] by (force simp: gathering_of_def)

lemma found_offer:
  "find_producer p m k pm = None \<longleftrightarrow>
   \<not> (\<exists>v \<in> snd ` set pm. pim_participant_id v = p \<and> pim_meeting_id v = m \<and> pim_kind v = k)"
  by (auto simp: find_producer_None)

section \<open>Sharing and taking\<close>

lemma shard_of_cong:
  "config s' = config s \<Longrightarrow> consumer_map_shards s' = consumer_map_shards s \<Longrightarrow> shard_of x s' k = shard_of x s k"
  by (simp add: shard_of_def shard_index_cong [of s' s])

lemma refine_same:
  assumes "keeps (same_but_world s) m" and "and_then m f s = (Ok a, s')" and "\<And>b. keeps (same_but_world s) (f b)"
  shows "gathering_of x s' = gathering_of x s"
proof -
  have "keeps (same_but_world s) (and_then m f)" using assms(1,3) by (rule keeps_and_then)
  from keepsD [OF this _ assms(2)] show ?thesis by (simp add: gathering_of_same)
qed

lemma offers_insert:
  assumes "sfu_inv x s"
  shows "snd ` set (hm_insert (pim_producer v) v (producer_map s)) =
    insert v {u \<in> snd ` set (producer_map s). pim_producer u \<noteq> pim_producer v}"
  using offer_key [OF assms] by (force simp: set_hm_insert)

lemma refine_share:
  assumes inv: "sfu_inv x s" and run: "create_producer x p rtp k m r rs t rec i s = (Ok d, s')"
  shows "permitted (Share p m k i rtp r rs t rec) True (gathering_of x s) (gathering_of x s')"
proof (cases "find_producer p m k (producer_map s)")
  case (Some e)
  with run have "s' = s\<lparr>lock_map := hm_entry m () (lock_map s)\<rparr>"
    by (simp add: create_producer_def and_then_def lock_entry_def modify_def gets_def ret_def)
  then have "gathering_of x s' = gathering_of x s" by (simp add: gathering_of_def shard_of_def)
  moreover have "\<exists>v \<in> offers (gathering_of x s). pim_participant_id v = p \<and> pim_meeting_id v = m \<and> pim_kind v = k"
    using Some found_offer [of p m k "producer_map s"] by (simp add: gathering_of_def del: image_iff) blast
  ultimately show ?thesis by simp
next
  case None
  from create_producer_end [OF None run] obtain pid rec1 s1 where s1: "same_streams s s1"
    and s': "s' = store_producer pid \<lparr>pim_producer = pid, pim_meeting_id = m, pim_participant_id = p, pim_kind = k,
        pim_instance_id = i\<rparr> rec1 s1"
    unfolding stored_end_def by auto
  have none: "\<not> (\<exists>v \<in> offers (gathering_of x s). pim_participant_id v = p \<and> pim_meeting_id v = m \<and> pim_kind v = k)"
    using None by (simp add: found_offer gathering_of_def)
  have "offers (gathering_of x s') = insert \<lparr>pim_producer = pid, pim_meeting_id = m, pim_participant_id = p, pim_kind = k,
      pim_instance_id = i\<rparr> {v \<in> offers (gathering_of x s). pim_producer v \<noteq> pid}"
    using offers_insert [OF inv, of "\<lparr>pim_producer = pid, pim_meeting_id = m, pim_participant_id = p, pim_kind = k,
      pim_instance_id = i\<rparr>"] s1
    by (simp add: gathering_of_def s' store_producer_def same_streams_def Let_def split: option.splits prod.splits)
  moreover have "config s' = config s" "consumer_map_shards s' = consumer_map_shards s" "user_channel s' = user_channel s"
    using s1 by (simp_all add: s' store_producer_def same_streams_def Let_def split: option.splits prod.splits)
  then have "takes (gathering_of x s') = takes (gathering_of x s) \<and> announced (gathering_of x s') = announced (gathering_of x s)"
    by (simp add: gathering_of_def shard_of_cong [of s' s])
  ultimately show ?thesis using none by auto
qed

text \<open>What a consume request adds: consumers of this instance, for the requested streams.\<close>

lemma request_consumer_entry:
  assumes "request_consumer x p m i t tid caps existing req acc s = (Ok acc', s')" and "e \<in> set (cb_new acc')"
  shows "e \<in> set (cb_new acc) \<or> (fst e = take_id (snd e) \<and> consumed_by p m i (snd e) \<and>
    (cim_target_participant_id (snd e), cim_kind (snd e)) = stream_of req)"
proof -
  obtain target knd pid where req: "req = (target, knd, pid)" by (cases req)
  show ?thesis
    using assms by (auto simp: req request_consumer_def run_iffs ret_def fail_def set_hm_insert consumed_by_def
        take_id_def split: list.splits)
qed

lemma hm_extend_keeps: "e \<in> set m \<Longrightarrow> fst e \<notin> fst ` set new \<Longrightarrow> e \<in> set (hm_extend new m)"
  unfolding hm_extend_def by (induction new arbitrary: m) (auto simp: set_hm_insert)

lemma attempt_or_fail:
  "and_then (attempt m) (\<lambda>r. case r of Inl e \<Rightarrow> fail (g e) | Inr a \<Rightarrow> f a) = and_then (map_err g m) f"
  by (auto simp: fun_eq_iff and_then_def attempt_def map_err_def fail_def split: outcome.splits prod.splits)

lemma create_consumer_run:
  fixes s :: "'w sfu"
  assumes "create_consumer x p tid ts caps m i s = (Ok res, s')"
  obtains new w where "consumer_map_shards s \<noteq> []"
    "\<And>e. e \<in> set new \<Longrightarrow> fst e = take_id (snd e) \<and> consumed_by p m i (snd e) \<and>
      (cim_target_participant_id (snd e), cim_kind (snd e)) \<in> stream_of ` set (requested ts)"
    "s' = s\<lparr>world := w, consumer_map_shards := sh_update (shard_index x s m) (hm_extend new) (consumer_map_shards s)\<rparr>"
proof -
  let ?b = "\<lparr>cb_new = [], cb_entities = [], cb_result = []\<rparr>"
  let ?loop = "\<lambda>t. for_each (request_consumer x p m i t tid caps (shard_of x s m)) (requested ts) ?b"
  from assms [unfolded create_consumer_def attempt_or_fail] obtain t batch s1 s2 okv where shards: "consumer_map_shards s \<noteq> []"
    and loop: "?loop t s = (Ok batch, s1)"
    and mut: "run_mutate x True (cb_entities batch) s1 = (Ok okv, s2)"
    and stored: "write_shard x m (hm_extend (cb_new batch)) s2 = (Ok () :: (unit, string) outcome, s')"
    by (auto simp: run_iffs gets_def ret_def read_shard_run split: if_split_asm)
  have "keeps (same_but_world s) (?loop t)" by (intro keeps_intros)
  from sbw_run [OF this loop] obtain w1 where s1: "s1 = s\<lparr>world := w1\<rparr>" ..
  from mut s1 obtain w where s2: "s2 = s\<lparr>world := w\<rparr>" by (auto simp: run_mutate_def on_world_run)
  let ?Q = "\<lambda>b. \<forall>e \<in> set (cb_new b). fst e = take_id (snd e) \<and> consumed_by p m i (snd e) \<and>
      (cim_target_participant_id (snd e), cim_kind (snd e)) \<in> stream_of ` set (requested ts)"
  have "?Q batch"
    by (rule for_each_acc [OF loop, where Q = ?Q]) (force dest: request_consumer_entry)+
  then show ?thesis
    using shards stored by (intro that [of "cb_new batch" w]) (auto simp: s2 write_shard_run shard_index_cong [of "s\<lparr>world := w\<rparr>" s])
qed

text \<open>The takes of the shard of one meeting, and those of the other shards.\<close>

definition elsewhere :: "'w ext \<Rightarrow> 'w sfu \<Rightarrow> string \<Rightarrow> consumer_in_memory set" where
  "elsewhere x s m = {v. \<exists>k. shard_index x s k \<noteq> shard_index x s m \<and> v \<in> snd ` set (shard_of x s k)}"

lemma union_split:
  "(\<And>k. idx k = idx m \<Longrightarrow> F k = F m) \<Longrightarrow>
   {v. \<exists>k. v \<in> F k} = F m \<union> {v. \<exists>k. idx k \<noteq> idx m \<and> v \<in> F k}"
  by blast

lemma takes_split:
  "takes (gathering_of x s) = snd ` set (shard_of x s m) \<union> elsewhere x s m"
  unfolding gathering_of_def elsewhere_def gathering.select_convs
  by (rule union_split) (simp add: shard_of_def)

lemma takes_changed:
  assumes "\<And>k. shard_of x s' k = (if shard_index x s k = shard_index x s m then here else shard_of x s k)"
  shows "takes (gathering_of x s') = snd ` set here \<union> elsewhere x s m"
proof -
  have "{v. \<exists>k. v \<in> snd ` set (shard_of x s' k)} = snd ` set (shard_of x s' m) \<union>
      {v. \<exists>k. shard_index x s k \<noteq> shard_index x s m \<and> v \<in> snd ` set (shard_of x s' k)}"
    by (rule union_split) (simp add: assms)
  moreover have "shard_of x s' m = here" by (simp add: assms)
  moreover have "shard_of x s' k = shard_of x s k" if "shard_index x s k \<noteq> shard_index x s m" for k
    using that by (simp add: assms)
  then have "{v. \<exists>k. shard_index x s k \<noteq> shard_index x s m \<and> v \<in> snd ` set (shard_of x s' k)} =
      {v. \<exists>k. shard_index x s k \<noteq> shard_index x s m \<and> v \<in> snd ` set (shard_of x s k)}"
    by (intro Collect_cong ex_cong1 conj_cong refl) (simp only: not_False_eq_True)
  ultimately show ?thesis unfolding gathering_of_def elsewhere_def gathering.select_convs by (simp only:)
qed

lemma elsewhere_meeting: "sfu_inv x s \<Longrightarrow> v \<in> elsewhere x s m \<Longrightarrow> cim_meeting_id v \<noteq> m"
  unfolding elsewhere_def using take_here by fastforce

lemma takes_write:
  assumes "consumer_map_shards s \<noteq> []"
  shows "takes (gathering_of x (s\<lparr>world := w, consumer_map_shards := sh_update (shard_index x s m) f (consumer_map_shards s)\<rparr>)) =
   snd ` set (f (shard_of x s m)) \<union> elsewhere x s m"
proof -
  have eq: "s\<lparr>world := w, consumer_map_shards := c\<rparr> = s\<lparr>consumer_map_shards := c\<rparr>\<lparr>world := w\<rparr>" for c by simp
  show ?thesis unfolding eq gathering_of_world by (rule takes_changed [OF shard_of_write [OF assms]])
qed

lemma refine_take:
  assumes inv: "sfu_inv x s" and run: "create_consumer x p t ts caps m i s = (Ok res, s')"
  shows "permitted (Take p m i t ts caps) True (gathering_of x s) (gathering_of x s')"
  using run
proof (rule create_consumer_run)
  fix new w
  assume shards: "consumer_map_shards s \<noteq> []"
    and new: "\<And>e. e \<in> set new \<Longrightarrow> fst e = take_id (snd e) \<and> consumed_by p m i (snd e) \<and>
      (cim_target_participant_id (snd e), cim_kind (snd e)) \<in> stream_of ` set (requested ts)"
    and s': "s' = s\<lparr>world := w, consumer_map_shards := sh_update (shard_index x s m) (hm_extend new) (consumer_map_shards s)\<rparr>"
  let ?new = "snd ` set new" and ?shard = "shard_of x s m"
  have ids: "fst ` set new = take_id ` ?new" using new by (force simp: image_image)
  have after: "takes (gathering_of x s') = snd ` set (hm_extend new ?shard) \<union> elsewhere x s m"
    unfolding s' by (rule takes_write [OF shards])
  have "v \<in> snd ` set (hm_extend new ?shard)" if "(j, v) \<in> set ?shard" "take_id v \<notin> take_id ` ?new" for j v
  proof -
    from take_here [OF inv that(1)] have "j = take_id v" by (rule conjunct1)
    then have "j \<notin> fst ` set new" using that(2) by (simp only: ids not_False_eq_True)
    then have "(j, v) \<in> set (hm_extend new ?shard)" by (intro hm_extend_keeps [OF that(1)]) (simp only: fst_conv not_False_eq_True)
    then show ?thesis by (rule image_eqI [rotated]) (simp only: snd_conv)
  qed
  then have "{v \<in> takes (gathering_of x s). take_id v \<notin> take_id ` ?new} \<subseteq> takes (gathering_of x s')"
    unfolding after takes_split [of x s m] by auto
  moreover have "takes (gathering_of x s') \<subseteq> takes (gathering_of x s) \<union> ?new"
    unfolding after takes_split [of x s m] by (auto dest: set_hm_extend_subset)
  moreover have "\<forall>v \<in> ?new. consumed_by p m i v \<and>
      (cim_target_participant_id v, cim_kind v) \<in> stream_of ` set (requested ts)" using new by blast
  moreover have "offers (gathering_of x s') = offers (gathering_of x s)" "announced (gathering_of x s') = announced (gathering_of x s)"
    by (simp_all add: s' gathering_of_def)
  ultimately show ?thesis unfolding permitted.simps by blast
qed

lemma refine_stop_taking:
  assumes inv: "sfu_inv x s" and run: "close_consumer x p ids m s = (Ok (), s')"
  shows "permitted (Stop_Taking p m ids) True (gathering_of x s) (gathering_of x s')"
proof -
  from run [unfolded close_consumer_def attempt_or_fail] obtain w where shards: "consumer_map_shards s \<noteq> []"
    and s': "s' = s\<lparr>world := w, consumer_map_shards := sh_update (shard_index x s m) (hm_remove_all ids) (consumer_map_shards s)\<rparr>"
    by (auto simp: run_iffs run_mutate_def on_world_run write_shard_run shard_index_def split: if_split_asm)
  have after: "takes (gathering_of x s') = snd ` set (hm_remove_all ids (shard_of x s m)) \<union> elsewhere x s m"
    unfolding s' by (rule takes_write [OF shards])
  have here: "snd ` set (hm_remove_all ids (shard_of x s m)) = {v \<in> snd ` set (shard_of x s m). take_id v \<notin> set ids}"
    using take_here [OF inv] by (force simp: set_hm_remove_all)
  have "offers (gathering_of x s') = offers (gathering_of x s)" "announced (gathering_of x s') = announced (gathering_of x s)"
    by (simp_all add: s' gathering_of_def)
  then show ?thesis
    unfolding permitted.simps after here takes_split [of x s m] using elsewhere_meeting [OF inv] by auto
qed

section \<open>Leaving and finishing\<close>

lemma refine_leave:
  assumes inv: "sfu_inv x s" and run: "leave_meeting x p m i a b s = (Ok res, s')"
  shows "permitted (Leave p m i a b) (lmr_send_signal res) (gathering_of x s) (gathering_of x s')"
  using run
proof (cases rule: leave_meeting_cases)
  case (left w s1)
  from push_event_run [of x p m "''LEAVE''" i s1] left(3) obtain ev w2
    where s': "s' = s1\<lparr>world := w2, user_channel := user_channel s1 @ [ev]\<rparr>"
      and ev0: "ue_user_id ev = p" "ue_meeting_id ev = m" "ue_event_type ev = ''LEAVE''" "ue_instance_id ev = i"
    by (metis prod.inject)
  have ev: "announcement ev = (''LEAVE'', p, m, i)" by (simp add: announcement_def ev0)
  note exact = close_instance_exact [OF sfu_inv_transports_dropped [OF inv] left(1), simplified]
  let ?G = "gathering_of x s" and ?gone = "pim_producer ` {v \<in> offers (gathering_of x s). owned_by p m i v}"
  have gone: "(\<exists>v. (j, v) \<in> set (producer_map s) \<and> owned_by p m i v) \<longleftrightarrow> j \<in> ?gone" for j
    using offer_key [OF inv] by (force simp: gathering_of_def)
  have same: "shard_of x s' k = shard_of x s1 k" for k by (simp add: s' shard_of_def shard_index_def)
  have "shard_of x s' k = (if shard_index x s k = shard_index x s m then shard_of x s1 m else shard_of x s k)" for k
    unfolding same using close_instance_run [OF left(1) refl refl refl] by simp
  then have after: "takes (gathering_of x s') = snd ` set (shard_of x s1 m) \<union> elsewhere x s m" by (rule takes_changed)
  have "offers (gathering_of x s') = {v \<in> offers ?G. \<not> owned_by p m i v}"
    by (auto simp: gathering_of_def s' exact(1) image_iff)
  moreover have "announced (gathering_of x s') = announced ?G @ [(''LEAVE'', p, m, i)]"
    using exact(4) ev by (simp add: gathering_of_def s')
  moreover have "{v \<in> takes ?G. \<not> consumed_by p m i v \<and> cim_producer_id v \<notin> ?gone} \<subseteq> takes (gathering_of x s')"
    unfolding after takes_split [of x s m] exact(2) using gone by auto
  moreover have "takes (gathering_of x s') \<subseteq> {v \<in> takes ?G. \<not> consumed_by p m i v \<and>
      \<not> (cim_producer_id v \<in> ?gone \<and> cim_meeting_id v = m)}"
    unfolding after takes_split [of x s m] exact(2) using gone by (auto simp: consumed_by_def dest: elsewhere_meeting [OF inv])
  ultimately show ?thesis using left(2) by (simp add: Let_def)
qed (use run in auto)

lemma refine_finish:
  assumes inv: "sfu_inv x s" and run: "end_meeting x m rs ts (q # qs) s = (Ok res, s')"
  shows "permitted (Finish m rs ts q qs) True (gathering_of x s) (gathering_of x s')"
proof -
  note facts = end_meeting_run [OF run]
  have shards: "consumer_map_shards s \<noteq> []" using facts by blast
  have "shard_of x s' k = (if shard_index x s k = shard_index x s m
      then hm_remove_all (consumer_ids_where (\<lambda>v. cim_meeting_id v = m) (shard_of x s m)) (shard_of x s m)
      else shard_of x s k)" for k using facts by blast
  from takes_changed [OF this] have "takes (gathering_of x s') = snd ` {e \<in> set (shard_of x s m). cim_meeting_id (snd e) \<noteq> m}
      \<union> elsewhere x s m"
    by (simp only: consumer_ids_exact [OF sfu_inv_shard [OF inv shards] shards refl, where m = m and p = "\<lambda>v. cim_meeting_id v = m"])
  then have "takes (gathering_of x s') = {v \<in> takes (gathering_of x s). cim_meeting_id v \<noteq> m}"
    unfolding takes_split [of x s m] using elsewhere_meeting [OF inv] by auto
  moreover have "offers (gathering_of x s') = {v \<in> offers (gathering_of x s). pim_meeting_id v \<noteq> m}"
    using facts producer_ids_exact [OF sfu_invD(1) [OF inv] refl, of "\<lambda>v. pim_meeting_id v = m"]
    by (auto simp: gathering_of_def)
  moreover have "announced (gathering_of x s') = announced (gathering_of x s)"
    using facts by (simp add: gathering_of_def)
  ultimately show ?thesis by simp
qed

lemma refine_hold:
  "pause_producer x p ids s = (r, s') \<Longrightarrow> gathering_of x s' = gathering_of x s"
  "resume_producer x p ids s = (r, s') \<Longrightarrow> gathering_of x s' = gathering_of x s"
proof -
  have "keeps (same_but_world s) (pause_producer x p ids)" "keeps (same_but_world s) (resume_producer x p ids)"
    unfolding pause_producer_def resume_producer_def set_producer_state_def by (intro keeps_intros)+
  then show "pause_producer x p ids s = (r, s') \<Longrightarrow> gathering_of x s' = gathering_of x s"
    "resume_producer x p ids s = (r, s') \<Longrightarrow> gathering_of x s' = gathering_of x s"
    using keepsD gathering_of_same same_but_world_refl by metis+
qed

section \<open>Requests that fail\<close>

text \<open>A failed request offers and takes nothing new; only leaving and finishing may have closed a part.\<close>

definition shrunk :: "'w ext \<Rightarrow> 'w sfu \<Rightarrow> 'w sfu \<Rightarrow> bool" where
  "shrunk x s0 s \<longleftrightarrow> offers (gathering_of x s) \<subseteq> offers (gathering_of x s0) \<and>
     takes (gathering_of x s) \<subseteq> takes (gathering_of x s0) \<and>
     announced (gathering_of x s) = announced (gathering_of x s0)"

lemma shrunk_world [simp]: "shrunk x s0 (s\<lparr>world := w\<rparr>) = shrunk x s0 s"
  by (simp add: shrunk_def)

lemma keeps_shrunk_calls [keeps_intros]:
  "keeps (shrunk x s0) (on_world m)" "keeps (shrunk x s0) (call_world f)"
  "keeps (shrunk x s0) (run_mutate y rb es)" "keeps (shrunk x s0) (read_shard y m')"
  by (simp_all add: keeps_def on_world_run call_world_run run_mutate_def read_shard_run)

lemma keeps_shrunk_close_producers [keeps_intros]: "keeps (shrunk x s0) (close_producers_loop ps ids)"
proof (induction ids)
  case Nil
  then show ?case by (simp add: keeps_intros)
next
  case (Cons a ids)
  have "shrunk x s0 (s\<lparr>producer_map := hm_remove a (producer_map s)\<rparr>)" if "shrunk x s0 s" for s
    using that by (auto simp: shrunk_def offers_gathering set_hm_remove)
  moreover have "shrunk x s0 (s\<lparr>plain_transport_map := pt, plain_transport_consumer_map := pc\<rparr>)" if "shrunk x s0 s" for s pt pc
    using that by (simp add: shrunk_def)
  ultimately show ?case
    unfolding close_producers_loop.simps
    by (intro keeps_intros Cons keeps_modify)
      (use Cons in \<open>auto split: list.splits intro!: keeps_intros keeps_modify\<close>)
qed

lemma keeps_shrunk_remove_participants [keeps_intros]: "keeps (shrunk x s0) (remove_participants_from_pipeline y ids m)"
  by (rule keepsI, drule remove_participants_run) (auto simp: shrunk_def)

lemma keeps_shrunk_close_consumers [keeps_intros]: "keeps (shrunk x s0) (close_all_consumers_in_memory x ids m)"
proof (rule keepsI)
  fix s :: "'a sfu" and r s'
  assume s: "shrunk x s0 s" and run: "close_all_consumers_in_memory x ids m s = (r, s')"
  show "shrunk x s0 s'"
  proof (cases "consumer_map_shards s = []")
    case False
    then have "s' = s\<lparr>world := world s, consumer_map_shards := sh_update (shard_index x s m) (hm_remove_all ids) (consumer_map_shards s)\<rparr>"
      using run by (simp add: close_all_consumers_run)
    note s' = this and takes = takes_write [OF False, where x = x and w = "world s" and m = m and f = "hm_remove_all ids"]
    have "takes (gathering_of x s') \<subseteq> takes (gathering_of x s)"
      unfolding s' takes takes_split [of x s m] by (auto simp: set_hm_remove_all)
    moreover have "offers (gathering_of x s') = offers (gathering_of x s)" "announced (gathering_of x s') = announced (gathering_of x s)"
      by (simp_all add: s' gathering_of_def)
    ultimately show ?thesis using s unfolding shrunk_def by (metis order_trans)
  qed (use s run in \<open>simp add: close_all_consumers_run\<close>)
qed

lemma shrunk_leave:
  assumes "leave_meeting x p m i a b s = (r, s')" and "\<And>res. r \<noteq> Ok res"
  shows "shrunk x s s'"
  using assms(1)
proof (cases rule: leave_meeting_cases)
  case (stuck w r1)
  have "keeps (shrunk x s) (close_instance x p m i)"
    unfolding close_instance_def query_defs close_all_producers_in_memory_def by (intro keeps_intros)
  moreover have "shrunk x s (transports_dropped a b w s)"
    by (simp add: shrunk_def gathering_of_def)
  ultimately show ?thesis using stuck(1) by (rule keepsD)
qed (use assms(2) in \<open>auto simp: shrunk_def\<close>)

lemma shrunk_finish:
  assumes "end_meeting x m rs ts ps s = (r, s')"
  shows "shrunk x s s'"
proof -
  have "keeps (shrunk x s) (end_meeting x m rs ts ps)"
    unfolding end_meeting_def query_defs stop_pipeline_def close_all_producers_in_memory_def if_False
    by (intro keeps_intros keeps_modify) (auto simp: shrunk_def)
  from keepsD [OF this _ assms] show ?thesis by (simp add: shrunk_def)
qed

lemma share_failed:
  assumes run: "create_producer x p rtp k m r rs t rec i s = (res, s')" and "\<And>d. res \<noteq> Ok d"
  shows "gathering_of x s' = gathering_of x s"
proof (cases "find_producer p m k (producer_map s)")
  case None
  from create_producer_end [OF None run] assms(2) have "same_streams s s'"
    unfolding stored_end_def by (cases res) auto
  then show ?thesis by (simp add: gathering_of_def same_streams_def shard_of_cong [of s' s])
next
  case (Some d)
  then have "res = Ok d"
    using run by (simp add: create_producer_def and_then_def lock_entry_def modify_def gets_def ret_def)
  with assms(2) show ?thesis by blast
qed

lemma stop_taking_failed:
  assumes run: "close_consumer x p ids m s = (res, s')" and "\<And>u. res \<noteq> Ok u"
  shows "gathering_of x s' = gathering_of x s"
proof -
  let ?P = "\<lambda>r s'. (\<forall>u. r \<noteq> Ok u) \<longrightarrow> same_but_world s s'"
  have last: "ends (same_but_world s) (write_shard x m f) ?P" for f
    by (auto simp: ends_def write_shard_run)
  have "ends (same_but_world s) (close_consumer x p ids m) ?P"
    unfolding close_consumer_def attempt_or_fail by (rule ends_bind, intro keeps_intros, simp, rule last)
  from endsD [OF this _ run] assms(2) show ?thesis by (simp add: gathering_of_same)
qed

section \<open>The refinement\<close>

text \<open>Leaving and finishing close one stream after the other: they may stop in the middle.\<close>

fun stepwise :: "request \<Rightarrow> bool" where
  "stepwise (Leave p m i a b) = True"
| "stepwise (Finish m rs ts q qs) = True"
| "stepwise _ = False"

lemma then_ret_Ok: "and_then m (\<lambda>a. ret (f a)) s = (Ok b, s') \<longleftrightarrow> (\<exists>a. m s = (Ok a, s') \<and> b = f a)"
  by (auto simp: and_then_Ok_iff ret_def)

lemma then_ret_failed:
  "and_then m (\<lambda>a. ret (f a)) s = (r, s') \<Longrightarrow> (\<And>b. r \<noteq> Ok b) \<Longrightarrow> \<exists>r'. m s = (r', s') \<and> (\<forall>a. r' \<noteq> Ok a)"
  by (cases "m s"; cases "fst (m s)") (auto simp: and_then_def ret_def)

lemma answered_refines:
  assumes "sfu_inv x s" and "run_request x req s = (Ok b, s')"
  shows "permitted req b (gathering_of x s) (gathering_of x s')"
  using assms(2)
proof (cases req)
  case (Share p m k i rtp r rs t rec)
  with assms show ?thesis using refine_share by (force simp: then_ret_Ok simp del: permitted.simps)
next
  case (Take p m i t ts caps)
  with assms show ?thesis using refine_take by (force simp: then_ret_Ok simp del: permitted.simps)
next
  case (Stop_Taking p m ids)
  with assms show ?thesis using refine_stop_taking by (force simp: then_ret_Ok simp del: permitted.simps)
next
  case (Leave p m i a b)
  with assms show ?thesis using refine_leave by (force simp: then_ret_Ok simp del: permitted.simps)
next
  case (Finish m rs ts q qs)
  with assms show ?thesis using refine_finish by (force simp: then_ret_Ok simp del: permitted.simps)
qed (use refine_hold in \<open>auto simp: then_ret_Ok\<close>)

lemma failed_refines:
  assumes "run_request x req s = (r, s')" and "\<And>b. r \<noteq> Ok b"
  shows "(if stepwise req then shrunk x s s' else gathering_of x s' = gathering_of x s)"
proof (cases req)
  case (Share p m k i rtp r rs t rec)
  with assms then_ret_failed [OF assms(1) [unfolded Share run_request.simps]] show ?thesis using share_failed by fastforce
next
  case (Take p m i t ts caps)
  with assms then_ret_failed [OF assms(1) [unfolded Take run_request.simps]] show ?thesis
    using create_consumer_unchanged gathering_of_same by fastforce
next
  case (Stop_Taking p m ids)
  with assms then_ret_failed [OF assms(1) [unfolded Stop_Taking run_request.simps]] show ?thesis
    using stop_taking_failed by fastforce
next
  case (Leave p m i a b)
  with assms then_ret_failed [OF assms(1) [unfolded Leave run_request.simps]] show ?thesis using shrunk_leave by fastforce
next
  case (Finish m rs ts q qs)
  with assms then_ret_failed [OF assms(1) [unfolded Finish run_request.simps]] show ?thesis using shrunk_finish by fastforce
next
  case (Hold p ids)
  with assms then_ret_failed [OF assms(1) [unfolded Hold run_request.simps]] show ?thesis using refine_hold(1) by fastforce
next
  case (Unhold p ids)
  with assms then_ret_failed [OF assms(1) [unfolded Unhold run_request.simps]] show ?thesis using refine_hold(2) by fastforce
qed

lemma bob_asks_to_leave:
  "fst (run_request sample_ext (Leave ''bob'' ''m'' ''i2'' None (Some ''tb'')) sample_sfu) = Ok True"
proof -
  obtain s' where "leave_meeting sample_ext ''bob'' ''m'' ''i2'' None (Some ''tb'') sample_sfu =
      (Ok \<lparr>lmr_response = ''Participant left the meeting'', lmr_send_signal = True\<rparr>, s')"
    using bob_leaves by (metis prod.collapse)
  then show ?thesis by (simp only: run_request.simps and_then_def) (simp add: ret_def)
qed

lemma sample_gathering:
  "gathering_of sample_ext sample_sfu = \<lparr>offers = {alice_producer}, takes = {bob_consumer}, announced = []\<rparr>"
proof -
  have "takes (gathering_of sample_ext sample_sfu) = {bob_consumer}"
    unfolding takes_split [of sample_ext sample_sfu "''m''"] elsewhere_def
    by (auto simp: sample_defs)
  then show ?thesis by (simp add: gathering_of_def sample_sfu_def)
qed



end
