(* ===== verification/Interleaving.thy ===== *)
theory Interleaving
  imports Server Stream_Facts Gathering
begin

text \<open>
  Handlers that overlap. A request to create a producer holds the mutex of its meeting
  (\<open>lock_map\<close> in \<open>src/mediasoupv1/mod.rs\<close>) from its look at the producer map to its end; a request to
  consume looks at the shard of its meeting, gives the lock of the shard up, and writes to the shard at
  its end. Here both are split after the maps have been copied, and any steps of other requests come
  between: the mutex keeps the producers of a participant unique, nothing does so for its consumers,
  and a participant can leave between the two halves of a request of its own.
\<close>

section \<open>The two halves of a request\<close>

record produce_request =
  mp_participant :: string
  mp_rtp :: string
  mp_kind :: string
  mp_meeting :: string
  mp_router :: string
  mp_others :: "string list option"
  mp_transport :: string
  mp_recorded :: bool
  mp_instance :: string

record consume_request =
  mc_participant :: string
  mc_transport :: string
  mc_targets :: "(string, (string, string) hmap) hmap"
  mc_capabilities :: string
  mc_meeting :: string
  mc_instance :: string

text \<open>The look at the producer map, under the mutex of the meeting, and the transport.\<close>

definition begin_produce :: "produce_request \<Rightarrow> ('w, producer_detail + transport_in_memory) op" where
  "begin_produce q =
     and_then (lock_entry (mp_meeting q)) (\<lambda>_.
     and_then (gets (\<lambda>s. find_producer (mp_participant q) (mp_meeting q) (mp_kind q) (producer_map s))) (\<lambda>existing.
     case existing of
       Some detail \<Rightarrow> ret (Inl detail)
     | None \<Rightarrow>
         and_then (gets (\<lambda>s. hm_get (transport_map s) (mp_transport q))) (\<lambda>found.
         and_then (unwrap found) (\<lambda>t. ret (Inr t)))))"

definition end_produce :: "'w ext \<Rightarrow> produce_request \<Rightarrow> transport_in_memory \<Rightarrow> ('w, producer_detail) op" where
  "end_produce x q t =
     produce_on x (mp_participant q) (mp_rtp q) (mp_kind q) (mp_meeting q) (mp_router q) (mp_others q)
       (mp_transport q) (mp_recorded q) (mp_instance q) t"

text \<open>The look at the transports and at the shard, which is copied.\<close>

definition begin_consume :: "'w ext \<Rightarrow> consume_request \<Rightarrow>
    ('w, transport_in_memory \<times> (string, consumer_in_memory) hmap) op" where
  "begin_consume x q =
     and_then (gets (\<lambda>s. hm_get (transport_map s) (mc_transport q))) (\<lambda>found.
     and_then (unwrap found) (\<lambda>t.
     and_then (read_shard x (mc_meeting q)) (\<lambda>existing.
     ret (t, existing))))"

definition end_consume :: "'w ext \<Rightarrow> consume_request \<Rightarrow> transport_in_memory \<Rightarrow>
    (string, consumer_in_memory) hmap \<Rightarrow> ('w, (string, (string, consumer_handle) hmap) hmap) op" where
  "end_consume x q t existing =
     and_then (for_each (request_consumer x (mc_participant q) (mc_meeting q) (mc_instance q) (tim_transport t)
         (mc_transport q) (mc_capabilities q) existing) (requested (mc_targets q))
         \<lparr>cb_new = [], cb_entities = [], cb_result = []\<rparr>) (\<lambda>batch.
     and_then (attempt (run_mutate x True (cb_entities batch))) (\<lambda>r.
     case r of
       Inr _ \<Rightarrow> and_then (write_shard x (mc_meeting q) (hm_extend (cb_new batch))) (\<lambda>_. ret (cb_result batch))
     | Inl e \<Rightarrow> fail (''Error in writing to DB '' @ show_db_error e)))"

text \<open>One half after the other is the whole operation.\<close>

lemma and_then_assoc: "and_then (and_then m f) g = and_then m (\<lambda>a. and_then (f a) g)"
  by (auto simp: fun_eq_iff and_then_def split: outcome.splits prod.splits)

lemma and_then_ret: "and_then (ret a) f = f a"
  by (auto simp: fun_eq_iff and_then_def ret_def)

lemma produce_halves:
  "create_producer x (mp_participant q) (mp_rtp q) (mp_kind q) (mp_meeting q) (mp_router q) (mp_others q)
     (mp_transport q) (mp_recorded q) (mp_instance q) =
   and_then (begin_produce q) (\<lambda>begun. case begun of Inl detail \<Rightarrow> ret detail | Inr t \<Rightarrow> end_produce x q t)"
  unfolding create_producer_def create_new_producer_def begin_produce_def end_produce_def
  by (rule ext) (simp add: and_then_def lock_entry_def modify_def gets_def unwrap_def ret_def panic_def split: option.split)

lemma consume_halves:
  "create_consumer x (mc_participant q) (mc_transport q) (mc_targets q) (mc_capabilities q) (mc_meeting q) (mc_instance q) =
   and_then (begin_consume x q) (\<lambda>(t, existing). end_consume x q t existing)"
  unfolding create_consumer_def begin_consume_def end_consume_def by (simp only: and_then_assoc and_then_ret prod.case)

section \<open>Overlapping requests\<close>

datatype task =
    Producing produce_request transport_in_memory
  | Consuming consume_request transport_in_memory "(string, consumer_in_memory) hmap"

record 'w running =
  shared :: "'w sfu"
  held :: "string set"
  tasks :: "task list"

text \<open>
  A panic of a task releases its mutex like its end (the guard is dropped while unwinding; tokio's
  mutex is not poisoned).
\<close>

inductive overlap :: "'w ext \<Rightarrow> decoders \<Rightarrow> 'w running \<Rightarrow> 'w running \<Rightarrow> bool" for x d where
  known: "mp_meeting q \<notin> held st \<Longrightarrow> begin_produce q (shared st) = (r, s') \<Longrightarrow> \<forall>t. r \<noteq> Ok (Inr t) \<Longrightarrow>
    overlap x d st (st\<lparr>shared := s'\<rparr>)"
| produce: "mp_meeting q \<notin> held st \<Longrightarrow> begin_produce q (shared st) = (Ok (Inr t), s') \<Longrightarrow>
    overlap x d st (st\<lparr>shared := s', held := insert (mp_meeting q) (held st), tasks := Producing q t # tasks st\<rparr>)"
| produced: "tasks st = before @ Producing q t # after \<Longrightarrow> end_produce x q t (shared st) = (r, s') \<Longrightarrow>
    overlap x d st (st\<lparr>shared := s', held := held st - {mp_meeting q}, tasks := before @ after\<rparr>)"
| consume: "begin_consume x q (shared st) = (Ok (t, existing), s') \<Longrightarrow>
    overlap x d st (st\<lparr>shared := s', tasks := Consuming q t existing # tasks st\<rparr>)"
| consumed: "tasks st = before @ Consuming q t existing # after \<Longrightarrow> end_consume x q t existing (shared st) = (r, s') \<Longrightarrow>
    overlap x d st (st\<lparr>shared := s', tasks := before @ after\<rparr>)"
| other: "path \<noteq> ''/v1/createProducer'' \<Longrightarrow> handle x d path request_payload (shared st) = (r, s') \<Longrightarrow>
    overlap x d st (st\<lparr>shared := s'\<rparr>)"

inductive_cases overlapE: "overlap x d st st'"

section \<open>No other handler adds a producer\<close>

definition fewer :: "(string \<times> producer_in_memory) set \<Rightarrow> 'w sfu \<Rightarrow> bool" where
  "fewer P s \<longleftrightarrow> hm_wf (producer_map s) \<and> set (producer_map s) \<subseteq> P"

lemma fewer_frame [simp]:
  "fewer P (s\<lparr>world := w\<rparr>) = fewer P s" "fewer P (s\<lparr>transport_map := tm\<rparr>) = fewer P s"
  "fewer P (s\<lparr>routers_map := rm\<rparr>) = fewer P s" "fewer P (s\<lparr>lock_map := lm\<rparr>) = fewer P s"
  "fewer P (s\<lparr>user_channel := uc\<rparr>) = fewer P s" "fewer P (s\<lparr>pipeline_map := pl\<rparr>) = fewer P s"
  "fewer P (s\<lparr>consumer_map_shards := cs\<rparr>) = fewer P s"
  "fewer P (s\<lparr>plain_transport_map := pt, plain_transport_consumer_map := pc\<rparr>) = fewer P s"
  "fewer P (s\<lparr>pipeline_map := pl, world := w\<rparr>) = fewer P s"
  by (simp_all add: fewer_def)

lemma keeps_fewer_calls [keeps_intros]:
  "keeps (fewer P) (on_world m)" "keeps (fewer P) (call_world f)" "keeps (fewer P) (run_mutate y rb es)"
  "keeps (fewer P) (read_shard y k)" "keeps (fewer P) (lock_entry k)"
  "keeps (fewer P) (write_shard y k g)" "keeps (fewer P) (close_all_consumers_in_memory y ids k)"
  by (simp_all add: keeps_def on_world_run call_world_run run_mutate_def read_shard_run lock_entry_def modify_def
      write_shard_run close_all_consumers_run)

lemma keeps_fewer_modify [keeps_intros]:
  "keeps (fewer P) (modify (\<lambda>s. s\<lparr>transport_map := f s\<rparr>))" "keeps (fewer P) (modify (\<lambda>s. s\<lparr>routers_map := g s\<rparr>))"
  "keeps (fewer P) (modify (\<lambda>s. s\<lparr>user_channel := h s\<rparr>))"
  by (simp_all add: keeps_def modify_def)

lemma keeps_fewer_results [keeps_intros]:
  "keeps (fewer P) (call_result pre f)" "keeps (fewer P) (call_unit pre u)"
  unfolding call_result_def call_unit_def by (intro keeps_intros)+

lemma keeps_fewer_push_event [keeps_intros]: "keeps (fewer P) (push_user_session_event y p m t i)"
  unfolding push_user_session_event_def by (intro keeps_intros)

lemma keeps_fewer_close_producers [keeps_intros]: "keeps (fewer P) (close_producers_loop participants ids)"
proof (induction ids)
  case Nil
  then show ?case by (simp add: keeps_intros)
next
  case (Cons p ps)
  have "fewer P (s\<lparr>producer_map := hm_remove p (producer_map s)\<rparr>)" if "fewer P s" for s
    using that hm_wf_remove_all [of "producer_map s" "[p]"]
    by (auto simp: fewer_def set_hm_remove hm_remove_all_Cons)
  then show ?case
    unfolding close_producers_loop.simps
    by (intro keeps_intros Cons keeps_modify)
      (use Cons in \<open>auto split: list.splits intro!: keeps_intros keeps_modify\<close>)
qed

lemma keeps_fewer_remove_participants [keeps_intros]: "keeps (fewer P) (remove_participants_from_pipeline y ids m)"
  by (rule keepsI, drule remove_participants_run) auto

lemma keeps_fewer_db_error [keeps_intros]:
  "(\<And>c m. keeps (fewer P) (f c m)) \<Longrightarrow> (\<And>m. keeps (fewer P) (g m)) \<Longrightarrow> (\<And>m. keeps (fewer P) (h m)) \<Longrightarrow>
   keeps (fewer P) (case e of MySqlError c m \<Rightarrow> f c m | GenericError m \<Rightarrow> g m | RollbackError m \<Rightarrow> h m)"
  by (cases e) simp_all

lemma keeps_fewer_transport_db_failure [keeps_intros]: "keeps (fewer P) (transport_db_failure p m k e)"
  unfolding transport_db_failure_def by (intro keeps_intros)

lemma keeps_fewer_rows [keeps_intros]: "keeps (fewer P) (rows_to_details rs)"
  unfolding row_get_def by (induction rs) (auto simp: row_get_def intro!: keeps_intros)

lemma keeps_fewer_request_consumer [keeps_intros]:
  "keeps (fewer P) (request_consumer x p m i t tid caps existing req acc)"
  unfolding request_consumer_def Let_def by (auto split: prod.splits list.splits intro!: keeps_intros)

lemma keeps_fewer_close_all [keeps_intros]: "keeps (fewer P) (close_all_producers_in_memory y ps ids m rem)"
  unfolding close_all_producers_in_memory_def by (intro keeps_intros)

lemma keeps_fewer_close_older [keeps_intros]: "keeps (fewer P) (close_older_instances x p m i)"
  unfolding close_older_instances_def query_defs by (intro keeps_intros)

lemma keeps_fewer_transports [keeps_intros]:
  "keeps (fewer P) (create_producer_transport y r p m a b)" "keeps (fewer P) (create_consumer_transport y r p m a b)"
  "keeps (fewer P) (connect_transport y p t dtls)" "keeps (fewer P) (restart_ice y p ts)"
  "keeps (fewer P) (remove_and_add_participant_to_meeting y p m i a b)"
  unfolding create_producer_transport_def create_consumer_transport_def connect_transport_def restart_ice_def
    restart_one_def remove_and_add_participant_to_meeting_def create_transport_def set_bitrates_def
  by (intro keeps_intros)+

lemma keeps_fewer_queries [keeps_intros]:
  "keeps (fewer P) (get_producers_of_meeting y m)"
  "keeps (fewer P) (get_producers_of_meeting_excluding_participant y m p)"
  unfolding get_producers_of_meeting_def get_producers_of_meeting_excluding_participant_def by (intro keeps_intros)+

lemma keeps_fewer_recreate [keeps_intros]:
  "keeps (fewer P) (recreate_producer_transport_helper x p m i r a b)"
  "keeps (fewer P) (recreate_consumer_transport_helper x p m i r a b)"
  unfolding recreate_producer_transport_helper_def recreate_consumer_transport_helper_def
    recreate_producer_transport_def recreate_consumer_transport_def Let_def
  by (intro keeps_intros)+

lemma keeps_fewer_meetings [keeps_intros]:
  "keeps (fewer P) (create_meeting_and_routers_on_workers y caps m c)" "keeps (fewer P) (batch_create_router_on_worker y mm)"
  "keeps (fewer P) (get_router_capabilities y r)" "keeps (fewer P) (leave_meeting y p m i a b)"
  "keeps (fewer P) (end_meeting y m rs ts ps)"
  unfolding create_meeting_and_routers_on_workers_def batch_create_router_on_worker_def create_meeting_routers_def
    create_worker_routers_def create_router_def get_router_capabilities_def leave_meeting_def close_instance_def
    end_meeting_def stop_pipeline_def query_defs
  by (intro keeps_intros)+

lemma keeps_fewer_streams [keeps_intros]:
  "keeps (fewer P) (resume_producer y p ids)" "keeps (fewer P) (pause_producer y p ids)"
  "keeps (fewer P) (close_producer y p m ids)" "keeps (fewer P) (create_consumer y p tid ts caps m i)"
  "keeps (fewer P) (resume_consumer y p cs m)" "keeps (fewer P) (pause_consumer y p cs m)"
  "keeps (fewer P) (close_consumer y p cs m)"
  unfolding resume_producer_def pause_producer_def set_producer_state_def close_producer_def Let_def create_consumer_def
    resume_consumer_def pause_consumer_def set_consumer_state_def close_consumer_def
  by (intro keeps_intros)+

lemma keeps_fewer_handlers:
  "keeps (fewer P) (create_meeting_handler x d1 t)" "keeps (fewer P) (replace_meetings_handler x d2 t)"
  "keeps (fewer P) (join_meeting_handler x d3 t)" "keeps (fewer P) (get_producers_of_meeting_handler x d4 t)"
  "keeps (fewer P) (connect_transport_handler x d5 t)" "keeps (fewer P) (restart_ice_handler x d6 t)"
  "keeps (fewer P) (recreate_producer_transport_handler x d7 t)"
  "keeps (fewer P) (recreate_consumer_transport_handler x d8 t)"
  "keeps (fewer P) (create_consumer_handler x d9 t)" "keeps (fewer P) (resume_consumer_handler x d10 t)"
  "keeps (fewer P) (resume_producer_handler x d11 t)" "keeps (fewer P) (pause_producer_handler x d12 t)"
  "keeps (fewer P) (pause_consumer_handler x d13 t)" "keeps (fewer P) (close_producer_handler x d14 t)"
  "keeps (fewer P) (close_consumer_handler x d15 t)" "keeps (fewer P) (leave_meeting_handler x d16 t)"
  "keeps (fewer P) (end_meeting_handler x d17 t)" "keeps (fewer P) (get_rtp_capabilities_handler x d18 t)"
  "keeps (fewer P) (pre_meeting_details_handler x d19 t)"
  "keeps (fewer P) (get_participant_producers_handler d20 t)"
  "keeps (fewer P) (get_participant_consumers_handler x d21 t)"
  unfolding handler_defs create_consumer_handler_def query_defs worker_router_capacity_def add_meeting_payload_def
    meeting_payload_of_def capabilities_of_def answer_def
  by (intro keeps_with_payload keeps_intros)+

lemma keeps_fewer_handle:
  assumes "path \<noteq> ''/v1/createProducer''"
  shows "keeps (fewer P) (handle x d path t)"
proof -
  have "\<forall>(p, h) \<in> set (setup_routes x d). p \<noteq> ''/v1/createProducer'' \<longrightarrow> keeps (fewer P) (h t)"
    by (simp add: setup_routes_def keeps_fewer_handlers)
  then have "keeps (fewer P) (h t)" if "map_of (setup_routes x d) path = Some h" for h
    using map_of_SomeD [OF that] assms by blast
  then show ?thesis
    unfolding handle_def by (auto split: option.splits intro: keeps_intros)
qed

section \<open>The mutex keeps producers unique\<close>

fun producing :: "task list \<Rightarrow> produce_request list" where
  "producing [] = []"
| "producing (Producing q t # ts) = q # producing ts"
| "producing (Consuming q t existing # ts) = producing ts"

lemma producing_append [simp]: "producing (a @ b) = producing a @ producing b"
  by (induction a rule: producing.induct) simp_all

definition unshared :: "produce_request \<Rightarrow> (string, producer_in_memory) hmap \<Rightarrow> bool" where
  "unshared q pm \<longleftrightarrow> find_producer (mp_participant q) (mp_meeting q) (mp_kind q) pm = None"

definition exclusive :: "'w running \<Rightarrow> bool" where
  "exclusive st \<longleftrightarrow> producers_ok (producer_map (shared st)) \<and> distinct (map mp_meeting (producing (tasks st))) \<and>
     mp_meeting ` set (producing (tasks st)) = held st \<and>
     (\<forall>q \<in> set (producing (tasks st)). unshared q (producer_map (shared st)))"

lemma fewer_ok:
  assumes "fewer (set pm) s" and "producers_ok pm"
  shows "producers_ok (producer_map s)" and "unshared q pm \<Longrightarrow> unshared q (producer_map s)"
  using assms unfolding fewer_def producers_ok_def unshared_def find_producer_None by blast+

lemma exclusive_fewer:
  assumes "exclusive st" and "fewer (set (producer_map (shared st))) s'"
  shows "exclusive (st\<lparr>shared := s'\<rparr>)"
  using assms fewer_ok [OF assms(2)] unfolding exclusive_def by simp

lemma begin_produce_run:
  assumes "begin_produce q s = (r, s')"
  shows "s' = s\<lparr>lock_map := hm_entry (mp_meeting q) () (lock_map s)\<rparr>"
    and "r = Ok (Inr t) \<Longrightarrow> find_producer (mp_participant q) (mp_meeting q) (mp_kind q) (producer_map s) = None"
  using assms
  by (auto simp: begin_produce_def and_then_def lock_entry_def modify_def gets_def unwrap_def ret_def panic_def
      split: option.splits)

lemma begin_consume_run: "begin_consume x q s = (r, s') \<Longrightarrow> s' = s"
  by (auto simp: begin_consume_def and_then_def gets_def unwrap_def panic_def ret_def read_shard_run
      split: option.splits if_splits)

lemma end_produce_run:
  assumes "end_produce x q t s = (r, s')"
  shows "producer_map s' = producer_map s \<or>
    (\<exists>pid. producer_map s' = hm_insert pid \<lparr>pim_producer = pid, pim_meeting_id = mp_meeting q,
       pim_participant_id = mp_participant q, pim_kind = mp_kind q, pim_instance_id = mp_instance q\<rparr> (producer_map s))"
proof -
  have "same_streams s s" by (simp add: same_streams_def)
  from endsD [OF ends_produce_on this assms [unfolded end_produce_def]] show ?thesis
    unfolding stored_end_def
    by (cases r) (auto simp: same_streams_def store_producer_def Let_def split: option.splits prod.splits)
qed

lemma exclusive_produced:
  assumes ex: "exclusive st" and tasks: "tasks st = before @ Producing q t # after"
    and run: "end_produce x q t (shared st) = (r, s')"
  shows "exclusive (st\<lparr>shared := s', held := held st - {mp_meeting q}, tasks := before @ after\<rparr>)"
proof -
  let ?pm = "producer_map (shared st)" and ?rest = "producing before @ producing after"
  let ?p = "\<lambda>pid. \<lparr>pim_producer = pid, pim_meeting_id = mp_meeting q, pim_participant_id = mp_participant q,
       pim_kind = mp_kind q, pim_instance_id = mp_instance q\<rparr>"
  have ok: "producers_ok ?pm" and free: "unshared q ?pm" and others: "\<And>q'. q' \<in> set ?rest \<Longrightarrow> unshared q' ?pm"
    and apart: "mp_meeting q \<notin> mp_meeting ` set ?rest" "distinct (map mp_meeting ?rest)"
      "insert (mp_meeting q) (mp_meeting ` set ?rest) = held st"
    using ex by (auto simp: exclusive_def tasks)
  have other: "mp_meeting q' \<noteq> mp_meeting q" if "q' \<in> set ?rest" for q'
    using apart(1) imageI [OF that, of mp_meeting] by auto
  have "producers_ok (hm_insert pid (?p pid) ?pm)" for pid
    using producers_ok_insert [of ?pm "?p pid"] ok free by (simp add: unshared_def)
  moreover have "unshared q' (hm_insert pid (?p pid) ?pm)" if "q' \<in> set ?rest" for q' pid
    using others [OF that] other [OF that] by (auto simp: unshared_def find_producer_None set_hm_insert)
  ultimately have "producers_ok (producer_map s') \<and> (\<forall>q' \<in> set ?rest. unshared q' (producer_map s'))"
    using end_produce_run [OF run] ok others by auto
  moreover have "distinct (map mp_meeting ?rest)" "mp_meeting ` set ?rest = held st - {mp_meeting q}"
    using apart by (simp, blast)
  ultimately show ?thesis by (simp add: exclusive_def)
qed

lemma exclusive_step:
  assumes "overlap x d st st'" and ex: "exclusive st"
  shows "exclusive st'"
  using assms(1)
proof (rule overlapE)
  fix q r s'
  assume "begin_produce q (shared st) = (r, s')" and st': "st' = st\<lparr>shared := s'\<rparr>"
  from begin_produce_run(1) [OF this(1)] have "fewer (set (producer_map (shared st))) s'"
    using ex by (simp add: fewer_def exclusive_def producers_ok_def)
  then show ?thesis unfolding st' by (rule exclusive_fewer [OF ex])
next
  fix q t s'
  assume "mp_meeting q \<notin> held st" and run: "begin_produce q (shared st) = (Ok (Inr t), s')"
    and "st' = st\<lparr>shared := s', held := insert (mp_meeting q) (held st), tasks := Producing q t # tasks st\<rparr>"
  then show ?thesis using ex begin_produce_run [OF run] by (auto simp: exclusive_def unshared_def)
next
  fix before q t after r s'
  assume "tasks st = before @ Producing q t # after" and "end_produce x q t (shared st) = (r, s')"
    and st': "st' = st\<lparr>shared := s', held := held st - {mp_meeting q}, tasks := before @ after\<rparr>"
  then show ?thesis unfolding st' by (intro exclusive_produced [OF ex])
next
  fix q t existing s'
  assume "begin_consume x q (shared st) = (Ok (t, existing), s')"
    and "st' = st\<lparr>shared := s', tasks := Consuming q t existing # tasks st\<rparr>"
  then show ?thesis using ex begin_consume_run [of x q "shared st"] by (auto simp: exclusive_def)
next
  fix before q t existing after r s'
  assume tasks: "tasks st = before @ Consuming q t existing # after" and run: "end_consume x q t existing (shared st) = (r, s')"
    and st': "st' = st\<lparr>shared := s', tasks := before @ after\<rparr>"
  have "keeps (fewer (set (producer_map (shared st)))) (end_consume x q t existing)"
    unfolding end_consume_def by (intro keeps_intros)
  from keepsD [OF this _ run] have "fewer (set (producer_map (shared st))) s'"
    using ex by (auto simp: fewer_def exclusive_def producers_ok_def)
  from exclusive_fewer [OF ex this] show ?thesis unfolding st' by (simp add: exclusive_def tasks)
next
  fix path t r s'
  assume "path \<noteq> ''/v1/createProducer''" and run: "handle x d path t (shared st) = (r, s')" and st': "st' = st\<lparr>shared := s'\<rparr>"
  from keepsD [OF keeps_fewer_handle [OF this(1)] _ run] have "fewer (set (producer_map (shared st))) s'"
    using ex by (auto simp: fewer_def exclusive_def producers_ok_def)
  then show ?thesis unfolding st' by (rule exclusive_fewer [OF ex])
qed

lemma exclusive_steps: "(overlap x d)\<^sup>*\<^sup>* st st' \<Longrightarrow> exclusive st \<Longrightarrow> exclusive st'"
  by (induction rule: rtranclp_induct) (auto intro: exclusive_step)

text \<open>
  Overlapping requests keep producers unique. From a state in which no request is on its way and a
  participant has at most one producer of a kind in a meeting, whatever requests overlap (any number of
  them creating producers and consumers, any others coming between), this is so at every later moment:
  no two entries of the producer map agree in meeting, participant and kind.
\<close>

theorem overlapping_producers_unique:
  assumes "producers_ok (producer_map (shared st))" and "tasks st = []" and "held st = {}"
    and "(overlap x d)\<^sup>*\<^sup>* st st'"
    and "(k, v) \<in> set (producer_map (shared st'))" and "(k', v') \<in> set (producer_map (shared st'))"
    and "pim_meeting_id v = pim_meeting_id v'" and "pim_participant_id v = pim_participant_id v'" and "pim_kind v = pim_kind v'"
  shows "k = k' \<and> v = v'"
proof -
  have "exclusive st" using assms(1-3) by (simp add: exclusive_def)
  from exclusive_steps [OF assms(4) this] have ok: "producers_ok (producer_map (shared st'))" by (simp add: exclusive_def)
  have "k = k'" using ok assms(5-9) unfolding producers_ok_def same_stream_def by fast
  moreover have "v = v'"
    using ok assms(5,6) \<open>k = k'\<close> unfolding producers_ok_def hm_wf_def by (metis eq_key_imp_eq_value)
  ultimately show ?thesis by simp
qed


section \<open>Nothing keeps consumers unique\<close>

lemma end_consume_one:
  assumes one: "requested (mc_targets q) = [(target, knd, pid)]"
    and none: "filter (same_consumer (mc_participant q) target knd (mc_meeting q) (mc_instance q)) (hm_values existing) = []"
    and run: "end_consume x q t existing s = (Ok [(target, [(knd, c)])], s')"
  obtains w v where "consumer_map_shards s \<noteq> []"
    and "same_consumer (mc_participant q) target knd (mc_meeting q) (mc_instance q) v"
    and "s' = s\<lparr>world := w, consumer_map_shards :=
      sh_update (shard_index x s (mc_meeting q)) (hm_insert (co_id c) v) (consumer_map_shards s)\<rparr>"
proof -
  let ?p = "mc_participant q" and ?m = "mc_meeting q" and ?i = "mc_instance q"
  let ?start = "\<lparr>cb_new = [], cb_entities = [], cb_result = []\<rparr>"
  from run [unfolded end_consume_def attempt_or_fail one] obtain batch s1 s2 okv where
    step: "request_consumer x ?p ?m ?i (tim_transport t) (mc_transport q) (mc_capabilities q) existing (target, knd, pid) ?start s
      = (Ok batch, s1)"
    and mut: "run_mutate x True (cb_entities batch) s1 = (Ok okv, s2)"
    and stored: "write_shard x ?m (hm_extend (cb_new batch)) s2 = (Ok () :: (unit, string) outcome, s')"
    and r: "cb_result batch = [(target, [(knd, c)])]"
    by (auto simp: run_iffs ret_def)
  have "keeps (same_but_world s) (request_consumer x ?p ?m ?i (tim_transport t) (mc_transport q) (mc_capabilities q) existing
      (target, knd, pid) ?start)" by (intro keeps_intros)
  from sbw_run [OF this step] obtain w1 where "s1 = s\<lparr>world := w1\<rparr>" ..
  with mut obtain w where s2: "s2 = s\<lparr>world := w\<rparr>" by (auto simp: run_mutate_def on_world_run)
  let ?v = "\<lambda>c. \<lparr>cim_consumer = c, cim_meeting_id = ?m, cim_participant_id = ?p, cim_target_participant_id = target,
       cim_kind = knd, cim_instance_id = ?i, cim_producer_id = pid\<rparr>"
  from step none r have new: "cb_new batch = [(co_id c, ?v c)]"
    by (auto simp: request_consumer_def run_iffs ret_def add_result_def hm_insert_def hm_remove_def hm_get_def)
  have "hm_extend [(co_id c, ?v c)] = hm_insert (co_id c) (?v c)" by (simp add: hm_extend_def fun_eq_iff)
  with stored have "consumer_map_shards s \<noteq> []" and "s' = s\<lparr>world := w, consumer_map_shards :=
      sh_update (shard_index x s ?m) (hm_insert (co_id c) (?v c)) (consumer_map_shards s)\<rparr>"
    by (simp_all add: s2 new write_shard_run shard_index_cong [of "s\<lparr>world := w\<rparr>" s] split: if_splits)
  then show thesis by (intro that) (simp_all add: same_consumer_def)
qed

lemma two_values:
  assumes "(k, v) \<in> set m" and "(k', v') \<in> set m" and "k \<noteq> k'" and "P v" and "P v'"
  obtains a b rest where "filter P (hm_values m) = a # b # rest"
proof -
  have entries: "(k, v) \<in> set (filter (\<lambda>e. P (snd e)) m)" "(k', v') \<in> set (filter (\<lambda>e. P (snd e)) m)"
    using assms by simp_all
  obtain e e' rest where "filter (\<lambda>e. P (snd e)) m = e # e' # rest"
  proof (cases "filter (\<lambda>e. P (snd e)) m" rule: remdups_adj.cases)
    case (3 e e' rest)
    then show ?thesis by (rule that)
  qed (use entries assms(3) in auto)
  then show thesis
    by (intro that [of "snd e" "snd e'" "map snd rest"]) (simp add: hm_values_def filter_map o_def)
qed

lemma shard_of_inserted:
  assumes "consumer_map_shards s \<noteq> []"
  shows "shard_of x (s\<lparr>world := w, consumer_map_shards := sh_update (shard_index x s m) (hm_insert k v) (consumer_map_shards s)\<rparr>) m
    = hm_insert k v (shard_of x s m)"
proof -
  let ?s = "s\<lparr>consumer_map_shards := sh_update (shard_index x s m) (hm_insert k v) (consumer_map_shards s)\<rparr>"
  have "shard_of x (s\<lparr>world := w, consumer_map_shards :=
      sh_update (shard_index x s m) (hm_insert k v) (consumer_map_shards s)\<rparr>) m = shard_of x ?s m" unfolding shard_of_def shard_index_def by simp
  then show ?thesis unfolding shard_of_write [OF assms] by simp
qed

definition several_consumers :: "consume_request \<Rightarrow> string \<Rightarrow> string \<Rightarrow> string" where
  "several_consumers q target knd =
     ''More than one existing consumer found for participant '' @ mc_participant q @
     '', target participant '' @ target @ '', kind '' @ knd @ '', meeting_id '' @ mc_meeting q @
     '', instance_id '' @ mc_instance q"

lemma several_consumers_run:
  assumes "hm_get (transport_map s) (mc_transport q) = Some t" and "consumer_map_shards s \<noteq> []"
    and "requested (mc_targets q) = [(target, knd, pid)]"
    and "filter (same_consumer (mc_participant q) target knd (mc_meeting q) (mc_instance q))
      (hm_values (shard_of x s (mc_meeting q))) = a # b # rest"
  shows "create_consumer x (mc_participant q) (mc_transport q) (mc_targets q) (mc_capabilities q) (mc_meeting q)
      (mc_instance q) s = (Err (several_consumers q target knd), s)"
  using assms
  by (simp add: create_consumer_def and_then_def gets_def unwrap_def ret_def read_shard_run request_consumer_def fail_def
      several_consumers_def)


section \<open>A participant leaves while it produces\<close>

lemma leave_meeting_transports:
  assumes "leave_meeting x p m i a b s = (Ok \<lparr>lmr_response = r, lmr_send_signal = True\<rparr>, s')"
  shows "transport_map s' = hm_remove_all (opt_list a @ opt_list b) (transport_map s)"
  using assms
proof (cases rule: leave_meeting_cases)
  case (left w s1)
  from push_event_run [of x p m "''LEAVE''" i s1] left(3) obtain ev w2
    where "s' = s1\<lparr>world := w2, user_channel := user_channel s1 @ [ev]\<rparr>"
    by (metis prod.inject)
  with close_instance_run [OF left(1) refl refl refl] show ?thesis by simp
qed auto


section \<open>Witnesses\<close>

definition sample_share :: produce_request where
  "sample_share = \<lparr>mp_participant = ''bob'', mp_rtp = ''rtp'', mp_kind = ''screenshare'', mp_meeting = ''m'', mp_router = ''r1'',
     mp_others = None, mp_transport = ''tb'', mp_recorded = False, mp_instance = ''i2''\<rparr>"

definition sample_take :: consume_request where
  "sample_take = \<lparr>mc_participant = ''bob'', mc_transport = ''tb'', mc_targets = [(''alice'', [(''audio'', ''p2'')])],
     mc_capabilities = ''caps'', mc_meeting = ''m'', mc_instance = ''i2''\<rparr>"

lemma share_begins:
  "begin_produce sample_share sample_sfu =
     (Ok (Inr (sample_transport ''tb'' ''bob'')), sample_sfu\<lparr>lock_map := [(''m'', ())]\<rparr>)"
  by (simp add: begin_produce_def sample_share_def effect_defs lock_entry_def find_producer_def hm_entry_def hm_insert_def
      sample_defs)

lemmas share_defs =
  end_produce_def produce_on_def sample_share_def effect_defs from_result_def parse_kind_def to_lowercase_def lower_char_def
  call_result_def finish_producer_def run_mutate_def mutate_def mutation_statement_def pick_statement_def
  participant_producers_insert_def store_producer_def Let_def sample_transport_def hm_insert_def

lemma share_ends:
  "end_produce sample_ext sample_share (sample_transport ''tb'' ''bob'') (sample_sfu\<lparr>lock_map := [(''m'', ())]\<rparr>) =
     (Ok \<lparr>pd_producer_id = ''p'', pd_participant_id = ''bob'', pd_kind = ''screenshare''\<rparr>, s') \<Longrightarrow>
   producer_map s' = [(''p'', \<lparr>pim_producer = ''p'', pim_meeting_id = ''m'', pim_participant_id = ''bob'',
     pim_kind = ''screenshare'', pim_instance_id = ''i2''\<rparr>), (''p1'', alice_producer)]"
  by (auto simp: share_defs sample_defs)

lemma share_answers:
  "fst (end_produce sample_ext sample_share (sample_transport ''tb'' ''bob'') (sample_sfu\<lparr>lock_map := [(''m'', ())]\<rparr>)) =
     Ok \<lparr>pd_producer_id = ''p'', pd_participant_id = ''bob'', pd_kind = ''screenshare''\<rparr>"
  by (simp add: share_defs sample_defs)

lemma one_producer_steps:
  assumes "begin_produce q s = (Ok (Inr t), s1)" and "end_produce x q t s1 = (r, s2)"
  shows "(overlap x d)\<^sup>*\<^sup>* \<lparr>shared = s, held = {}, tasks = []\<rparr> \<lparr>shared = s2, held = {}, tasks = []\<rparr>"
proof -
  let ?task = "\<lparr>shared = s1, held = {mp_meeting q}, tasks = [Producing q t]\<rparr>"
  have "overlap x d \<lparr>shared = s, held = {}, tasks = []\<rparr> ?task"
    using overlap.produce [of q "\<lparr>shared = s, held = {}, tasks = []\<rparr>" t s1 x d] assms(1) by simp
  moreover have "overlap x d ?task \<lparr>shared = s2, held = {}, tasks = []\<rparr>"
    using overlap.produced [of ?task "[]" q t "[]" x r s2 d] assms(2) by simp
  ultimately show ?thesis by (blast intro: converse_rtranclp_into_rtranclp)
qed

theorem overlapping_producers_unique_witness:
  "\<forall>d. \<exists>st'. (overlap sample_ext d)\<^sup>*\<^sup>* \<lparr>shared = sample_sfu, held = {}, tasks = []\<rparr> st' \<and>
    {k. \<exists>v. (k, v) \<in> set (producer_map (shared st')) \<and> pim_meeting_id v = ''m'' \<and> pim_participant_id v = ''bob'' \<and>
      pim_kind v = ''screenshare''} = {''p''}"
proof
  fix d
  let ?st = "\<lparr>shared = sample_sfu, held = {}, tasks = []\<rparr>"
  let ?new = "\<lparr>pim_producer = ''p'', pim_meeting_id = ''m'', pim_participant_id = ''bob'', pim_kind = ''screenshare'',
      pim_instance_id = ''i2''\<rparr>"
  obtain r s2 where run: "end_produce sample_ext sample_share (sample_transport ''tb'' ''bob'')
      (sample_sfu\<lparr>lock_map := [(''m'', ())]\<rparr>) = (r, s2)" by (rule prod.exhaust)
  note steps = one_producer_steps [OF share_begins run, of d]
  have "r = Ok \<lparr>pd_producer_id = ''p'', pd_participant_id = ''bob'', pd_kind = ''screenshare''\<rparr>"
    using share_answers unfolding run by (simp only: fst_conv)
  from share_ends [OF run [unfolded this]] have new: "(''p'', ?new) \<in> set (producer_map s2)"
    by (simp only: list.set_intros)
  have ok: "producers_ok (producer_map (shared ?st))"
    unfolding running.select_convs by (rule sfu_invD(1) [OF sample_inv])
  have "k = ''p''" if "(k, v) \<in> set (producer_map s2)" "pim_meeting_id v = ''m''" "pim_participant_id v = ''bob''"
    "pim_kind v = ''screenshare''" for k v
    by (rule overlapping_producers_unique [OF ok _ _ steps, unfolded running.select_convs, OF refl refl that(1) new,
        THEN conjunct1]) (simp_all only: that producer_in_memory.select_convs)
  moreover have "\<exists>v. (''p'', v) \<in> set (producer_map s2) \<and> pim_meeting_id v = ''m'' \<and> pim_participant_id v = ''bob'' \<and>
      pim_kind v = ''screenshare''"
    by (intro exI [of _ ?new] conjI new) (simp_all only: producer_in_memory.select_convs)
  ultimately have "{k. \<exists>v. (k, v) \<in> set (producer_map s2) \<and> pim_meeting_id v = ''m'' \<and> pim_participant_id v = ''bob'' \<and>
      pim_kind v = ''screenshare''} = {''p''}"
    by blast
  then show "\<exists>st'. (overlap sample_ext d)\<^sup>*\<^sup>* ?st st' \<and> {k. \<exists>v. (k, v) \<in> set (producer_map (shared st')) \<and>
      pim_meeting_id v = ''m'' \<and> pim_participant_id v = ''bob'' \<and> pim_kind v = ''screenshare''} = {''p''}"
    by (intro exI [of _ "\<lparr>shared = s2, held = {}, tasks = []\<rparr>"] conjI steps) (simp only: running.select_convs)
qed

lemma take_begins:
  "begin_consume sample_ext sample_take sample_sfu = (Ok (sample_transport ''tb'' ''bob'', [(''c1'', bob_consumer)]), sample_sfu)"
  by (simp add: begin_consume_def sample_take_def effect_defs read_shard_run sample_defs)

lemmas take_defs =
  end_consume_def sample_take_def requested_def request_consumer_def same_consumer_def add_result_def effect_defs
  call_result_def from_result_def hm_insert_def run_mutate_def mutate_def mutation_statement_def
  pick_statement_def participant_consumers_insert_def hm_values_def write_shard_run

lemma take_twice:
  "end_consume sample_ext sample_take (sample_transport ''tb'' ''bob'') [(''c1'', bob_consumer)] sample_sfu = (r1, s1) \<Longrightarrow>
   end_consume sample_ext sample_take (sample_transport ''tb'' ''bob'') [(''c1'', bob_consumer)] s1 = (r2, s2) \<Longrightarrow>
   r1 = Ok [(''alice'', [(''audio'', \<lparr>co_id = ''c'', co_producer_id = ''p2'', co_rtp_parameters = ''rtp''\<rparr>)])] \<and>
   r2 = Ok [(''alice'', [(''audio'', \<lparr>co_id = ''ci'', co_producer_id = ''p2'', co_rtp_parameters = ''rtp''\<rparr>)])]"
  by (auto simp: take_defs sample_defs)


lemma bob_leaves_meanwhile:
  "leave_meeting sample_ext ''bob'' ''m'' ''i2'' (Some ''tb'') None (sample_sfu\<lparr>lock_map := [(''m'', ())]\<rparr>) = (r, s1) \<Longrightarrow>
   r = Ok \<lparr>lmr_response = ''Participant left the meeting'', lmr_send_signal = True\<rparr> \<and>
   fst (end_produce sample_ext sample_share (sample_transport ''tb'' ''bob'') s1) =
     Ok \<lparr>pd_producer_id = ''pi'', pd_participant_id = ''bob'', pd_kind = ''screenshare''\<rparr>"
  by (auto simp: leave_meeting_def close_instance_def query_defs delete_def participant_meeting_delete_def
      read_shard_run close_all_consumers_run push_user_session_event_def share_defs sample_defs)


end
