(* ===== verification/Threads.thy ===== *)
theory Threads
  imports Server
begin

text \<open>
  Handlers as threads. The handlers of the server run concurrently, and the maps of \<open>Inner\<close>
  (\<open>src/mediasoupv1/mod.rs\<close>) have locks of their own, taken and given up one after the other. Here an
  operation is the sequence of its blocks: in a block it takes the lock of one map, or calls the database
  or mediasoup, and between two blocks any other thread may run. The mutexes of \<open>lock_map\<close> are awaited
  between blocks (\<open>Lock\<close>) and held until the operation has ended. Running the blocks without a pause is
  the operation of the other theories.
\<close>

section \<open>Threads\<close>

datatype ('w, 'a) thread =
    Finished "('a, string) outcome"
  | Block "'w sfu \<Rightarrow> ('w, 'a) thread \<times> 'w sfu"
  | Lock string "('w, 'a) thread"

primrec run_thread :: "('w, 'a) thread \<Rightarrow> ('w, 'a) op" where
  "run_thread (Finished r) = (\<lambda>s. (r, s))"
| "run_thread (Block f) = (\<lambda>s. case map_prod run_thread id (f s) of (k, s') \<Rightarrow> k s')"
| "run_thread (Lock m t) = run_thread t"

primrec after :: "('w, 'a) thread \<Rightarrow> (('a, string) outcome \<Rightarrow> ('w, 'b) thread) \<Rightarrow> ('w, 'b) thread" where
  "after (Finished r) k = k r"
| "after (Block f) k = Block (\<lambda>s. map_prod (\<lambda>t. after t k) id (f s))"
| "after (Lock m t) k = Lock m (after t k)"

definition returning :: "'a \<Rightarrow> ('w, 'a) thread" where
  "returning a = Finished (Ok a)"

definition failing :: "string \<Rightarrow> ('w, 'a) thread" where
  "failing e = Finished (Err e)"

definition unwrapping :: "'a option \<Rightarrow> ('w, 'a) thread" where
  "unwrapping opt = (case opt of None \<Rightarrow> Finished Panic | Some a \<Rightarrow> returning a)"

definition block :: "('w, 'a) op \<Rightarrow> ('w, 'a) thread" where
  "block m = Block (\<lambda>s. case m s of (r, s') \<Rightarrow> (Finished r, s'))"

definition then_do :: "('w, 'a) thread \<Rightarrow> ('a \<Rightarrow> ('w, 'b) thread) \<Rightarrow> ('w, 'b) thread" where
  "then_do t f = after t (\<lambda>r. case r of Ok a \<Rightarrow> f a | Err e \<Rightarrow> Finished (Err e) | Panic \<Rightarrow> Finished Panic)"

definition err_mapped :: "(string \<Rightarrow> string) \<Rightarrow> ('w, 'a) thread \<Rightarrow> ('w, 'a) thread" where
  "err_mapped g t = after t (\<lambda>r. Finished (case r of Ok a \<Rightarrow> Ok a | Err e \<Rightarrow> Err (g e) | Panic \<Rightarrow> Panic))"

definition answering :: "('a \<Rightarrow> body) \<Rightarrow> (string \<Rightarrow> response) \<Rightarrow> ('w, 'a) thread \<Rightarrow> ('w, response) thread" where
  "answering ok err t = after t (\<lambda>r. Finished (case r of
     Ok a \<Rightarrow> Ok \<lparr>status = ok_status, body = ok a\<rparr> | Err e \<Rightarrow> Ok (err e) | Panic \<Rightarrow> Panic))"

text \<open>A loop with an accumulator, with its pauses.\<close>

primrec each :: "('x \<Rightarrow> 'b \<Rightarrow> ('w, 'b) thread) \<Rightarrow> 'x list \<Rightarrow> 'b \<Rightarrow> ('w, 'b) thread" where
  "each f [] b = returning b"
| "each f (x # xs) b = then_do (f x b) (\<lambda>b'. each f xs b')"

text \<open>The blocks one after the other.\<close>

lemma run_after: "run_thread (after t k) s = (case run_thread t s of (r, s') \<Rightarrow> run_thread (k r) s')"
proof (induction t arbitrary: s)
  case (Block f)
  obtain t s' where f: "f s = (t, s')" by fastforce
  then have "t \<in> Basic_BNFs.fsts (f s)" by (simp add: fsts.simps)
  from Block [OF rangeI this] f show ?case by simp
qed simp_all

named_theorems run_simps \<open>running the blocks of a thread\<close>

lemma run_returning [run_simps]: "run_thread (returning a) = ret a"
  by (simp add: returning_def ret_def)

lemma run_failing [run_simps]: "run_thread (failing e) = fail e"
  by (simp add: failing_def fail_def)

lemma run_unwrapping [run_simps]: "run_thread (unwrapping opt) = unwrap opt"
  by (cases opt) (simp_all add: unwrapping_def run_returning unwrap_def panic_def)

lemma run_block [run_simps]: "run_thread (block m) = m"
  by (simp add: block_def fun_eq_iff split: prod.split)

lemma run_then [run_simps]: "run_thread (then_do t f) = and_then (run_thread t) (\<lambda>a. run_thread (f a))"
  by (auto simp: fun_eq_iff then_do_def run_after and_then_def split: prod.splits outcome.splits)

lemma run_err_mapped [run_simps]: "run_thread (err_mapped g t) = map_err g (run_thread t)"
  by (auto simp: fun_eq_iff err_mapped_def run_after map_err_def split: prod.splits outcome.splits)

lemma run_answering [run_simps]: "run_thread (answering ok err t) = answer ok err (run_thread t)"
  by (auto simp: fun_eq_iff answering_def run_after answer_def and_then_def attempt_def ret_def
      split: prod.splits outcome.splits)

lemma run_each [run_simps]: "run_thread (each f xs b) = for_each (\<lambda>x b. run_thread (f x b)) xs b"
  by (induction xs arbitrary: b) (simp_all add: run_returning run_then)

declare run_thread.simps(3) [run_simps]
declare if_distrib [of run_thread, run_simps] option.case_distrib [of run_thread, run_simps]
  sum.case_distrib [of run_thread, run_simps] prod.case_distrib [of run_thread, run_simps]

end
