(* ===== verification/Thread_Handlers.thy ===== *)
theory Thread_Handlers
  imports Threads
begin

text \<open>
  Every operation as a thread, and the thread of every request. A block reads or writes one map (or maps
  whose locks are held together), makes one call of mediasoup or of the system, runs one transaction, or
  sends one event. The builder of a recording is one block too, on the \<open>Inner\<close> the pipeline has at that moment.
\<close>

section \<open>Closing\<close>

definition close_all_producers_thread ::
  "'w ext \<Rightarrow> string list \<Rightarrow> string list \<Rightarrow> string \<Rightarrow> bool \<Rightarrow> ('w, producer_detail list) thread" where
  "close_all_producers_thread x participant_ids producer_ids meeting_id remove_from_pipeline =
     then_do (block (close_producers_loop participant_ids producer_ids)) (\<lambda>producer_details.
     then_do (if remove_from_pipeline
              then block (remove_participants_from_pipeline x participant_ids meeting_id) else returning ()) (\<lambda>_.
     returning producer_details))"

definition close_instance_thread :: "'w ext \<Rightarrow> string \<Rightarrow> string \<Rightarrow> string \<Rightarrow> ('w, unit) thread" where
  "close_instance_thread x participant_id meeting_id instance_id =
     then_do (block (get_participant_consumers_for_instance_in_meeting x participant_id meeting_id instance_id)) (\<lambda>old_consumers.
     then_do (block (close_all_consumers_in_memory x old_consumers meeting_id)) (\<lambda>_.
     then_do (block (get_participant_producers_for_instance_in_meeting participant_id meeting_id instance_id)) (\<lambda>old_producer_ids.
     then_do (if old_producer_ids \<noteq> []
              then err_mapped (\<lambda>e. ''Failed to close all producers in memory '' @ e)
                     (then_do (close_all_producers_thread x [participant_id] old_producer_ids meeting_id True)
                       (\<lambda>_. returning ()))
              else returning ()) (\<lambda>_.
     then_do (block (get_consumers_for_producer_ids x old_producer_ids meeting_id)) (\<lambda>close_consumer_ids.
     if close_consumer_ids \<noteq> []
     then block (close_all_consumers_in_memory x close_consumer_ids meeting_id) else returning ())))))"

definition leave_meeting_thread :: "'w ext \<Rightarrow> string \<Rightarrow> string \<Rightarrow> string \<Rightarrow> string option \<Rightarrow> string option \<Rightarrow>
    ('w, leave_meeting_response) thread" where
  "leave_meeting_thread x participant_id meeting_id instance_id producer_transport_id consumer_transport_id =
     then_do (block (attempt (on_world (delete (ext_sql x) [D_ParticipantMeeting
         \<lparr>pm_mutation_type = Delete, pm_meeting_id = meeting_id, pm_participant_id = Some participant_id,
          pm_instance_id = Some instance_id\<rparr>])))) (\<lambda>r.
     case r of
       Inl _ \<Rightarrow> failing ''Failure in leaving the meeting''
     | Inr rows \<Rightarrow>
         if rows = 0
         then returning \<lparr>lmr_response = ''Participant not found in the meeting'', lmr_send_signal = False\<rparr>
         else
           then_do (block (modify (\<lambda>s. s\<lparr>transport_map := hm_remove_all
               (opt_list producer_transport_id @ opt_list consumer_transport_id) (transport_map s)\<rparr>))) (\<lambda>_.
           then_do (close_instance_thread x participant_id meeting_id instance_id) (\<lambda>_.
           then_do (block (push_user_session_event x participant_id meeting_id ''LEAVE'' instance_id)) (\<lambda>_.
           returning \<lparr>lmr_response = ''Participant left the meeting'', lmr_send_signal = True\<rparr>))))"

definition end_meeting_thread :: "'w ext \<Rightarrow> string \<Rightarrow> string list \<Rightarrow> string list \<Rightarrow> string list \<Rightarrow> ('w, string) thread" where
  "end_meeting_thread x meeting_id router_ids transport_ids participant_ids =
     then_do (block (attempt (run_mutate x True [meeting_status_entity Delete None meeting_id]))) (\<lambda>r.
     case r of
       Inl _ \<Rightarrow> failing ''Failure in ending the meeting''
     | Inr _ \<Rightarrow>
         then_do (block (modify (\<lambda>s. s\<lparr>routers_map := hm_remove_all router_ids (routers_map s)\<rparr>))) (\<lambda>_.
         then_do (block (modify (\<lambda>s. s\<lparr>transport_map := hm_remove_all transport_ids (transport_map s)\<rparr>))) (\<lambda>_.
         then_do (block (get_all_consumers_for_meeting x meeting_id)) (\<lambda>old_consumers.
         then_do (block (close_all_consumers_in_memory x old_consumers meeting_id)) (\<lambda>_.
         then_do (block (get_all_producers_for_meeting meeting_id)) (\<lambda>old_producer_ids.
         then_do (if old_producer_ids \<noteq> []
                  then err_mapped (\<lambda>e. ''Failed to close all producers in memory '' @ e)
                         (then_do (close_all_producers_thread x participant_ids old_producer_ids meeting_id False)
                           (\<lambda>_. returning ()))
                  else returning ()) (\<lambda>_.
         then_do (block (stop_pipeline x meeting_id)) (\<lambda>_.
         returning ''Success ended the meeting''))))))))"

definition close_producer_thread :: "'w ext \<Rightarrow> string \<Rightarrow> string \<Rightarrow> (string, string) hmap \<Rightarrow> ('w, producer_detail list) thread" where
  "close_producer_thread x participant_id meeting_id producer_kind_map =
     then_do (block (attempt (on_world (delete (ext_sql x) (map (\<lambda>producer_id. D_ParticipantProducers
         \<lparr>pp_mutation_type = Delete, pp_participant_id = Some participant_id, pp_producers = None,
          pp_kind = None, pp_producer_id = Some producer_id, pp_meeting_id = Some meeting_id,
          pp_transport_id = None\<rparr>) (hm_keys producer_kind_map)))))) (\<lambda>r.
     case r of
       Inl e \<Rightarrow> failing (''Error in cleaning up in DB '' @ show_db_error e)
     | Inr _ \<Rightarrow>
         let closed_kinds = hm_values producer_kind_map; producer_ids = hm_keys producer_kind_map in
         if length closed_kinds = 1 \<and> closed_kinds ! 0 = ''screenshare''
         then err_mapped (\<lambda>e. ''Failed to close all screenshare producers in memory '' @ e)
                (close_all_producers_thread x [participant_id] producer_ids meeting_id False)
         else err_mapped (\<lambda>e. ''Failed to close all producers in memory '' @ e)
                (close_all_producers_thread x [participant_id] producer_ids meeting_id True))"

definition close_consumer_thread :: "'w ext \<Rightarrow> string \<Rightarrow> string list \<Rightarrow> string \<Rightarrow> ('w, unit) thread" where
  "close_consumer_thread x participant_id consumer_ids meeting_id =
     then_do (block (attempt (run_mutate x True (map (\<lambda>consumer_id. D_ParticipantConsumers
         \<lparr>pc_mutation_type = Delete, pc_participant_id = None, pc_consumers = None,
          pc_target_participant_id = None, pc_kind = None, pc_consumer_id = Some consumer_id,
          pc_meeting_id = Some meeting_id, pc_transport_id = None\<rparr>) consumer_ids)))) (\<lambda>r.
     case r of
       Inl e \<Rightarrow> failing (''Error in cleaning up in DB '' @ show_db_error e)
     | Inr _ \<Rightarrow> block (write_shard x meeting_id (hm_remove_all consumer_ids)))"

lemma run_close_all_producers [run_simps]:
  "run_thread (close_all_producers_thread x ps ids m rem) = close_all_producers_in_memory x ps ids m rem"
  unfolding close_all_producers_thread_def close_all_producers_in_memory_def run_simps by (rule refl)

lemma run_close_instance [run_simps]: "run_thread (close_instance_thread x p m i) = close_instance x p m i"
  unfolding close_instance_thread_def close_instance_def run_simps by (rule refl)

lemma run_leave_meeting [run_simps]: "run_thread (leave_meeting_thread x p m i a b) = leave_meeting x p m i a b"
  unfolding leave_meeting_thread_def leave_meeting_def run_simps by (rule refl)

lemma run_end_meeting [run_simps]: "run_thread (end_meeting_thread x m rs ts ps) = end_meeting x m rs ts ps"
  unfolding end_meeting_thread_def end_meeting_def run_simps by (rule refl)

lemma run_close_producer [run_simps]: "run_thread (close_producer_thread x p m ks) = close_producer x p m ks"
  unfolding close_producer_thread_def close_producer_def run_simps Let_def by (rule refl)

lemma run_close_consumer [run_simps]: "run_thread (close_consumer_thread x p ids m) = close_consumer x p ids m"
  unfolding close_consumer_thread_def close_consumer_def run_simps by (rule refl)

section \<open>Transports\<close>

definition create_transport_thread :: "'w ext \<Rightarrow> string \<Rightarrow> ('w, web_rtc_transport) thread" where
  "create_transport_thread x router_id =
     then_do (block (gets (\<lambda>s. hm_get (routers_map s) router_id))) (\<lambda>found.
     then_do (unwrapping found) (\<lambda>router.
     then_do (block (gets (\<lambda>s. participant_transport_options (config s) (instance_meta s)))) (\<lambda>options.
     block (call_result ''Failed to create producer transport: ''
       (x_create_webrtc_transport (ext_ms x) (rim_router router) options)))))"

definition set_bitrates_thread :: "'w ext \<Rightarrow> string \<Rightarrow> ('w, unit) thread" where
  "set_bitrates_thread x tid =
     then_do (block (gets config)) (\<lambda>c.
     then_do (block (call_world (x_set_bitrate (ext_ms x) tid (MaxIncoming (max_incoming_bitrate c))))) (\<lambda>_.
     then_do (block (call_world (x_set_bitrate (ext_ms x) tid (MinOutgoing (min_outgoing_bitrate c))))) (\<lambda>_.
     then_do (block (call_world (x_set_bitrate (ext_ms x) tid (MaxOutgoing (max_outgoing_bitrate c))))) (\<lambda>_.
     returning ()))))"

definition membership_thread ::
  "'w ext \<Rightarrow> string \<Rightarrow> string \<Rightarrow> string \<Rightarrow> string option \<Rightarrow> string option \<Rightarrow> ('w, string \<times> bool) thread" where
  "membership_thread x participant_id meeting_id instance_id producer_router_id consumer_router_id =
     then_do (block (attempt (run_mutate x False
         (membership_entities participant_id meeting_id instance_id producer_router_id consumer_router_id)))) (\<lambda>r.
     case r of
       Inr o1 \<Rightarrow>
         then_do (block (push_user_session_event x participant_id meeting_id ''JOIN'' instance_id)) (\<lambda>_.
         returning (''Success in writing to DB'', \<not> snd o1))
     | Inl e \<Rightarrow> failing (''Error in writing to DB '' @ show_db_error e))"

definition connect_transport_thread :: "'w ext \<Rightarrow> string \<Rightarrow> string \<Rightarrow> string \<Rightarrow> ('w, string) thread" where
  "connect_transport_thread x participant_id transport_id dtls_parameters =
     then_do (block (gets (\<lambda>s. hm_get (transport_map s) transport_id))) (\<lambda>found.
     case found of
       None \<Rightarrow> failing ''Transport not found in memory''
     | Some t \<Rightarrow>
         then_do (block (call_world (x_connect_transport (ext_ms x) (wt_id (tim_transport t)) dtls_parameters))) (\<lambda>r.
         case r of
           None \<Rightarrow> returning ''Successfully connected producer transport''
         | Some e \<Rightarrow>
             if is_already_connected e then returning ''Transport already connected, ignoring''
             else failing (''Failure in connecting producer transport '' @ show_request_error e)))"

definition restart_ice_thread :: "'w ext \<Rightarrow> string \<Rightarrow> string list \<Rightarrow> ('w, (string, string) hmap) thread" where
  "restart_ice_thread x participant_id transport_ids =
     then_do (block (gets transport_map)) (\<lambda>tm. each (\<lambda>tid acc. block (restart_one x tm tid acc)) transport_ids [])"

definition create_producer_transport_thread ::
  "'w ext \<Rightarrow> string \<Rightarrow> string \<Rightarrow> string \<Rightarrow> string option \<Rightarrow> string option \<Rightarrow> ('w, transport_options) thread" where
  "create_producer_transport_thread x router_id participant_id meeting_id old_producer_transport_id old_consumer_transport_id =
     then_do (err_mapped (\<lambda>e. ''Failed to create producer transport: '' @ e) (create_transport_thread x router_id)) (\<lambda>t.
     then_do (set_bitrates_thread x (wt_id t)) (\<lambda>_.
     then_do (block (attempt (run_mutate x True
         [D_ParticipantProducerTransport \<lparr>ppt_mutation_type = Insert, ppt_participant_id = participant_id,
            ppt_transport_id = Some (wt_id t)\<rparr>]))) (\<lambda>r.
     case r of
       Inr _ \<Rightarrow>
         then_do (block (modify (\<lambda>s. s\<lparr>transport_map :=
             hm_insert (wt_id t)
               \<lparr>tim_transport = t, tim_meeting_id = meeting_id, tim_participant_id = participant_id,
                tim_kind = ''producer''\<rparr>
               (remove_option old_consumer_transport_id
                 (remove_option old_producer_transport_id (transport_map s)))\<rparr>))) (\<lambda>_.
         returning (options_of t))
     | Inl e \<Rightarrow> block (transport_db_failure participant_id meeting_id ''producer'' e))))"

definition create_consumer_transport_thread ::
  "'w ext \<Rightarrow> string \<Rightarrow> string \<Rightarrow> string \<Rightarrow> string option \<Rightarrow> string option \<Rightarrow> ('w, transport_options) thread" where
  "create_consumer_transport_thread x router_id participant_id meeting_id old_producer_transport_id old_consumer_transport_id =
     then_do (err_mapped (\<lambda>e. ''Failed to create producer transport: '' @ e) (create_transport_thread x router_id)) (\<lambda>t.
     then_do (set_bitrates_thread x (wt_id t)) (\<lambda>_.
     then_do (block (attempt (run_mutate x True
         [D_ParticipantConsumerTransport \<lparr>pct_mutation_type = Insert, pct_participant_id = participant_id,
            pct_transport_id = Some (wt_id t)\<rparr>]))) (\<lambda>r.
     case r of
       Inr _ \<Rightarrow>
         then_do (block (modify (\<lambda>s. s\<lparr>transport_map :=
             hm_insert (wt_id t)
               \<lparr>tim_transport = t, tim_meeting_id = meeting_id, tim_participant_id = participant_id,
                tim_kind = ''consumer''\<rparr>
               (remove_option old_producer_transport_id
                 (remove_option old_consumer_transport_id (transport_map s)))\<rparr>))) (\<lambda>_.
         returning (options_of t))
     | Inl e \<Rightarrow> block (transport_db_failure participant_id meeting_id ''consumer'' e))))"

definition close_older_instances_thread :: "'w ext \<Rightarrow> string \<Rightarrow> string \<Rightarrow> string \<Rightarrow> ('w, producer_detail list) thread" where
  "close_older_instances_thread x participant_id meeting_id instance_id =
     then_do (block (get_participant_consumers_excluding_instance x participant_id meeting_id instance_id)) (\<lambda>old_consumers.
     then_do (block (close_all_consumers_in_memory x old_consumers meeting_id)) (\<lambda>_.
     then_do (block (get_participant_producers_excluding_instance participant_id meeting_id instance_id)) (\<lambda>old_producer_ids.
     then_do (block (get_consumers_for_producer_ids x old_producer_ids meeting_id)) (\<lambda>close_consumer_ids.
     then_do (if old_producer_ids \<noteq> []
              then err_mapped (\<lambda>e. ''Failed to close all producers in memory '' @ e)
                     (close_all_producers_thread x [participant_id] old_producer_ids meeting_id True)
              else returning []) (\<lambda>closed_producer_details.
     then_do (if close_consumer_ids \<noteq> []
              then block (close_all_consumers_in_memory x close_consumer_ids meeting_id) else returning ()) (\<lambda>_.
     returning closed_producer_details))))))"

definition recreate_producer_transport_thread ::
  "'w ext \<Rightarrow> string \<Rightarrow> string \<Rightarrow> string \<Rightarrow> string \<Rightarrow> string option \<Rightarrow> string option \<Rightarrow>
   ('w, recreate_producer_transport_response) thread" where
  "recreate_producer_transport_thread x participant_id meeting_id instance_id router_id
     old_producer_transport_id old_consumer_transport_id =
     then_do (block (lock_entry participant_id)) (\<lambda>_.
     Lock participant_id (
     then_do (err_mapped (\<lambda>e. ''Failed to add participant to meeting '' @ e)
       (membership_thread x participant_id meeting_id instance_id (Some router_id) None)) (\<lambda>o1.
     then_do (close_older_instances_thread x participant_id meeting_id instance_id) (\<lambda>closed.
     then_do (err_mapped (\<lambda>e. ''Failed to create producer transport '' @ e)
       (create_producer_transport_thread x router_id participant_id meeting_id
          (if snd o1 then old_producer_transport_id else None)
          (if snd o1 then old_consumer_transport_id else None))) (\<lambda>t.
     returning \<lparr>rptr_transport_options = t, rptr_closed_producer_details = closed\<rparr>)))))"

definition recreate_consumer_transport_thread ::
  "'w ext \<Rightarrow> string \<Rightarrow> string \<Rightarrow> string \<Rightarrow> string \<Rightarrow> string option \<Rightarrow> string option \<Rightarrow>
   ('w, create_transport_response) thread" where
  "recreate_consumer_transport_thread x participant_id meeting_id instance_id router_id
     old_producer_transport_id old_consumer_transport_id =
     then_do (block (lock_entry participant_id)) (\<lambda>_.
     Lock participant_id (
     then_do (err_mapped (\<lambda>e. ''Failed to add participant to meeting '' @ e)
       (membership_thread x participant_id meeting_id instance_id None (Some router_id))) (\<lambda>o1.
     then_do (err_mapped (\<lambda>e. ''Failed to recreate consumer transport '' @ e)
       (then_do (close_older_instances_thread x participant_id meeting_id instance_id) (\<lambda>_.
        err_mapped (\<lambda>e. ''Failed to create consumer transport '' @ e)
          (create_consumer_transport_thread x router_id participant_id meeting_id
             (if snd o1 then old_producer_transport_id else None)
             (if snd o1 then old_consumer_transport_id else None))))) (\<lambda>t.
     then_do (err_mapped (\<lambda>e. ''Failed to get producers of meeting '' @ e)
       (block (get_producers_of_meeting_excluding_participant x meeting_id participant_id))) (\<lambda>ds.
     returning \<lparr>ctr_transport_options = t, ctr_producer_details = ds\<rparr>)))))"

lemma run_create_transport [run_simps]: "run_thread (create_transport_thread x r) = create_transport x r"
  unfolding create_transport_thread_def create_transport_def run_simps by (rule refl)

lemma run_set_bitrates [run_simps]: "run_thread (set_bitrates_thread x t) = set_bitrates x t"
  unfolding set_bitrates_thread_def set_bitrates_def run_simps by (rule refl)

lemma run_membership [run_simps]:
  "run_thread (membership_thread x p m i a b) = remove_and_add_participant_to_meeting x p m i a b"
  unfolding membership_thread_def remove_and_add_participant_to_meeting_def run_simps by (rule refl)

lemma run_connect_transport [run_simps]: "run_thread (connect_transport_thread x p t d) = connect_transport x p t d"
  unfolding connect_transport_thread_def connect_transport_def run_simps by (rule refl)

lemma run_restart_ice [run_simps]: "run_thread (restart_ice_thread x p ts) = restart_ice x p ts"
  unfolding restart_ice_thread_def restart_ice_def run_simps by (rule refl)

lemma run_create_producer_transport [run_simps]:
  "run_thread (create_producer_transport_thread x r p m a b) = create_producer_transport x r p m a b"
  unfolding create_producer_transport_thread_def create_producer_transport_def run_simps by (rule refl)

lemma run_create_consumer_transport [run_simps]:
  "run_thread (create_consumer_transport_thread x r p m a b) = create_consumer_transport x r p m a b"
  unfolding create_consumer_transport_thread_def create_consumer_transport_def run_simps by (rule refl)

lemma run_close_older_instances [run_simps]:
  "run_thread (close_older_instances_thread x p m i) = close_older_instances x p m i"
  unfolding close_older_instances_thread_def close_older_instances_def run_simps by (rule refl)

lemma run_recreate_producer_transport [run_simps]:
  "run_thread (recreate_producer_transport_thread x p m i r a b) = recreate_producer_transport_helper x p m i r a b"
  unfolding recreate_producer_transport_thread_def recreate_producer_transport_helper_def recreate_producer_transport_def
    run_simps Let_def by (rule refl)

lemma run_recreate_consumer_transport [run_simps]:
  "run_thread (recreate_consumer_transport_thread x p m i r a b) = recreate_consumer_transport_helper x p m i r a b"
  unfolding recreate_consumer_transport_thread_def recreate_consumer_transport_helper_def recreate_consumer_transport_def
    run_simps Let_def by (rule refl)

section \<open>Meetings\<close>

definition create_worker_routers_thread :: "'w ext \<Rightarrow> string \<Rightarrow> string \<Rightarrow>
    string \<times> producer_consumer_capacity list \<Rightarrow> router_batch \<Rightarrow> ('w, router_batch) thread" where
  "create_worker_routers_thread x meeting_id container_id e b =
     then_do (block (gets (\<lambda>s. hm_get (workers_map s) (fst e)))) (\<lambda>found.
     then_do (unwrapping found) (\<lambda>_.
     each (\<lambda>e b. block (create_router x meeting_id container_id e b)) (map (Pair (fst e)) (snd e)) b))"

definition create_meeting_routers_thread :: "'w ext \<Rightarrow> string \<times> meeting_payload \<Rightarrow> router_batch \<Rightarrow> ('w, router_batch) thread" where
  "create_meeting_routers_thread x e b =
     each (\<lambda>w b. block (create_router x (fst e) (mp_new_container_id (snd e)) w b)) (mp_worker_payload (snd e)) b"

definition create_meeting_thread ::
  "'w ext \<Rightarrow> (string, producer_consumer_capacity list) hmap \<Rightarrow> string \<Rightarrow> string \<Rightarrow> ('w, string) thread" where
  "create_meeting_thread x capacities meeting_id container_id =
     then_do (each (create_worker_routers_thread x meeting_id container_id) capacities no_routers) (\<lambda>b.
     then_do (block (attempt (run_mutate x True
         (meeting_status_entity Insert (Some True) meeting_id # rb_workers b @ rb_meetings b)))) (\<lambda>r.
     case r of
       Inr _ \<Rightarrow>
         then_do (block (modify (\<lambda>s. s\<lparr>routers_map := hm_extend (rb_routers b) (routers_map s)\<rparr>))) (\<lambda>_.
         returning ''created the required routers'')
     | Inl e \<Rightarrow>
         (case e of
            MySqlError c m \<Rightarrow>
              if c = duplicate_code then returning ''Meeting already exists''
              else failing (''Error in writing to DB '' @ m)
          | _ \<Rightarrow> failing (''Error in writing to DB '' @ show_db_error e))))"

definition batch_create_router_thread :: "'w ext \<Rightarrow> (string, meeting_payload) hmap \<Rightarrow> ('w, string) thread" where
  "batch_create_router_thread x meeting_map =
     then_do (each (create_meeting_routers_thread x) meeting_map no_routers) (\<lambda>b.
     then_do (block (attempt (on_world (mutate (ext_sql x)
         \<lparr>rollback_on_duplicate = True, tx_opts = SerializableReadWrite\<rparr>
         (status_entities meeting_map @ rb_workers b @ rb_meetings b))))) (\<lambda>r.
     case r of
       Inr _ \<Rightarrow>
         then_do (block (modify (\<lambda>s. s\<lparr>routers_map := hm_extend (rb_routers b) (routers_map s)\<rparr>))) (\<lambda>_.
         returning ''created the required routers'')
     | Inl e \<Rightarrow> failing (''Error in writing to DB '' @ show_db_error e)))"

text \<open>The capabilities of the two routers of a participant, with two looks at the map.\<close>

definition router_capabilities_thread :: "'w ext \<Rightarrow> string \<Rightarrow> ('w, string) thread" where
  "router_capabilities_thread x router_id =
     then_do (block (gets (\<lambda>s. hm_get (routers_map s) router_id))) (\<lambda>found.
     then_do (unwrapping found) (\<lambda>router.
     returning (x_router_rtp_capabilities (ext_ms x) (rim_router router))))"

definition capabilities_thread :: "'w ext \<Rightarrow> string \<Rightarrow> string \<Rightarrow> ('w, string \<times> string) thread" where
  "capabilities_thread x producer_router_id consumer_router_id =
     then_do (router_capabilities_thread x producer_router_id) (\<lambda>producer_rtp_capabilities.
     then_do (router_capabilities_thread x consumer_router_id) (\<lambda>consumer_rtp_capabilities.
     returning (producer_rtp_capabilities, consumer_rtp_capabilities)))"

lemma run_create_worker_routers [run_simps]:
  "run_thread (create_worker_routers_thread x m c e b) = create_worker_routers x m c e b"
  unfolding create_worker_routers_thread_def create_worker_routers_def run_simps by (rule refl)

lemma run_create_meeting_routers [run_simps]:
  "run_thread (create_meeting_routers_thread x e b) = create_meeting_routers x e b"
  unfolding create_meeting_routers_thread_def create_meeting_routers_def run_simps by (rule refl)

lemma run_capabilities [run_simps]: "run_thread (capabilities_thread x a b) = capabilities_of x a b"
  unfolding capabilities_thread_def router_capabilities_thread_def capabilities_of_def get_router_capabilities_def
    run_simps by (rule refl)

section \<open>Consumers and producers\<close>

text \<open>Pausing and resuming work on a copy of the map, one call after the other.\<close>

definition set_consumers_thread :: "'w ext \<Rightarrow> string \<Rightarrow> (string \<Rightarrow> 'w \<Rightarrow> string option \<times> 'w) \<Rightarrow> string list \<Rightarrow> string \<Rightarrow>
    ('w, string list) thread" where
  "set_consumers_thread x msg f consumer_ids meeting_id =
     then_do (block (read_shard x meeting_id)) (\<lambda>cm.
     each (\<lambda>i acc. block (set_consumer_state msg f cm i acc)) consumer_ids [])"

definition set_producers_thread :: "(string \<Rightarrow> 'w \<Rightarrow> string option \<times> 'w) \<Rightarrow> string \<Rightarrow> (string, string) hmap \<Rightarrow>
    ('w, producer_detail list) thread" where
  "set_producers_thread f participant_id producer_ids =
     then_do (block (gets producer_map)) (\<lambda>pm.
     each (\<lambda>e acc. block (set_producer_state f participant_id pm e acc)) producer_ids [])"

lemma run_set_consumers:
  "run_thread (set_consumers_thread x ''[mod.rs.resume_consumer] Failed to resume err '' (x_resume_consumer (ext_ms x)) ids m) =
     resume_consumer x p ids m"
  "run_thread (set_consumers_thread x ''[mod.rs.resume_consumer] Failed to pause err '' (x_pause_consumer (ext_ms x)) ids m) =
     pause_consumer x p ids m"
  unfolding set_consumers_thread_def resume_consumer_def pause_consumer_def run_simps by (rule refl)+

lemma run_set_producers [run_simps]:
  "run_thread (set_producers_thread (x_resume_producer (ext_ms x)) p ids) = resume_producer x p ids"
  "run_thread (set_producers_thread (x_pause_producer (ext_ms x)) p ids) = pause_producer x p ids"
  unfolding set_producers_thread_def resume_producer_def pause_producer_def run_simps by (rule refl)+

definition create_consumer_thread ::
  "'w ext \<Rightarrow> string \<Rightarrow> string \<Rightarrow> (string, (string, string) hmap) hmap \<Rightarrow> string \<Rightarrow> string \<Rightarrow> string \<Rightarrow>
   ('w, (string, (string, consumer_handle) hmap) hmap) thread" where
  "create_consumer_thread x participant_id consumer_transport_id target_participants rtp_capabilities meeting_id instance_id =
     then_do (block (gets (\<lambda>s. hm_get (transport_map s) consumer_transport_id))) (\<lambda>found.
     then_do (unwrapping found) (\<lambda>t.
     then_do (block (read_shard x meeting_id)) (\<lambda>existing.
     then_do (each (\<lambda>req b. block (request_consumer x participant_id meeting_id instance_id (tim_transport t)
         consumer_transport_id rtp_capabilities existing req b)) (requested target_participants)
         \<lparr>cb_new = [], cb_entities = [], cb_result = []\<rparr>) (\<lambda>batch.
     then_do (block (attempt (run_mutate x True (cb_entities batch)))) (\<lambda>r.
     case r of
       Inr _ \<Rightarrow> then_do (block (write_shard x meeting_id (hm_extend (cb_new batch)))) (\<lambda>_. returning (cb_result batch))
     | Inl e \<Rightarrow> failing (''Error in writing to DB '' @ show_db_error e))))))"

section \<open>Recording\<close>

text \<open>The search for a free port tries one after the other; a port that is found is not held.\<close>

primrec first_free_thread :: "'w ext \<Rightarrow> nat list \<Rightarrow> ('w, nat) thread" where
  "first_free_thread x [] = failing ''No free ports available for recording''"
| "first_free_thread x (p # ps) =
     then_do (block (call_world (x_udp_bind (ext_os x) p))) (\<lambda>ok. if ok then returning p else first_free_thread x ps)"

definition free_video_port_thread :: "'w ext \<Rightarrow> ('w, nat) thread" where
  "free_video_port_thread x =
     then_do (block (gets config)) (\<lambda>c. first_free_thread x
       (port_range (plain_transport_video_port_range_start c) (plain_transport_video_port_range_end c)))"

definition free_audio_port_thread :: "'w ext \<Rightarrow> ('w, nat) thread" where
  "free_audio_port_thread x =
     then_do (block (gets config)) (\<lambda>c. first_free_thread x
       (port_range (plain_transport_audio_port_range_start c) (plain_transport_audio_port_range_end c)))"

lemma first_free_not_held:
  assumes "\<And>p w. snd (x_udp_bind (ext_os x) p w) = w" and "first_free x ps s = (r, s')"
  shows "s' = s"
  using assms(2)
proof (induction ps arbitrary: s)
  case (Cons p ps)
  have "s1 = s" if "call_world (x_udp_bind (ext_os x) p) s = (r1, s1)" for s r1 s1
    using that assms(1) [of p "world s"] by (auto simp: call_world_run)
  with Cons show ?case by (auto simp: and_then_def ret_def split: prod.splits outcome.splits if_splits)
qed (simp add: fail_def)

definition build_recording_thread :: "'w ext \<Rightarrow> gstreamer \<Rightarrow> string \<Rightarrow> string \<Rightarrow> string \<Rightarrow> kind \<Rightarrow>
    ('w, gstreamer \<times> nat) thread" where
  "build_recording_thread x g meeting_id participant_id transport_id kind_enum =
     (if kind_enum = Audio
      then then_do (err_mapped (\<lambda>e. ''Failed to get free audio port '' @ e) (free_audio_port_thread x)) (\<lambda>port.
           then_do (block (map_err (\<lambda>e. ''Failed to start recording '' @ e)
             (run_recorder start_audio_recording x g port meeting_id participant_id transport_id)))
             (\<lambda>g'. returning (g', port)))
      else then_do (err_mapped (\<lambda>e. ''Failed to get free video port '' @ e) (free_video_port_thread x)) (\<lambda>port.
           then_do (block (map_err (\<lambda>e. ''Failed to start recording '' @ e)
             (run_recorder start_vp8_recording x g port meeting_id participant_id transport_id)))
             (\<lambda>g'. returning (g', port))))"

definition start_recording_thread :: "'w ext \<Rightarrow> string \<Rightarrow> string \<Rightarrow> string \<Rightarrow> kind \<Rightarrow> ('w, gstreamer \<times> nat) thread" where
  "start_recording_thread x meeting_id participant_id transport_id kind_enum =
     then_do (block (gets (\<lambda>s. hm_get (pipeline_map s) meeting_id))) (\<lambda>gstreamer_from_map.
     then_do (case gstreamer_from_map of
         Some g_option \<Rightarrow> unwrapping g_option
       | None \<Rightarrow> returning gstreamer_new) (\<lambda>g.
     let exists = (gstreamer_from_map \<noteq> None) in
     then_do (build_recording_thread x g meeting_id participant_id transport_id kind_enum) (\<lambda>(g', port).
     then_do (unwrapping (gst_pipeline g')) (\<lambda>pipeline.
     then_do (block (call_world (x_set_state (ext_gst x) pipeline GstPlaying))) (\<lambda>r.
     case r of
       None \<Rightarrow> returning (g', port)
     | Some _ \<Rightarrow>
         then_do (if exists
                  then block (undo_recording x meeting_id participant_id kind_enum (gst_pipeline g) pipeline)
                  else returning ()) (\<lambda>_.
         failing (''Failed to add new producer for meetingId '' @ meeting_id @ '' and participantId '' @ participant_id)))))))"

definition record_producer_thread :: "'w ext \<Rightarrow> (string, router_in_memory) hmap \<Rightarrow> string \<Rightarrow> string \<Rightarrow> string \<Rightarrow> string \<Rightarrow> kind \<Rightarrow>
    ('w, gstreamer \<times> string \<times> consumer_handle) thread" where
  "record_producer_thread x routers meeting_id participant_id producer_router_id producer_id kind_enum =
     then_do (unwrapping (hm_get routers producer_router_id)) (\<lambda>router.
     then_do (block (gets (\<lambda>s. recording_port_range (config s) kind_enum))) (\<lambda>port_range.
     then_do (block (call_result ''Failed to create plain transport ''
       (x_create_plain_transport (ext_ms x) (rim_router router) (producer_plain_transport_options (Some port_range))))) (\<lambda>plain.
     then_do (err_mapped (\<lambda>e. ''Failed to create folder: '' @ e) (block (create_folder x meeting_id))) (\<lambda>_.
     then_do (err_mapped (\<lambda>e. ''Failed to start recording '' @ e)
       (start_recording_thread x meeting_id participant_id plain kind_enum)) (\<lambda>(g, port).
     then_do (block (call_unit ''Failed to connect plain transport ''
       (x_connect_plain_transport (ext_ms x) plain localhost port (rtcp_port port)))) (\<lambda>_.
     then_do (block (call_result ''Failed to create consumer: ''
       (x_consume_plain_transport (ext_ms x) plain producer_id media_codecs True))) (\<lambda>c.
     then_do (block (call_unit ''Failed to resume consumer: '' (x_resume_consumer (ext_ms x) (co_id c)))) (\<lambda>_.
     returning (g, plain, c)))))))))"

primrec pipe_to_routers_thread :: "'w ext \<Rightarrow> (string, router_in_memory) hmap \<Rightarrow> string \<Rightarrow> string \<Rightarrow> string list \<Rightarrow>
    ('w, unit) thread" where
  "pipe_to_routers_thread x routers producer_router producer_id [] = returning ()"
| "pipe_to_routers_thread x routers producer_router producer_id (r # rs) =
     then_do (unwrapping (hm_get routers r)) (\<lambda>router.
     then_do (block (call_unit ''Failed to pipe producer to router: ''
       (x_pipe_producer_to_router (ext_ms x) producer_router producer_id (rim_router router)))) (\<lambda>_.
     pipe_to_routers_thread x routers producer_router producer_id rs))"

lemma run_first_free [run_simps]: "run_thread (first_free_thread x ps) = first_free x ps"
  by (induction ps) (simp_all add: run_simps cong: if_cong)

lemma run_free_ports [run_simps]:
  "run_thread (free_video_port_thread x) = get_free_video_port x" "run_thread (free_audio_port_thread x) = get_free_audio_port x"
  unfolding free_video_port_thread_def free_audio_port_thread_def get_free_video_port_def get_free_audio_port_def run_simps
  by (rule refl)+

lemma run_build_recording [run_simps]:
  "run_thread (build_recording_thread x g m p t k) = build_recording x g m p t k"
  unfolding build_recording_thread_def build_recording_def run_simps by (rule refl)

lemma run_start_recording [run_simps]: "run_thread (start_recording_thread x m p t k) = start_recording x m p t k"
  unfolding start_recording_thread_def start_recording_def Let_def run_simps by (rule refl)

lemma run_record_producer [run_simps]:
  "run_thread (record_producer_thread x rm m p r i k) = record_producer x rm m p r i k"
  unfolding record_producer_thread_def record_producer_def run_simps by (rule refl)

lemma run_pipe_to_routers [run_simps]: "run_thread (pipe_to_routers_thread x rm r i rs) = pipe_to_routers x rm r i rs"
  by (induction rs) (simp_all add: run_simps)

section \<open>Producers\<close>

text \<open>The maps of a new producer are written one after the other.\<close>

definition finish_producer_thread :: "'w ext \<Rightarrow> string \<Rightarrow> string \<Rightarrow> producer_in_memory \<Rightarrow>
    (gstreamer \<times> string \<times> consumer_handle) option \<Rightarrow> ('w, producer_detail) thread" where
  "finish_producer_thread x producer_id producer_transport_id p rec =
     then_do (block (attempt (run_mutate x True [D_ParticipantProducers
         \<lparr>pp_mutation_type = Insert, pp_participant_id = Some (pim_participant_id p), pp_producers = Some 1,
          pp_kind = Some (pim_kind p), pp_producer_id = Some producer_id,
          pp_meeting_id = Some (pim_meeting_id p), pp_transport_id = Some producer_transport_id\<rparr>]))) (\<lambda>r.
     case r of
       Inr _ \<Rightarrow>
         then_do (block (modify (\<lambda>s. s\<lparr>producer_map := hm_insert producer_id p (producer_map s)\<rparr>))) (\<lambda>_.
         then_do (case rec of
             None \<Rightarrow> returning ()
           | Some (g, plain, c) \<Rightarrow>
               then_do (block (modify (\<lambda>s. s\<lparr>plain_transport_map :=
                 hm_insert producer_id plain (plain_transport_map s)\<rparr>))) (\<lambda>_.
               then_do (block (modify (\<lambda>s. s\<lparr>plain_transport_consumer_map :=
                 hm_insert producer_id c (plain_transport_consumer_map s)\<rparr>))) (\<lambda>_.
               block (modify (\<lambda>s. s\<lparr>pipeline_map := adopt_pipeline (pim_meeting_id p) g (pipeline_map s)\<rparr>))))) (\<lambda>_.
         returning \<lparr>pd_producer_id = producer_id, pd_participant_id = pim_participant_id p, pd_kind = pim_kind p\<rparr>))
     | Inl e \<Rightarrow>
         then_do (case rec of
             None \<Rightarrow> returning ()
           | Some (g, _, _) \<Rightarrow>
               block (modify (\<lambda>s. s\<lparr>pipeline_map := adopt_pipeline (pim_meeting_id p) g (pipeline_map s)\<rparr>))) (\<lambda>_.
         failing (''Error in writing to DB '' @ show_db_error e)))"

definition produce_on_thread ::
  "'w ext \<Rightarrow> string \<Rightarrow> string \<Rightarrow> string \<Rightarrow> string \<Rightarrow> string \<Rightarrow> string list option \<Rightarrow> string \<Rightarrow> bool \<Rightarrow> string \<Rightarrow>
   transport_in_memory \<Rightarrow> ('w, producer_detail) thread" where
  "produce_on_thread x participant_id rtp_parameters knd meeting_id producer_router_id
     consumer_router_ids producer_transport_id start_rec instance_id transport =
     then_do (block (map_err (\<lambda>e. ''Failed to parse kind: '' @ e) (from_result (parse_kind knd)))) (\<lambda>kind_enum.
     then_do (block (call_result ''Failed to create producer: ''
       (x_produce (ext_ms x) (wt_id (tim_transport transport)) (media_kind_of kind_enum) rtp_parameters))) (\<lambda>producer_id.
     then_do (block (gets routers_map)) (\<lambda>routers.
     then_do (if start_rec
              then then_do (record_producer_thread x routers meeting_id participant_id producer_router_id producer_id kind_enum)
                     (\<lambda>rec. returning (Some rec))
              else returning None) (\<lambda>rec.
     then_do (unwrapping (hm_get routers producer_router_id)) (\<lambda>router.
     then_do (case consumer_router_ids of
         None \<Rightarrow> returning () | Some rs \<Rightarrow> pipe_to_routers_thread x routers (rim_router router) producer_id rs) (\<lambda>_.
     finish_producer_thread x producer_id producer_transport_id
       \<lparr>pim_producer = producer_id, pim_meeting_id = meeting_id, pim_participant_id = participant_id,
        pim_kind = knd, pim_instance_id = instance_id\<rparr> rec))))))"

definition create_producer_thread ::
  "'w ext \<Rightarrow> string \<Rightarrow> string \<Rightarrow> string \<Rightarrow> string \<Rightarrow> string \<Rightarrow> string list option \<Rightarrow> string \<Rightarrow> bool \<Rightarrow> string \<Rightarrow>
   ('w, producer_detail) thread" where
  "create_producer_thread x participant_id rtp_parameters knd meeting_id producer_router_id
     consumer_router_ids producer_transport_id start_rec instance_id =
     then_do (block (lock_entry meeting_id)) (\<lambda>_.
     Lock meeting_id (
     then_do (block (gets (\<lambda>s. find_producer participant_id meeting_id knd (producer_map s)))) (\<lambda>existing.
     case existing of
       Some detail \<Rightarrow> returning detail
     | None \<Rightarrow>
         then_do (block (gets (\<lambda>s. hm_get (transport_map s) producer_transport_id))) (\<lambda>found.
         then_do (unwrapping found) (\<lambda>transport.
         produce_on_thread x participant_id rtp_parameters knd meeting_id producer_router_id
           consumer_router_ids producer_transport_id start_rec instance_id transport)))))"

lemma run_create_meeting [run_simps]:
  "run_thread (create_meeting_thread x caps m c) = create_meeting_and_routers_on_workers x caps m c"
  unfolding create_meeting_thread_def create_meeting_and_routers_on_workers_def run_simps
    db_error.case_distrib [of run_thread] by (rule refl)

lemma run_batch_create_router [run_simps]:
  "run_thread (batch_create_router_thread x mm) = batch_create_router_on_worker x mm"
  unfolding batch_create_router_thread_def batch_create_router_on_worker_def run_simps by (rule refl)

lemma run_create_consumer [run_simps]:
  "run_thread (create_consumer_thread x p t ts caps m i) = create_consumer x p t ts caps m i"
  unfolding create_consumer_thread_def create_consumer_def run_simps by (rule refl)

lemma run_finish_producer [run_simps]:
  "run_thread (finish_producer_thread x pid t p rec) = finish_producer x pid t p rec"
  unfolding finish_producer_thread_def finish_producer_def run_simps
  by (rule arg_cong2 [where f = and_then, OF refl], rule ext, cases rec)
    (auto simp: fun_eq_iff and_then_def modify_def ret_def fail_def store_producer_def Let_def split: sum.split)

lemma run_produce_on [run_simps]:
  "run_thread (produce_on_thread x p rtp k m r rs t start_rec i tr) = produce_on x p rtp k m r rs t start_rec i tr"
  unfolding produce_on_thread_def produce_on_def run_simps by (rule refl)

lemma run_create_producer [run_simps]:
  "run_thread (create_producer_thread x p rtp k m r rs t start_rec i) = create_producer x p rtp k m r rs t start_rec i"
  unfolding create_producer_thread_def create_producer_def create_new_producer_def run_simps by (rule refl)

section \<open>The thread of a request\<close>

definition payload_thread :: "(string \<Rightarrow> string + 'p) \<Rightarrow> ('p \<Rightarrow> ('w, response) thread) \<Rightarrow> string \<Rightarrow> ('w, response) thread" where
  "payload_thread decode f request_payload =
     (case parse_payload decode request_payload of Inl r \<Rightarrow> returning r | Inr v \<Rightarrow> f v)"

definition create_meeting_request :: "'w ext \<Rightarrow> create_meeting_payload \<Rightarrow> ('w, response) thread" where
  "create_meeting_request x p =
     (if invalid_details p
      then returning \<lparr>status = bad_request, body =
        TextBody ''Neither single router details are present nor producer and consumer details are absent''\<rparr>
      else then_do (block (worker_router_capacity p)) (\<lambda>caps.
        answering GenericResponse (server_error_text ''Error in creation of meeting '')
          (create_meeting_thread x caps (cm_meeting_id p) (cm_container_id p))))"

text \<open>The routes of the server, each with the thread of its handler.\<close>

definition thread_routes :: "'w ext \<Rightarrow> decoders \<Rightarrow> (string \<times> (string \<Rightarrow> ('w, response) thread)) list" where
  "thread_routes x d =
     [(''/v1/createMeeting'', payload_thread (of_create_meeting d) (create_meeting_request x)),
      (''/v1/replaceMeetings'', payload_thread (of_replace_meetings d) (\<lambda>ps.
         then_do (block (for_each add_meeting_payload ps [])) (\<lambda>batch.
         answering TextBody (server_error_text ''Error in creation of meeting '') (batch_create_router_thread x batch)))),
      (''/v1/joinMeeting'', payload_thread (of_join_meeting d) (\<lambda>p.
         then_do (capabilities_thread x (jm_producer_router_id p) (jm_consumer_router_id p)) (\<lambda>(pc, cc).
         returning \<lparr>status = ok_status, body = RtpCapabilities pc cc\<rparr>))),
      (''/v1/getProducersOfMeeting'', payload_thread (of_meeting_id d) (\<lambda>meeting_id.
         answering ProducerDetails (plain_text ''Error in getting participants of meeting'')
           (block (get_producers_of_meeting x meeting_id)))),
      (''/v1/connectTransport'', payload_thread (of_connect_transport d) (\<lambda>p.
         answering GenericResponse (server_error_fixed ''Error in connecting producer transport'')
           (connect_transport_thread x (cn_participant_id p) (cn_transport_id p) (cn_dtls_parameters p)))),
      (''/v1/restartIce'', payload_thread (of_restart_ice d) (\<lambda>p.
         answering IceParametersBody (server_error_fixed ''Error in restarting ice'')
           (restart_ice_thread x (ri_participant_id p) (ri_transport_ids p)))),
      (''/v1/recreateProducerTransport'', payload_thread (of_create_transport d) (\<lambda>p.
         answering RecreatedProducerTransport (server_error_fixed ''Error in creating producer transport'')
           (recreate_producer_transport_thread x (ct_participant_id p) (ct_meeting_id p) (ct_instance_id p)
              (ct_router_id p) (ct_old_producer_transport_id p) (ct_old_consumer_transport_id p)))),
      (''/v1/recreateConsumerTransport'', payload_thread (of_create_transport d) (\<lambda>p.
         answering CreatedTransport (server_error_fixed ''Failed to fetch producers of meeting'')
           (recreate_consumer_transport_thread x (ct_participant_id p) (ct_meeting_id p) (ct_instance_id p)
              (ct_router_id p) (ct_old_producer_transport_id p) (ct_old_consumer_transport_id p)))),
      (''/v1/createConsumer'', payload_thread (of_create_consume d) (\<lambda>p.
         answering (\<lambda>m. ConsumerDetailsBody (consumer_details_of m)) (server_error_text ''Error in creating consumer '')
           (create_consumer_thread x (cc_participant_id p) (cc_transport_id p) (cc_target_participants p)
              (cc_rtp_capabilities p) (cc_meeting_id p) (cc_instance_id p)))),
      (''/v1/createProducer'', payload_thread (of_create_produce d) (\<lambda>p.
         answering ProducerDetailBody (server_error_fixed ''Error in creating producer'')
           (create_producer_thread x (cp_participant_id p) (cp_rtp_parameters p) (cp_kind p) (cp_meeting_id p)
              (cp_producer_router_id p) (cp_consumer_router_ids p) (cp_producer_transport_id p)
              (cp_start_recording p) (cp_instance_id p)))),
      (''/v1/resumeConsumer'', payload_thread (of_consumers d) (\<lambda>p.
         answering (\<lambda>_. GenericResponse ''Successfully resumed'') (server_error_text ''Error in resuming consumer '')
           (set_consumers_thread x ''[mod.rs.resume_consumer] Failed to resume err '' (x_resume_consumer (ext_ms x))
              (cr_consumer_ids p) (cr_meeting_id p)))),
      (''/v1/resumeProducer'', payload_thread (of_producers d) (\<lambda>p.
         answering ProducerDetails (server_error_text ''Error in resuming producer '')
           (set_producers_thread (x_resume_producer (ext_ms x)) (pr_participant_id p) (pr_producer_kind_map p)))),
      (''/v1/pauseProducer'', payload_thread (of_producers d) (\<lambda>p.
         answering ProducerDetails (server_error_text ''Error in creating consumer '')
           (set_producers_thread (x_pause_producer (ext_ms x)) (pr_participant_id p) (pr_producer_kind_map p)))),
      (''/v1/pauseConsumer'', payload_thread (of_consumers d) (\<lambda>p.
         answering (\<lambda>_. GenericResponse ''Successfully paused'') (server_error_text ''Error in creating consumer '')
           (set_consumers_thread x ''[mod.rs.resume_consumer] Failed to pause err '' (x_pause_consumer (ext_ms x))
              (cr_consumer_ids p) (cr_meeting_id p)))),
      (''/v1/closeProducer'', payload_thread (of_producers d) (\<lambda>p.
         answering ProducerDetails (server_error_text ''Error in closing producer '')
           (close_producer_thread x (pr_participant_id p) (pr_meeting_id p) (pr_producer_kind_map p)))),
      (''/v1/closeConsumer'', payload_thread (of_consumers d) (\<lambda>p.
         answering (\<lambda>_. GenericResponse ''Successfully closed consumer'') (server_error_text ''Error in closing consumer '')
           (close_consumer_thread x (cr_participant_id p) (cr_consumer_ids p) (cr_meeting_id p)))),
      (''/v1/leaveMeeting'', payload_thread (of_leave_meeting d) (\<lambda>p.
         answering (\<lambda>r. LeaveMeetingResponse (lmr_response r) (lmr_send_signal r))
           (server_error_text ''Error in leaving meeting '')
           (leave_meeting_thread x (lm_participant_id p) (lm_meeting_id p) (lm_instance_id p)
              (lm_producer_transport_id p) (lm_consumer_transport_id p)))),
      (''/v1/endMeeting'', payload_thread (of_end_meeting d) (\<lambda>p.
         answering (\<lambda>_. GenericResponse ''Successfully ended meeting'') (server_error_text ''Error in ending meeting '')
           (end_meeting_thread x (em_meeting_id p) (em_router_ids p) (em_transport_ids p) (em_participant_ids p)))),
      (''/v1/getRTPCapabilities'', payload_thread (of_capabilities d) (\<lambda>p.
         then_do (capabilities_thread x (cq_producer_router_id p) (cq_consumer_router_id p)) (\<lambda>(pc, cc).
         returning \<lparr>status = ok_status, body = RtpCapabilities pc cc\<rparr>))),
      (''/v1/preMeetingDetails'', payload_thread (of_pre_meeting_details d) (\<lambda>p.
         then_do (capabilities_thread x (pq_producer_router_id p) (pq_consumer_router_id p)) (\<lambda>(pc, cc).
         answering (PreClassDetails pc cc) (plain_text ''Error in getting participants of meeting'')
           (block (get_producers_of_meeting x (pq_meeting_id p)))))),
      (''/v1/getParticipantProducers'', payload_thread (of_restart_ice d) (\<lambda>p.
         then_do (block (get_participant_producers (ri_participant_id p))) (\<lambda>ids.
         returning \<lparr>status = ok_status, body = IdList ids\<rparr>))),
      (''/v1/getParticipantConsumers'', payload_thread (of_restart_ice d) (\<lambda>p.
         then_do (block (get_participant_consumers x (ri_participant_id p) (ri_meeting_id p))) (\<lambda>ids.
         returning \<lparr>status = ok_status, body = IdList ids\<rparr>)))]"

definition request_thread :: "'w ext \<Rightarrow> decoders \<Rightarrow> string \<Rightarrow> string \<Rightarrow> ('w, response) thread" where
  "request_thread x d path request_payload =
     (case map_of (thread_routes x d) path of
        Some t \<Rightarrow> t request_payload
      | None \<Rightarrow> returning \<lparr>status = 404, body = TextBody ''''\<rparr>)"

lemma run_payload: "run_thread (payload_thread decode f t) = with_payload decode t (\<lambda>p. run_thread (f p))"
  unfolding payload_thread_def with_payload_def run_simps by (rule refl)

lemma run_create_meeting_request:
  "(\<lambda>t. run_thread (payload_thread decode (create_meeting_request x) t)) = create_meeting_handler x decode"
  unfolding run_payload create_meeting_request_def create_meeting_handler_def run_simps by (rule refl)

lemma setup_routes_threads:
  "setup_routes x d = map (\<lambda>(path, t). (path, \<lambda>request_payload. run_thread (t request_payload))) (thread_routes x d)"
  unfolding thread_routes_def setup_routes_def
  by (simp add: run_create_meeting_request)
    (simp add: run_payload run_simps handler_defs create_consumer_handler_def create_producer_handler_def
      run_set_consumers [symmetric] fun_eq_iff)

lemma run_request_thread: "run_thread (request_thread x d path request_payload) = handle x d path request_payload"
  unfolding request_thread_def handle_def setup_routes_threads map_of_map
  by (simp add: run_simps split: option.split)


end
