(* ===== verification/Thread_Rules.thy ===== *)
theory Thread_Rules
  imports Thread_Handlers Interleaving
begin

text \<open>
  What the thread of a request does to the producer map, whatever runs between its blocks: only a request
  to create a producer adds an entry, one at most, under the mutex of its meeting and after a look that
  found none.
\<close>

section \<open>Threads that add no producer\<close>

definition sheds :: "'w sfu \<Rightarrow> 'w sfu \<Rightarrow> bool" where
  "sheds s s' \<longleftrightarrow> (\<forall>P. fewer P s \<longrightarrow> fewer P s')"

inductive shrinks :: "('w, 'a) thread \<Rightarrow> bool" where
  finished: "shrinks (Finished r)"
| block: "(\<And>s t s'. f s = (t, s') \<Longrightarrow> sheds s s' \<and> shrinks t) \<Longrightarrow> shrinks (Block f)"

text \<open>One that may add the producer a request asks for, once, and one that first looks for it.\<close>

definition entry_of :: "produce_request \<Rightarrow> string \<Rightarrow> producer_in_memory" where
  "entry_of q pid = \<lparr>pim_producer = pid, pim_meeting_id = mp_meeting q, pim_participant_id = mp_participant q,
     pim_kind = mp_kind q, pim_instance_id = mp_instance q\<rparr>"

inductive adds :: "produce_request \<Rightarrow> ('w, 'a) thread \<Rightarrow> bool" for q where
  shrinks: "shrinks t \<Longrightarrow> adds q t"
| block: "(\<And>s t s'. f s = (t, s') \<Longrightarrow> sheds s s' \<and> adds q t \<or>
      shrinks t \<and> (\<exists>pid. producer_map s' = hm_insert pid (entry_of q pid) (producer_map s))) \<Longrightarrow> adds q (Block f)"

inductive checks :: "produce_request \<Rightarrow> ('w, 'a) thread \<Rightarrow> bool" for q where
  shrinks: "shrinks t \<Longrightarrow> checks q t"
| block: "(\<And>s t s'. f s = (t, s') \<Longrightarrow> sheds s s' \<and> (shrinks t \<or> adds q t \<and> unshared q (producer_map s'))) \<Longrightarrow>
    checks q (Block f)"

text \<open>A thread that holds no mutex yet: it takes one at most, and checks under it.\<close>

inductive asks :: "('w, 'a) thread \<Rightarrow> bool" where
  shrinks: "shrinks t \<Longrightarrow> asks t"
| lock: "checks q t \<Longrightarrow> asks (Lock (mp_meeting q) t)"
| block: "(\<And>s t s'. f s = (t, s') \<Longrightarrow> sheds s s' \<and> asks t) \<Longrightarrow> asks (Block f)"

inductive_cases shrinks_BlockE: "shrinks (Block f)"
inductive_cases shrinks_LockE: "shrinks (Lock m t)"
inductive_cases adds_BlockE: "adds q (Block f)"
inductive_cases adds_LockE: "adds q (Lock m t)"
inductive_cases checks_BlockE: "checks q (Block f)"
inductive_cases checks_LockE: "checks q (Lock m t)"
inductive_cases asks_BlockE: "asks (Block f)"
inductive_cases asks_LockE: "asks (Lock m t)"

lemma sheds_keeps: "(\<And>P. keeps (fewer P) m) \<Longrightarrow> m s = (r, s') \<Longrightarrow> sheds s s'"
  unfolding sheds_def by (blast dest: keepsD)

lemma shrinks_after:
  assumes "shrinks t" and "\<And>r. shrinks (k r)"
  shows "shrinks (after t k)"
  using assms(1)
proof induction
  case (finished r)
  then show ?case using assms(2) by simp
next
  case (block f)
  show ?case unfolding after.simps
  proof (rule shrinks.block)
    fix s t s'
    assume "map_prod (\<lambda>t. after t k) id (f s) = (t, s')"
    then obtain t0 where "f s = (t0, s')" "t = after t0 k" by (cases "f s") auto
    with block show "sheds s s' \<and> shrinks t" by blast
  qed
qed

lemma adds_after:
  assumes "adds q t" and "\<And>r. shrinks (k r)"
  shows "adds q (after t k)"
  using assms(1)
proof induction
  case (shrinks t)
  then show ?case by (intro adds.shrinks shrinks_after assms(2))
next
  case (block f)
  show ?case unfolding after.simps
  proof (rule adds.block)
    fix s t s'
    assume "map_prod (\<lambda>t. after t k) id (f s) = (t, s')"
    then obtain t0 where "f s = (t0, s')" and t: "t = after t0 k" by (cases "f s") auto
    from block(1) [OF this(1)] shrinks_after [of t0 k, OF _ assms(2)]
    show "sheds s s' \<and> adds q t \<or>
      shrinks t \<and> (\<exists>pid. producer_map s' = hm_insert pid (entry_of q pid) (producer_map s))"
      unfolding t by blast
  qed
qed

lemma checks_after:
  assumes "checks q t" and "\<And>r. shrinks (k r)"
  shows "checks q (after t k)"
  using assms(1)
proof cases
  case shrinks
  then show ?thesis by (intro checks.shrinks shrinks_after assms(2))
next
  case (block f)
  show ?thesis unfolding block(1) after.simps
  proof (rule checks.block)
    fix s t s'
    assume "map_prod (\<lambda>t. after t k) id (f s) = (t, s')"
    then obtain t0 where "f s = (t0, s')" and t: "t = after t0 k" by (cases "f s") auto
    from block(2) [OF this(1)] shrinks_after [of t0 k, OF _ assms(2)] adds_after [of q t0 k, OF _ assms(2)]
    show "sheds s s' \<and> (shrinks t \<or> adds q t \<and> unshared q (producer_map s'))" unfolding t by blast
  qed
qed

lemma asks_after:
  assumes "asks t" and "\<And>r. shrinks (k r)"
  shows "asks (after t k)"
  using assms(1)
proof induction
  case (shrinks t)
  then show ?case by (intro asks.shrinks shrinks_after assms(2))
next
  case (lock q t)
  then show ?case unfolding after.simps by (intro asks.lock checks_after assms(2))
next
  case (block f)
  show ?case unfolding after.simps
  proof (rule asks.block)
    fix s t s'
    assume "map_prod (\<lambda>t. after t k) id (f s) = (t, s')"
    then obtain t0 where "f s = (t0, s')" "t = after t0 k" by (cases "f s") auto
    with block show "sheds s s' \<and> asks t" by blast
  qed
qed

section \<open>Rules\<close>

named_theorems thread_intros \<open>threads that add no producer, or ask first\<close>

lemma shrinks_block [thread_intros]:
  assumes "\<And>P. keeps (fewer P) m"
  shows "shrinks (block m)"
  unfolding block_def
proof (rule shrinks.block)
  fix s t s'
  assume "(case m s of (r, s') \<Rightarrow> (Finished r, s')) = (t, s')"
  then obtain r where "m s = (r, s')" and t: "t = Finished r" by (cases "m s") auto
  with sheds_keeps [OF assms this(1)] show "sheds s s' \<and> shrinks t" by (simp add: shrinks.finished)
qed

lemma shrinks_ends [thread_intros]: "shrinks (returning a)" "shrinks (failing e)" "shrinks (unwrapping opt)"
  by (simp_all add: returning_def failing_def unwrapping_def shrinks.finished split: option.split)

lemma shrinks_then [thread_intros]:
  assumes "shrinks t" and "\<And>a. shrinks (f a)"
  shows "shrinks (then_do t f)"
  unfolding then_do_def
  by (rule shrinks_after [OF assms(1)]) (simp add: assms(2) shrinks.finished split: outcome.split)

lemma shrinks_mapped [thread_intros]:
  "shrinks t \<Longrightarrow> shrinks (err_mapped g t)" "shrinks t' \<Longrightarrow> shrinks (answering ok err t')"
  unfolding err_mapped_def answering_def by (rule shrinks_after, assumption, rule shrinks.finished)+

lemma shrinks_each [thread_intros]:
  assumes "\<And>x b. shrinks (f x b)"
  shows "shrinks (each f xs b)"
  by (induction xs arbitrary: b) (simp_all add: assms shrinks_then shrinks_ends)

lemma shrinks_cases [thread_intros]:
  "(b \<Longrightarrow> shrinks t) \<Longrightarrow> (\<not> b \<Longrightarrow> shrinks t') \<Longrightarrow> shrinks (if b then t else t')"
  "shrinks n \<Longrightarrow> (\<And>a. shrinks (f a)) \<Longrightarrow> shrinks (case opt of None \<Rightarrow> n | Some a \<Rightarrow> f a)"
  "(\<And>e. shrinks (g e)) \<Longrightarrow> (\<And>a. shrinks (h a)) \<Longrightarrow> shrinks (case r of Inl e \<Rightarrow> g e | Inr a \<Rightarrow> h a)"
  "(\<And>a b. shrinks (p a b)) \<Longrightarrow> shrinks (case ab of (a, b) \<Rightarrow> p a b)"
  "(\<And>c m. shrinks (u c m)) \<Longrightarrow> (\<And>m. shrinks (v m)) \<Longrightarrow> (\<And>m. shrinks (w m)) \<Longrightarrow>
   shrinks (case e of MySqlError c m \<Rightarrow> u c m | GenericError m \<Rightarrow> v m | RollbackError m \<Rightarrow> w m)"
  by (simp_all split: option.split sum.split prod.split db_error.split)

text \<open>A prefix that adds none.\<close>

lemma then_block: "then_do (block m) f = Block (\<lambda>s. case m s of (r, s') \<Rightarrow>
    (case r of Ok a \<Rightarrow> f a | Err e \<Rightarrow> Finished (Err e) | Panic \<Rightarrow> Finished Panic, s'))"
  by (auto simp: then_do_def block_def split: prod.split)

lemma adds_then:
  assumes "shrinks t" and "\<And>a. adds q (f a)"
  shows "adds q (then_do t f)"
  using assms(1)
proof induction
  case (finished r)
  then show ?case
    by (cases r) (simp_all add: then_do_def assms(2) adds.shrinks shrinks.finished)
next
  case (block g)
  show ?case unfolding then_do_def after.simps
  proof (rule adds.block)
    fix s t s'
    assume "map_prod (\<lambda>t. after t (\<lambda>r. case r of Ok a \<Rightarrow> f a | Err e \<Rightarrow> Finished (Err e) | Panic \<Rightarrow> Finished Panic)) id (g s) = (t, s')"
    then obtain t0 where "g s = (t0, s')" and t: "t = then_do t0 f" by (cases "g s") (auto simp: then_do_def)
    from block [OF this(1)] show "sheds s s' \<and> adds q t \<or>
      shrinks t \<and> (\<exists>pid. producer_map s' = hm_insert pid (entry_of q pid) (producer_map s))" by (simp add: t)
  qed
qed

lemma asks_then:
  assumes "shrinks t" and "\<And>a. asks (f a)"
  shows "asks (then_do t f)"
  using assms(1)
proof induction
  case (finished r)
  then show ?case
    by (cases r) (simp_all add: then_do_def assms(2) asks.shrinks shrinks.finished)
next
  case (block g)
  show ?case unfolding then_do_def after.simps
  proof (rule asks.block)
    fix s t s'
    assume "map_prod (\<lambda>t. after t (\<lambda>r. case r of Ok a \<Rightarrow> f a | Err e \<Rightarrow> Finished (Err e) | Panic \<Rightarrow> Finished Panic)) id (g s) = (t, s')"
    then obtain t0 where "g s = (t0, s')" and t: "t = then_do t0 f" by (cases "g s") (auto simp: then_do_def)
    from block [OF this(1)] show "sheds s s' \<and> asks t" by (simp add: t)
  qed
qed

lemma asks_mapped: "asks t \<Longrightarrow> asks (answering ok err t)"
  unfolding answering_def by (rule asks_after, assumption, rule shrinks.finished)

section \<open>The requests\<close>

lemma keeps_fewer_same_streams:
  assumes "\<And>s0. keeps (same_streams s0) m"
  shows "keeps (fewer P) m"
proof (rule keepsI)
  fix s r s'
  assume "fewer P s" and "m s = (r, s')"
  have "same_streams s s" by (simp add: same_streams_def)
  from keepsD [OF assms this \<open>m s = (r, s')\<close>] \<open>fewer P s\<close> show "fewer P s'" by (simp add: fewer_def same_streams_def)
qed

lemma keeps_fewer_recording [keeps_intros]:
  "keeps (fewer P) (run_recorder builder y g port m p t)" "keeps (fewer P) (undo_recording y m p k o1 pl)"
  by (rule keeps_fewer_same_streams, rule keeps_streams_run_recorder keeps_streams_undo)+

lemma shrinks_first_free [thread_intros]: "shrinks (first_free_thread x ps)"
  by (induction ps) (simp_all only: first_free_thread.simps, (intro thread_intros keeps_intros; assumption)+)

lemma shrinks_pipe [thread_intros]: "shrinks (pipe_to_routers_thread x rm r i rs)"
  by (induction rs) (simp_all only: pipe_to_routers_thread.simps, (intro thread_intros keeps_intros; assumption)+)

lemma shrinks_recording [thread_intros]: "shrinks (record_producer_thread x rm m p r i k)"
  unfolding record_producer_thread_def create_folder_def start_recording_thread_def build_recording_thread_def
    free_video_port_thread_def free_audio_port_thread_def Let_def
  by (intro thread_intros keeps_intros)

lemma keeps_fewer_stored [keeps_intros]:
  "keeps (fewer P) (modify (\<lambda>s. s\<lparr>plain_transport_map := f s\<rparr>))"
  "keeps (fewer P) (modify (\<lambda>s. s\<lparr>plain_transport_consumer_map := g s\<rparr>))"
  "keeps (fewer P) (modify (\<lambda>s. s\<lparr>pipeline_map := h s\<rparr>))"
  by (simp_all add: keeps_def modify_def fewer_def)

lemma adds_stored:
  assumes "\<And>a. shrinks (f a)"
  shows "adds q (then_do (block (modify (\<lambda>s. s\<lparr>producer_map := hm_insert pid (entry_of q pid) (producer_map s)\<rparr>))) f)"
  unfolding then_block by (rule adds.block) (auto simp: modify_def intro: assms)

lemma adds_sum: "(\<And>e. adds q (g e)) \<Longrightarrow> (\<And>a. adds q (h a)) \<Longrightarrow> adds q (case r of Inl e \<Rightarrow> g e | Inr a \<Rightarrow> h a)"
  by (simp split: sum.split)

lemma adds_finish_producer:
  fixes q :: produce_request
  shows "adds q (finish_producer_thread x pid t (entry_of q pid) rec)"
  unfolding finish_producer_thread_def
  apply (rule adds_then)
   apply (intro thread_intros keeps_intros)
  apply (rule adds_sum)
   apply (rule adds.shrinks)
   apply (intro thread_intros keeps_intros)
  apply (rule adds_stored)
  apply (intro thread_intros keeps_intros)
  done

lemma adds_produce_on:
  fixes q :: produce_request
  shows "adds q (produce_on_thread x (mp_participant q) (mp_rtp q) (mp_kind q) (mp_meeting q) (mp_router q) (mp_others q)
     (mp_transport q) (mp_recorded q) (mp_instance q) t)"
  unfolding produce_on_thread_def
  by (intro adds_then adds_finish_producer [unfolded entry_of_def] thread_intros keeps_intros)

lemma checks_found:
  fixes q :: produce_request and f :: "producer_detail option \<Rightarrow> ('w, 'a) thread"
  assumes "adds q (f None)" and "\<And>detail. shrinks (f (Some detail))"
  shows "checks q (then_do (block (gets (\<lambda>s.
    find_producer (mp_participant q) (mp_meeting q) (mp_kind q) (producer_map s)))) f)"
  unfolding then_block
proof (rule checks.block)
  fix s s' :: "'w sfu" and t
  let ?found = "find_producer (mp_participant q) (mp_meeting q) (mp_kind q) (producer_map s)"
  assume "(case gets (\<lambda>s. find_producer (mp_participant q) (mp_meeting q) (mp_kind q) (producer_map s)) s of (r, s') \<Rightarrow>
    (case r of Ok a \<Rightarrow> f a | Err e \<Rightarrow> Finished (Err e) | Panic \<Rightarrow> Finished Panic, s')) = (t, s')"
  then have s: "s' = s" and t: "t = f ?found" by (auto simp: gets_def)
  show "sheds s s' \<and> (shrinks t \<or> adds q t \<and> unshared q (producer_map s'))"
    unfolding s t using assms by (cases ?found) (simp_all add: sheds_def unshared_def)
qed

lemma asks_create_producer:
  fixes q :: produce_request
  shows "asks (create_producer_thread x (mp_participant q) (mp_rtp q) (mp_kind q) (mp_meeting q) (mp_router q) (mp_others q)
     (mp_transport q) (mp_recorded q) (mp_instance q))"
  unfolding create_producer_thread_def
  apply (rule asks_then)
   apply (intro thread_intros keeps_intros)
  apply (rule asks.lock, rule checks_found)
   apply (simp only: option.case)
   apply (intro adds_then adds_produce_on thread_intros keeps_intros)
  apply (simp only: option.case)
  apply (rule shrinks_ends)
  done

lemma asks_create:
  "asks (create_producer_thread x p rtp k m r rs t start_rec i)"
  using asks_create_producer [of x "\<lparr>mp_participant = p, mp_rtp = rtp, mp_kind = k, mp_meeting = m, mp_router = r,
    mp_others = rs, mp_transport = t, mp_recorded = start_rec, mp_instance = i\<rparr>"]
  by (simp only: produce_request.select_convs)

lemma asks_Lock: "shrinks t \<Longrightarrow> asks (Lock m t)"
  using asks.lock [OF checks.shrinks, of t "\<lparr>mp_participant = [], mp_rtp = [], mp_kind = [], mp_meeting = m,
    mp_router = [], mp_others = None, mp_transport = [], mp_recorded = False, mp_instance = []\<rparr>"] by simp

lemma asks_recreate:
  "asks (recreate_producer_transport_thread x p m i r a b)" "asks (recreate_consumer_transport_thread x p m i r a b)"
  unfolding recreate_producer_transport_thread_def recreate_consumer_transport_thread_def close_older_instances_thread_def
    close_all_producers_thread_def create_producer_transport_thread_def create_consumer_transport_thread_def
    create_transport_thread_def set_bitrates_thread_def membership_thread_def query_defs
  by (intro asks_then asks_Lock thread_intros keeps_intros)+

lemma asks_payload:
  assumes "\<And>v. asks (f v)"
  shows "asks (payload_thread decode f request_payload)"
  unfolding payload_thread_def using assms by (auto split: sum.split intro: asks.shrinks shrinks_ends)

lemma shrinks_requests [thread_intros]:
  "shrinks (create_meeting_thread x caps m c)" "shrinks (batch_create_router_thread x mm)"
  "shrinks (create_consumer_thread x p t ts rc m i)" "shrinks (close_producer_thread x p m ks)"
  "shrinks (close_consumer_thread x p ids m)" "shrinks (leave_meeting_thread x p m i a b)"
  "shrinks (end_meeting_thread x m rs us ps)"
  unfolding create_meeting_thread_def batch_create_router_thread_def create_consumer_thread_def close_producer_thread_def
    close_consumer_thread_def leave_meeting_thread_def end_meeting_thread_def close_instance_thread_def
    close_all_producers_thread_def stop_pipeline_def create_meeting_routers_thread_def create_worker_routers_thread_def
    create_router_def query_defs Let_def
  by (intro thread_intros keeps_intros)+

lemma shrinks_small_requests [thread_intros]:
  "shrinks (connect_transport_thread x p t dtls)" "shrinks (restart_ice_thread x p ts)"
  "shrinks (capabilities_thread x a b)" "shrinks (set_consumers_thread x msg cf ids m)"
  "shrinks (set_producers_thread pf p ks)"
  unfolding connect_transport_thread_def restart_ice_thread_def restart_one_def capabilities_thread_def
    router_capabilities_thread_def set_consumers_thread_def set_consumer_state_def set_producers_thread_def
    set_producer_state_def query_defs
  by (intro thread_intros keeps_intros)+

lemma asks_request: "asks (request_thread x d path request_payload)"
proof -
  have "\<forall>(path, t) \<in> set (thread_routes x d). asks (t request_payload)"
    unfolding thread_routes_def create_meeting_request_def worker_router_capacity_def add_meeting_payload_def
      meeting_payload_of_def get_participant_producers_def get_participant_consumers_def
    apply (simp only: list.set ball_simps prod.case)
    apply (intro conjI TrueI asks_payload asks_mapped asks_create asks_recreate;
      intro asks.shrinks thread_intros keeps_intros)
    done
  then have "asks (t request_payload)" if "map_of (thread_routes x d) path = Some t" for t
    using map_of_SomeD [OF that] by blast
  then show ?thesis
    unfolding request_thread_def by (auto split: option.split intro: asks.shrinks shrinks_ends)
qed

end
