(* ===== verification/Schedule.thy ===== *)
theory Schedule
  imports Thread_Rules Server_Facts "HOL-Library.Multiset"
begin

text \<open>
  The server as a pool of threads that take turns at every block: requests arrive, any thread runs its
  next block, waits for a mutex of \<open>lock_map\<close> or ends, and pads, the publisher and the world outside come
  between. The mutex of a meeting keeps the producers of a participant unique, and no thread waits for ever.
\<close>

section \<open>The pool\<close>

text \<open>A thread with the key of the mutex it holds, if any.\<close>

type_synonym 'w running_thread = "string option \<times> ('w, response) thread"

record 'w pool =
  p_sfu :: "'w sfu"
  p_held :: "string set"
  p_threads :: "'w running_thread list"

text \<open>
  A step of a thread. A panic ends it like any other end: the guard of its mutex is dropped while unwinding,
  and a mutex of tokio is not poisoned.
\<close>

inductive works :: "'w pool \<Rightarrow> 'w pool \<Rightarrow> bool" where
  block: "p_threads st = before @ (h, Block f) # later \<Longrightarrow> f (p_sfu st) = (t, s') \<Longrightarrow>
    works st (st\<lparr>p_sfu := s', p_threads := before @ (h, t) # later\<rparr>)"
| lock: "p_threads st = before @ (None, Lock m t) # later \<Longrightarrow> m \<notin> p_held st \<Longrightarrow>
    works st (st\<lparr>p_held := insert m (p_held st), p_threads := before @ (Some m, t) # later\<rparr>)"
| finish: "p_threads st = before @ (h, Finished r) # later \<Longrightarrow>
    works st (st\<lparr>p_held := p_held st - set_option h, p_threads := before @ later\<rparr>)"

text \<open>
  Between the steps: requests arrive; a client goes away and the future of its handler is dropped,
  with the guard it holds; the publisher sends an event; a pad of a pipeline is handled; the world changes.
\<close>

inductive schedule :: "'w ext \<Rightarrow> decoders \<Rightarrow> 'w net_ext \<Rightarrow> client_config_details \<Rightarrow> 'w pool \<Rightarrow> 'w pool \<Rightarrow> bool"
  for x d n c where
  work: "works st st' \<Longrightarrow> schedule x d n c st st'"
| arrive: "schedule x d n c st (st\<lparr>p_threads := (None, request_thread x d path request_payload) # p_threads st\<rparr>)"
| publish: "user_channel (p_sfu st) = ev # evs \<Longrightarrow> send_attempts n c ev retries (world (p_sfu st)) = (Ok (), w) \<Longrightarrow>
    schedule x d n c st (st\<lparr>p_sfu := (p_sfu st)\<lparr>user_channel := evs, world := w\<rparr>\<rparr>)"
| pad: "hm_get (pipeline_map (p_sfu st)) m = Some (Some g) \<Longrightarrow>
    with_pipeline m g (rtp_bin_element_handling (ext_gst x) (gst_pipeline g) new_pad) (p_sfu st) = (r, s') \<Longrightarrow>
    schedule x d n c st (st\<lparr>p_sfu := s'\<rparr>)"
| gone: "p_threads st = before @ (h, t) # later \<Longrightarrow>
    schedule x d n c st (st\<lparr>p_held := p_held st - set_option h, p_threads := before @ later\<rparr>)"
| outside: "schedule x d n c st (st\<lparr>p_sfu := (p_sfu st)\<lparr>world := w\<rparr>\<rparr>)"

inductive_cases worksE: "works st st'"
inductive_cases scheduleE: "schedule x d n c st st'"

section \<open>Order in the pool\<close>

definition held_keys :: "'w running_thread list \<Rightarrow> string list" where
  "held_keys ts = concat (map (\<lambda>(h, t). opt_list h) ts)"

lemma held_keys_simps [simp]:
  "held_keys [] = []" "held_keys (ht # ts) = opt_list (fst ht) @ held_keys ts"
  "held_keys (ts @ us) = held_keys ts @ held_keys us"
  by (simp_all add: held_keys_def split: prod.split)

lemma set_opt_list [simp]: "set (opt_list h) = set_option h"
  by (cases h) (simp_all add: opt_list_def)

lemma held_keys_mem: "(Some m, t) \<in> set ts \<Longrightarrow> m \<in> set (held_keys ts)"
  by (auto simp: held_keys_def opt_list_def)

text \<open>A thread without a mutex asks first; one that holds a mutex is checking, or has found nothing.\<close>

definition fit :: "(string, producer_in_memory) hmap \<Rightarrow> string option \<Rightarrow> ('w, response) thread \<Rightarrow> bool" where
  "fit pm h t = (case h of
     None \<Rightarrow> asks t
   | Some m \<Rightarrow> \<exists>q. mp_meeting q = m \<and> (checks q t \<or> adds q t \<and> unshared q pm))"

definition orderly :: "'w pool \<Rightarrow> bool" where
  "orderly st \<longleftrightarrow> producers_ok (producer_map (p_sfu st)) \<and> distinct (held_keys (p_threads st)) \<and>
     set (held_keys (p_threads st)) = p_held st \<and>
     (\<forall>(h, t) \<in> set (p_threads st). fit (producer_map (p_sfu st)) h t)"

lemma sheds_ok:
  assumes "sheds s s'" and "producers_ok (producer_map s)"
  shows "producers_ok (producer_map s')" and "unshared q (producer_map s) \<Longrightarrow> unshared q (producer_map s')"
    and "fit (producer_map s) h t \<Longrightarrow> fit (producer_map s') h t"
proof -
  have "fewer (set (producer_map s)) s" using assms(2) by (simp add: fewer_def producers_ok_def)
  with assms(1) have "fewer (set (producer_map s)) s'" by (simp add: sheds_def)
  note ok = fewer_ok [OF this assms(2)]
  show "producers_ok (producer_map s')" and "unshared q (producer_map s) \<Longrightarrow> unshared q (producer_map s')" by (fact ok)+
  show "fit (producer_map s) h t \<Longrightarrow> fit (producer_map s') h t"
    using ok(2) by (auto simp: fit_def split: option.splits)
qed

lemma fit_stored:
  assumes "producers_ok (producer_map s)" and "unshared q (producer_map s)"
    and "producer_map s' = hm_insert pid (entry_of q pid) (producer_map s)"
  shows "producers_ok (producer_map s')"
    and "h \<noteq> Some (mp_meeting q) \<Longrightarrow> fit (producer_map s) h t \<Longrightarrow> fit (producer_map s') h t"
proof -
  show "producers_ok (producer_map s')"
    using producers_ok_insert [of "producer_map s" "entry_of q pid"] assms by (simp add: unshared_def entry_of_def)
  have "unshared q' (producer_map s')" if "mp_meeting q' \<noteq> mp_meeting q" "unshared q' (producer_map s)" for q'
    using that by (auto simp: assms(3) unshared_def find_producer_None set_hm_insert entry_of_def)
  then show "h \<noteq> Some (mp_meeting q) \<Longrightarrow> fit (producer_map s) h t \<Longrightarrow> fit (producer_map s') h t"
    by (auto simp: fit_def split: option.splits)
qed

text \<open>A block keeps its own thread fit, and every thread with another mutex or none.\<close>

lemma block_step:
  assumes ok: "producers_ok (producer_map s)" and fit: "fit (producer_map s) h (Block f)" and run: "f s = (t, s')"
  shows "producers_ok (producer_map s') \<and> fit (producer_map s') h t \<and>
    (\<forall>h' u. h' = None \<or> h' \<noteq> h \<longrightarrow> fit (producer_map s) h' u \<longrightarrow> fit (producer_map s') h' u)"
proof -
  have shed: ?thesis if "sheds s s'" "fit (producer_map s') h t"
    using sheds_ok [OF that(1) ok] that(2) by blast
  show ?thesis
  proof (cases h)
    case None
    with fit have "asks (Block f)" by (simp add: fit_def)
    then have "sheds s s' \<and> asks t"
      using run by (auto elim!: asks_BlockE shrinks_BlockE intro: asks.shrinks)
    then show ?thesis by (intro shed) (simp_all add: fit_def None)
  next
    case (Some m)
    with fit obtain q where q: "mp_meeting q = m" and
      "checks q (Block f) \<or> adds q (Block f) \<and> unshared q (producer_map s)" by (auto simp: fit_def)
    then consider (check) "sheds s s'" "shrinks t" | (free) "sheds s s'" "adds q t" "unshared q (producer_map s')"
      | (add) "sheds s s'" "adds q t" "unshared q (producer_map s)"
      | (stored) pid where "shrinks t" "unshared q (producer_map s)"
          "producer_map s' = hm_insert pid (entry_of q pid) (producer_map s)"
      using run by (auto elim!: checks_BlockE adds_BlockE shrinks_BlockE) metis+
    then show ?thesis
    proof cases
      case check
      then show ?thesis using q by (intro shed) (auto simp: fit_def Some intro: checks.shrinks)
    next
      case free
      then show ?thesis using q by (intro shed) (auto simp: fit_def Some)
    next
      case add
      then show ?thesis using q sheds_ok(2) [OF add(1) ok] by (intro shed) (auto simp: fit_def Some)
    next
      case (stored pid)
      have "fit (producer_map s') h t" using stored(1) q by (auto simp: fit_def Some intro: checks.shrinks)
      with fit_stored [OF ok stored(2,3)] q show ?thesis by (auto simp: Some)
    qed
  qed
qed

lemma orderly_works:
  assumes "works st st'" and ord: "orderly st"
  shows "orderly st'"
  using assms(1)
proof cases
  case (block before h f later t s')
  have fits: "fit (producer_map (p_sfu st)) h (Block f)"
    "\<forall>(h', u) \<in> set before \<union> set later. fit (producer_map (p_sfu st)) h' u"
    and keys: "distinct (held_keys before @ opt_list h @ held_keys later)"
    using ord by (auto simp: orderly_def block)
  have ok: "producers_ok (producer_map (p_sfu st))" using ord by (simp add: orderly_def)
  note kept = block_step [OF ok fits(1) block(3)]
  have "fit (producer_map s') h' u" if "(h', u) \<in> set before \<union> set later" for h' u
  proof -
    have "h' = None \<or> h' \<noteq> h" using that keys held_keys_mem by (cases h') auto
    with kept fits(2) that show ?thesis by blast
  qed
  with kept ord show ?thesis by (auto simp: orderly_def block)
next
  case (lock before m t later)
  then have "asks (Lock m t)" using ord by (auto simp: orderly_def fit_def)
  then have "fit (producer_map (p_sfu st)) (Some m) t" by (auto simp: fit_def elim!: asks_LockE shrinks_LockE)
  with ord lock show ?thesis by (auto simp: orderly_def opt_list_def)
next
  case (finish before h r later)
  with ord show ?thesis by (auto simp: orderly_def)
qed

lemma orderly_schedule:
  assumes "schedule x d n c st st'" and ord: "orderly st"
  shows "orderly st'"
  using assms(1)
proof cases
  case work
  then show ?thesis by (rule orderly_works [OF _ ord])
next
  case (arrive path request_payload)
  with ord asks_request show ?thesis by (auto simp: orderly_def fit_def opt_list_def)
next
  case (publish ev evs w)
  with ord show ?thesis by (simp add: orderly_def)
next
  case (pad m g new_pad r s')
  then have "producer_map s' = producer_map (p_sfu st)" by (auto simp: with_pipeline_def split: prod.splits)
  with ord pad show ?thesis by (simp add: orderly_def)
next
  case (gone before h t later)
  with ord show ?thesis by (auto simp: orderly_def)
next
  case (outside w)
  with ord show ?thesis by (simp add: orderly_def)
qed

lemma orderly_steps: "(schedule x d n c)\<^sup>*\<^sup>* st st' \<Longrightarrow> orderly st \<Longrightarrow> orderly st'"
  by (induction rule: rtranclp_induct) (auto intro: orderly_schedule)

lemma orderly_rest: "producers_ok (producer_map s) \<Longrightarrow> orderly \<lparr>p_sfu = s, p_held = {}, p_threads = []\<rparr>"
  by (simp add: orderly_def)

section \<open>Coming to rest\<close>

text \<open>What is left of a thread is smaller than the thread, whatever the other threads did to the state.\<close>

definition rest_of :: "(('w, 'a) thread \<times> ('w, 'a) thread) set" where
  "rest_of = {(t', t). (\<exists>f s s'. t = Block f \<and> f s = (t', s')) \<or> (\<exists>m. t = Lock m t')}"

lemma wf_rest_of: "wf (rest_of :: (('w, 'a) thread \<times> ('w, 'a) thread) set)"
proof (rule wfUNIVI)
  fix P :: "('w, 'a) thread \<Rightarrow> bool" and t
  assume step: "\<forall>t. (\<forall>t'. (t', t) \<in> rest_of \<longrightarrow> P t') \<longrightarrow> P t"
  show "P t"
  proof (induction t)
    case (Finished r)
    show ?case by (rule step [rule_format]) (simp add: rest_of_def)
  next
    case (Block f)
    have left: "P t'" if "f s = (t', s')" for s t' s'
      using Block [OF rangeI, of t' s] that by (simp add: fsts.simps)
    show ?case by (rule step [rule_format]) (auto simp: rest_of_def intro: left)
  next
    case (Lock m t)
    show ?case by (rule step [rule_format]) (simp add: rest_of_def Lock)
  qed
qed

lemma works_smaller:
  assumes "works st st'"
  shows "(mset (map snd (p_threads st')), mset (map snd (p_threads st))) \<in> mult rest_of"
proof -
  have one: "(I + {#t'#}, I + {#t#}) \<in> mult rest_of" if "(t', t) \<in> rest_of" for I and t t' :: "('a, response) thread"
    using one_step_implies_mult [of "{#t#}" "{#t'#}" rest_of I] that by auto
  have none: "(I, I + {#t#}) \<in> mult rest_of" for I and t :: "('a, response) thread"
    using one_step_implies_mult [of "{#t#}" "{#}" rest_of I] by simp
  show ?thesis using assms
  proof cases
    case (block before h f later t s')
    then have "(t, Block f) \<in> rest_of" by (auto simp: rest_of_def)
    from one [OF this, of "mset (map snd before) + mset (map snd later)"] show ?thesis by (simp add: block)
  next
    case (lock before m t later)
    have "(t, Lock m t) \<in> rest_of" by (simp add: rest_of_def)
    from one [OF this, of "mset (map snd before) + mset (map snd later)"] show ?thesis by (simp add: lock)
  next
    case (finish before h r later)
    from none [of "mset (map snd before) + mset (map snd later)" "Finished r"] show ?thesis by (simp add: finish)
  qed
qed

lemma works_terminates: "wf {(later, before). works before later}"
  by (rule wf_subset [OF wf_inv_image [OF wf_mult [OF wf_rest_of]]]) (auto simp: inv_image_def intro: works_smaller)

text \<open>A thread that waits holds nothing itself, so some thread can go on.\<close>

lemma works_progress:
  assumes ord: "orderly st" and some: "p_threads st \<noteq> []"
  shows "\<exists>st'. works st st'"
proof (cases "\<exists>(h, t) \<in> set (p_threads st). \<forall>m u. t \<noteq> Lock m u")
  case True
  then obtain h t where mem: "(h, t) \<in> set (p_threads st)" and free: "\<And>m u. t \<noteq> Lock m u" by blast
  from split_list [OF mem] obtain before later where ts: "p_threads st = before @ (h, t) # later" by blast
  show ?thesis
  proof (cases t)
    case (Finished r)
    with ts show ?thesis by (blast intro: works.finish)
  next
    case (Block f)
    obtain t' s' where "f (p_sfu st) = (t', s')" by fastforce
    with ts Block show ?thesis by (blast intro: works.block)
  qed (simp add: free)
next
  case False
  have none: "h = None" if "(h, t) \<in> set (p_threads st)" for h t
  proof (cases h)
    case (Some m)
    obtain m' u where t: "t = Lock m' u" using False \<open>(h, t) \<in> _\<close> by blast
    with ord that Some obtain q where "checks q (Lock m' u) \<or> adds q (Lock m' u)"
      by (fastforce simp: orderly_def fit_def)
    then show ?thesis by (auto elim!: checks_LockE adds_LockE shrinks_LockE)
  qed
  then have "held_keys (p_threads st) = []" by (auto simp: held_keys_def opt_list_def split: option.split)
  with ord have "p_held st = {}" by (simp add: orderly_def)
  moreover from some obtain h t later where ts: "p_threads st = (h, t) # later" by (cases "p_threads st") auto
  moreover from this False none obtain m u where "t = Lock m u" "h = None" by fastforce
  ultimately have "works st (st\<lparr>p_held := insert m (p_held st), p_threads := [] @ (Some m, u) # later\<rparr>)"
    by (intro works.lock) simp_all
  then show ?thesis ..
qed

section \<open>Requests alone\<close>

text \<open>A thread that no other thread interrupts does what the blocks do one after the other.\<close>

lemma one_block:
  assumes "f s = (t, s')" and "works\<^sup>*\<^sup>* \<lparr>p_sfu = s', p_held = ks, p_threads = (h, t) # ts\<rparr> st"
  shows "works\<^sup>*\<^sup>* \<lparr>p_sfu = s, p_held = ks, p_threads = (h, Block f) # ts\<rparr> st"
proof -
  have "works \<lparr>p_sfu = s, p_held = ks, p_threads = (h, Block f) # ts\<rparr>
      \<lparr>p_sfu = s', p_held = ks, p_threads = (h, t) # ts\<rparr>"
    using works.block [of "\<lparr>p_sfu = s, p_held = ks, p_threads = (h, Block f) # ts\<rparr>" "[]" h f ts t s'] assms(1) by simp
  then show ?thesis using assms(2) by (rule converse_rtranclp_into_rtranclp)
qed

lemma shrinks_alone:
  "shrinks t \<Longrightarrow> works\<^sup>*\<^sup>* \<lparr>p_sfu = s, p_held = ks, p_threads = (h, t) # ts\<rparr>
     \<lparr>p_sfu = snd (run_thread t s), p_held = ks - set_option h, p_threads = ts\<rparr>"
proof (induction arbitrary: s rule: shrinks.induct)
  case (finished r)
  show ?case
    using works.finish [of "\<lparr>p_sfu = s, p_held = ks, p_threads = (h, Finished r) # ts\<rparr>" "[]" h r ts] by simp
next
  case (block f)
  obtain t s' where f: "f s = (t, s')" by fastforce
  with block show ?case by (intro one_block [where f = f and s = s, OF f]) simp
qed

lemma adds_alone:
  "adds q t \<Longrightarrow> works\<^sup>*\<^sup>* \<lparr>p_sfu = s, p_held = ks, p_threads = (h, t) # ts\<rparr>
     \<lparr>p_sfu = snd (run_thread t s), p_held = ks - set_option h, p_threads = ts\<rparr>"
proof (induction arbitrary: s rule: adds.induct)
  case (shrinks t)
  then show ?case by (rule shrinks_alone)
next
  case (block f)
  obtain t s' where f: "f s = (t, s')" by fastforce
  from block [OF f] show ?case using shrinks_alone [of t s' ks h ts] by (intro one_block [where f = f and s = s, OF f]) (auto simp: f)
qed

lemma checks_alone:
  assumes "checks q t"
  shows "works\<^sup>*\<^sup>* \<lparr>p_sfu = s, p_held = ks, p_threads = (h, t) # ts\<rparr>
     \<lparr>p_sfu = snd (run_thread t s), p_held = ks - set_option h, p_threads = ts\<rparr>"
  using assms
proof cases
  case shrinks
  then show ?thesis by (rule shrinks_alone)
next
  case (block f)
  obtain t' s' where f: "f s = (t', s')" by fastforce
  from block(2) [OF f] show ?thesis
    unfolding block(1) using shrinks_alone [of t' s' ks h ts] adds_alone [of q t' s' ks h ts]
    by (intro one_block [where f = f and s = s, OF f]) (auto simp: f)
qed

lemma asks_alone:
  "asks t \<Longrightarrow> works\<^sup>*\<^sup>* \<lparr>p_sfu = s, p_held = {}, p_threads = (None, t) # ts\<rparr>
     \<lparr>p_sfu = snd (run_thread t s), p_held = {}, p_threads = ts\<rparr>"
proof (induction arbitrary: s rule: asks.induct)
  case (shrinks t)
  from shrinks_alone [OF this, of s "{}" None] show ?case by simp
next
  case (lock q t)
  have "works \<lparr>p_sfu = s, p_held = {}, p_threads = (None, Lock (mp_meeting q) t) # ts\<rparr>
      \<lparr>p_sfu = s, p_held = {mp_meeting q}, p_threads = (Some (mp_meeting q), t) # ts\<rparr>"
    using works.lock [of "\<lparr>p_sfu = s, p_held = {}, p_threads = (None, Lock (mp_meeting q) t) # ts\<rparr>" "[]" "mp_meeting q" t ts]
    by simp
  then show ?case
    using checks_alone [OF lock, of s "{mp_meeting q}" "Some (mp_meeting q)" ts]
    by (simp add: converse_rtranclp_into_rtranclp)
next
  case (block f)
  obtain t s' where f: "f s = (t, s')" by fastforce
  from block [OF f] show ?case by (intro one_block [where f = f and s = s, OF f]) (auto simp: f)
qed

lemma works_schedule: "works\<^sup>*\<^sup>* st st' \<Longrightarrow> (schedule x d n c)\<^sup>*\<^sup>* st st'"
  by (rule mono_rtranclp [rule_format, rotated], assumption) (rule schedule.work)

lemma request_alone:
  "(schedule x d n c)\<^sup>*\<^sup>* \<lparr>p_sfu = s, p_held = {}, p_threads = []\<rparr>
     \<lparr>p_sfu = snd (run_thread (request_thread x d path request_payload) s), p_held = {}, p_threads = []\<rparr>"
proof -
  let ?st = "\<lparr>p_sfu = s, p_held = {}, p_threads = [(None, request_thread x d path request_payload)]\<rparr>"
  have "schedule x d n c \<lparr>p_sfu = s, p_held = {}, p_threads = []\<rparr> ?st"
    using schedule.arrive [of x d n c "\<lparr>p_sfu = s, p_held = {}, p_threads = []\<rparr>"] by simp
  moreover note works_schedule [OF asks_alone [OF asks_request]]
  ultimately show ?thesis by (rule converse_rtranclp_into_rtranclp)
qed

section \<open>Every schedule\<close>

text \<open>
  C11: Concurrent requests keep producers unique. Start with no request on its way and at most one producer
  of a kind for each participant of a meeting. Whatever requests arrive, and in whatever order their blocks
  run, with pads, events and clients that go away in between, this is so at every later moment: no two
  entries of the producer map agree in meeting, participant and kind.
\<close>

theorem schedule_keeps_producers_unique:
  assumes "producers_ok (producer_map s)"
    and "(schedule x d n c)\<^sup>*\<^sup>* \<lparr>p_sfu = s, p_held = {}, p_threads = []\<rparr> st"
    and "(k, v) \<in> set (producer_map (p_sfu st))" and "(k', v') \<in> set (producer_map (p_sfu st))"
    and "pim_meeting_id v = pim_meeting_id v'" and "pim_participant_id v = pim_participant_id v'" and "pim_kind v = pim_kind v'"
  shows "k = k' \<and> v = v'"
proof -
  have ok: "producers_ok (producer_map (p_sfu st))"
    using orderly_steps [OF assms(2) orderly_rest [OF assms(1)]] by (simp add: orderly_def)
  have "k = k'" using ok assms(3-7) unfolding producers_ok_def same_stream_def by fast
  moreover have "v = v'"
    using ok assms(3,4) \<open>k = k'\<close> unfolding producers_ok_def hm_wf_def by (metis eq_key_imp_eq_value)
  ultimately show ?thesis by simp
qed


section \<open>Witnesses\<close>

text \<open>Decoders that read the request of \<open>bob\<close> to share its screen from any body.\<close>

definition share_decoders :: decoders where
  "share_decoders = no_decoders\<lparr>of_create_produce := (\<lambda>_. Inr
     \<lparr>cp_participant_id = ''bob'', cp_rtp_parameters = ''rtp'', cp_meeting_id = ''m'', cp_kind = ''screenshare'',
      cp_producer_router_id = ''r1'', cp_consumer_router_ids = None, cp_producer_transport_id = ''tb'',
      cp_start_recording = False, cp_instance_id = ''i2''\<rparr>)\<rparr>"

lemma share_handled:
  "handle sample_ext share_decoders ''/v1/createProducer'' b =
    answer ProducerDetailBody (server_error_fixed ''Error in creating producer'')
      (create_producer sample_ext ''bob'' ''rtp'' ''screenshare'' ''m'' ''r1'' None ''tb'' False ''i2'')"
  by (simp add: handle_def setup_routes_def create_producer_handler_def with_payload_def parse_payload_def
      share_decoders_def fun_eq_iff)

lemma share_stored:
  "producer_map (snd (handle sample_ext share_decoders ''/v1/createProducer'' b sample_sfu)) =
    [(''p'', \<lparr>pim_producer = ''p'', pim_meeting_id = ''m'', pim_participant_id = ''bob'', pim_kind = ''screenshare'',
       pim_instance_id = ''i2''\<rparr>), (''p1'', alice_producer)]"
proof -
  obtain r s' where run: "end_produce sample_ext sample_share (sample_transport ''tb'' ''bob'')
      (sample_sfu\<lparr>lock_map := [(''m'', ())]\<rparr>) = (r, s')" by (rule prod.exhaust)
  have "r = Ok \<lparr>pd_producer_id = ''p'', pd_participant_id = ''bob'', pd_kind = ''screenshare''\<rparr>"
    using share_answers unfolding run by (simp only: fst_conv)
  note stored = share_ends [OF run [unfolded this]] and answered = this
  have "create_producer sample_ext ''bob'' ''rtp'' ''screenshare'' ''m'' ''r1'' None ''tb'' False ''i2'' sample_sfu = (r, s')"
    using produce_halves [of sample_ext sample_share] share_begins run
    by (simp add: sample_share_def and_then_def)
  then show ?thesis unfolding share_handled
    by (simp add: answer_def and_then_def attempt_def ret_def answered stored)
qed

theorem schedule_keeps_producers_unique_witness:
  "\<exists>st. (schedule sample_ext share_decoders sample_net \<lparr>client_config_endpoint = ''url'', client_headers = []\<rparr>)\<^sup>*\<^sup>*
      \<lparr>p_sfu = sample_sfu, p_held = {}, p_threads = []\<rparr> st \<and>
    {k. \<exists>v. (k, v) \<in> set (producer_map (p_sfu st)) \<and> pim_meeting_id v = ''m'' \<and> pim_participant_id v = ''bob'' \<and>
      pim_kind v = ''screenshare''} = {''p''}"
proof -
  let ?s = "snd (handle sample_ext share_decoders ''/v1/createProducer'' ''b'' sample_sfu)"
  let ?st = "\<lparr>p_sfu = ?s, p_held = {}, p_threads = []\<rparr>"
  let ?new = "\<lparr>pim_producer = ''p'', pim_meeting_id = ''m'', pim_participant_id = ''bob'', pim_kind = ''screenshare'',
      pim_instance_id = ''i2''\<rparr>"
  note steps = request_alone [of sample_ext share_decoders sample_net "\<lparr>client_config_endpoint = ''url'', client_headers = []\<rparr>"
      sample_sfu "''/v1/createProducer''" "''b''", unfolded run_request_thread]
  have ok: "producers_ok (producer_map sample_sfu)" by (rule sfu_invD(1) [OF sample_inv])
  have new: "(''p'', ?new) \<in> set (producer_map ?s)" unfolding share_stored by (simp only: list.set_intros)
  have "k = ''p''" if "(k, v) \<in> set (producer_map ?s)" "pim_meeting_id v = ''m''" "pim_participant_id v = ''bob''"
    "pim_kind v = ''screenshare''" for k v
    by (rule schedule_keeps_producers_unique [OF ok steps, unfolded pool.select_convs, OF that(1) new, THEN conjunct1])
      (simp_all only: that producer_in_memory.select_convs)
  moreover have "\<exists>v. (''p'', v) \<in> set (producer_map ?s) \<and> pim_meeting_id v = ''m'' \<and> pim_participant_id v = ''bob'' \<and>
      pim_kind v = ''screenshare''"
    by (intro exI [of _ ?new] conjI new) (simp_all only: producer_in_memory.select_convs)
  ultimately have "{k. \<exists>v. (k, v) \<in> set (producer_map ?s) \<and> pim_meeting_id v = ''m'' \<and> pim_participant_id v = ''bob'' \<and>
      pim_kind v = ''screenshare''} = {''p''}"
    by blast
  then show ?thesis by (intro exI [of _ ?st] conjI steps) (simp only: pool.select_convs)
qed

text \<open>Two requests of Bob to share its screen: one holds the mutex of the meeting, the other waits for it.\<close>

lemma share_thread:
  obtains t where "request_thread x share_decoders ''/v1/createProducer'' b =
    Block (\<lambda>s. (Lock ''m'' t, s\<lparr>lock_map := hm_entry ''m'' () (lock_map s)\<rparr>))"
proof -
  obtain t where "request_thread x share_decoders ''/v1/createProducer'' b =
    answering ProducerDetailBody (server_error_fixed ''Error in creating producer'')
      (Block (\<lambda>s. (Lock ''m'' t, s\<lparr>lock_map := hm_entry ''m'' () (lock_map s)\<rparr>)))"
    by (simp add: request_thread_def thread_routes_def payload_thread_def parse_payload_def share_decoders_def
        create_producer_thread_def then_block lock_entry_def modify_def)
  then show ?thesis by (intro that) (simp add: answering_def)
qed


end
