(* ===== verification/Sound_Threads.thy ===== *)
theory Sound_Threads
  imports Thread_Handlers
begin

text \<open>
  The invariant of the state, block by block: whatever other threads do between the blocks of a request,
  as long as they keep the maps well-formed, so does the request. What a block hands on to a later one (the
  routers it made, the consumers of a batch, the pipeline of a recording) is right by itself.
\<close>

section \<open>Threads that keep an invariant\<close>

text \<open>Every block keeps the invariant, and a result that is returned satisfies the condition.\<close>

inductive safe :: "('w sfu \<Rightarrow> bool) \<Rightarrow> ('a \<Rightarrow> bool) \<Rightarrow> ('w, 'a) thread \<Rightarrow> bool" for I Q where
  finished: "(\<And>a. r = Ok a \<Longrightarrow> Q a) \<Longrightarrow> safe I Q (Finished r)"
| block: "(\<And>s t s'. I s \<Longrightarrow> f s = (t, s') \<Longrightarrow> I s' \<and> safe I Q t) \<Longrightarrow> safe I Q (Block f)"
| lock: "safe I Q t \<Longrightarrow> safe I Q (Lock m t)"

inductive_simps safe_Finished [simp]: "safe I Q (Finished r)"
inductive_simps safe_Lock [simp]: "safe I Q (Lock m t)"
inductive_cases safe_BlockE: "safe I Q (Block f)"

lemma safe_after:
  assumes "safe I Q t" and "\<And>r. (\<And>a. r = Ok a \<Longrightarrow> Q a) \<Longrightarrow> safe I R (k r)"
  shows "safe I R (after t k)"
  using assms(1)
proof induction
  case (finished r)
  then show ?case by (simp add: assms(2))
next
  case (block f)
  show ?case unfolding after.simps
  proof (rule safe.block)
    fix s t s'
    assume "I s" and "map_prod (\<lambda>t. after t k) id (f s) = (t, s')"
    then obtain t0 where "f s = (t0, s')" "t = after t0 k" by (cases "f s") auto
    with block \<open>I s\<close> show "I s' \<and> safe I R t" by blast
  qed
next
  case (lock t m)
  then show ?case by (simp add: safe.lock)
qed

named_theorems safe_intros \<open>threads that keep an invariant\<close>

lemma safe_block:
  fixes m :: "('w, 'a) op"
  assumes "keeps I m" and "returns I m Q"
  shows "safe I Q (block m)"
  unfolding block_def
proof (rule safe.block)
  fix s s' :: "'w sfu" and t :: "('w, 'a) thread"
  assume "I s" and "(case m s of (r, s') \<Rightarrow> (Finished r, s')) = (t, s')"
  then obtain r where run: "m s = (r, s')" and t: "t = Finished r" by (cases "m s") auto
  have "I s'" by (rule keepsD [OF assms(1) \<open>I s\<close> run])
  moreover have "Q a" if "r = Ok a" for a using returnsD [OF assms(2) \<open>I s\<close>] run that by blast
  ultimately show "I s' \<and> safe I Q t" by (simp add: t safe.finished)
qed

abbreviation any :: "'a \<Rightarrow> bool" where
  "any \<equiv> \<lambda>_. True"

lemma safe_any [safe_intros]: "keeps I m \<Longrightarrow> safe I any (block m)"
  by (rule safe_block) (simp_all add: returns_def)

lemma safe_ends [safe_intros]:
  "safe I any (returning a)" "safe I Q (failing e)" "safe I any (unwrapping opt)"
  by (simp_all add: returning_def failing_def unwrapping_def split: option.split)

lemma safe_returning: "Q a \<Longrightarrow> safe I Q (returning a)"
  by (simp add: returning_def)

lemma safe_unwrapped: "safe I (\<lambda>a. opt = Some a) (unwrapping opt)"
  by (simp add: returning_def unwrapping_def split: option.split)

lemma safe_then_post:
  assumes "safe I Q t" and "\<And>a. Q a \<Longrightarrow> safe I R (f a)"
  shows "safe I R (then_do t f)"
  unfolding then_do_def
  by (rule safe_after [OF assms(1)]) (simp add: assms(2) split: outcome.split)

lemma safe_then [safe_intros]: "safe I any t \<Longrightarrow> (\<And>a. safe I R (f a)) \<Longrightarrow> safe I R (then_do t f)"
  by (rule safe_then_post)

lemma safe_each:
  assumes "Q b" and "\<And>y b. Q b \<Longrightarrow> safe I Q (f y b)"
  shows "safe I Q (each f ys b)"
  using assms(1) by (induction ys arbitrary: b) (auto intro: safe_returning safe_then_post [where Q = Q] assms(2))

lemma safe_each_any [safe_intros]: "(\<And>y b. safe I any (f y b)) \<Longrightarrow> safe I any (each f ys b)"
  by (rule safe_each) simp_all

lemma safe_mapped [safe_intros]:
  "safe I Q t \<Longrightarrow> safe I Q (err_mapped g t)" "safe I any t' \<Longrightarrow> safe I any (answering ok err t')"
  unfolding err_mapped_def answering_def
  by (auto elim!: safe_after split: outcome.splits)

declare safe.lock [safe_intros]

lemma safe_cases [safe_intros]:
  "(b \<Longrightarrow> safe I Q t) \<Longrightarrow> (\<not> b \<Longrightarrow> safe I Q t') \<Longrightarrow> safe I Q (if b then t else t')"
  "safe I Q n \<Longrightarrow> (\<And>a. opt = Some a \<Longrightarrow> safe I Q (f a)) \<Longrightarrow> safe I Q (case opt of None \<Rightarrow> n | Some a \<Rightarrow> f a)"
  "(\<And>e. safe I Q (g e)) \<Longrightarrow> (\<And>a. safe I Q (h a)) \<Longrightarrow> safe I Q (case r of Inl e \<Rightarrow> g e | Inr a \<Rightarrow> h a)"
  "(\<And>a b. p = (a, b) \<Longrightarrow> safe I Q (q a b)) \<Longrightarrow> safe I Q (case p of (a, b) \<Rightarrow> q a b)"
  "(\<And>c m. safe I Q (u c m)) \<Longrightarrow> (\<And>m. safe I Q (v m)) \<Longrightarrow> (\<And>m. safe I Q (w m)) \<Longrightarrow>
   safe I Q (case e of MySqlError c m \<Rightarrow> u c m | GenericError m \<Rightarrow> v m | RollbackError m \<Rightarrow> w m)"
  by (simp_all split: option.split sum.split prod.split db_error.split)

section \<open>What the blocks keep\<close>

text \<open>The maps are well-formed, without the uniqueness of producers and consumers.\<close>

abbreviation maps_ok :: "'w ext \<Rightarrow> 'w sfu \<Rightarrow> bool" where
  "maps_ok \<equiv> sound False"

lemma keeps_maps_modify [keeps_intros]:
  "keeps (maps_ok x) (modify (\<lambda>s. s\<lparr>producer_map := pm s\<rparr>))"
  "keeps (maps_ok x) (modify (\<lambda>s. s\<lparr>plain_transport_map := pt s\<rparr>))"
  "keeps (maps_ok x) (modify (\<lambda>s. s\<lparr>plain_transport_consumer_map := pc s\<rparr>))"
  "keeps (maps_ok x) (modify (\<lambda>s. s\<lparr>transport_map := hm_remove_all ts (transport_map s)\<rparr>))"
  "keeps (maps_ok x) (modify (\<lambda>s. s\<lparr>routers_map := hm_remove_all rs (routers_map s)\<rparr>))"
  by (intro keeps_modify sfu_inv_producers sfu_inv_transports sfu_inv_routers transports_ok_remove routers_ok_remove;
      simp add: sfu_invD)+

lemma keeps_maps_insert_transport [keeps_intros]:
  "wt_id (tim_transport t) = i \<Longrightarrow> keeps (maps_ok x) (modify (\<lambda>s. s\<lparr>transport_map :=
     hm_insert i t (remove_option a (remove_option b (transport_map s)))\<rparr>))"
  by (intro keeps_modify sfu_inv_transports transports_ok_insert transports_ok_remove_option) (simp_all add: sfu_invD)

lemma keeps_maps_add_routers:
  "batch_ok b \<Longrightarrow> keeps (maps_ok x) (modify (\<lambda>s. s\<lparr>routers_map := hm_extend (rb_routers b) (routers_map s)\<rparr>))"
  by (intro keeps_modify sfu_inv_add_routers)

lemma keeps_maps_adopt:
  "pipeline_ok g \<Longrightarrow> keeps (maps_ok x) (modify (\<lambda>s. s\<lparr>pipeline_map := adopt_pipeline m g (pipeline_map s)\<rparr>))"
  by (intro keeps_modify sfu_inv_pipelines pipelines_ok_adopt) (simp_all add: sfu_invD)

text \<open>New consumers are stored under their ids in the shard of their meeting.\<close>

definition keyed :: "string \<Rightarrow> (string, consumer_in_memory) hmap \<Rightarrow> bool" where
  "keyed m new \<longleftrightarrow> (\<forall>(k, v) \<in> set new. k = co_id (cim_consumer v) \<and> cim_meeting_id v = m)"

lemma request_consumer_keyed:
  assumes "keyed m (cb_new acc)" and "request_consumer x p m i t tid caps existing req acc s = (Ok acc', s')"
  shows "keyed m (cb_new acc')"
  using assms
  by (cases req) (auto simp: keyed_def request_consumer_def run_iffs ret_def fail_def set_hm_insert Let_def split: list.splits)

lemma keeps_maps_request_consumer [keeps_intros]:
  "keeps (maps_ok x) (request_consumer y p m i t tid caps existing req acc)"
  unfolding request_consumer_def Let_def by (auto split: prod.splits list.splits intro!: keeps_intros)

lemma safe_request_consumer:
  assumes "keyed m (cb_new b)"
  shows "safe (maps_ok x) (\<lambda>b. keyed m (cb_new b)) (block (request_consumer y p m i t tid caps existing req b))"
  by (intro safe_block keeps_intros returnsI) (rule request_consumer_keyed [OF assms])

lemma keeps_maps_add_consumers:
  assumes "keyed m new"
  shows "keeps (maps_ok x) (write_shard x m (hm_extend new))"
proof (rule keepsI)
  fix s r s'
  assume inv: "maps_ok x s" and run: "write_shard x m (hm_extend new) s = (r, s')"
  show "maps_ok x s'"
  proof (cases "consumer_map_shards s = []")
    case True
    then show ?thesis using inv run by (simp add: write_shard_run)
  next
    case False
    let ?here = "\<lambda>k. shard_index x s k = shard_index x s m"
    have "shard_ok False ?here (shard_of x s m)" by (rule sfu_inv_shard [OF inv False])
    then have "shard_ok False ?here (hm_extend new (shard_of x s m))"
      using assms by (auto simp: shard_ok_def keyed_def dest!: set_hm_extend_subset)
    from sfu_inv_write_shard [where f = "hm_extend new", OF inv False this] show ?thesis
      using run False by (auto simp: write_shard_run)
  qed
qed

section \<open>The requests\<close>

lemma safe_stored:
  "batch_ok b \<Longrightarrow> safe (maps_ok x) any (block (modify (\<lambda>s. s\<lparr>routers_map := hm_extend (rb_routers b) (routers_map s)\<rparr>)))"
  "keyed m new \<Longrightarrow> safe (maps_ok x) any (block (write_shard x m (hm_extend new)))"
  "pipeline_ok g \<Longrightarrow> safe (maps_ok x) any (block (modify (\<lambda>s. s\<lparr>pipeline_map := adopt_pipeline k g (pipeline_map s)\<rparr>)))"
  by (intro safe_any keeps_maps_add_routers keeps_maps_add_consumers keeps_maps_adopt; assumption)+

lemma safe_create_router: "batch_ok b \<Longrightarrow> safe (maps_ok x) batch_ok (block (create_router x m c e b))"
  by (intro safe_block keeps_intros returnsI) (rule create_router_batch)

lemma safe_create_worker_routers:
  "batch_ok b \<Longrightarrow> safe (maps_ok x) batch_ok (create_worker_routers_thread x m c e b)"
  unfolding create_worker_routers_thread_def
  by (rule safe_then, intro safe_any keeps_intros) (rule safe_then, rule safe_ends, rule safe_each, assumption, rule safe_create_router)

lemma safe_create_meeting_routers:
  "batch_ok b \<Longrightarrow> safe (maps_ok x) batch_ok (create_meeting_routers_thread x e b)"
  unfolding create_meeting_routers_thread_def by (rule safe_each, assumption, rule safe_create_router)

lemma safe_create_meeting: "safe (maps_ok x) any (create_meeting_thread x caps m c)"
  unfolding create_meeting_thread_def
  by (rule safe_then_post [where Q = batch_ok], rule safe_each, rule no_routers_ok, erule safe_create_worker_routers)
    (intro safe_intros keeps_intros safe_stored, assumption)

lemma safe_batch_create: "safe (maps_ok x) any (batch_create_router_thread x mm)"
  unfolding batch_create_router_thread_def
  by (rule safe_then_post [where Q = batch_ok], rule safe_each, rule no_routers_ok, erule safe_create_meeting_routers)
    (intro safe_intros keeps_intros safe_stored, assumption)

lemma safe_create_consumer: "safe (maps_ok x) any (create_consumer_thread x p t ts caps m i)"
  unfolding create_consumer_thread_def
  apply (rule safe_then, intro safe_any keeps_intros)
  apply (rule safe_then, rule safe_ends)
  apply (rule safe_then, intro safe_any keeps_intros)
  apply (rule safe_then_post [where Q = "\<lambda>b. keyed m (cb_new b)"])
   apply (rule safe_each, simp add: keyed_def, erule safe_request_consumer)
  apply (intro safe_intros keeps_intros safe_stored, assumption)
  done

text \<open>A recording hands on its pipeline, which is stored at the end.\<close>

lemma safe_finish_producer:
  assumes "recording_ok rec"
  shows "safe (maps_ok x) any (finish_producer_thread x pid t p rec)"
proof -
  have store: "safe (maps_ok x) any (case rec of
      None \<Rightarrow> returning ()
    | Some (g, plain, c) \<Rightarrow>
        then_do (block (modify (\<lambda>s. s\<lparr>plain_transport_map := hm_insert pid plain (plain_transport_map s)\<rparr>))) (\<lambda>_.
        then_do (block (modify (\<lambda>s. s\<lparr>plain_transport_consumer_map :=
          hm_insert pid c (plain_transport_consumer_map s)\<rparr>))) (\<lambda>_.
        block (modify (\<lambda>s. s\<lparr>pipeline_map := adopt_pipeline (pim_meeting_id p) g (pipeline_map s)\<rparr>)))))"
    "safe (maps_ok x) any (case rec of
      None \<Rightarrow> returning ()
    | Some (g, _, _) \<Rightarrow>
        block (modify (\<lambda>s. s\<lparr>pipeline_map := adopt_pipeline (pim_meeting_id p) g (pipeline_map s)\<rparr>)))"
    using assms by (auto simp: recording_ok_def split: option.split prod.split
        intro!: safe_then safe_any keeps_intros keeps_maps_adopt safe_ends)
  show ?thesis
    unfolding finish_producer_thread_def by (intro safe_intros keeps_intros store)
qed

lemma safe_first_free: "safe (maps_ok x) any (first_free_thread y ps)"
  by (induction ps) (simp_all only: first_free_thread.simps, (intro safe_intros keeps_intros; assumption)+)

lemma safe_ports [safe_intros]:
  "safe (maps_ok x) any (free_video_port_thread y)" "safe (maps_ok x) any (free_audio_port_thread y)"
  unfolding free_video_port_thread_def free_audio_port_thread_def
  by (rule safe_then, intro safe_any keeps_intros, rule safe_first_free)+

lemma safe_pipe [safe_intros]: "safe (maps_ok x) any (pipe_to_routers_thread y rm r i rs)"
  by (induction rs) (simp_all only: pipe_to_routers_thread.simps, (intro safe_intros keeps_intros; assumption)+)

text \<open>The builder of a recording starts from the \<open>Inner\<close> the pipeline shares, whatever it has become by then.\<close>

lemma safe_build_recording:
  assumes "chains_ok (gst_inner g)"
  shows "safe (maps_ok x) (\<lambda>(g', port). chains_ok (gst_inner g')) (build_recording_thread y g m p t k)"
proof -
  have "safe (maps_ok x) (\<lambda>(g', port). chains_ok (gst_inner g'))
      (then_do (block (map_err h (run_recorder rec y g port m p t))) (\<lambda>g'. returning (g', port)))"
    if "builds (rec (ext_gst y))" for h rec port
    by (rule safe_then_post [where Q = "\<lambda>g'. chains_ok (gst_inner g')"])
      (auto intro!: safe_block returns_map_err returns_run_recorder keeps_intros keeps_inv_run_recorder that assms safe_returning)
  note built = this
  show ?thesis
    unfolding build_recording_thread_def
    by (rule safe_cases; rule safe_then, intro safe_intros; rule built, rule builds_recorders)
qed

lemma safe_start_recording: "safe (maps_ok x) (\<lambda>(g, port). pipeline_ok g) (start_recording_thread y m p t k)"
  unfolding start_recording_thread_def Let_def
proof (rule safe_then_post [OF safe_block [OF _ returns_from_map]], intro keeps_intros)
  fix found :: "gstreamer option option"
  assume found: "\<forall>g. found = Some (Some g) \<longrightarrow> pipeline_ok g"
  then have "safe (maps_ok x) (\<lambda>g. chains_ok (gst_inner g))
      (case found of None \<Rightarrow> returning gstreamer_new | Some g_option \<Rightarrow> unwrapping g_option)"
    by (auto simp: unwrapping_def returning_def pipeline_ok_def split: option.split)
  then show "safe (maps_ok x) (\<lambda>(g, port). pipeline_ok g)
      (then_do (case found of None \<Rightarrow> returning gstreamer_new | Some g_option \<Rightarrow> unwrapping g_option) (\<lambda>g.
       then_do (build_recording_thread y g m p t k) (\<lambda>(g', port).
       then_do (unwrapping (gst_pipeline g')) (\<lambda>pipeline.
       then_do (block (call_world (x_set_state (ext_gst y) pipeline GstPlaying))) (\<lambda>r.
       case r of
         None \<Rightarrow> returning (g', port)
       | Some _ \<Rightarrow>
           then_do (if found \<noteq> None then block (undo_recording y m p k (gst_pipeline g) pipeline) else returning ()) (\<lambda>_.
           failing (''Failed to add new producer for meetingId '' @ m @ '' and participantId '' @ p)))))))"
    apply (rule safe_then_post)
    apply (rule safe_then_post, erule safe_build_recording)
    apply (clarsimp split del: if_split)
    apply (rule safe_then_post [OF safe_unwrapped])
    apply (rule safe_then, intro safe_any keeps_intros)
    apply (rule safe_cases, rule safe_returning, simp add: pipeline_ok_def)
    apply (intro safe_intros keeps_intros)
    done
qed

lemma safe_record_producer: "safe (maps_ok x) (\<lambda>(g, t, c). pipeline_ok g) (record_producer_thread y rm m p r i k)"
  unfolding record_producer_thread_def create_folder_def
  apply (rule safe_then, rule safe_ends)
  apply (rule safe_then, intro safe_intros keeps_intros)
  apply (rule safe_then, intro safe_intros keeps_intros)
  apply (rule safe_then, intro safe_intros keeps_intros)
  apply (rule safe_then_post, rule safe_mapped, rule safe_start_recording)
  apply clarsimp
  apply (rule safe_then, intro safe_intros keeps_intros)+
  apply (simp add: safe_returning)
  done

lemma safe_recording:
  "safe (maps_ok x) recording_ok
     (if start_rec then then_do (record_producer_thread x rm m p r i k) (\<lambda>rec. returning (Some rec)) else returning None)"
  by (rule safe_cases; (rule safe_then_post [OF safe_record_producer])?)
    (auto intro: safe_returning simp: recording_ok_def)

lemma safe_produce_on: "safe (maps_ok x) any (produce_on_thread x p rtp k m r rs t start_rec i tr)"
  unfolding produce_on_thread_def
  apply (rule safe_then, intro safe_any keeps_intros)
  apply (rule safe_then, intro safe_any keeps_intros)
  apply (rule safe_then, intro safe_any keeps_intros)
  apply (rule safe_then_post [OF safe_recording])
  apply (intro safe_intros keeps_intros safe_finish_producer, assumption)
  done

lemma safe_create_producer: "safe (maps_ok x) any (create_producer_thread x p rtp k m r rs t start_rec i)"
  unfolding create_producer_thread_def by (intro safe_intros keeps_intros safe_produce_on)

lemma safe_requests [safe_intros]:
  "safe (maps_ok x) any (close_producer_thread x p m ks)" "safe (maps_ok x) any (close_consumer_thread x p ids m)"
  "safe (maps_ok x) any (leave_meeting_thread x p m i a b)" "safe (maps_ok x) any (end_meeting_thread x m us ts ps)"
  "safe (maps_ok x) any (recreate_producer_transport_thread x p m i r a b)"
  "safe (maps_ok x) any (recreate_consumer_transport_thread x p m i r a b)"
  unfolding close_producer_thread_def close_consumer_thread_def leave_meeting_thread_def end_meeting_thread_def
    close_instance_thread_def close_all_producers_thread_def recreate_producer_transport_thread_def
    recreate_consumer_transport_thread_def close_older_instances_thread_def create_producer_transport_thread_def
    create_consumer_transport_thread_def create_transport_thread_def set_bitrates_thread_def membership_thread_def
    query_defs Let_def
  by (intro safe_intros keeps_intros; simp)+

lemma safe_small_requests [safe_intros]:
  "safe (maps_ok x) any (connect_transport_thread x p t dtls)" "safe (maps_ok x) any (restart_ice_thread x p ts)"
  "safe (maps_ok x) any (capabilities_thread x a b)" "safe (maps_ok x) any (set_consumers_thread x msg cf ids m)"
  "safe (maps_ok x) any (set_producers_thread pf p ks)"
  unfolding connect_transport_thread_def restart_ice_thread_def restart_one_def capabilities_thread_def
    router_capabilities_thread_def set_consumers_thread_def set_consumer_state_def set_producers_thread_def
    set_producer_state_def query_defs
  by (intro safe_intros keeps_intros)+

lemma safe_payload:
  assumes "\<And>v. safe I any (f v)"
  shows "safe I any (payload_thread decode f request_payload)"
  unfolding payload_thread_def using assms by (auto split: sum.split intro: safe_ends)

lemma safe_request: "safe (maps_ok x) any (request_thread x d path request_payload)"
proof -
  have "\<forall>(path, t) \<in> set (thread_routes x d). safe (maps_ok x) any (t request_payload)"
    unfolding thread_routes_def create_meeting_request_def get_participant_producers_def get_participant_consumers_def
    apply (simp only: list.set ball_simps prod.case)
    apply (intro conjI TrueI safe_payload; intro safe_intros safe_create_producer safe_create_consumer
        safe_create_meeting safe_batch_create keeps_intros)
    done
  then have "safe (maps_ok x) any (t request_payload)" if "map_of (thread_routes x d) path = Some t" for t
    using map_of_SomeD [OF that] by blast
  then show ?thesis
    unfolding request_thread_def by (auto split: option.split intro: safe_ends)
qed

end
