(* ===== verification/Sound_Schedule.thy ===== *)
theory Sound_Schedule
  imports Schedule Sound_Threads
begin

text \<open>
  The invariant of the state in every schedule: from start-up, with any requests on their way at once, the
  maps stay well-formed and producers unique. Only the uniqueness of consumers is lost (\<open>Interleaving\<close>).
\<close>

definition sound_pool :: "'w ext \<Rightarrow> 'w pool \<Rightarrow> bool" where
  "sound_pool x st \<longleftrightarrow> maps_ok x (p_sfu st) \<and> (\<forall>(h, t) \<in> set (p_threads st). safe (maps_ok x) any t)"

lemma sound_works:
  assumes "works st st'" and ok: "sound_pool x st"
  shows "sound_pool x st'"
  using assms(1)
proof cases
  case (block before h f later t s')
  have "maps_ok x (p_sfu st)" and "safe (maps_ok x) any (Block f)"
    using ok by (auto simp: sound_pool_def block)
  then have "maps_ok x s' \<and> safe (maps_ok x) any t"
    using block(3) by (auto elim!: safe_BlockE)
  with ok show ?thesis by (auto simp: sound_pool_def block)
next
  case (lock before m t later)
  with ok show ?thesis by (auto simp: sound_pool_def)
next
  case (finish before h r later)
  with ok show ?thesis by (auto simp: sound_pool_def)
qed

lemma sound_schedule:
  assumes "schedule x d n c st st'" and ok: "sound_pool x st"
  shows "sound_pool x st'"
  using assms(1)
proof cases
  case work
  then show ?thesis by (rule sound_works [OF _ ok])
next
  case (arrive path request_payload)
  with ok safe_request show ?thesis by (auto simp: sound_pool_def)
next
  case (publish ev evs w)
  with ok show ?thesis by (simp add: sound_pool_def)
next
  case (pad m g new_pad r s')
  with ok show ?thesis by (auto simp: sound_pool_def dest: sound_pad)
next
  case (gone before h t later)
  with ok show ?thesis by (auto simp: sound_pool_def)
next
  case (outside w)
  with ok show ?thesis by (simp add: sound_pool_def)
qed

lemma sound_steps: "(schedule x d n c)\<^sup>*\<^sup>* st st' \<Longrightarrow> sound_pool x st \<Longrightarrow> sound_pool x st'"
  by (induction rule: rtranclp_induct) (auto intro: sound_schedule)

lemma sound_unique: "sfu_inv x s \<Longrightarrow> maps_ok x s"
  by (simp add: sound_def shard_ok_def)

lemma sound_start:
  assumes "sfu_new x dflt cfg b m tenant w = (Ok s, w')"
  shows "sound_pool x \<lparr>p_sfu = s, p_held = {}, p_threads = []\<rparr>" "producers_ok (producer_map s)"
proof -
  have "sfu_inv x s" using sfu_new_empty [OF assms] by (auto simp: sfu_inv_empty)
  then show "sound_pool x \<lparr>p_sfu = s, p_held = {}, p_threads = []\<rparr>" "producers_ok (producer_map s)"
    by (simp_all add: sound_pool_def sound_unique sfu_invD)
qed

text \<open>
  C12: Every state of every schedule is well-formed. From start-up, whatever requests arrive and however
  their blocks take turns, with pads, events, panics and clients that go away in between: routers and
  transports are stored under their own ids, every producer is stored under its id and is the only one of
  its participant, meeting and kind, every consumer is stored under its id in the shard of its meeting,
  and every pipeline of the map is built with the chains of its participants complete.
\<close>

theorem schedule_keeps_maps_ok:
  assumes "sfu_new x dflt cfg b m tenant w = (Ok s, w')"
    and "(schedule x d n c)\<^sup>*\<^sup>* \<lparr>p_sfu = s, p_held = {}, p_threads = []\<rparr> st"
  shows "maps_ok x (p_sfu st) \<and> producers_ok (producer_map (p_sfu st))"
proof -
  note start = sound_start [OF assms(1)]
  show ?thesis
    using sound_steps [OF assms(2) start(1)] orderly_steps [OF assms(2) orderly_rest [OF start(2)]]
    by (simp add: sound_pool_def orderly_def)
qed

text \<open>The request to consume the video of Bob, served by a server that has just started.\<close>

theorem schedule_keeps_maps_ok_witness:
  "\<exists>s w (st :: sample_world pool). sfu_new sample_ext sample_settings sample_config 9 \<lparr>external_ip = ''1.2.3.4'', internal_ip = ''10.0.0.1''\<rparr>
      ''t'' sample_start = (Ok s, w) \<and>
    p_sfu st = snd (handle sample_ext sample_decoders ''/v1/createConsumer'' ''b'' s) \<and> maps_ok sample_ext (p_sfu st)"
proof -
  obtain s w where start: "sfu_new sample_ext sample_settings sample_config 9
      \<lparr>external_ip = ''1.2.3.4'', internal_ip = ''10.0.0.1''\<rparr> ''t'' sample_start = (Ok s, w)"
    using sample_boot by blast
  let ?st = "\<lparr>p_sfu = snd (handle sample_ext sample_decoders ''/v1/createConsumer'' ''b'' s), p_held = {}, p_threads = []\<rparr>"
  note steps = request_alone [of sample_ext sample_decoders sample_net "\<lparr>client_config_endpoint = ''url'', client_headers = []\<rparr>"
      s "''/v1/createConsumer''" "''b''", unfolded run_request_thread]
  have ok: "maps_ok sample_ext (p_sfu ?st)" by (rule conjunct1 [OF schedule_keeps_maps_ok [OF start steps]])
  show ?thesis
    by (rule exI [of _ s], rule exI [of _ w], rule exI [of _ ?st], rule conjI [OF start conjI [OF pool.select_convs(1) ok]])
qed

end
