(* ===== verification/Boot.thy ===== *)
theory Boot
  imports Server_Facts
begin

text \<open>
  The process around the server (\<open>src/main.rs\<close>): the start of the process from its environment, a
  request with its id, and the two pages that are not part of the service. The configuration file
  and its format (crate \<open>dotenvy\<close>), files, JSON, the connection pool, the exporter of metrics and the
  listener are the record \<open>boot_ext\<close>; logging, CORS, the documentation pages and the shutdown, which
  only logs, are left out.
\<close>

section \<open>Start of the process\<close>

record credentials =
  cred_username :: string
  cred_password :: string

record 'w boot_ext =
  x_from_filename :: "string \<Rightarrow> environment \<Rightarrow> environment"
  x_read_file :: "string \<Rightarrow> 'w \<Rightarrow> (string + string) \<times> 'w"
  x_credentials :: "string \<Rightarrow> string + credentials"
  x_new_pool :: "string \<Rightarrow> 'w \<Rightarrow> string option \<times> 'w"
  x_meter_provider :: "string \<Rightarrow> 'w \<Rightarrow> string option \<times> 'w"
  x_headers_of_json :: "string \<Rightarrow> (string, string) hmap option"
  x_is_ipv6 :: "string \<Rightarrow> bool"
  x_worker_defaults :: worker_settings
  x_bind :: "nat \<Rightarrow> 'w \<Rightarrow> string option \<times> 'w"

record 'w process =
  process_env :: environment
  process_world :: 'w

type_synonym ('w, 'a) boot_eff = "('w process, 'a, string) eff"

definition on_env :: "(environment, 'a, string) eff \<Rightarrow> ('w, 'a) boot_eff" where
  "on_env m = zoom process_env (\<lambda>e s. s\<lparr>process_env := e\<rparr>) m"

definition on_process_world :: "('w, 'a, string) eff \<Rightarrow> ('w, 'a) boot_eff" where
  "on_process_world m = zoom process_world (\<lambda>w s. s\<lparr>process_world := w\<rparr>) m"

text \<open>A variable of the process, which \<open>dotenvy::var\<close> reads too.\<close>

definition set_var :: "string \<Rightarrow> string \<Rightarrow> (environment, unit, string) eff" where
  "set_var key v = modify (\<lambda>e. e\<lparr>env_file := (env_file e)(key \<mapsto> v), env_process := (env_process e)(key \<mapsto> v)\<rparr>)"

definition load_config :: "'w boot_ext \<Rightarrow> string \<Rightarrow> (environment, unit, string) eff" where
  "load_config b current_environment = modify (x_from_filename b (''config/'' @ current_environment @ ''.env''))"

text \<open>A call whose error ends the process.\<close>

definition must_succeed :: "('w \<Rightarrow> string option \<times> 'w) \<Rightarrow> ('w, unit) boot_eff" where
  "must_succeed f = and_then (on_process_world (call f)) (\<lambda>r. case r of None \<Rightarrow> ret () | Some _ \<Rightarrow> panic)"

definition load_credentials :: "'w boot_ext \<Rightarrow> ('w, unit) boot_eff" where
  "load_credentials b =
     and_then (on_env (gets (\<lambda>e. get_env e ''MYSQL_CREDS_PATH'' ''''))) (\<lambda>path.
     if path \<noteq> '''' then
       and_then (on_process_world (call (x_read_file b path))) (\<lambda>r.
       case r of
         Inl _ \<Rightarrow> panic
       | Inr content \<Rightarrow>
           (case x_credentials b content of
              Inl _ \<Rightarrow> panic
            | Inr c \<Rightarrow>
                and_then (on_env (set_var ''MYSQL_USER'' (cred_username c))) (\<lambda>_.
                on_env (set_var ''MYSQL_PASSWORD'' (cred_password c)))))
     else ret ())"

definition init_metrics :: "'w boot_ext \<Rightarrow> ('w, unit) boot_eff" where
  "init_metrics b =
     and_then (on_env (gets (\<lambda>e. ''http://'' @ get_env e ''OTEL_ENDPOINT'' ''localhost:4318'' @ ''/v1/metrics''))) (\<lambda>endpoint.
     must_succeed (x_meter_provider b endpoint))"

definition tenant_of :: "(environment, string, string) eff" where
  "tenant_of = and_then (gets (\<lambda>e. get_env e ''TENANT'' ''NA'')) (\<lambda>tenant. if tenant = ''NA'' then panic else ret tenant)"

record 'w server_state =
  ss_port :: nat
  ss_database_url :: string
  ss_tenant :: string
  ss_boot_timestamp :: nat
  ss_client :: client_config_details
  ss_sfu :: "'w sfu"

definition main :: "'w ext \<Rightarrow> 'w boot_ext \<Rightarrow> ('w, 'w server_state) boot_eff" where
  "main x b =
     and_then (on_env (set_var ''TOKIO_CONSOLE_BIND'' ''0.0.0.0:6669'')) (\<lambda>_.
     and_then (on_env (gets load_env)) (\<lambda>current_environment.
     and_then (on_env (load_config b current_environment)) (\<lambda>_.
     and_then (on_env (get_instance_meta current_environment)) (\<lambda>meta.
     and_then (on_env (setting ''SERVER_PORT'' ''3000'' (parse_unsigned u16))) (\<lambda>server_port.
     and_then (load_credentials b) (\<lambda>_.
     and_then (on_env (gets mysql_url)) (\<lambda>db_url.
     and_then (must_succeed (x_new_pool b db_url)) (\<lambda>_.
     and_then (on_process_world (call (x_now_nanos (ext_os x)))) (\<lambda>boot_timestamp.
     and_then (init_metrics b) (\<lambda>_.
     and_then (on_env tenant_of) (\<lambda>tenant.
     and_then (on_env (client_config_from_env (x_headers_of_json b))) (\<lambda>client.
     and_then (on_env (sfu_config_from_env (x_is_ipv6 b))) (\<lambda>cfg.
     and_then (on_process_world (sfu_new x (x_worker_defaults b) cfg boot_timestamp meta tenant)) (\<lambda>sfu_v1.
     and_then (must_succeed (x_bind b server_port)) (\<lambda>_.
     and_then (gets process_world) (\<lambda>w.
     ret \<lparr>ss_port = server_port, ss_database_url = db_url, ss_tenant = tenant, ss_boot_timestamp = boot_timestamp,
          ss_client = client, ss_sfu = sfu_v1\<lparr>world := w\<rparr>\<rparr>))))))))))))))))"

section \<open>Requests\<close>

record http_request =
  http_method :: string
  http_path :: string
  http_headers :: "(string, string) hmap"
  http_payload :: string

text \<open>Names of headers are lower case in a \<open>HeaderMap\<close>.\<close>

definition x_request_id :: string where
  "x_request_id = ''x-request-id''"

text \<open>A worker thread of the process: the server, and the id of the request it logs under.\<close>

record 'w serving =
  the_server :: "'w sfu"
  request_id :: "string option"

definition set_request_id :: "string \<Rightarrow> ('w serving, unit, string) eff" where
  "set_request_id i = modify (\<lambda>s. s\<lparr>request_id := Some i\<rparr>)"

definition on_server :: "('w, 'a) op \<Rightarrow> ('w serving, 'a, string) eff" where
  "on_server m = zoom the_server (\<lambda>s t. t\<lparr>the_server := s\<rparr>) m"

definition header_middleware :: "'w ext \<Rightarrow> http_request \<Rightarrow> ('w serving, http_request, string) eff" where
  "header_middleware x req =
     (if hm_get (http_headers req) x_request_id = None then
        and_then (on_server (call_world (x_new_uuid (ext_os x)))) (\<lambda>i.
        and_then (set_request_id i) (\<lambda>_.
        ret (req\<lparr>http_headers := hm_insert x_request_id i (http_headers req)\<rparr>)))
      else ret req)"

datatype reply = Page string string | Reply response

definition page :: "http_request \<Rightarrow> string \<Rightarrow> string \<Rightarrow> ('w serving, reply, string) eff" where
  "page req field t =
     ret (if http_method req = ''GET'' then Page field t else Reply \<lparr>status = 405, body = TextBody ''''\<rparr>)"

definition index_handler :: "http_request \<Rightarrow> ('w serving, reply, string) eff" where
  "index_handler req = page req ''message'' ''Welcome to Doordarshan Media Server!''"

definition health_handler :: "http_request \<Rightarrow> ('w serving, reply, string) eff" where
  "health_handler req = page req ''status'' ''ok''"

definition serve :: "'w ext \<Rightarrow> decoders \<Rightarrow> http_request \<Rightarrow> ('w serving, reply, string) eff" where
  "serve x d incoming =
     and_then (header_middleware x incoming) (\<lambda>req.
     if http_path req = ''/'' then index_handler req
     else if http_path req = ''/health'' then health_handler req
     else if map_of (setup_routes x d) (http_path req) \<noteq> None \<and> http_method req \<noteq> ''POST''
       then ret (Reply \<lparr>status = 405, body = TextBody ''''\<rparr>)
     else and_then (on_server (handle x d (http_path req) (http_payload req))) (\<lambda>r. ret (Reply r)))"

section \<open>What a started process is\<close>

lemma on_env_gets [simp]: "on_env (gets f) s = (Ok (f (process_env s)), s)"
  by (simp add: on_env_def zoom_def gets_def)

lemma on_env_Ok: "on_env m s = (Ok a, s') \<longleftrightarrow> (\<exists>e. m (process_env s) = (Ok a, e) \<and> s' = s\<lparr>process_env := e\<rparr>)"
  by (auto simp: on_env_def zoom_def split: prod.splits)

lemma on_process_world_Ok:
  "on_process_world m s = (Ok a, s') \<longleftrightarrow> (\<exists>w. m (process_world s) = (Ok a, w) \<and> s' = s\<lparr>process_world := w\<rparr>)"
  by (auto simp: on_process_world_def zoom_def split: prod.splits)

lemma must_succeed_Ok:
  "must_succeed f s = (Ok a, s') \<longleftrightarrow> (\<exists>w. f (process_world s) = (None, w) \<and> s' = s\<lparr>process_world := w\<rparr>)"
  by (auto simp: must_succeed_def and_then_Ok_iff on_process_world_Ok call_def ret_def panic_def
      split: option.splits prod.splits)

lemma gets_Ok [simp]: "gets f s = (Ok a, s') \<longleftrightarrow> a = f s \<and> s' = s"
  by (auto simp: gets_def)

lemma tenant_of_Ok: "tenant_of e = (Ok t, e') \<Longrightarrow> t = get_env e ''TENANT'' ''NA'' \<and> t \<noteq> ''NA'' \<and> e' = e"
  by (auto simp: tenant_of_def and_then_Ok_iff ret_def panic_def split: if_splits)

lemma port_bound: "setting k dflt (parse_unsigned u16) e = (Ok p, e') \<Longrightarrow> p < 2 ^ 16 \<and> e' = e"
  by (auto simp: setting_run parse_unsigned_def u16_def split: option.splits if_splits)

text \<open>The steps of \<open>main\<close>, with the environment the configuration file leaves.\<close>

definition configured :: "'w boot_ext \<Rightarrow> 'w process \<Rightarrow> environment" where
  "configured b s = (let e = snd (set_var ''TOKIO_CONSOLE_BIND'' ''0.0.0.0:6669'' (process_env s)) in
     x_from_filename b (''config/'' @ load_env e @ ''.env'') e)"

lemma instance_meta_env: "get_instance_meta k e = (Ok m, e') \<Longrightarrow> e' = e"
  by (auto simp: get_instance_meta_def run_iffs ret_def split: if_splits)

lemma init_metrics_env: "init_metrics b s = (Ok u, s') \<Longrightarrow> process_env s' = process_env s"
  by (auto simp: init_metrics_def and_then_Ok_iff must_succeed_Ok)

lemma configured_run:
  assumes "set_var ''TOKIO_CONSOLE_BIND'' ''0.0.0.0:6669'' (process_env s) = (Ok u, e)"
    and "load_config b (load_env e) e = (Ok u', e')"
  shows "e' = configured b s"
  using assms by (simp add: configured_def load_config_def set_var_def modify_def Let_def)

lemma main_run:
  assumes "main x b s = (Ok srv, s')"
  obtains s1 w2 cfg meta v w where
    "load_credentials b (s\<lparr>process_env := configured b s\<rparr>) = (Ok (), s1)"
    "ss_database_url srv = mysql_url (process_env s1)"
    "ss_port srv < 2 ^ 16" "ss_tenant srv \<noteq> ''NA''" "ss_tenant srv = get_env (process_env s1) ''TENANT'' ''NA''"
    "sfu_new x (x_worker_defaults b) cfg (ss_boot_timestamp srv) meta (ss_tenant srv) w2 = (Ok v, w)"
    "ss_sfu srv = v\<lparr>world := process_world s'\<rparr>"
  using assms unfolding main_def
  apply (simp only: and_then_Ok_iff)
  apply (elim exE conjE)
  apply (simp only: on_env_Ok on_process_world_Ok must_succeed_Ok gets_Ok)
  apply (elim exE conjE)
  apply (frule instance_meta_env)
  apply (frule port_bound)
  apply (frule tenant_of_Ok)
  apply (drule init_metrics_env)
  apply (clarsimp simp: ret_def)
  apply (drule (1) configured_run)
  apply simp
  done

lemma get_env_set_var [simp]:
  "get_env (snd (set_var k v e)) k' d = (if k' = k then v else get_env e k' d)"
  "env_process (snd (set_var k v e)) k' = (if k' = k then Some v else env_process e k')"
  by (auto simp: get_env_def set_var_def modify_def split: option.split)

lemma load_credentials_run:
  assumes load: "load_credentials b s = (Ok (), s1)" and path: "get_env (process_env s) ''MYSQL_CREDS_PATH'' '''' \<noteq> ''''"
  obtains w content c where
    "x_read_file b (get_env (process_env s) ''MYSQL_CREDS_PATH'' '''') (process_world s) = (Inr content, w)"
    "x_credentials b content = Inr c"
    "process_env s1 = snd (set_var ''MYSQL_PASSWORD'' (cred_password c)
       (snd (set_var ''MYSQL_USER'' (cred_username c) (process_env s))))"
proof -
  obtain r w where read: "x_read_file b (get_env (process_env s) ''MYSQL_CREDS_PATH'' '''') (process_world s) = (r, w)"
    by fastforce
  note defs = load_credentials_def and_then_def on_process_world_def on_env_def zoom_def gets_def call_def ret_def panic_def
    set_var_def modify_def
  show ?thesis
  proof (cases r)
    case (Inl e)
    then show ?thesis using load path read by (simp add: defs)
  next
    case (Inr content)
    show ?thesis
    proof (cases "x_credentials b content")
      case (Inl e)
      then show ?thesis using load path read Inr by (simp add: defs)
    next
      case cred: (Inr c)
      have "process_env s1 = snd (set_var ''MYSQL_PASSWORD'' (cred_password c)
          (snd (set_var ''MYSQL_USER'' (cred_username c) (process_env s))))"
        using load path read Inr cred by (auto simp: defs)
      then show ?thesis using read Inr cred that by blast
    qed
  qed
qed


text \<open>
  C32: The credentials of the database. When the configured environment names a file of credentials, a
  process that serves has read and parsed it, and its database address carries the user and the
  password of the file, whatever the environment says of them, unless the environment gives the
  whole address in \<open>DATABASE_URL\<close>.
\<close>

theorem main_uses_credentials:
  assumes run: "main x b s = (Ok srv, s')" and e: "e = configured b s"
    and path: "get_env e ''MYSQL_CREDS_PATH'' '''' \<noteq> ''''"
  shows "\<exists>w w' content c. x_read_file b (get_env e ''MYSQL_CREDS_PATH'' '''') w = (Inr content, w') \<and>
    x_credentials b content = Inr c \<and>
    ss_database_url srv = (case env_process e ''DATABASE_URL'' of
        Some u \<Rightarrow> u
      | None \<Rightarrow> ''mysql://'' @ cred_username c @ '':'' @ cred_password c @ ''@'' @
          get_env e ''MYSQL_HOST'' ''127.0.0.1'' @ ''/'' @ get_env e ''MYSQL_DATABASE'' ''doordarshan'')"
  using run
proof (rule main_run)
  fix s1
  assume load: "load_credentials b (s\<lparr>process_env := configured b s\<rparr>) = (Ok (), s1)"
    and url: "ss_database_url srv = mysql_url (process_env s1)"
  from load_credentials_run [OF load, simplified, OF path [unfolded e]] obtain content w c where
    read: "x_read_file b (get_env e ''MYSQL_CREDS_PATH'' []) (process_world s) = (Inr content, w)"
      "x_credentials b content = Inr c"
    and env: "process_env s1 = snd (set_var ''MYSQL_PASSWORD'' (cred_password c) (snd (set_var ''MYSQL_USER'' (cred_username c) e)))"
    unfolding e by blast
  have "ss_database_url srv = (case env_process e ''DATABASE_URL'' of
        Some u \<Rightarrow> u
      | None \<Rightarrow> ''mysql://'' @ cred_username c @ '':'' @ cred_password c @ ''@'' @
          get_env e ''MYSQL_HOST'' ''127.0.0.1'' @ ''/'' @ get_env e ''MYSQL_DATABASE'' ''doordarshan'')"
    by (cases "env_process e ''DATABASE_URL''") (simp_all add: url env mysql_url_def)
  with read show ?thesis by blast
qed

text \<open>
  The id of a request. After the middleware the request has an id; a request that came without one
  gets a new id, under which the thread logs from then on, and a request that came with its own id
  keeps it, but the thread goes on logging under the id of an earlier request, or none.
\<close>

lemma request_id_kept:
  "\<exists>req'. fst (header_middleware x req t) = Ok req' \<and> hm_get (http_headers req') x_request_id \<noteq> None \<and>
     (case hm_get (http_headers req) x_request_id of
        None \<Rightarrow> request_id (snd (header_middleware x req t)) = hm_get (http_headers req') x_request_id
      | Some i \<Rightarrow> req' = req \<and> snd (header_middleware x req t) = t)"
  by (auto simp: header_middleware_def and_then_def on_server_def zoom_def call_world_run set_request_id_def
      modify_def ret_def hm_simps split: option.splits)

section \<open>A process that starts\<close>

definition sample_vars :: "string \<Rightarrow> string option" where
  "sample_vars = [''TENANT'' \<mapsto> ''t'', ''MYSQL_CREDS_PATH'' \<mapsto> ''creds'', ''MYSQL_USER'' \<mapsto> ''nobody'',
     ''CLIENT_CONFIG_SERVICE_HEADERS'' \<mapsto> ''{}'']"

definition sample_env :: environment where
  "sample_env = \<lparr>env_file = sample_vars, env_process = sample_vars\<rparr>"

definition sample_process :: "sample_world boot_ext" where
  "sample_process = \<lparr>x_from_filename = (\<lambda>_ e. e), x_read_file = (\<lambda>_ w. (Inr ''json'', w)),
     x_credentials = (\<lambda>_. Inr \<lparr>cred_username = ''u'', cred_password = ''p''\<rparr>), x_new_pool = (\<lambda>_ w. (None, w)),
     x_meter_provider = (\<lambda>_ w. (None, w)), x_headers_of_json = (\<lambda>_. Some []), x_is_ipv6 = (\<lambda>_. False),
     x_worker_defaults = \<lparr>ws_rtc_port_range = (0, 0), ws_log_level = [], ws_log_tags = [], ws_enable_liburing = True\<rparr>,
     x_bind = (\<lambda>_ w. (None, w))\<rparr>"

definition sample_start_process :: "sample_world process" where
  "sample_start_process = \<lparr>process_env = sample_env, process_world = sample_start\<rparr>"

lemma sample_configured: "configured sample_process sample_start_process =
    sample_env\<lparr>env_file := (env_file sample_env)(''TOKIO_CONSOLE_BIND'' \<mapsto> ''0.0.0.0:6669''),
      env_process := (env_process sample_env)(''TOKIO_CONSOLE_BIND'' \<mapsto> ''0.0.0.0:6669'')\<rparr>"
  by (simp add: configured_def set_var_def modify_def sample_process_def sample_start_process_def)

lemma sample_process_starts:
  "\<exists>srv s'. main sample_ext sample_process sample_start_process = (Ok srv, s')"
  by (simp add: main_def on_env_def on_process_world_def zoom_def effect_defs call_def set_var_def load_config_def load_env_def
      get_instance_meta_def setting_run load_credentials_def must_succeed_def init_metrics_def tenant_of_def
      client_config_from_env_def sfu_config_from_env_def get_env_def default_texts
      sample_process_def sample_start_process_def sample_env_def sample_vars_def
      sfu_new_def create_inner_def numeral_2_eq_2 registration_def
      mutate_def mutation_statement_def pick_statement_def container_heartbeat_insert_def worker_container_insert_def
      sample_start_def hm_insert_def hm_remove_def container_id_of_def worker_settings_def empty_sfu_def)


theorem main_uses_credentials_witness:
  "\<exists>srv s'. main sample_ext sample_process sample_start_process = (Ok srv, s') \<and>
     ss_database_url srv = ''mysql://u:p@127.0.0.1/doordarshan''"
proof -
  obtain srv s' where run: "main sample_ext sample_process sample_start_process = (Ok srv, s')"
    using sample_process_starts by blast
  have "get_env (configured sample_process sample_start_process) ''MYSQL_CREDS_PATH'' '''' \<noteq> ''''"
    by (simp add: sample_configured get_env_def sample_env_def sample_vars_def)
  from main_uses_credentials [OF run refl this] obtain c where
    c: "x_credentials sample_process ''json'' = Inr c" and
    "ss_database_url srv = (case env_process (configured sample_process sample_start_process) ''DATABASE_URL'' of
        Some u \<Rightarrow> u
      | None \<Rightarrow> ''mysql://'' @ cred_username c @ '':'' @ cred_password c @ ''@'' @
          get_env (configured sample_process sample_start_process) ''MYSQL_HOST'' ''127.0.0.1'' @ ''/'' @
          get_env (configured sample_process sample_start_process) ''MYSQL_DATABASE'' ''doordarshan'')"
    by (auto simp: sample_process_def)
  moreover have "c = \<lparr>cred_username = ''u'', cred_password = ''p''\<rparr>" using c by (simp add: sample_process_def)
  ultimately have "ss_database_url srv = ''mysql://u:p@127.0.0.1/doordarshan''"
    by (simp add: sample_configured get_env_def sample_env_def sample_vars_def)
  with run show ?thesis by blast
qed

end
