(* ===== verification/Spec2Isabelle.thy ===== *)
theory Spec2Isabelle
  imports Prelude Hash_Map Text Dao Db Pipeline Recording Pads Chains Media_Options Sfu_State Sample Closing Transports Producers Consumers Config Meetings Analytics Metrics Startup Invariant Payloads Service Server Meeting_Facts Database_Facts Stream_Facts Lifecycle_Facts Pad_Facts Recording_Facts Server_Facts Gathering Interleaving Threads Thread_Handlers Thread_Rules Schedule Sound_Threads Sound_Schedule Boot
begin

text \<open>
  A selective forwarding unit (SFU) for meetings, written in Rust, and what makes it correct.

  \<^bold>\<open>The program.\<close> The server keeps the routers, transports, producers and consumers of mediasoup in maps
  (\<open>SFU\<close>, \<open>Inner\<close> in \<open>src/mediasoupv1/mod.rs\<close>), serves HTTP requests that create, connect, pause and
  close them (\<open>src/service\<close>), mirrors meetings and participants in MySQL (\<open>src/db\<close>, \<open>src/dao\<close>), records
  producers with one GStreamer pipeline per meeting (\<open>src/gstreamer\<close>), and posts user events to an
  analytics service (\<open>src/client\<close>, \<open>src/mediasoupv1/metrics.rs\<close>).

  \<^bold>\<open>The theories and the code.\<close>
  \<^item> \<open>Prelude\<close>: outcomes of Rust calls (value, error, panic) and effects on a state; \<open>Hash_Map\<close>: \<open>HashMap\<close>
    and the vector of consumer shards as instances of one locale; \<open>Text\<close>: printing and parsing of
    integers, searching and lower case.
  \<^item> \<open>Dao\<close>, \<open>Db\<close>: one record per table with the statements it builds (the trait as a locale), and
    \<open>mutate\<close>, \<open>put\<close>, \<open>update\<close>, \<open>delete\<close>, \<open>query\<close> over a driver (their contract as a locale).
  \<^item> \<open>Pipeline\<close>, \<open>Recording\<close>, \<open>Pads\<close>, \<open>Chains\<close>: the state of a recording pipeline, taking participants
    out of it, the bus loop, the builders of audio, VP8 and H.264 recordings, the handler of new pads,
    and the completeness of the chains of elements.
  \<^item> \<open>Media_Options\<close>: the codecs and transport options the server hands to mediasoup; \<open>Sfu_State\<close>: the
    state of the server and the operations all handlers share; \<open>Closing\<close>,
    \<open>Transports\<close>, \<open>Producers\<close>, \<open>Consumers\<close>, \<open>Meetings\<close>: the operations of \<open>SFU\<close>, one definition per
    method, under the name of the method.
  \<^item> \<open>Config\<close>, \<open>Startup\<close>, \<open>Boot\<close>: the environment, the configuration, \<open>SFU::new\<close> with its heartbeat, and
    \<open>main\<close> with the middleware; \<open>Analytics\<close>, \<open>Metrics\<close>: events and the meter.
  \<^item> \<open>Payloads\<close>, \<open>Service\<close>: request bodies, answers, handlers and routes.
  \<^item> \<open>Server\<close>: the whole as a transition system from start-up.
  \<^item> \<open>Sample\<close>: a concrete world in which the witnesses run.

  \<^bold>\<open>How the model stands for the code.\<close> A method of \<open>SFU\<close> is a function from the state of the server to
  an outcome and the next state; a panic keeps what was changed before it. A map is a list of entries;
  its order stands for the order of iteration, which Rust leaves open, and the theorems hold for all.
  A handle of mediasoup or GStreamer is its id; dropping a handle is taking it out of its map. Ports
  are numbers below \<open>2 ^ 16\<close> with the wrap of \<open>u16\<close> written out, the hash of a meeting is a 64-bit word,
  time stamps are reduced modulo \<open>2 ^ 64\<close> where the code casts. Code that is not in the repository
  (mediasoup, GStreamer, the MySQL driver, the operating system, HTTP, JSON) is a parameter: the
  records \<open>sql_driver\<close>, \<open>media_ext\<close>, \<open>os_ext\<close>, \<open>gst_ext\<close>, \<open>net_ext\<close>, \<open>decoders\<close>, \<open>meter_ext\<close> and
  \<open>boot_ext\<close> of functions on a world of any type. A theorem that needs them to behave says so in a named
  hypothesis (\<open>tx_isolated\<close>: uncommitted work is invisible; \<open>obliging\<close>: GStreamer hands out pads and
  takes messages; \<open>observes_posts\<close>: a post is seen by the service; \<open>decoders_wf\<close>: a decoded map has no
  key twice), and a witness shows a world where it holds.

  \<^bold>\<open>What the lemmas show.\<close>
  \<^item> \<open>Invariant\<close>, \<open>Server\<close>: a well-formed state stays well-formed under every operation, on paths that
    fail or panic half way too, and so every reachable state is well-formed. The rules \<open>keeps_intros\<close>
    carry an invariant through a computation; \<open>leads\<close> and \<open>returns\<close> do so with a result or for a
    single step that builds on the one before.
  \<^item> \<open>Meeting_Facts\<close>, \<open>Stream_Facts\<close>, \<open>Lifecycle_Facts\<close>: what each operation answers on every branch and what it leaves in
    the maps: exactly what is closed, exactly what is stored, nothing on failure.
  \<^item> \<open>Gathering\<close>: a specification of the server as who offers and who takes which stream, and the
    refinement: every request makes a permitted change of it.
  \<^item> \<open>Interleaving\<close>: requests to produce and to consume split where they have copied the maps, with any other
    request between: nothing keeps consumers unique, and a producer can outlive the leaving of its participant.
  \<^item> \<open>Threads\<close>, \<open>Thread_Handlers\<close>: every request as a thread, a sequence of blocks in each of which it takes
    the lock of one map or makes one call; the blocks one after the other are the handler, for every route. \<open>Thread_Rules\<close>,
    \<open>Schedule\<close>: a pool of threads that take turns at every block, wait for mutexes, and end: the mutex of a
    meeting keeps producers unique in every schedule, and every schedule comes to rest. \<open>Sound_Threads\<close>,
    \<open>Sound_Schedule\<close>: every block keeps the maps well-formed, and so does every schedule from start-up.
  \<^item> \<open>Database_Facts\<close>: an UPDATE or DELETE is never without a WHERE clause; mutations are atomic, strict or
    tolerant of duplicates as asked.
  \<^item> \<open>Pad_Facts\<close>: a new media pad leaves a complete chain of elements; \<open>Recording_Facts\<close>: what a failed
    recording leaves behind; \<open>Server_Facts\<close>: every handler
    answers or panics, and how a request to create a meeting is validated; \<open>Config\<close>, \<open>Startup\<close>, \<open>Boot\<close>,
    \<open>Analytics\<close>, \<open>Metrics\<close>: settings read back, the start reaches a good state, events are posted in order.
  \<^item> Several properties state what the code does where a comment or its use suggests otherwise (an
    exclusion that excludes nobody, a statement with an open quote, a panic in place of an error, a
    heartbeat that dies); they hold of the code as it is.

  \<^bold>\<open>Bounds and fuel.\<close> No definition needs fuel: loops run over lists (ids, ports of a range, requested
  streams, messages of a bus), and the publisher tries an event \<open>retries = 3\<close> times, the number in the
  code. Endless loops are modelled by one round (the metrics passes) or as step relations (the
  heartbeat thread, the channel to the publisher).

  \<^bold>\<open>Not modelled.\<close> Concurrency inside a block of \<open>Thread_Handlers\<close>: the building of a recording, the taking
  apart of a pipeline and a transaction are one step each. A task that is dropped in the middle of a
  block. Poisoned mutexes, log lines, the failure
  counters that only feed the meter, CORS and the documentation pages, the profiling handler, the
  shutdown (it only logs), the commented-out module \<open>gcp_metrics\<close>, and the thread pools. The text of a
  statement is kept as its clauses; joining them is the crate's. IPv6 text is judged by a parameter.
  The media itself never passes through this code.
\<close>

end
